(* ===== verification/Prelude.thy ===== *)
theory Prelude
  imports
    Main
    "HOL-Library.Char_ord"
    "HOL-Library.List_Lexorder"
    "HOL-Library.Product_Lexorder"
    "HOL-Library.Multiset"
    "HOL-Library.Sublist"
    "HOL-Library.State_Monad"
begin

text \<open>
  Shared material: the collections of rewrite rules the components add to, the names of
  the types every component uses, the Go error values, the Go comparison and sorting
  primitives with the order interface their clients rely on, and generic lemmas on lists
  and association lists.
\<close>

section \<open>Collections\<close>

named_theorems go_string \<open>rewrite rules for the Go string functions\<close>
named_theorems api_defs \<open>definitions of the constants of the API types\<close>
named_theorems ctrl_defs \<open>definitions of the controller's constants\<close>
named_theorems insp_defs \<open>definitions of the constants of the command line tool\<close>

section \<open>Go maps\<close>

text \<open>
  A Go map is an association list with distinct keys, listed in the order in which one
  \<^verbatim>\<open>range\<close> statement visits it. Go leaves that order open, so a fact about every list
  is a fact about every iteration order.
\<close>

type_synonym 'v gomap = "(string \<times> 'v) list"

definition map_get :: "'v gomap \<Rightarrow> string \<Rightarrow> 'v option" where
  "map_get m k = map_of m k"

text \<open>Indexing a \<^verbatim>\<open>map[string]string\<close> with an absent key yields the empty string.\<close>

definition map_index :: "string gomap \<Rightarrow> string \<Rightarrow> string" where
  "map_index m k = (case map_of m k of None \<Rightarrow> [] | Some v \<Rightarrow> v)"

fun map_put :: "'v gomap \<Rightarrow> string \<Rightarrow> 'v \<Rightarrow> 'v gomap" where
  "map_put [] k v = [(k, v)]"
| "map_put ((k', v') # m) k v = (if k' = k then (k, v) # m else (k', v') # map_put m k v)"

definition map_has :: "'v gomap \<Rightarrow> string \<Rightarrow> bool" where
  "map_has m k = (map_of m k \<noteq> None)"

lemma map_of_map_put [simp]: "map_of (map_put m k v) = (map_of m)(k \<mapsto> v)"
  by (induction m k v rule: map_put.induct) (auto simp: fun_eq_iff)

lemma map_get_put: "map_get (map_put m k v) k' = (if k' = k then Some v else map_get m k')"
  by (simp add: map_get_def)

lemma map_index_put [simp]:
  "map_index (map_put m k v) k' = (if k' = k then v else map_index m k')"
  by (simp add: map_index_def)

lemma fst_set_map_put: "fst ` set (map_put m k v) = insert k (fst ` set m)"
  by (induction m k v rule: map_put.induct) auto

lemma distinct_map_put: "distinct (map fst m) \<Longrightarrow> distinct (map fst (map_put m k v))"
  by (induction m k v rule: map_put.induct) (auto simp: fst_set_map_put image_iff)

text \<open>The entries of one map, copied onto another one key at a time.\<close>

definition map_put_all :: "'v gomap \<Rightarrow> 'v gomap \<Rightarrow> 'v gomap" where
  "map_put_all m es = fold (\<lambda>(k, v) acc. map_put acc k v) es m"

lemma map_put_all_simps [simp]:
  "map_put_all m [] = m"
  "map_put_all m ((k, v) # es) = map_put_all (map_put m k v) es"
  by (simp_all add: map_put_all_def)

lemma map_index_put_all_notin:
  "k \<notin> fst ` set es \<Longrightarrow> map_index (map_put_all m es) k = map_index m k"
  by (induction es arbitrary: m) auto

lemma map_index_put_all_in:
  "distinct (map fst es) \<Longrightarrow> (k, v) \<in> set es \<Longrightarrow> map_index (map_put_all m es) k = v"
proof (induction es arbitrary: m)
  case Nil
  then show ?case by simp
next
  case (Cons e es)
  obtain k' v' where e: "e = (k', v')" by fastforce
  show ?case
  proof (cases "(k, v) \<in> set es")
    case True
    with Cons e show ?thesis by simp
  next
    case False
    with Cons.prems e have kv: "k' = k" "v' = v" by auto
    moreover from Cons.prems(1) e kv have "k \<notin> fst ` set es" by simp
    ultimately show ?thesis using e by (simp add: map_index_put_all_notin)
  qed
qed

section \<open>Go errors\<close>

text \<open>
  An error returned by the Kubernetes client or by REST mapping is known to the code by
  its class (\<^verbatim>\<open>apierrors.IsNotFound\<close>, \<^verbatim>\<open>meta.IsNoMatchError\<close>, \<dots>) and its text.
  The three \<^verbatim>\<open>StateError\<close> types of the packages identity, gaie and controller carry a
  condition type, a reason and a message; \<^verbatim>\<open>fmt.Errorf\<close> makes a plain error, or with
  \<^verbatim>\<open>%w\<close> a wrapped one.
\<close>

datatype api_kind = NotFound | NoMatch | AlreadyExists | ConflictKind | Forbidden | OtherKind

datatype go_error =
    ApiError api_kind string
  | IdentityStateError string string string
  | GaieStateError string string string
  | ReconcileStateError string string string
  | PlainError string
  | WrapError string go_error

type_synonym 'a result = "go_error + 'a"

fun error_text :: "go_error \<Rightarrow> string" where
  "error_text (ApiError k m) = m"
| "error_text (IdentityStateError t r m) = m"
| "error_text (GaieStateError t r m) = m"
| "error_text (ReconcileStateError t r m) = m"
| "error_text (PlainError m) = m"
| "error_text (WrapError p e) = p @ error_text e"

fun api_kind_of :: "go_error \<Rightarrow> api_kind option" where
  "api_kind_of (ApiError k m) = Some k"
| "api_kind_of (WrapError p e) = api_kind_of e"
| "api_kind_of _ = None"

definition IsNotFound :: "go_error \<Rightarrow> bool" where
  "IsNotFound e = (api_kind_of e = Some NotFound)"

definition IsNoMatchError :: "go_error \<Rightarrow> bool" where
  "IsNoMatchError e = (api_kind_of e = Some NoMatch)"

definition IsAlreadyExists :: "go_error \<Rightarrow> bool" where
  "IsAlreadyExists e = (api_kind_of e = Some AlreadyExists)"

definition IsConflict :: "go_error \<Rightarrow> bool" where
  "IsConflict e = (api_kind_of e = Some ConflictKind)"

definition IsForbidden :: "go_error \<Rightarrow> bool" where
  "IsForbidden e = (api_kind_of e = Some Forbidden)"

section \<open>Comparison and sorting\<close>

text \<open>
  \<^verbatim>\<open>cmp.Compare\<close> on an ordered type and \<^verbatim>\<open>cmp.Or\<close> on comparison results; Go compares
  strings byte by byte, which is the lexicographic order on lists of characters.
\<close>

definition Compare :: "'a::linorder \<Rightarrow> 'a \<Rightarrow> int" where
  "Compare x y = (if x < y then -1 else if x = y then 0 else 1)"

fun Or :: "int list \<Rightarrow> int" where
  "Or [] = 0"
| "Or (c # cs) = (if c \<noteq> 0 then c else Or cs)"

text \<open>
  \<^verbatim>\<open>slices.SortFunc\<close>, \<^verbatim>\<open>sort.Slice\<close> and \<^verbatim>\<open>sort.Strings\<close> leave the algorithm open.
  Insertion sort stands for it; the interface below shows that under a total order no
  other choice can give another result.
\<close>

fun insert_by :: "('a \<Rightarrow> 'a \<Rightarrow> int) \<Rightarrow> 'a \<Rightarrow> 'a list \<Rightarrow> 'a list" where
  "insert_by c x [] = [x]"
| "insert_by c x (y # ys) = (if c x y \<le> 0 then x # y # ys else y # insert_by c x ys)"

fun SortFunc :: "('a \<Rightarrow> 'a \<Rightarrow> int) \<Rightarrow> 'a list \<Rightarrow> 'a list" where
  "SortFunc c [] = []"
| "SortFunc c (x # xs) = insert_by c x (SortFunc c xs)"

definition SortStrings :: "string list \<Rightarrow> string list" where
  "SortStrings = SortFunc Compare"

lemma mset_insert_by [simp]: "mset (insert_by c x xs) = add_mset x (mset xs)"
  by (induction xs) auto

lemma mset_SortFunc [simp]: "mset (SortFunc c xs) = mset xs"
  by (induction xs) auto

lemma set_SortFunc [simp]: "set (SortFunc c xs) = set xs"
  by (metis mset_SortFunc set_mset_mset)

lemma length_SortFunc [simp]: "length (SortFunc c xs) = length xs"
  by (metis mset_SortFunc size_mset)

lemma distinct_SortFunc [simp]: "distinct (SortFunc c xs) = distinct xs"
  by (metis mset_SortFunc mset_eq_imp_distinct_iff)

locale total_comparison =
  fixes compare :: "'a \<Rightarrow> 'a \<Rightarrow> int"
  assumes compare_refl: "compare x x = 0"
    and compare_zero: "compare x y = 0 \<Longrightarrow> x = y"
    and compare_sym: "compare x y < 0 \<longleftrightarrow> 0 < compare y x"
    and compare_trans: "compare x y \<le> 0 \<Longrightarrow> compare y z \<le> 0 \<Longrightarrow> compare x z \<le> 0"
begin

lemma compare_total: "compare x y \<le> 0 \<or> compare y x \<le> 0"
  using compare_sym [of y x] by linarith

lemma compare_antisym: "compare x y \<le> 0 \<Longrightarrow> compare y x \<le> 0 \<Longrightarrow> x = y"
  using compare_sym [of x y] compare_zero [of x y] by linarith

lemma insert_by_sorted:
  "sorted_wrt (\<lambda>a b. compare a b \<le> 0) xs \<Longrightarrow>
   sorted_wrt (\<lambda>a b. compare a b \<le> 0) (insert_by compare x xs)"
proof (induction xs)
  case Nil
  then show ?case by simp
next
  case (Cons y ys)
  show ?case
  proof (cases "compare x y \<le> 0")
    case True
    with Cons.prems show ?thesis by (auto intro: compare_trans)
  next
    case False
    then have "compare y x \<le> 0" using compare_total by blast
    moreover have "set (insert_by compare x ys) = insert x (set ys)"
      by (metis mset_insert_by set_mset_add_mset_insert set_mset_mset)
    ultimately show ?thesis using False Cons by auto
  qed
qed

lemma SortFunc_sorted: "sorted_wrt (\<lambda>a b. compare a b \<le> 0) (SortFunc compare xs)"
  by (induction xs) (auto simp: insert_by_sorted)

lemma sorted_unique:
  "mset xs = mset ys \<Longrightarrow> sorted_wrt (\<lambda>a b. compare a b \<le> 0) xs \<Longrightarrow>
   sorted_wrt (\<lambda>a b. compare a b \<le> 0) ys \<Longrightarrow> xs = ys"
proof (induction xs arbitrary: ys)
  case Nil
  then show ?case by simp
next
  case (Cons x xs)
  from Cons.prems(1) have ne: "ys \<noteq> []" by auto
  then obtain y ys' where ys: "ys = y # ys'" by (cases ys) auto
  from Cons.prems(1) have "y \<in> set (x # xs)" and "x \<in> set (y # ys')"
    using ys by (metis list.set_intros(1) set_mset_mset)+
  with Cons.prems(2,3) ys have "x = y"
    by (auto intro: compare_antisym)
  with Cons ys show ?case by simp
qed

lemma SortFunc_canonical: "mset xs = mset ys \<Longrightarrow> SortFunc compare xs = SortFunc compare ys"
  by (rule sorted_unique) (simp_all add: SortFunc_sorted)

lemma SortFunc_id: "sorted_wrt (\<lambda>a b. compare a b \<le> 0) xs \<Longrightarrow> SortFunc compare xs = xs"
  by (rule sorted_unique) (simp_all add: SortFunc_sorted)

end

lemma Compare_le_zero [simp]: "Compare x y \<le> 0 \<longleftrightarrow> x \<le> y"
  by (auto simp: Compare_def)

lemma Compare_eq_zero [simp]: "Compare x y = 0 \<longleftrightarrow> x = y"
  by (auto simp: Compare_def)

lemma Compare_pair: "Compare (a, b) (c, d) = Or [Compare a c, Compare b d]"
  by (auto simp: Compare_def)

interpretation cmp_linorder: total_comparison "Compare :: 'a::linorder \<Rightarrow> 'a \<Rightarrow> int"
  by unfold_locales (auto simp: Compare_def split: if_splits)

lemma SortStrings_sorted: "sorted (SortStrings xs)"
  using cmp_linorder.SortFunc_sorted [of xs] by (simp add: SortStrings_def)

lemma set_SortStrings [simp]: "set (SortStrings xs) = set xs"
  by (simp add: SortStrings_def)

lemma distinct_SortStrings [simp]: "distinct (SortStrings xs) = distinct xs"
  by (simp add: SortStrings_def)

lemma SortStrings_set_eq:
  assumes "set xs = set ys" "distinct xs" "distinct ys"
  shows "SortStrings xs = SortStrings ys"
  using assms cmp_linorder.SortFunc_canonical [of xs ys]
  by (simp add: SortStrings_def set_eq_iff_mset_eq_distinct)

end
