(* ===== verification/Go_Strings.thy ===== *)
theory Go_Strings
  imports Prelude
begin

text \<open>
  The functions of Go's packages strings and strconv that kleym calls, on strings as
  sequences of bytes. The laws the components use are stated here once: trimming is
  idempotent, a trimmed string has no white-space rune at either end, cutting and
  prefixes behave as the package documentation says.
\<close>

section \<open>Prefixes, suffixes, cutting\<close>

definition HasPrefix :: "string \<Rightarrow> string \<Rightarrow> bool" where
  "HasPrefix s p = (take (length p) s = p)"

definition TrimPrefix :: "string \<Rightarrow> string \<Rightarrow> string" where
  "TrimPrefix s p = (if HasPrefix s p then drop (length p) s else s)"

definition CutPrefix :: "string \<Rightarrow> string \<Rightarrow> string \<times> bool" where
  "CutPrefix s p = (if HasPrefix s p then (drop (length p) s, True) else (s, False))"

definition HasSuffix :: "string \<Rightarrow> string \<Rightarrow> bool" where
  "HasSuffix s p = HasPrefix (rev s) (rev p)"

fun Contains :: "string \<Rightarrow> string \<Rightarrow> bool" where
  "Contains [] sub = (sub = [])"
| "Contains (c # s) sub = (HasPrefix (c # s) sub \<or> Contains s sub)"

text \<open>\<^verbatim>\<open>strings.Cut\<close>: what precedes and follows the first separator, and whether there is one.\<close>

fun Cut :: "string \<Rightarrow> string \<Rightarrow> string \<times> string \<times> bool" where
  "Cut [] sep = (if sep = [] then ([], [], True) else ([], [], False))"
| "Cut (c # s) sep =
     (if HasPrefix (c # s) sep then ([], drop (length sep) (c # s), True)
      else case Cut s sep of (before, after, found) \<Rightarrow>
        if found then (c # before, after, True) else (c # s, [], False))"

text \<open>\<^verbatim>\<open>strings.LastIndex\<close>: the start of the last occurrence, or -1.\<close>

definition LastIndex :: "string \<Rightarrow> string \<Rightarrow> int" where
  "LastIndex s sub =
     (case filter (\<lambda>i. HasPrefix (drop i s) sub) (rev [0..<Suc (length s)]) of
        [] \<Rightarrow> -1
      | i # _ \<Rightarrow> int i)"

fun Join :: "string list \<Rightarrow> string \<Rightarrow> string" where
  "Join [] sep = []"
| "Join [x] sep = x"
| "Join (x # y # xs) sep = x @ sep @ Join (y # xs) sep"

text \<open>\<^verbatim>\<open>strconv.Itoa\<close> on a non-negative number.\<close>

fun Itoa :: "nat \<Rightarrow> string" where
  "Itoa n = (if n < 10 then [char_of (48 + n)] else Itoa (n div 10) @ [char_of (48 + n mod 10)])"

declare Itoa.simps [simp del]

text \<open>The verb \<^verbatim>\<open>%d\<close>, and \<^verbatim>\<open>strconv.FormatInt\<close> to base 10.\<close>

definition decimal :: "int \<Rightarrow> string" where
  "decimal n = (if n < 0 then CHR ''-'' # Itoa (nat (- n)) else Itoa (nat n))"

section \<open>Trimming\<close>

text \<open>
  The UTF-8 encodings of the runes \<^verbatim>\<open>unicode.IsSpace\<close> accepts: tab to carriage return and
  space, U+0085, U+00A0, U+1680, U+2000 to U+200A, U+2028, U+2029, U+202F, U+205F, U+3000.
\<close>

definition space_runes :: "string list" where
  "space_runes = map (map char_of)
     ([[9], [10], [11], [12], [13], [32], [194, 133], [194, 160], [225, 154, 128]]
      @ map (\<lambda>b. [226, 128, b]) [128..<139]
      @ [[226, 128, 168], [226, 128, 169], [226, 128, 175], [226, 129, 159],
         [227, 128, 128 :: nat]])"

text \<open>
  Removing the words of a list from the front as long as one is there. A white-space rune
  is recognised by its bytes alone, from either end: a lead byte never continues another
  rune.
\<close>

definition strip_word :: "string list \<Rightarrow> string \<Rightarrow> string option" where
  "strip_word ws s =
     (case find (\<lambda>w. w \<noteq> [] \<and> HasPrefix s w) ws of
        None \<Rightarrow> None
      | Some w \<Rightarrow> Some (drop (length w) s))"

lemma strip_word_shorter: "strip_word ws s = Some s' \<Longrightarrow> length s' < length s"
proof -
  assume "strip_word ws s = Some s'"
  then obtain w where w: "find (\<lambda>w. w \<noteq> [] \<and> HasPrefix s w) ws = Some w" "s' = drop (length w) s"
    by (auto simp: strip_word_def split: option.splits)
  then have "w \<noteq> []" "HasPrefix s w" by (auto simp: find_Some_iff)
  then have "length w \<le> length s" "0 < length w"
    by (auto simp: HasPrefix_def) (metis length_take min.cobounded1)
  moreover have "length s' = length s - length w" using w(2) by simp
  ultimately show ?thesis by linarith
qed

function strip_words :: "string list \<Rightarrow> string \<Rightarrow> string" where
  "strip_words ws s = (case strip_word ws s of None \<Rightarrow> s | Some s' \<Rightarrow> strip_words ws s')"
  by pat_completeness auto
termination
  by (relation "measure (\<lambda>(ws, s). length s)") (auto dest: strip_word_shorter)

declare strip_words.simps [simp del]

definition TrimSpaceLeft :: "string \<Rightarrow> string" where
  "TrimSpaceLeft s = strip_words space_runes s"

definition TrimSpaceRight :: "string \<Rightarrow> string" where
  "TrimSpaceRight s = rev (strip_words (map rev space_runes) (rev s))"

definition TrimSpace :: "string \<Rightarrow> string" where
  "TrimSpace s = TrimSpaceRight (TrimSpaceLeft s)"

text \<open>\<^verbatim>\<open>strings.Trim\<close> with a cutset of one ASCII byte.\<close>

definition TrimByte :: "string \<Rightarrow> char \<Rightarrow> string" where
  "TrimByte s c = rev (dropWhile (\<lambda>d. d = c) (rev (dropWhile (\<lambda>d. d = c) s)))"

section \<open>Laws\<close>

lemma HasPrefix_append [go_string, simp]: "HasPrefix (p @ s) p"
  by (simp add: HasPrefix_def)

lemma HasPrefix_prefix: "HasPrefix s p \<longleftrightarrow> prefix p s"
  by (metis HasPrefix_def append_eq_conv_conj append_take_drop_id prefixE prefixI)

lemma HasPrefix_iff: "HasPrefix s p \<longleftrightarrow> (\<exists>t. s = p @ t)"
  by (auto simp: HasPrefix_prefix prefix_def)

lemma HasPrefix_Nil [simp]: "HasPrefix s []"
  by (simp add: HasPrefix_def)

lemma HasPrefix_Cons [simp]: "HasPrefix (c # s) (d # p) = (c = d \<and> HasPrefix s p)"
  by (simp add: HasPrefix_def)

lemma HasPrefix_empty [simp]: "HasPrefix [] p = (p = [])"
  by (auto simp: HasPrefix_def)

lemma HasPrefix_trans: "HasPrefix s p \<Longrightarrow> HasPrefix p q \<Longrightarrow> HasPrefix s q"
  by (auto simp: HasPrefix_prefix)

lemma HasPrefix_appendI: "HasPrefix s p \<Longrightarrow> HasPrefix (s @ t) p"
  by (auto simp: HasPrefix_prefix)

lemma TrimPrefix_append [go_string, simp]: "TrimPrefix (p @ s) p = s"
  by (simp add: TrimPrefix_def)

lemma TrimPrefix_restore: "HasPrefix s p \<Longrightarrow> p @ TrimPrefix s p = s"
  by (auto simp: HasPrefix_iff)

lemma TrimPrefix_eq_iff: "HasPrefix s p \<Longrightarrow> TrimPrefix s p = t \<longleftrightarrow> s = p @ t"
  by (auto simp: HasPrefix_iff)

lemma Contains_byte [go_string, simp]: "Contains s [c] \<longleftrightarrow> c \<in> set s"
  by (induction s) auto

lemma Cut_byte_append [go_string]: "c \<notin> set k \<Longrightarrow> Cut (k @ c # v) [c] = (k, v, True)"
  by (induction k) auto

lemma Cut_byte_found:
  "Cut s [c] = (k, v, True) \<Longrightarrow> s = k @ c # v \<and> c \<notin> set k"
  by (induction s arbitrary: k) (auto split: if_splits prod.splits)

lemma Cut_byte_not_found: "Cut s [c] = (k, v, False) \<Longrightarrow> c \<notin> set s"
  by (induction s arbitrary: k v) (auto split: if_splits prod.splits)

lemma Itoa_digits: "c \<in> set (Itoa n) \<Longrightarrow> 48 \<le> (of_char c :: nat) \<and> (of_char c :: nat) \<le> 57"
proof (induction n rule: Itoa.induct)
  case (1 n)
  show ?case
  proof (cases "n < 10")
    case True
    with "1.prems" show ?thesis by (subst (asm) Itoa.simps) simp
  next
    case False
    with "1.prems" have "c \<in> set (Itoa (n div 10)) \<or> c = char_of (48 + n mod 10)"
      by (subst (asm) Itoa.simps) auto
    moreover have "48 + n mod 10 < 256" "n mod 10 \<le> 9"
      using mod_less_divisor [of 10 n] by linarith+
    ultimately show ?thesis using "1.IH" False by auto
  qed
qed

lemma Itoa_no_zero_byte: "char_of (0 :: nat) \<notin> set (Itoa n)"
  using Itoa_digits by fastforce

lemma strip_words_fixed: "strip_word ws (strip_words ws s) = None"
proof (induction ws s rule: strip_words.induct)
  case (1 ws s)
  then show ?case by (cases "strip_word ws s") (simp_all add: strip_words.simps [of ws s])
qed

lemma strip_words_id: "strip_word ws s = None \<Longrightarrow> strip_words ws s = s"
  by (simp add: strip_words.simps)

lemma strip_word_suffix: "strip_word ws s = Some t \<Longrightarrow> suffix t s"
  by (auto simp: strip_word_def suffix_drop split: option.splits)

lemma strip_words_suffix: "suffix (strip_words ws s) s"
proof (induction ws s rule: strip_words.induct)
  case (1 ws s)
  show ?case
  proof (cases "strip_word ws s")
    case None
    then show ?thesis by (simp add: strip_words_id)
  next
    case (Some t)
    with "1" have "suffix (strip_words ws t) t" by blast
    with Some show ?thesis
      by (simp add: strip_words.simps [of ws s] suffix_order.order_trans strip_word_suffix)
  qed
qed

lemma strip_word_None_iff:
  "strip_word ws s = None \<longleftrightarrow> (\<forall>w \<in> set ws. w \<noteq> [] \<longrightarrow> \<not> prefix w s)"
  by (auto simp: strip_word_def find_None_iff find_Some_iff HasPrefix_prefix
      split: option.splits intro: nth_mem)

lemma strip_word_None_prefix:
  "strip_word ws s = None \<Longrightarrow> prefix t s \<Longrightarrow> strip_word ws t = None"
  by (meson strip_word_None_iff prefix_order.order_trans)

text \<open>A string no white-space rune begins or ends is left as it is.\<close>

definition trimmed :: "string \<Rightarrow> bool" where
  "trimmed s = (strip_word space_runes s = None \<and> strip_word (map rev space_runes) (rev s) = None)"

lemma trimmed_TrimSpace: "trimmed (TrimSpace s)"
proof -
  let ?l = "TrimSpaceLeft s"
  have left: "strip_word space_runes ?l = None"
    by (simp add: TrimSpaceLeft_def strip_words_fixed)
  have "prefix (TrimSpace s) ?l"
    unfolding TrimSpace_def TrimSpaceRight_def
    using strip_words_suffix [of "map rev space_runes" "rev ?l"] by (simp add: suffix_to_prefix)
  with left have "strip_word space_runes (TrimSpace s) = None"
    by (rule strip_word_None_prefix)
  moreover have "strip_word (map rev space_runes) (rev (TrimSpace s)) = None"
    by (simp add: TrimSpace_def TrimSpaceRight_def strip_words_fixed)
  ultimately show ?thesis by (simp add: trimmed_def)
qed

lemma TrimSpace_fixed: "TrimSpace s = s \<longleftrightarrow> trimmed s"
proof
  show "TrimSpace s = s \<Longrightarrow> trimmed s" using trimmed_TrimSpace [of s] by simp
  show "trimmed s \<Longrightarrow> TrimSpace s = s"
    by (simp add: trimmed_def TrimSpace_def TrimSpaceLeft_def TrimSpaceRight_def strip_words_id)
qed

lemma TrimSpace_idem [go_string, simp]: "TrimSpace (TrimSpace s) = TrimSpace s"
  by (simp add: TrimSpace_fixed trimmed_TrimSpace)

lemma trimmed_Nil [simp]: "trimmed []"
  by (simp add: trimmed_def strip_word_None_iff)

lemma TrimSpace_Nil [simp]: "TrimSpace [] = []"
  by (simp add: TrimSpace_fixed)

text \<open>
  An ASCII byte that is not white space at each end keeps a string from being trimmed.
\<close>

definition plain_byte :: "char \<Rightarrow> bool" where
  "plain_byte c = (33 \<le> (of_char c :: nat) \<and> (of_char c :: nat) \<le> 126)"

lemma space_rune_not_plain:
  assumes "w \<in> set space_runes"
  shows "w \<noteq> [] \<and> \<not> plain_byte (hd w) \<and> \<not> plain_byte (last w)"
proof -
  have "list_all (\<lambda>w. w \<noteq> [] \<and> \<not> plain_byte (hd w) \<and> \<not> plain_byte (last w)) space_runes"
    by (simp add: space_runes_def plain_byte_def upt_conv_Cons)
  with assms show ?thesis by (simp add: list_all_iff)
qed

lemma trimmed_plain_ends:
  assumes "s \<noteq> []" "plain_byte (hd s)" "plain_byte (last s)"
  shows "trimmed s"
proof -
  have "\<not> prefix w s" if "w \<in> set space_runes" for w
    using space_rune_not_plain [OF that] assms by (auto simp: prefix_def)
  moreover have "\<not> prefix (rev w) (rev s)" if "w \<in> set space_runes" for w
    using space_rune_not_plain [OF that] assms
    by (auto simp: prefix_def hd_rev last_rev) (metis hd_append2 hd_rev rev_is_Nil_conv rev_rev_ident)
  ultimately show ?thesis by (auto simp: trimmed_def strip_word_None_iff)
qed

lemma TrimSpace_plain [go_string]:
  "s \<noteq> [] \<Longrightarrow> plain_byte (hd s) \<Longrightarrow> plain_byte (last s) \<Longrightarrow> TrimSpace s = s"
  by (simp add: TrimSpace_fixed trimmed_plain_ends)

lemma TrimSpace_blank: "TrimSpace '' '' = []"
proof -
  have "strip_word space_runes '' '' = Some []"
    by (simp add: strip_word_def space_runes_def HasPrefix_def char_of_def bit_iff_odd)
  moreover have "strip_words space_runes [] = []"
    by (simp add: strip_words_id strip_word_None_iff)
  ultimately have "TrimSpaceLeft '' '' = []" by (simp add: TrimSpaceLeft_def strip_words.simps [of _ "'' ''"])
  then show ?thesis by (simp add: TrimSpace_def TrimSpaceRight_def strip_words_id strip_word_None_iff)
qed

lemma TrimByte_set: "set (TrimByte s c) \<subseteq> set s"
  by (auto simp: TrimByte_def dest!: set_dropWhileD)

end
