(* ===== verification/Api_Types.thy ===== *)
theory Api_Types
  imports Go_Strings
begin

text \<open>
  The data the program works on: the InferenceIdentityBinding resource of
  \<^verbatim>\<open>api/v1alpha1\<close>, unstructured Kubernetes objects (InferencePool, ClusterSPIFFEID) with
  their free-form content, and the record of third-party functions the code calls, which
  every definition that needs them takes as an argument. The documented behaviour of the
  latter that some theorems rely on is stated as named predicates at the end.
\<close>

section \<open>Kubernetes data\<close>

datatype NamespacedName = NamespacedName (nn_Namespace: string) (nn_Name: string)

datatype GroupVersionKind =
  GroupVersionKind (gvk_Group: string) (gvk_Version: string) (gvk_Kind: string)

text \<open>Names are ordered by namespace, then by name.\<close>

instantiation NamespacedName :: linorder
begin

definition less_eq_NamespacedName :: "NamespacedName \<Rightarrow> NamespacedName \<Rightarrow> bool" where
  "less_eq_NamespacedName a b = ((nn_Namespace a, nn_Name a) \<le> (nn_Namespace b, nn_Name b))"

definition less_NamespacedName :: "NamespacedName \<Rightarrow> NamespacedName \<Rightarrow> bool" where
  "less_NamespacedName a b = ((nn_Namespace a, nn_Name a) < (nn_Namespace b, nn_Name b))"

instance
proof
  fix x y z :: NamespacedName
  show "(x < y) = (x \<le> y \<and> \<not> y \<le> x)"
    by (auto simp: less_eq_NamespacedName_def less_NamespacedName_def)
  show "x \<le> x" by (simp add: less_eq_NamespacedName_def)
  show "x \<le> y \<Longrightarrow> y \<le> z \<Longrightarrow> x \<le> z"
    unfolding less_eq_NamespacedName_def by (rule order_trans)
  show "x \<le> y \<Longrightarrow> y \<le> x \<Longrightarrow> x = y"
    unfolding less_eq_NamespacedName_def by (cases x; cases y) (auto dest: antisym)
  show "x \<le> y \<or> y \<le> x"
    unfolding less_eq_NamespacedName_def by (rule linear)
qed

end

text \<open>The values of a \<^verbatim>\<open>map[string]any\<close>, as the JSON decoder produces them.\<close>

datatype json =
    JNull
  | JBool bool
  | JInt int
  | JFloat string
  | JString string
  | JArray "json list"
  | JObject "(string \<times> json) list"

text \<open>\<^verbatim>\<open>reflect.DeepEqual\<close>: maps are equal when they have the same keys with equal values.\<close>

fun DeepEqual :: "json \<Rightarrow> json \<Rightarrow> bool" where
  "DeepEqual (JObject m) (JObject n) =
     (length m = length n \<and>
      list_all (\<lambda>kv. case map_of n (fst kv) of None \<Rightarrow> False | Some w \<Rightarrow> DeepEqual (snd kv) w) m)"
| "DeepEqual (JArray xs) (JArray ys) = list_all2 DeepEqual xs ys"
| "DeepEqual x y = (x = y)"

text \<open>Every object in a value has distinct keys, as a Go map does.\<close>

fun wf_json :: "json \<Rightarrow> bool" where
  "wf_json (JObject m) = (distinct (map fst m) \<and> list_all (\<lambda>kv. wf_json (snd kv)) m)"
| "wf_json (JArray xs) = list_all wf_json xs"
| "wf_json _ = True"

record Condition =
  c_Type :: string
  c_Status :: string
  c_ObservedGeneration :: int
  c_LastTransitionTime :: string
  c_Reason :: string
  c_Message :: string

definition ConditionTrue :: string where [api_defs]: "ConditionTrue = ''True''"
definition ConditionFalse :: string where [api_defs]: "ConditionFalse = ''False''"
definition ConditionUnknown :: string where [api_defs]: "ConditionUnknown = ''Unknown''"

text \<open>
  An unstructured object: its type and the metadata fields the code reads or writes by
  name, and the remaining top-level fields (\<^verbatim>\<open>spec\<close>, \<^verbatim>\<open>status\<close>, \<dots>).
\<close>

record Unstructured =
  u_GVK :: GroupVersionKind
  u_Namespace :: string
  u_Name :: string
  u_UID :: string
  u_Generation :: int
  u_DeletionTimestamp :: "int option"
  u_Labels :: "string gomap"
  u_Annotations :: "string gomap"
  u_Object :: "json gomap"

text \<open>The fields of pods and deployments the command line tool reads.\<close>

record Container =
  ctr_Name :: string
  ctr_Image :: string
  ctr_Args :: "string list"

record Pod =
  pod_Namespace :: string
  pod_Name :: string
  pod_Labels :: "string gomap"
  pod_ServiceAccountName :: string
  pod_Containers :: "Container list"

record Deployment =
  dep_Namespace :: string
  dep_Name :: string
  dep_Replicas :: "int option"
  dep_ReadyReplicas :: int
  dep_Containers :: "Container list"

section \<open>InferenceIdentityBinding\<close>

record InferencePoolTargetRef =
  pr_Name :: string
  pr_Group :: string

record IdentityBoundary =
  ib_Variant :: string

record InferenceIdentityBindingSpec =
  s_PoolRef :: InferencePoolTargetRef
  s_ServiceAccountName :: string
  s_IdentityBoundary :: IdentityBoundary

record ComputedSpiffeIDStatus =
  cs_SpiffeID :: string

record RenderedSelectorStatus =
  rs_SpiffeID :: string
  rs_Selectors :: "string list"

record RenderedClusterSPIFFEIDStatus =
  rc_Name :: string
  rc_SpiffeID :: string
  rc_SelectorFingerprint :: string
  rc_ObservedGeneration :: "int option"

record PendingClusterSPIFFEIDStatus =
  pend_Name :: string
  pend_ClaimID :: string

record OwnedClusterSPIFFEIDStatus =
  own_Name :: string
  own_UID :: string

record VariantConflictStatus =
  vc_BindingName :: string
  vc_Cause :: string
  vc_SpiffeID :: string
  vc_Variant :: string

record InferenceIdentityBindingStatus =
  st_Conditions :: "Condition list"
  st_TrustDomain :: string
  st_ClusterSPIFFEIDClassName :: string
  st_Conflicts :: "VariantConflictStatus list"
  st_ComputedSpiffeIDs :: "ComputedSpiffeIDStatus list"
  st_RenderedSelectors :: "RenderedSelectorStatus list"
  st_PendingClusterSPIFFEID :: "PendingClusterSPIFFEIDStatus option"
  st_OwnedClusterSPIFFEID :: "OwnedClusterSPIFFEIDStatus option"
  st_RenderedClusterSPIFFEID :: "RenderedClusterSPIFFEIDStatus option"

record InferenceIdentityBinding =
  b_Namespace :: string
  b_Name :: string
  b_Generation :: int
  b_ResourceVersion :: string
  b_DeletionTimestamp :: "int option"
  b_Finalizers :: "string list"
  b_Spec :: InferenceIdentityBindingSpec
  b_Status :: InferenceIdentityBindingStatus

type_synonym binding = InferenceIdentityBinding
type_synonym status = InferenceIdentityBindingStatus

definition GroupVersion :: "string \<times> string" where
  [api_defs]: "GroupVersion = (''kleym.sonda.red'', ''v1alpha1'')"

text \<open>A deletion timestamp is zero when it is absent or holds the zero time.\<close>

definition timestamp_is_zero :: "int option \<Rightarrow> bool" where
  "timestamp_is_zero t = (case t of None \<Rightarrow> True | Some n \<Rightarrow> n = 0)"

definition binding_ref :: "binding \<Rightarrow> NamespacedName" where
  "binding_ref b = NamespacedName (b_Namespace b) (b_Name b)"

abbreviation binding_variant :: "binding \<Rightarrow> string" where
  "binding_variant b \<equiv> ib_Variant (s_IdentityBoundary (b_Spec b))"

abbreviation binding_service_account :: "binding \<Rightarrow> string" where
  "binding_service_account b \<equiv> s_ServiceAccountName (b_Spec b)"

section \<open>Third-party functions\<close>

text \<open>
  Functions of k8s.io/apimachinery: the label and name validators (a list of complaints,
  empty for a valid value), the nested-field reader of unstructured content (an error, no
  such field, or the map), the condition list operations and two textual forms; the
  finalizer list operations of controller-runtime. Quote is
  \<^verbatim>\<open>strconv.Quote\<close> (the \<^verbatim>\<open>%q\<close> verb), a parameter because its output on non-ASCII input
  follows the Unicode tables; no theorem depends on its values.
\<close>

record ext =
  IsValidLabelValue :: "string \<Rightarrow> string list"
  IsDNS1123Subdomain :: "string \<Rightarrow> string list"
  IsQualifiedName :: "string \<Rightarrow> string list"
  NestedMap :: "json gomap \<Rightarrow> string list \<Rightarrow> (json gomap option) result"
  FindStatusCondition :: "Condition list \<Rightarrow> string \<Rightarrow> Condition option"
  SetStatusCondition :: "Condition list \<Rightarrow> Condition \<Rightarrow> Condition list"
  NamespacedName_String :: "NamespacedName \<Rightarrow> string"
  GVK_String :: "GroupVersionKind \<Rightarrow> string"
  ContainsFinalizer :: "string list \<Rightarrow> string \<Rightarrow> bool"
  AddFinalizer :: "string list \<Rightarrow> string \<Rightarrow> string list"
  RemoveFinalizer :: "string list \<Rightarrow> string \<Rightarrow> string list"
  Quote :: "string \<Rightarrow> string"

text \<open>
  A valid label value consists of letters, digits, hyphen, underscore and dot, has at most
  63 of them, and begins and ends with a letter or digit; the empty value is valid.
\<close>

definition alphanumeric :: "char \<Rightarrow> bool" where
  "alphanumeric c =
     (let n = (of_char c :: nat) in
        (48 \<le> n \<and> n \<le> 57) \<or> (65 \<le> n \<and> n \<le> 90) \<or> (97 \<le> n \<and> n \<le> 122))"

definition label_value_shape :: "string \<Rightarrow> bool" where
  "label_value_shape s =
     (s = [] \<or>
      (length s \<le> 63 \<and> alphanumeric (hd s) \<and> alphanumeric (last s) \<and>
       list_all (\<lambda>c. alphanumeric c \<or> c \<in> set ''-_.'') s))"

definition label_value_contract :: "ext \<Rightarrow> bool" where
  "label_value_contract X = (\<forall>s. IsValidLabelValue X s = [] \<longrightarrow> label_value_shape s)"

text \<open>
  A DNS-1123 subdomain consists of lower-case letters, digits, hyphen and dot, begins and
  ends with a letter or digit and has at most 253 bytes.
\<close>

definition lower_alphanumeric :: "char \<Rightarrow> bool" where
  "lower_alphanumeric c =
     (let n = (of_char c :: nat) in (48 \<le> n \<and> n \<le> 57) \<or> (97 \<le> n \<and> n \<le> 122))"

definition dns1123_subdomain_shape :: "string \<Rightarrow> bool" where
  "dns1123_subdomain_shape s =
     (s \<noteq> [] \<and> length s \<le> 253 \<and> lower_alphanumeric (hd s) \<and> lower_alphanumeric (last s) \<and>
      list_all (\<lambda>c. lower_alphanumeric c \<or> c \<in> set ''-.'') s)"

definition dns1123_contract :: "ext \<Rightarrow> bool" where
  "dns1123_contract X = (\<forall>s. IsDNS1123Subdomain X s = [] \<longrightarrow> dns1123_subdomain_shape s)"

text \<open>
  A qualified name is a name with an optional prefix and a slash: letters, digits, hyphen,
  underscore, dot and slash, never a colon, and it is not empty.
\<close>

definition qualified_name_shape :: "string \<Rightarrow> bool" where
  "qualified_name_shape s =
     (s \<noteq> [] \<and> alphanumeric (hd s) \<and> alphanumeric (last s) \<and>
      list_all (\<lambda>c. alphanumeric c \<or> c \<in> set ''-_./'') s)"

definition qualified_name_contract :: "ext \<Rightarrow> bool" where
  "qualified_name_contract X = (\<forall>s. IsQualifiedName X s = [] \<longrightarrow> qualified_name_shape s)"

text \<open>
  Setting a condition makes it the one found for its type, with every field but the
  transition time, and leaves the other types alone; a found condition has the type asked
  for.
\<close>

definition same_condition :: "Condition \<Rightarrow> Condition \<Rightarrow> bool" where
  "same_condition c d =
     (c_Type c = c_Type d \<and> c_Status c = c_Status d \<and>
      c_ObservedGeneration c = c_ObservedGeneration d \<and>
      c_Reason c = c_Reason d \<and> c_Message c = c_Message d)"

definition conditions_contract :: "ext \<Rightarrow> bool" where
  "conditions_contract X =
     ((\<forall>cs c. \<exists>d. FindStatusCondition X (SetStatusCondition X cs c) (c_Type c) = Some d
          \<and> same_condition c d) \<and>
      (\<forall>cs c t. t \<noteq> c_Type c \<longrightarrow>
         FindStatusCondition X (SetStatusCondition X cs c) t = FindStatusCondition X cs t) \<and>
      (\<forall>cs t c. FindStatusCondition X cs t = Some c \<longrightarrow> c_Type c = t))"

text \<open>
  Reading a nested map at a single field gives the field's object, nothing when the field
  is absent, and an error when it holds anything else.
\<close>

definition nested_map_contract :: "ext \<Rightarrow> bool" where
  "nested_map_contract X =
     (\<forall>m k. case map_of m k of
          None \<Rightarrow> NestedMap X m [k] = Inr None
        | Some (JObject o') \<Rightarrow> NestedMap X m [k] = Inr (Some o')
        | Some _ \<Rightarrow> (\<exists>e. NestedMap X m [k] = Inl e))"

text \<open>The finalizer operations test, insert and delete an element of the list.\<close>

definition finalizer_contract :: "ext \<Rightarrow> bool" where
  "finalizer_contract X =
     (\<forall>fs f. (ContainsFinalizer X fs f \<longleftrightarrow> f \<in> set fs) \<and>
        set (AddFinalizer X fs f) = insert f (set fs) \<and> set (RemoveFinalizer X fs f) = set fs - {f})"

section \<open>A reference environment\<close>

text \<open>
  Executable functions that meet every contract above. They stand for the third-party
  functions in the witnesses, and show that the contracts can be met together.
\<close>

definition ref_label_value :: "string \<Rightarrow> string list" where
  "ref_label_value s = (if label_value_shape s then [] else [''invalid label value''])"

definition ref_dns1123 :: "string \<Rightarrow> string list" where
  "ref_dns1123 s = (if dns1123_subdomain_shape s then [] else [''invalid subdomain''])"

definition ref_qualified_name :: "string \<Rightarrow> string list" where
  "ref_qualified_name s = (if qualified_name_shape s then [] else [''invalid qualified name''])"

fun ref_nested_map :: "json gomap \<Rightarrow> string list \<Rightarrow> (json gomap option) result" where
  "ref_nested_map m [] = Inr (Some m)"
| "ref_nested_map m (k # ks) =
     (case map_of m k of
        None \<Rightarrow> Inr None
      | Some (JObject o') \<Rightarrow> ref_nested_map o' ks
      | Some _ \<Rightarrow> Inl (PlainError ''accessor error''))"

fun ref_find_condition :: "Condition list \<Rightarrow> string \<Rightarrow> Condition option" where
  "ref_find_condition [] t = None"
| "ref_find_condition (c # cs) t = (if c_Type c = t then Some c else ref_find_condition cs t)"

fun ref_set_condition :: "Condition list \<Rightarrow> Condition \<Rightarrow> Condition list" where
  "ref_set_condition [] c = [c]"
| "ref_set_condition (d # cs) c =
     (if c_Type d = c_Type c
      then (if c_Status d = c_Status c then c\<lparr>c_LastTransitionTime := c_LastTransitionTime d\<rparr> else c) # cs
      else d # ref_set_condition cs c)"

definition ref_ext :: ext where
  "ref_ext = \<lparr>IsValidLabelValue = ref_label_value, IsDNS1123Subdomain = ref_dns1123,
     IsQualifiedName = ref_qualified_name, NestedMap = ref_nested_map,
     FindStatusCondition = ref_find_condition, SetStatusCondition = ref_set_condition,
     NamespacedName_String = (\<lambda>n. nn_Namespace n @ ''/'' @ nn_Name n),
     GVK_String = (\<lambda>g. gvk_Group g @ ''/'' @ gvk_Version g @ '', Kind='' @ gvk_Kind g),
     ContainsFinalizer = (\<lambda>fs f. f \<in> set fs),
     AddFinalizer = (\<lambda>fs f. if f \<in> set fs then fs else fs @ [f]),
     RemoveFinalizer = (\<lambda>fs f. filter (\<lambda>g. g \<noteq> f) fs),
     Quote = (\<lambda>s. CHR 0x22 # s @ [CHR 0x22])\<rparr>"

lemma ref_find_set_same:
  "\<exists>d. ref_find_condition (ref_set_condition cs c) (c_Type c) = Some d \<and> same_condition c d"
  by (induction cs) (auto simp: same_condition_def)

lemma ref_find_set_other:
  "t \<noteq> c_Type c \<Longrightarrow> ref_find_condition (ref_set_condition cs c) t = ref_find_condition cs t"
  by (induction cs) auto

lemma ref_find_type: "ref_find_condition cs t = Some c \<Longrightarrow> c_Type c = t"
  by (induction cs) (auto split: if_splits)

lemma ref_ext_label_value [simp]: "label_value_contract ref_ext"
  by (simp add: label_value_contract_def ref_ext_def ref_label_value_def)

lemma ref_ext_dns1123 [simp]: "dns1123_contract ref_ext"
  by (simp add: dns1123_contract_def ref_ext_def ref_dns1123_def)

lemma ref_ext_qualified_name [simp]: "qualified_name_contract ref_ext"
  by (simp add: qualified_name_contract_def ref_ext_def ref_qualified_name_def)

lemma ref_ext_conditions [simp]: "conditions_contract ref_ext"
  by (auto simp: conditions_contract_def ref_ext_def ref_find_set_same ref_find_set_other dest: ref_find_type)

lemma ref_ext_nested_map [simp]: "nested_map_contract ref_ext"
  by (auto simp: nested_map_contract_def ref_ext_def split: option.split json.split)

lemma ref_ext_finalizers [simp]: "finalizer_contract ref_ext"
  by (auto simp: finalizer_contract_def ref_ext_def)

section \<open>Lemmas on the data\<close>

lemma Compare_NamespacedName:
  "Compare a b = Or [Compare (nn_Namespace a) (nn_Namespace b), Compare (nn_Name a) (nn_Name b)]"
proof -
  have "Compare a b = Compare (nn_Namespace a, nn_Name a) (nn_Namespace b, nn_Name b)"
    by (cases a; cases b) (auto simp: Compare_def less_NamespacedName_def)
  then show ?thesis by (simp only: Compare_pair)
qed

lemma alphanumeric_plain: "alphanumeric c \<Longrightarrow> plain_byte c"
  by (auto simp: alphanumeric_def plain_byte_def Let_def)

lemma lower_alphanumeric_imp: "lower_alphanumeric c \<Longrightarrow> alphanumeric c"
  by (auto simp: lower_alphanumeric_def alphanumeric_def Let_def)

lemma label_value_no_byte:
  "label_value_shape s \<Longrightarrow> \<not> alphanumeric c \<Longrightarrow> c \<notin> set ''-_.'' \<Longrightarrow> c \<notin> set s"
  by (auto simp: label_value_shape_def list_all_iff)

lemma dns1123_no_byte:
  "dns1123_subdomain_shape s \<Longrightarrow> \<not> lower_alphanumeric c \<Longrightarrow> c \<notin> set ''-.'' \<Longrightarrow> c \<notin> set s"
  by (auto simp: dns1123_subdomain_shape_def list_all_iff)

lemma not_alphanumeric_separators [simp]:
  "\<not> alphanumeric CHR ''/''" "\<not> alphanumeric CHR '':''"
  "\<not> lower_alphanumeric CHR ''/''" "\<not> lower_alphanumeric CHR '':''"
  by (simp_all add: alphanumeric_def lower_alphanumeric_def)

lemma DeepEqual_refl: "wf_json j \<Longrightarrow> DeepEqual j j"
proof (induction j rule: wf_json.induct)
  case (1 m)
  then have wf: "distinct (map fst m)" "\<And>kv. kv \<in> set m \<Longrightarrow> wf_json (snd kv)"
    by (auto simp: list_all_iff)
  have "case map_of m (fst kv) of None \<Rightarrow> False | Some w \<Rightarrow> DeepEqual (snd kv) w"
    if "kv \<in> set m" for kv
  proof -
    have "map_of m (fst kv) = Some (snd kv)"
      using map_of_is_SomeI [OF wf(1), of "fst kv" "snd kv"] that by simp
    with "1.IH" [OF that] wf(2) [OF that] show ?thesis by simp
  qed
  then show ?case by (simp add: list_all_iff)
next
  case (2 xs)
  then show ?case by (auto simp: list_all_iff intro: list.rel_refl_strong)
qed simp_all

end
