(* ===== verification/Go_Hash.thy ===== *)
theory Go_Hash
  imports Go_Strings "HOL-Library.Word"
begin

text \<open>
  The standard library hashes kleym uses: SHA-1 (\<^verbatim>\<open>crypto/sha1\<close>) for the suffix of
  ClusterSPIFFEID names, SHA-256 (\<^verbatim>\<open>crypto/sha256\<close>) for selector fingerprints, and
  \<^verbatim>\<open>hex.EncodeToString\<close>. Both follow FIPS 180-4 on 32-bit words.
\<close>

unbundle bit_operations_syntax

section \<open>Bytes, words, padding\<close>

type_synonym u32 = "32 word"

definition bytes_of :: "string \<Rightarrow> nat list" where
  "bytes_of s = map of_char s"

definition big_endian64 :: "nat \<Rightarrow> nat list" where
  "big_endian64 n = map (\<lambda>i. n div 256 ^ i mod 256) [7, 6, 5, 4, 3, 2, 1, 0]"

definition sha_pad :: "nat list \<Rightarrow> nat list" where
  "sha_pad bs =
     bs @ [128] @ replicate ((119 - length bs mod 64) mod 64) 0 @ big_endian64 (8 * length bs)"

fun words_of_bytes :: "nat list \<Rightarrow> u32 list" where
  "words_of_bytes (a # b # c # d # bs) =
     word_of_nat (a * 16777216 + b * 65536 + c * 256 + d) # words_of_bytes bs"
| "words_of_bytes _ = []"

fun blocks16 :: "nat \<Rightarrow> 'a list \<Rightarrow> 'a list list" where
  "blocks16 0 ws = []"
| "blocks16 (Suc n) ws = take 16 ws # blocks16 n (drop 16 ws)"

definition sha_blocks :: "nat list \<Rightarrow> u32 list list" where
  "sha_blocks bs = (let p = sha_pad bs in blocks16 (length p div 64) (words_of_bytes p))"

definition rotl32 :: "nat \<Rightarrow> u32 \<Rightarrow> u32" where
  "rotl32 n w = push_bit n w OR drop_bit (32 - n) w"

definition rotr32 :: "nat \<Rightarrow> u32 \<Rightarrow> u32" where
  "rotr32 n w = rotl32 (32 - n) w"

definition bytes_of_word :: "u32 \<Rightarrow> nat list" where
  "bytes_of_word w =
     map (\<lambda>i. unat w div 256 ^ i mod 256) [3, 2, 1, 0]"

section \<open>SHA-1\<close>

text \<open>The message schedule, newest word first.\<close>

fun sha1_extend :: "nat \<Rightarrow> u32 list \<Rightarrow> u32 list" where
  "sha1_extend 0 ws = ws"
| "sha1_extend (Suc n) ws =
     sha1_extend n (rotl32 1 (ws ! 2 XOR ws ! 7 XOR ws ! 13 XOR ws ! 15) # ws)"

definition sha1_schedule :: "u32 list \<Rightarrow> u32 list" where
  "sha1_schedule block = rev (sha1_extend 64 (rev block))"

fun sha1_f :: "nat \<Rightarrow> u32 \<Rightarrow> u32 \<Rightarrow> u32 \<Rightarrow> u32" where
  "sha1_f t b c d =
     (if t < 20 then (b AND c) OR ((NOT b) AND d)
      else if t < 40 then b XOR c XOR d
      else if t < 60 then (b AND c) OR (b AND d) OR (c AND d)
      else b XOR c XOR d)"

definition sha1_k :: "nat \<Rightarrow> u32" where
  "sha1_k t =
     (if t < 20 then 0x5A827999 else if t < 40 then 0x6ED9EBA1
      else if t < 60 then 0x8F1BBCDC else 0xCA62C1D6)"

fun sha1_rounds ::
    "nat \<Rightarrow> u32 list \<Rightarrow> u32 \<times> u32 \<times> u32 \<times> u32 \<times> u32 \<Rightarrow> u32 \<times> u32 \<times> u32 \<times> u32 \<times> u32" where
  "sha1_rounds t [] h = h"
| "sha1_rounds t (w # ws) (a, b, c, d, e) =
     sha1_rounds (Suc t) ws
       (rotl32 5 a + sha1_f t b c d + e + sha1_k t + w, a, rotl32 30 b, c, d)"

definition sha1_block ::
    "u32 list \<Rightarrow> u32 \<times> u32 \<times> u32 \<times> u32 \<times> u32 \<Rightarrow> u32 \<times> u32 \<times> u32 \<times> u32 \<times> u32" where
  "sha1_block block h =
     (case (h, sha1_rounds 0 (sha1_schedule block) h) of
        ((a, b, c, d, e), (a', b', c', d', e')) \<Rightarrow> (a + a', b + b', c + c', d + d', e + e'))"

definition sha1_init :: "u32 \<times> u32 \<times> u32 \<times> u32 \<times> u32" where
  "sha1_init = (0x67452301, 0xEFCDAB89, 0x98BADCFE, 0x10325476, 0xC3D2E1F0)"

definition sha1_Sum :: "string \<Rightarrow> nat list" where
  "sha1_Sum s =
     (case fold sha1_block (sha_blocks (bytes_of s)) sha1_init of
        (a, b, c, d, e) \<Rightarrow> concat (map bytes_of_word [a, b, c, d, e]))"

section \<open>SHA-256\<close>

text \<open>
  The standard takes the round constants and the initial state from the first 32 bits of the
  fractional parts of the cube and square roots of the first primes; here they are computed.
  \<^verbatim>\<open>root_below n k m r\<close> fixes the low \<^verbatim>\<open>k\<close> bits of the largest number above \<^verbatim>\<open>r\<close> whose
  \<^verbatim>\<open>n\<close>th power is at most \<^verbatim>\<open>m\<close>.
\<close>

fun root_below :: "nat \<Rightarrow> nat \<Rightarrow> nat \<Rightarrow> nat \<Rightarrow> nat" where
  "root_below n 0 m r = r"
| "root_below n (Suc k) m r =
     root_below n k m (if (r + 2 ^ k) ^ n \<le> m then r + 2 ^ k else r)"

definition root_fraction :: "nat \<Rightarrow> nat \<Rightarrow> u32" where
  "root_fraction n p = word_of_nat (root_below n 37 (p * 2 ^ (32 * n)) 0)"

definition sha256_primes :: "nat list" where
  "sha256_primes = filter (\<lambda>p. \<forall>d\<in>set [2..<p]. p mod d \<noteq> 0) [2..<312]"

definition sha256_k :: "u32 list" where
  "sha256_k = map (root_fraction 3) sha256_primes"

definition sha256_s0 :: "u32 \<Rightarrow> u32" where
  "sha256_s0 w = rotr32 7 w XOR rotr32 18 w XOR drop_bit 3 w"

definition sha256_s1 :: "u32 \<Rightarrow> u32" where
  "sha256_s1 w = rotr32 17 w XOR rotr32 19 w XOR drop_bit 10 w"

fun sha256_extend :: "nat \<Rightarrow> u32 list \<Rightarrow> u32 list" where
  "sha256_extend 0 ws = ws"
| "sha256_extend (Suc n) ws =
     sha256_extend n ((sha256_s1 (ws ! 1) + ws ! 6 + sha256_s0 (ws ! 14) + ws ! 15) # ws)"

type_synonym sha256_state = "u32 \<times> u32 \<times> u32 \<times> u32 \<times> u32 \<times> u32 \<times> u32 \<times> u32"

fun sha256_rounds :: "(u32 \<times> u32) list \<Rightarrow> sha256_state \<Rightarrow> sha256_state" where
  "sha256_rounds [] h = h"
| "sha256_rounds ((k, w) # kws) (a, b, c, d, e, f, g, h) =
     (let t1 = h + (rotr32 6 e XOR rotr32 11 e XOR rotr32 25 e)
                 + ((e AND f) XOR ((NOT e) AND g)) + k + w;
          t2 = (rotr32 2 a XOR rotr32 13 a XOR rotr32 22 a)
                 + ((a AND b) XOR (a AND c) XOR (b AND c))
      in sha256_rounds kws (t1 + t2, a, b, c, d + t1, e, f, g))"

definition sha256_block :: "u32 list \<Rightarrow> sha256_state \<Rightarrow> sha256_state" where
  "sha256_block block s =
     (case (s, sha256_rounds (zip sha256_k (rev (sha256_extend 48 (rev block)))) s) of
        ((a, b, c, d, e, f, g, h), (a', b', c', d', e', f', g', h')) \<Rightarrow>
          (a + a', b + b', c + c', d + d', e + e', f + f', g + g', h + h'))"

definition sha256_init :: sha256_state where
  "sha256_init =
     (root_fraction 2 2, root_fraction 2 3, root_fraction 2 5, root_fraction 2 7,
      root_fraction 2 11, root_fraction 2 13, root_fraction 2 17, root_fraction 2 19)"

definition sha256_Sum :: "string \<Rightarrow> nat list" where
  "sha256_Sum s =
     (case fold sha256_block (sha_blocks (bytes_of s)) sha256_init of
        (a, b, c, d, e, f, g, h) \<Rightarrow> concat (map bytes_of_word [a, b, c, d, e, f, g, h]))"

section \<open>Hexadecimal\<close>

definition hex_digit :: "nat \<Rightarrow> char" where
  "hex_digit n = ''0123456789abcdef'' ! (n mod 16)"

definition EncodeToString :: "nat list \<Rightarrow> string" where
  "EncodeToString bs = concat (map (\<lambda>b. [hex_digit (b div 16), hex_digit b]) bs)"

lemma length_EncodeToString [simp]: "length (EncodeToString bs) = 2 * length bs"
  by (induction bs) (auto simp: EncodeToString_def)

lemma hex_digit_in: "hex_digit n \<in> set ''0123456789abcdef''"
  unfolding hex_digit_def by (rule nth_mem) simp

lemma set_EncodeToString: "set (EncodeToString bs) \<subseteq> set ''0123456789abcdef''"
proof -
  have "set [hex_digit (b div 16), hex_digit b] \<subseteq> set ''0123456789abcdef''" for b
    using hex_digit_in [of b] hex_digit_in [of "b div 16"] by fastforce
  then show ?thesis unfolding EncodeToString_def by fastforce
qed

lemma length_sha1_Sum [simp]: "length (sha1_Sum s) = 20"
  by (cases "fold sha1_block (sha_blocks (bytes_of s)) sha1_init")
     (simp add: sha1_Sum_def bytes_of_word_def)

lemma length_sha256_Sum [simp]: "length (sha256_Sum s) = 32"
  by (cases "fold sha256_block (sha_blocks (bytes_of s)) sha256_init")
     (simp add: sha256_Sum_def bytes_of_word_def split: prod.split)

end
