(* ===== verification/Identity.thy ===== *)
theory Identity
  imports Api_Types Go_Hash
begin

text \<open>
  Package \<^verbatim>\<open>internal/identity\<close>: validation of the workload variant, the pairwise
  exclusivity evaluation of bindings, and the rendering of an identity plan (SPIFFE ID and
  canonical workload selectors) with its safety checks. The results here are about the
  pure functions the controller and the CLI share.
\<close>

section \<open>Types and constants (types.go, boundary.go)\<close>

definition DefaultTrustDomain :: string where "DefaultTrustDomain = ''kleym.sonda.red''"

definition ConditionTypeUnsafeSelector :: string where
  [api_defs]: "ConditionTypeUnsafeSelector = ''UnsafeSelector''"
definition ConditionTypeRenderFailure :: string where
  [api_defs]: "ConditionTypeRenderFailure = ''RenderFailure''"
definition ReasonMissingTrustDomain :: string where
  [api_defs]: "ReasonMissingTrustDomain = ''MissingTrustDomain''"
definition ReasonInvalidServiceAccountName :: string where
  [api_defs]: "ReasonInvalidServiceAccountName = ''InvalidServiceAccountName''"
definition ReasonUnsafeSelector :: string where
  [api_defs]: "ReasonUnsafeSelector = ''UnsafeSelector''"
definition ReasonInvalidSPIFFEID :: string where
  [api_defs]: "ReasonInvalidSPIFFEID = ''InvalidSPIFFEID''"
definition ReasonInvalidPoolSelector :: string where
  [api_defs]: "ReasonInvalidPoolSelector = ''InvalidPoolSelector''"
definition ReasonInvalidIdentityBoundary :: string where
  [api_defs]: "ReasonInvalidIdentityBoundary = ''InvalidIdentityBoundary''"

record IdentityAnchor =
  a_Kind :: string
  a_Name :: string

record ResolvedInferenceTarget =
  t_IdentityAnchor :: IdentityAnchor
  t_PodSelector :: "json gomap"
  t_DerivedSelectors :: "string list"

record PlanInput =
  in_Namespace :: string
  in_ServiceAccountName :: string
  in_TrustDomain :: string
  in_Variant :: string
  in_Target :: ResolvedInferenceTarget

record Plan =
  p_SpiffeID :: string
  p_Selectors :: "string list"
  p_PodSelector :: "json gomap"
  p_IdentityAnchor :: IdentityAnchor
  p_Variant :: string

record renderTemplateData =
  d_Namespace :: string
  d_ServiceAccountName :: string
  d_IdentityAnchor :: IdentityAnchor
  d_Variant :: string

definition NamespacedBindingKey :: "ext \<Rightarrow> string \<Rightarrow> string \<Rightarrow> string" where
  "NamespacedBindingKey X namespace name = NamespacedName_String X (NamespacedName namespace name)"

definition VariantLabelKey :: string where
  "VariantLabelKey = ''identity.kleym.sonda.red/variant''"

definition CauseVariantReuse :: string where "CauseVariantReuse = ''VariantReuse''"
definition CauseDuplicateSPIFFEID :: string where "CauseDuplicateSPIFFEID = ''DuplicateSPIFFEID''"

record VariantRecord =
  vr_BindingRef :: NamespacedName
  vr_ServiceAccountName :: string
  vr_Variant :: string
  vr_SpiffeID :: string

record VariantConflict =
  k_BindingRef :: NamespacedName
  k_PeerBindingRef :: NamespacedName
  k_Cause :: string
  k_PeerSpiffeID :: string
  k_PeerVariant :: string

text \<open>The literals every selector of its kind begins with.\<close>

definition nsPrefix :: string where "nsPrefix = ''k8s:ns:''"
definition saPrefix :: string where "saPrefix = ''k8s:sa:''"
definition podLabelPrefix :: string where "podLabelPrefix = ''k8s:pod-label:''"

section \<open>Variants (boundary.go)\<close>

definition ValidateVariant :: "ext \<Rightarrow> string \<Rightarrow> go_error option" where
  "ValidateVariant X variant =
     (if variant \<noteq> TrimSpace variant then
        Some (IdentityStateError ConditionTypeUnsafeSelector ReasonInvalidIdentityBoundary
          ''identityBoundary.variant must not include leading or trailing whitespace'')
      else if variant = [] then
        Some (IdentityStateError ConditionTypeUnsafeSelector ReasonInvalidIdentityBoundary
          ''identityBoundary.variant must not be empty'')
      else let errs = IsValidLabelValue X variant in
        if length errs > 0 then
          Some (IdentityStateError ConditionTypeUnsafeSelector ReasonInvalidIdentityBoundary
            (''identityBoundary.variant '' @ Quote X variant @ '' is invalid: '' @ Join errs ''; ''))
        else None)"

definition variantConflict :: "NamespacedName \<Rightarrow> VariantRecord \<Rightarrow> string \<Rightarrow> VariantConflict" where
  "variantConflict bindingRef peer cause =
     \<lparr>k_BindingRef = bindingRef, k_PeerBindingRef = vr_BindingRef peer, k_Cause = cause,
      k_PeerSpiffeID = vr_SpiffeID peer, k_PeerVariant = vr_Variant peer\<rparr>"

definition evaluateVariantPair :: "VariantRecord \<Rightarrow> VariantRecord \<Rightarrow> string \<times> bool" where
  "evaluateVariantPair left right =
     (if vr_SpiffeID left = vr_SpiffeID right then (CauseDuplicateSPIFFEID, True)
      else if nn_Namespace (vr_BindingRef left) \<noteq> nn_Namespace (vr_BindingRef right)
           \<or> vr_ServiceAccountName left \<noteq> vr_ServiceAccountName right then ([], False)
      else if vr_Variant left \<noteq> vr_Variant right then ([], False)
      else (CauseVariantReuse, True))"

definition compareVariantConflicts :: "VariantConflict \<Rightarrow> VariantConflict \<Rightarrow> int" where
  "compareVariantConflicts left right = Or
     [Compare (nn_Namespace (k_BindingRef left)) (nn_Namespace (k_BindingRef right)),
      Compare (nn_Name (k_BindingRef left)) (nn_Name (k_BindingRef right)),
      Compare (nn_Namespace (k_PeerBindingRef left)) (nn_Namespace (k_PeerBindingRef right)),
      Compare (nn_Name (k_PeerBindingRef left)) (nn_Name (k_PeerBindingRef right)),
      Compare (k_Cause left) (k_Cause right),
      Compare (k_PeerSpiffeID left) (k_PeerSpiffeID right),
      Compare (k_PeerVariant left) (k_PeerVariant right)]"

text \<open>The inner loop: the conflicts of one record with the records after it, both directions.\<close>

fun conflicts_with :: "VariantRecord \<Rightarrow> VariantRecord list \<Rightarrow> VariantConflict list" where
  "conflicts_with left [] = []"
| "conflicts_with left (right # rest) =
     (case evaluateVariantPair left right of (cause, conflict) \<Rightarrow>
        if \<not> conflict then conflicts_with left rest
        else [variantConflict (vr_BindingRef left) right cause,
              variantConflict (vr_BindingRef right) left cause] @ conflicts_with left rest)"

fun collect_conflicts :: "VariantRecord list \<Rightarrow> VariantConflict list" where
  "collect_conflicts [] = []"
| "collect_conflicts (left # rest) = conflicts_with left rest @ collect_conflicts rest"

definition EvaluateVariantConflicts :: "VariantRecord list \<Rightarrow> VariantConflict list" where
  "EvaluateVariantConflicts variants = SortFunc compareVariantConflicts (collect_conflicts variants)"

section \<open>Rendering (render.go)\<close>

text \<open>
  The set of trimmed non-empty values, as a Go map used as a set, then sorted. The map's
  iteration order does not matter, as the lemmas below show.
\<close>

definition UniqueAndSorted :: "string list \<Rightarrow> string list" where
  "UniqueAndSorted values =
     SortStrings (map fst
       (fold (\<lambda>value set.
          let trimmed = TrimSpace value in
            if trimmed = [] then set else map_put set trimmed ()) values []))"

definition fingerprint_input :: "string list \<Rightarrow> string" where
  "fingerprint_input canonical =
     concat (map (\<lambda>selector. Itoa (length selector) @ [char_of (0::nat)]
                           @ selector @ [char_of (0::nat)]) canonical)"

definition SelectorFingerprint :: "string list \<Rightarrow> string" where
  "SelectorFingerprint selectors =
     ''sha256:'' @ EncodeToString (sha256_Sum (fingerprint_input (UniqueAndSorted selectors)))"

definition renderSafetySelectors :: "ext \<Rightarrow> string \<Rightarrow> string \<Rightarrow> (string list) result" where
  "renderSafetySelectors X namespace serviceAccountName =
     (if TrimSpace serviceAccountName = [] then
        Inl (PlainError ''serviceAccountName must not be empty'')
      else let errs = IsDNS1123Subdomain X serviceAccountName in
        if length errs > 0 then
          Inl (PlainError (''serviceAccountName '' @ Quote X serviceAccountName
                 @ '' is invalid: '' @ Join errs ''; ''))
        else Inr [nsPrefix @ namespace, saPrefix @ serviceAccountName])"

definition validateIdentityAnchor :: "IdentityAnchor \<Rightarrow> go_error option" where
  "validateIdentityAnchor anchor =
     (if TrimSpace (a_Kind anchor) = [] then
        Some (PlainError ''identity anchor kind must not be empty'')
      else if TrimSpace (a_Name anchor) = [] then
        Some (PlainError ''identity anchor name must not be empty'')
      else if Contains (a_Kind anchor) ''/'' \<or> Contains (a_Name anchor) ''/'' then
        Some (PlainError ''identity anchor segments must not contain /'')
      else if a_Kind anchor \<noteq> TrimSpace (a_Kind anchor)
           \<or> a_Name anchor \<noteq> TrimSpace (a_Name anchor) then
        Some (PlainError
          ''identity anchor segments must not include leading or trailing whitespace'')
      else None)"

definition renderInferenceTargetSPIFFEID :: "string \<Rightarrow> renderTemplateData \<Rightarrow> string" where
  "renderInferenceTargetSPIFFEID trustDomain data =
     ''spiffe://'' @ trustDomain @ ''/ns/'' @ d_Namespace data @ ''/sa/''
     @ d_ServiceAccountName data @ ''/inference/'' @ a_Kind (d_IdentityAnchor data) @ ''/''
     @ a_Name (d_IdentityAnchor data) @ ''/variant/'' @ d_Variant data"

definition variantSelectorPrefix :: string where
  "variantSelectorPrefix = podLabelPrefix @ VariantLabelKey @ '':''"

text \<open>
  The loop over the rendered selectors, with its three flags; an error ends it at once.
\<close>

fun check_selectors ::
    "ext \<Rightarrow> string \<Rightarrow> string \<Rightarrow> string \<Rightarrow> string list \<Rightarrow> bool \<times> bool \<times> nat
      \<Rightarrow> (bool \<times> bool \<times> nat) result" where
  "check_selectors X namespace sa variant [] flags = Inr flags"
| "check_selectors X namespace sa variant (selector # rest) (hasNs, hasSa, variantCount) =
     (if HasPrefix selector nsPrefix then
        (if TrimPrefix selector nsPrefix \<noteq> namespace then
           Inl (PlainError (''selector '' @ Quote X selector @ '' escapes binding namespace ''
                  @ Quote X namespace))
         else check_selectors X namespace sa variant rest (True, hasSa, variantCount))
      else if HasPrefix selector saPrefix then
        (let serviceAccount = TrimPrefix selector saPrefix in
           if TrimSpace serviceAccount = [] then
             Inl (PlainError ''service account selector must not be empty'')
           else if serviceAccount \<noteq> sa then
             Inl (PlainError (''selector '' @ Quote X selector
                    @ '' escapes binding service account '' @ Quote X sa))
           else check_selectors X namespace sa variant rest (hasNs, True, variantCount))
      else if HasPrefix selector variantSelectorPrefix then
        (if selector \<noteq> variantSelectorPrefix @ variant then
           Inl (PlainError (''selector '' @ Quote X selector
                  @ '' conflicts with binding variant '' @ Quote X variant))
         else check_selectors X namespace sa variant rest (hasNs, hasSa, Suc variantCount))
      else check_selectors X namespace sa variant rest (hasNs, hasSa, variantCount))"

definition validateRenderedSafetySelectors ::
    "ext \<Rightarrow> string \<Rightarrow> string \<Rightarrow> string \<Rightarrow> string list \<Rightarrow> go_error option" where
  "validateRenderedSafetySelectors X namespace serviceAccountName variant selectors =
     (case check_selectors X namespace serviceAccountName variant selectors (False, False, 0) of
        Inl err \<Rightarrow> Some err
      | Inr (hasNs, hasSa, variantCount) \<Rightarrow>
          if \<not> hasNs then Some (PlainError (''selectors must include '' @ nsPrefix @ namespace))
          else if \<not> hasSa then
            Some (PlainError ''selectors must include a k8s:sa:<service-account> selector'')
          else if variantCount \<noteq> 1 then
            Some (PlainError (''selectors must include '' @ variantSelectorPrefix @ variant
                   @ '' exactly once''))
          else None)"

definition PlanIdentity :: "ext \<Rightarrow> PlanInput \<Rightarrow> Plan result" where
  "PlanIdentity X input =
     (if TrimSpace (in_TrustDomain input) = [] then
        Inl (IdentityStateError ConditionTypeRenderFailure ReasonMissingTrustDomain
          ''trustDomain must be configured before Kleym can render SPIFFE IDs'')
      else case ValidateVariant X (in_Variant input) of
        Some err \<Rightarrow> Inl err
      | None \<Rightarrow>
        let templateData =
          \<lparr>d_Namespace = in_Namespace input, d_ServiceAccountName = in_ServiceAccountName input,
           d_IdentityAnchor = t_IdentityAnchor (in_Target input), d_Variant = in_Variant input\<rparr>
        in case renderSafetySelectors X (in_Namespace input) (in_ServiceAccountName input) of
          Inl err \<Rightarrow>
            Inl (IdentityStateError ConditionTypeRenderFailure ReasonInvalidServiceAccountName
              (error_text err))
        | Inr renderedSelectors \<Rightarrow>
          (case validateIdentityAnchor (t_IdentityAnchor (in_Target input)) of
            Some err \<Rightarrow>
              Inl (IdentityStateError ConditionTypeRenderFailure ReasonInvalidSPIFFEID
                (error_text err))
          | None \<Rightarrow>
            let selectors = UniqueAndSorted
                  (renderedSelectors @ t_DerivedSelectors (in_Target input)
                   @ [podLabelPrefix @ VariantLabelKey @ '':'' @ in_Variant input])
            in case validateRenderedSafetySelectors X (in_Namespace input)
                      (in_ServiceAccountName input) (in_Variant input) selectors of
              Some err \<Rightarrow>
                Inl (IdentityStateError ConditionTypeUnsafeSelector ReasonUnsafeSelector
                  (error_text err))
            | None \<Rightarrow>
              let spiffeID = renderInferenceTargetSPIFFEID (in_TrustDomain input) templateData
              in if \<not> HasPrefix spiffeID ''spiffe://'' then
                   Inl (IdentityStateError ConditionTypeRenderFailure ReasonInvalidSPIFFEID
                     (''computed SPIFFE ID '' @ Quote X spiffeID @ '' must start with spiffe://''))
                 else Inr
                   \<lparr>p_SpiffeID = spiffeID, p_Selectors = selectors,
                    p_PodSelector = t_PodSelector (in_Target input),
                    p_IdentityAnchor = t_IdentityAnchor (in_Target input),
                    p_Variant = in_Variant input\<rparr>))"

section \<open>Canonical selector lists\<close>

definition canonical_values :: "string list \<Rightarrow> string set" where
  "canonical_values vs = TrimSpace ` set vs - {[]}"

lemma unique_fold:
  fixes acc :: "unit gomap"
  defines "f \<equiv> (\<lambda>value set. let trimmed = TrimSpace value in
             if trimmed = [] then set else map_put set trimmed ())"
  shows "fst ` set (fold f vs acc) = fst ` set acc \<union> canonical_values vs"
    and "distinct (map fst acc) \<Longrightarrow> distinct (map fst (fold f vs acc))"
proof -
  show "fst ` set (fold f vs acc) = fst ` set acc \<union> canonical_values vs"
    by (induction vs arbitrary: acc)
      (auto simp: f_def canonical_values_def Let_def fst_set_map_put)
  show "distinct (map fst acc) \<Longrightarrow> distinct (map fst (fold f vs acc))"
    by (induction vs arbitrary: acc) (auto simp: f_def Let_def distinct_map_put)
qed

lemma set_UniqueAndSorted: "set (UniqueAndSorted vs) = canonical_values vs"
  using unique_fold(1) [of vs "[]"] by (simp add: UniqueAndSorted_def)

lemma distinct_UniqueAndSorted: "distinct (UniqueAndSorted vs)"
  using unique_fold(2) [of "[]" vs] by (simp add: UniqueAndSorted_def)

lemma sorted_UniqueAndSorted: "sorted (UniqueAndSorted vs)"
  by (simp add: UniqueAndSorted_def SortStrings_sorted)

lemma UniqueAndSorted_unique:
  assumes "sorted xs" "distinct xs" "set xs = canonical_values vs"
  shows "xs = UniqueAndSorted vs"
  using assms sorted_UniqueAndSorted distinct_UniqueAndSorted set_UniqueAndSorted
  by (metis sorted_distinct_set_unique)

lemma UniqueAndSorted_cong:
  "canonical_values vs = canonical_values ws \<Longrightarrow> UniqueAndSorted vs = UniqueAndSorted ws"
  by (rule UniqueAndSorted_unique)
     (simp_all add: sorted_UniqueAndSorted distinct_UniqueAndSorted set_UniqueAndSorted)

lemma UniqueAndSorted_idem: "UniqueAndSorted (UniqueAndSorted vs) = UniqueAndSorted vs"
proof (rule UniqueAndSorted_cong)
  have "TrimSpace ` canonical_values vs = canonical_values vs"
  proof -
    have "TrimSpace v = v" if "v \<in> canonical_values vs" for v
      using that by (auto simp: canonical_values_def)
    then show ?thesis by simp
  qed
  then show "canonical_values (UniqueAndSorted vs) = canonical_values vs"
    unfolding canonical_values_def [of "UniqueAndSorted vs"] set_UniqueAndSorted
    by (simp add: canonical_values_def)
qed

section \<open>Fingerprints\<close>

definition digits_value :: "string \<Rightarrow> nat" where
  "digits_value s = foldl (\<lambda>n c. 10 * n + (of_char c - 48)) 0 s"

lemma digits_value_Itoa: "digits_value (Itoa n) = n"
proof (induction n rule: Itoa.induct)
  case (1 n)
  show ?case
  proof (cases "n < 10")
    case True
    then show ?thesis by (subst Itoa.simps) (simp add: digits_value_def)
  next
    case False
    have "48 + n mod 10 < 256" using mod_less_divisor [of 10 n] by linarith
    then show ?thesis using "1.IH" False
      by (subst Itoa.simps) (simp add: digits_value_def)
  qed
qed

lemma append_sep_eq:
  "c \<notin> set a \<Longrightarrow> c \<notin> set b \<Longrightarrow> a @ c # s = b @ c # t \<longleftrightarrow> a = b \<and> s = t"
proof (induction a arbitrary: b)
  case Nil
  then show ?case by (cases b) auto
next
  case (Cons x a)
  then show ?case by (cases b) auto
qed

lemma fingerprint_input_inj: "fingerprint_input xs = fingerprint_input ys \<longleftrightarrow> xs = ys"
proof
  show "fingerprint_input xs = fingerprint_input ys \<Longrightarrow> xs = ys"
  proof (induction xs arbitrary: ys)
    case Nil
    then show ?case by (cases ys) (simp_all add: fingerprint_input_def)
  next
    case (Cons x xs)
    then obtain y ys' where ys: "ys = y # ys'" by (cases ys) (auto simp: fingerprint_input_def)
    let ?z = "char_of (0::nat) :: char"
    from Cons.prems ys
    have eq: "Itoa (length x) @ ?z # (x @ ?z # fingerprint_input xs)
              = Itoa (length y) @ ?z # (y @ ?z # fingerprint_input ys')"
      by (simp add: fingerprint_input_def)
    then have "Itoa (length x) = Itoa (length y)"
      and rest: "x @ ?z # fingerprint_input xs = y @ ?z # fingerprint_input ys'"
      using Itoa_no_zero_byte by (simp_all add: append_sep_eq)
    then have "length x = length y" by (metis digits_value_Itoa)
    with rest have "x = y" "fingerprint_input xs = fingerprint_input ys'" by simp_all
    with Cons.IH ys show ?case by simp
  qed
qed simp

lemma hex_digit_inj: "m < 16 \<Longrightarrow> n < 16 \<Longrightarrow> hex_digit m = hex_digit n \<longleftrightarrow> m = n"
proof -
  have d: "distinct ''0123456789abcdef''" by simp
  assume "m < 16" "n < 16"
  then show ?thesis
    unfolding hex_digit_def using nth_eq_iff_index_eq [OF d, of m n] by simp
qed

lemma EncodeToString_inj:
  "\<forall>b \<in> set bs. b < 256 \<Longrightarrow> \<forall>b \<in> set cs. b < 256 \<Longrightarrow>
   EncodeToString bs = EncodeToString cs \<longleftrightarrow> bs = cs"
proof (induction bs arbitrary: cs)
  case Nil
  then show ?case by (cases cs) (auto simp: EncodeToString_def)
next
  case (Cons b bs)
  have hd: "hex_digit (b div 16) = hex_digit (c div 16) \<and> hex_digit b = hex_digit c \<longleftrightarrow> b = c"
    if "b < 256" "c < 256" for b c :: nat
  proof -
    have "hex_digit b = hex_digit (b mod 16)" "hex_digit c = hex_digit (c mod 16)"
      by (simp_all add: hex_digit_def)
    moreover have "b = c \<longleftrightarrow> b div 16 = c div 16 \<and> b mod 16 = c mod 16"
      by (metis div_mult_mod_eq)
    moreover have "b div 16 < 16" "c div 16 < 16" using that by (simp_all add: less_mult_imp_div_less)
    ultimately show ?thesis by (simp add: hex_digit_inj)
  qed
  show ?case
  proof (cases cs)
    case Nil
    then show ?thesis by (simp add: EncodeToString_def)
  next
    case (Cons c cs')
    with Cons.IH [of cs'] Cons.prems hd [of b c] show ?thesis
      by (auto simp: EncodeToString_def)
  qed
qed

lemma sha256_Sum_bytes: "\<forall>b \<in> set (sha256_Sum s). b < 256"
  by (cases "fold sha256_block (sha_blocks (bytes_of s)) sha256_init")
     (auto simp: sha256_Sum_def bytes_of_word_def split: prod.split)

lemma SelectorFingerprint_eq_iff:
  "SelectorFingerprint xs = SelectorFingerprint ys \<longleftrightarrow>
   sha256_Sum (fingerprint_input (UniqueAndSorted xs))
   = sha256_Sum (fingerprint_input (UniqueAndSorted ys))"
  by (simp add: SelectorFingerprint_def EncodeToString_inj sha256_Sum_bytes)

text \<open>
  Two selector fingerprints agree exactly when the canonical selector lists agree, or
  when SHA-256 has the same value on two different inputs.
\<close>
theorem SelectorFingerprint_agree:
  "SelectorFingerprint xs = SelectorFingerprint ys \<longleftrightarrow>
   UniqueAndSorted xs = UniqueAndSorted ys
   \<or> (fingerprint_input (UniqueAndSorted xs) \<noteq> fingerprint_input (UniqueAndSorted ys)
      \<and> sha256_Sum (fingerprint_input (UniqueAndSorted xs))
        = sha256_Sum (fingerprint_input (UniqueAndSorted ys)))"
  by (auto simp: SelectorFingerprint_eq_iff fingerprint_input_inj)

section \<open>Exclusivity of variants\<close>

lemma evaluateVariantPair_sym: "evaluateVariantPair a b = evaluateVariantPair b a"
  by (auto simp: evaluateVariantPair_def)

lemma evaluateVariantPair_conflict:
  "snd (evaluateVariantPair a b) \<longleftrightarrow>
   vr_SpiffeID a = vr_SpiffeID b \<or>
   (nn_Namespace (vr_BindingRef a) = nn_Namespace (vr_BindingRef b) \<and>
    vr_ServiceAccountName a = vr_ServiceAccountName b \<and> vr_Variant a = vr_Variant b)"
  by (auto simp: evaluateVariantPair_def)

definition directed_conflict :: "VariantRecord \<Rightarrow> VariantRecord \<Rightarrow> VariantConflict" where
  "directed_conflict a b = variantConflict (vr_BindingRef a) b (fst (evaluateVariantPair a b))"

lemma conflicts_with_append:
  "conflicts_with a (xs @ ys) = conflicts_with a xs @ conflicts_with a ys"
  by (induction xs) (auto split: prod.splits)

lemma directed_conflict_rev:
  "variantConflict (vr_BindingRef b) a (fst (evaluateVariantPair a b)) = directed_conflict b a"
  by (simp add: directed_conflict_def evaluateVariantPair_sym [of a b])

lemma conflicts_with_Cons:
  "conflicts_with a (b # xs) =
     (if snd (evaluateVariantPair a b) then [directed_conflict a b, directed_conflict b a] else [])
     @ conflicts_with a xs"
  using directed_conflict_rev [of b a]
  by (cases "evaluateVariantPair a b") (simp add: directed_conflict_def [of a b])

lemma set_conflicts_with:
  "set (conflicts_with a xs) =
   (\<Union>b \<in> {b \<in> set xs. snd (evaluateVariantPair a b)}. {directed_conflict a b, directed_conflict b a})"
  by (induction xs) (auto simp: conflicts_with_Cons simp del: conflicts_with.simps(2))

lemma mset_conflicts_with_swap: "mset (conflicts_with a [b]) = mset (conflicts_with b [a])"
  using evaluateVariantPair_sym [of a b]
  by (simp add: conflicts_with_Cons del: conflicts_with.simps(2))

lemma mset_collect_move:
  "mset (collect_conflicts (ys @ x # zs)) = mset (collect_conflicts (x # ys @ zs))"
proof (induction ys)
  case Nil
  then show ?case by simp
next
  case (Cons y ys)
  have "mset (conflicts_with y (ys @ x # zs))
        = mset (conflicts_with x [y]) + mset (conflicts_with y (ys @ zs))"
    using mset_conflicts_with_swap [of y x]
    by (simp add: conflicts_with_append conflicts_with_Cons del: conflicts_with.simps(2))
  moreover have "conflicts_with x (y # ys @ zs) = conflicts_with x [y] @ conflicts_with x (ys @ zs)"
    using conflicts_with_append [of x "[y]" "ys @ zs"] by (simp del: conflicts_with.simps(2))
  ultimately show ?case using Cons.IH by (simp del: conflicts_with.simps(2))
qed

lemma mset_conflicts_with_perm:
  "mset xs = mset ys \<Longrightarrow> mset (conflicts_with a xs) = mset (conflicts_with a ys)"
proof (induction xs arbitrary: ys)
  case Nil
  then show ?case by simp
next
  case (Cons x xs)
  then obtain us vs where ys: "ys = us @ x # vs"
    by (metis list.set_intros(1) set_mset_mset split_list)
  with Cons have "mset (conflicts_with a xs) = mset (conflicts_with a (us @ vs))" by simp
  then show ?case
    unfolding ys conflicts_with_append
    by (simp add: conflicts_with_append conflicts_with_Cons del: conflicts_with.simps(2))
qed

lemma mset_collect_perm:
  "mset xs = mset ys \<Longrightarrow> mset (collect_conflicts xs) = mset (collect_conflicts ys)"
proof (induction xs arbitrary: ys)
  case Nil
  then show ?case by simp
next
  case (Cons x xs)
  then obtain us vs where ys: "ys = us @ x # vs"
    by (metis list.set_intros(1) set_mset_mset split_list)
  with Cons.prems have p: "mset xs = mset (us @ vs)" by simp
  have "mset (collect_conflicts ys) = mset (collect_conflicts (x # us @ vs))"
    unfolding ys by (rule mset_collect_move)
  also have "\<dots> = mset (collect_conflicts (x # xs))"
    using Cons.IH [OF p] mset_conflicts_with_perm [OF p, of x] by simp
  finally show ?case by simp
qed

definition conflict_key ::
    "VariantConflict \<Rightarrow> NamespacedName \<times> NamespacedName \<times> string \<times> string \<times> string" where
  "conflict_key c =
     (k_BindingRef c, k_PeerBindingRef c, k_Cause c, k_PeerSpiffeID c, k_PeerVariant c)"

lemma Or_flatten: "Or (Or xs # ys) = Or (xs @ ys)"
  by (induction xs) auto

lemma compare_key: "compareVariantConflicts a b = Compare (conflict_key a) (conflict_key b)"
  unfolding conflict_key_def Compare_pair Compare_NamespacedName compareVariantConflicts_def
  by (simp add: Or_flatten)

lemma conflict_key_inj: "conflict_key a = conflict_key b \<longleftrightarrow> a = b"
  by (auto simp: conflict_key_def)

interpretation conflict_order: total_comparison compareVariantConflicts
  unfolding compare_key
  by unfold_locales
     (auto simp: conflict_key_inj cmp_linorder.compare_refl
       dest: cmp_linorder.compare_trans cmp_linorder.compare_sym [THEN iffD1]
         cmp_linorder.compare_sym [THEN iffD2])

lemma EvaluateVariantConflicts_perm:
  "mset xs = mset ys \<Longrightarrow> EvaluateVariantConflicts xs = EvaluateVariantConflicts ys"
  unfolding EvaluateVariantConflicts_def
  by (intro conflict_order.SortFunc_canonical mset_collect_perm)

lemma set_collect_conflicts:
  "c \<in> set (collect_conflicts xs) \<longleftrightarrow>
   (\<exists>i j. i < length xs \<and> j < length xs \<and> i \<noteq> j \<and> snd (evaluateVariantPair (xs ! i) (xs ! j))
      \<and> c = directed_conflict (xs ! i) (xs ! j))"
proof (induction xs)
  case Nil
  then show ?case by simp
next
  case (Cons x xs)
  let ?P = "\<lambda>zs i j. snd (evaluateVariantPair (zs ! i) (zs ! j)) \<and> c = directed_conflict (zs ! i) (zs ! j)"
  have head: "c \<in> set (conflicts_with x xs) \<longleftrightarrow>
      (\<exists>j < length xs. ?P (x # xs) 0 (Suc j) \<or> ?P (x # xs) (Suc j) 0)"
    unfolding set_conflicts_with in_set_conv_nth
    by (auto simp: evaluateVariantPair_sym [of x])
  show ?case (is "_ \<longleftrightarrow> ?R")
  proof
    assume "c \<in> set (collect_conflicts (x # xs))"
    then consider "c \<in> set (conflicts_with x xs)" | "c \<in> set (collect_conflicts xs)" by auto
    then show ?R
    proof cases
      case 1
      then obtain j where "j < length xs" "?P (x # xs) 0 (Suc j) \<or> ?P (x # xs) (Suc j) 0"
        using head by blast
      then show ?thesis by (metis Suc_less_eq length_Cons nat.distinct(1) zero_less_Suc)
    next
      case 2
      then obtain i j where "i < length xs" "j < length xs" "i \<noteq> j" "?P xs i j"
        using Cons.IH by blast
      then show ?thesis by (intro exI [of _ "Suc i"] exI [of _ "Suc j"]) simp
    qed
  next
    assume ?R
    then obtain i j where ij: "i < Suc (length xs)" "j < Suc (length xs)" "i \<noteq> j" "?P (x # xs) i j"
      by auto
    show "c \<in> set (collect_conflicts (x # xs))"
    proof (cases "i = 0 \<or> j = 0")
      case True
      with ij have "c \<in> set (conflicts_with x xs)"
        unfolding head by (cases i; cases j) auto
      then show ?thesis by simp
    next
      case False
      with ij have "c \<in> set (collect_conflicts xs)"
        unfolding Cons.IH by (cases i; cases j) auto
      then show ?thesis by simp
    qed
  qed
qed

section \<open>Selector safety\<close>

text \<open>
  What the safety check promises: every namespace selector names the binding's namespace
  and there is one, every service-account selector names its service account and there is
  one, and the boundary label occurs exactly once, with the binding's variant.
\<close>

definition ns_selector :: "string \<Rightarrow> string" where
  "ns_selector namespace = nsPrefix @ namespace"

definition sa_selector :: "string \<Rightarrow> string" where
  "sa_selector sa = saPrefix @ sa"

definition variant_selector :: "string \<Rightarrow> string" where
  "variant_selector variant = variantSelectorPrefix @ variant"

definition safe_selectors :: "string \<Rightarrow> string \<Rightarrow> string \<Rightarrow> string list \<Rightarrow> bool" where
  "safe_selectors namespace sa variant selectors =
     ((\<forall>s \<in> set selectors. HasPrefix s nsPrefix \<longrightarrow> s = ns_selector namespace) \<and>
      (\<forall>s \<in> set selectors. HasPrefix s saPrefix \<longrightarrow> s = sa_selector sa \<and> TrimSpace sa \<noteq> []) \<and>
      (\<forall>s \<in> set selectors. HasPrefix s variantSelectorPrefix \<longrightarrow> s = variant_selector variant) \<and>
      ns_selector namespace \<in> set selectors \<and> sa_selector sa \<in> set selectors \<and>
      length (filter (\<lambda>s. HasPrefix s variantSelectorPrefix) selectors) = 1)"

lemma prefixes_disjoint:
  "HasPrefix s saPrefix \<Longrightarrow> \<not> HasPrefix s nsPrefix"
  "HasPrefix s variantSelectorPrefix \<Longrightarrow> \<not> HasPrefix s nsPrefix"
  "HasPrefix s variantSelectorPrefix \<Longrightarrow> \<not> HasPrefix s saPrefix"
  by (auto simp: HasPrefix_iff variantSelectorPrefix_def nsPrefix_def saPrefix_def podLabelPrefix_def)

text \<open>One round of the loop, as a condition on the selector and an update of the flags.\<close>

definition selector_ok :: "string \<Rightarrow> string \<Rightarrow> string \<Rightarrow> string \<Rightarrow> bool" where
  "selector_ok namespace sa variant s =
     ((HasPrefix s nsPrefix \<longrightarrow> s = ns_selector namespace) \<and>
      (HasPrefix s saPrefix \<longrightarrow> s = sa_selector sa \<and> TrimSpace sa \<noteq> []) \<and>
      (HasPrefix s variantSelectorPrefix \<longrightarrow> s = variant_selector variant))"

lemma check_selectors_ok:
  "selector_ok namespace sa variant s \<Longrightarrow>
   check_selectors X namespace sa variant (s # rest) (hn, hs, n) =
     check_selectors X namespace sa variant rest
       (hn \<or> HasPrefix s nsPrefix, hs \<or> HasPrefix s saPrefix,
        if HasPrefix s variantSelectorPrefix then Suc n else n)"
  using prefixes_disjoint [of s]
  by (auto simp: selector_ok_def ns_selector_def sa_selector_def variant_selector_def Let_def)

lemma check_selectors_bad:
  "\<not> selector_ok namespace sa variant s \<Longrightarrow>
   \<exists>e. check_selectors X namespace sa variant (s # rest) flags = Inl e"
  using prefixes_disjoint [of s]
  by (cases flags)
     (auto simp: selector_ok_def ns_selector_def sa_selector_def variant_selector_def
       Let_def TrimPrefix_eq_iff)

lemma check_selectors_result:
  "(\<forall>s \<in> set selectors. selector_ok namespace sa variant s) \<Longrightarrow>
   check_selectors X namespace sa variant selectors (hn, hs, n) =
     Inr (hn \<or> (\<exists>s \<in> set selectors. HasPrefix s nsPrefix),
          hs \<or> (\<exists>s \<in> set selectors. HasPrefix s saPrefix),
          n + length (filter (\<lambda>s. HasPrefix s variantSelectorPrefix) selectors))"
  by (induction selectors arbitrary: hn hs n)
     (auto simp: check_selectors_ok simp del: check_selectors.simps(2))

lemma check_selectors_error:
  "s \<in> set selectors \<Longrightarrow> \<not> selector_ok namespace sa variant s \<Longrightarrow>
   \<exists>e. check_selectors X namespace sa variant selectors flags = Inl e"
proof (induction selectors arbitrary: flags)
  case Nil
  then show ?case by simp
next
  case (Cons t rest)
  obtain hn hs n where flags: "flags = (hn, hs, n)" by (cases flags) auto
  show ?case
  proof (cases "selector_ok namespace sa variant t")
    case True
    with Cons show ?thesis
      by (auto simp: flags check_selectors_ok simp del: check_selectors.simps(2))
  next
    case False
    then show ?thesis by (rule check_selectors_bad)
  qed
qed

lemma ns_selector_prefix [simp]: "HasPrefix (ns_selector n) nsPrefix"
  unfolding ns_selector_def by (rule HasPrefix_append)

lemma sa_selector_prefix [simp]: "HasPrefix (sa_selector n) saPrefix"
  unfolding sa_selector_def by (rule HasPrefix_append)

lemma variant_selector_prefix [simp]: "HasPrefix (variant_selector v) variantSelectorPrefix"
  unfolding variant_selector_def by (rule HasPrefix_append)

lemma validateRenderedSafetySelectors_None:
  "validateRenderedSafetySelectors X namespace sa variant selectors = None \<longleftrightarrow>
   safe_selectors namespace sa variant selectors"
proof (cases "\<forall>s \<in> set selectors. selector_ok namespace sa variant s")
  case True
  then have "(\<exists>s \<in> set selectors. HasPrefix s nsPrefix) \<longleftrightarrow> ns_selector namespace \<in> set selectors"
    and "(\<exists>s \<in> set selectors. HasPrefix s saPrefix) \<longleftrightarrow> sa_selector sa \<in> set selectors"
    unfolding selector_ok_def by (metis ns_selector_prefix) (metis True selector_ok_def sa_selector_prefix)
  moreover have "safe_selectors namespace sa variant selectors \<longleftrightarrow>
      ns_selector namespace \<in> set selectors \<and> sa_selector sa \<in> set selectors \<and>
      length (filter (\<lambda>s. HasPrefix s variantSelectorPrefix) selectors) = 1"
    using True unfolding safe_selectors_def selector_ok_def by blast
  ultimately show ?thesis
    unfolding validateRenderedSafetySelectors_def check_selectors_result [OF True] by simp
next
  case False
  then obtain s where s: "s \<in> set selectors" "\<not> selector_ok namespace sa variant s" by blast
  then have "\<not> safe_selectors namespace sa variant selectors"
    by (auto simp: safe_selectors_def selector_ok_def)
  moreover obtain e where
    "check_selectors X namespace sa variant selectors (False, False, 0) = Inl e"
    using check_selectors_error [OF s] by blast
  ultimately show ?thesis by (simp add: validateRenderedSafetySelectors_def)
qed

section \<open>Plans\<close>

definition variant_valid :: "ext \<Rightarrow> string \<Rightarrow> bool" where
  "variant_valid X v = (v = TrimSpace v \<and> v \<noteq> [] \<and> IsValidLabelValue X v = [])"

lemma ValidateVariant_None: "ValidateVariant X v = None \<longleftrightarrow> variant_valid X v"
  by (auto simp: ValidateVariant_def variant_valid_def Let_def)

lemma ValidateVariant_Some:
  "ValidateVariant X v = Some e \<Longrightarrow>
   \<exists>m. e = IdentityStateError ConditionTypeUnsafeSelector ReasonInvalidIdentityBoundary m"
  by (auto simp: ValidateVariant_def Let_def split: if_splits)

definition anchor_valid :: "IdentityAnchor \<Rightarrow> bool" where
  "anchor_valid a =
     (a_Kind a \<noteq> [] \<and> a_Name a \<noteq> [] \<and> CHR ''/'' \<notin> set (a_Kind a) \<and> CHR ''/'' \<notin> set (a_Name a) \<and>
      TrimSpace (a_Kind a) = a_Kind a \<and> TrimSpace (a_Name a) = a_Name a)"

lemma validateIdentityAnchor_None: "validateIdentityAnchor a = None \<longleftrightarrow> anchor_valid a"
  by (auto simp: validateIdentityAnchor_def anchor_valid_def)

definition service_account_valid :: "ext \<Rightarrow> string \<Rightarrow> bool" where
  "service_account_valid X sa = (TrimSpace sa \<noteq> [] \<and> IsDNS1123Subdomain X sa = [])"

lemma renderSafetySelectors_cases:
  "renderSafetySelectors X namespace sa =
     (if service_account_valid X sa then Inr [ns_selector namespace, sa_selector sa]
      else renderSafetySelectors X namespace sa)"
  "\<not> service_account_valid X sa \<Longrightarrow> \<exists>m. renderSafetySelectors X namespace sa = Inl (PlainError m)"
  by (auto simp: renderSafetySelectors_def service_account_valid_def Let_def
      ns_selector_def sa_selector_def)

definition plan_selectors :: "PlanInput \<Rightarrow> string list" where
  "plan_selectors i = UniqueAndSorted
     ([ns_selector (in_Namespace i), sa_selector (in_ServiceAccountName i)]
      @ t_DerivedSelectors (in_Target i) @ [variant_selector (in_Variant i)])"

definition plan_spiffe_id :: "PlanInput \<Rightarrow> string" where
  "plan_spiffe_id i = renderInferenceTargetSPIFFEID (in_TrustDomain i)
     \<lparr>d_Namespace = in_Namespace i, d_ServiceAccountName = in_ServiceAccountName i,
      d_IdentityAnchor = t_IdentityAnchor (in_Target i), d_Variant = in_Variant i\<rparr>"

text \<open>The inputs for which a plan is rendered.\<close>

definition plan_input_valid :: "ext \<Rightarrow> PlanInput \<Rightarrow> bool" where
  "plan_input_valid X i =
     (TrimSpace (in_TrustDomain i) \<noteq> [] \<and> variant_valid X (in_Variant i) \<and>
      service_account_valid X (in_ServiceAccountName i) \<and>
      anchor_valid (t_IdentityAnchor (in_Target i)) \<and>
      safe_selectors (in_Namespace i) (in_ServiceAccountName i) (in_Variant i) (plan_selectors i))"

lemma plan_spiffe_id_prefix: "HasPrefix (plan_spiffe_id i) ''spiffe://''"
  unfolding plan_spiffe_id_def renderInferenceTargetSPIFFEID_def by (rule HasPrefix_append)

lemma PlanIdentity_unfold:
  "PlanIdentity X i =
     (if TrimSpace (in_TrustDomain i) = [] then
        Inl (IdentityStateError ConditionTypeRenderFailure ReasonMissingTrustDomain
          ''trustDomain must be configured before Kleym can render SPIFFE IDs'')
      else case ValidateVariant X (in_Variant i) of
        Some err \<Rightarrow> Inl err
      | None \<Rightarrow>
        (case renderSafetySelectors X (in_Namespace i) (in_ServiceAccountName i) of
          Inl err \<Rightarrow> Inl (IdentityStateError ConditionTypeRenderFailure
            ReasonInvalidServiceAccountName (error_text err))
        | Inr _ \<Rightarrow>
          (case validateIdentityAnchor (t_IdentityAnchor (in_Target i)) of
            Some err \<Rightarrow> Inl (IdentityStateError ConditionTypeRenderFailure ReasonInvalidSPIFFEID
              (error_text err))
          | None \<Rightarrow>
            (case validateRenderedSafetySelectors X (in_Namespace i) (in_ServiceAccountName i)
                (in_Variant i) (plan_selectors i) of
              Some err \<Rightarrow> Inl (IdentityStateError ConditionTypeUnsafeSelector ReasonUnsafeSelector
                (error_text err))
            | None \<Rightarrow> Inr
                \<lparr>p_SpiffeID = plan_spiffe_id i, p_Selectors = plan_selectors i,
                 p_PodSelector = t_PodSelector (in_Target i),
                 p_IdentityAnchor = t_IdentityAnchor (in_Target i),
                 p_Variant = in_Variant i\<rparr>))))"
  using plan_spiffe_id_prefix [of i]
  by (auto simp: PlanIdentity_def Let_def plan_spiffe_id_def plan_selectors_def
      renderSafetySelectors_def ns_selector_def sa_selector_def variant_selector_def
      variantSelectorPrefix_def split: option.split)

lemma PlanIdentity_Inr:
  "PlanIdentity X i = Inr p \<longleftrightarrow>
   plan_input_valid X i \<and>
   p = \<lparr>p_SpiffeID = plan_spiffe_id i, p_Selectors = plan_selectors i,
        p_PodSelector = t_PodSelector (in_Target i),
        p_IdentityAnchor = t_IdentityAnchor (in_Target i), p_Variant = in_Variant i\<rparr>"
proof -
  have "(\<exists>r. renderSafetySelectors X (in_Namespace i) (in_ServiceAccountName i) = Inr r)
        \<longleftrightarrow> service_account_valid X (in_ServiceAccountName i)"
    using renderSafetySelectors_cases by (metis Inr_not_Inl)
  then show ?thesis
    unfolding PlanIdentity_unfold plan_input_valid_def ValidateVariant_None [symmetric]
      validateIdentityAnchor_None [symmetric] validateRenderedSafetySelectors_None [symmetric, of _ _ _ _ X]
    by (auto split: option.split sum.split)
qed

lemma set_plan_selectors:
  "set (plan_selectors i) =
     TrimSpace ` ({ns_selector (in_Namespace i), sa_selector (in_ServiceAccountName i),
       variant_selector (in_Variant i)} \<union> set (t_DerivedSelectors (in_Target i))) - {[]}"
  by (auto simp: plan_selectors_def set_UniqueAndSorted canonical_values_def)

lemma plan_selectors_cong:
  assumes "set ds = set ds'"
  shows "plan_selectors (i\<lparr>in_Target := (in_Target i)\<lparr>t_DerivedSelectors := ds\<rparr>\<rparr>)
       = plan_selectors (i\<lparr>in_Target := (in_Target i)\<lparr>t_DerivedSelectors := ds'\<rparr>\<rparr>)"
  unfolding plan_selectors_def
  by (rule UniqueAndSorted_cong) (use assms in \<open>simp add: canonical_values_def\<close>)

lemma plan_spiffe_id_derived [simp]:
  "plan_spiffe_id (i\<lparr>in_Target := (in_Target i)\<lparr>t_DerivedSelectors := ds\<rparr>\<rparr>) = plan_spiffe_id i"
  by (simp add: plan_spiffe_id_def)

text \<open>A trimmed string keeps a prefix that begins and ends with a visible byte.\<close>

lemma TrimSpaceRight_prefix:
  assumes "p \<noteq> []" "plain_byte (last p)"
  shows "HasPrefix (TrimSpaceRight (p @ s)) p"
proof -
  have "suffix (rev p) (strip_words (map rev space_runes) (t @ rev p))" for t
  proof (induction "map rev space_runes" "t @ rev p" arbitrary: t rule: strip_words.induct)
    case 1
    show ?case
    proof (cases "strip_word (map rev space_runes) (t @ rev p)")
      case None
      then show ?thesis by (simp add: strip_words_id suffix_def)
    next
      case (Some u)
      then obtain w where w: "w \<in> set space_runes" "HasPrefix (t @ rev p) (rev w)"
          and u: "u = drop (length w) (t @ rev p)"
        by (auto simp: strip_word_def find_Some_iff split: option.splits) (metis drop_append nth_mem)
      have "length w \<le> length t"
      proof (rule ccontr)
        assume a: "\<not> length w \<le> length t"
        have "(t @ rev p) ! length t = last p"
          using assms(1) by (simp add: nth_append last_rev hd_conv_nth [symmetric] hd_rev)
        moreover have "(t @ rev p) ! length t = rev w ! length t"
          using w(2) a by (metis HasPrefix_def length_rev not_le nth_take)
        ultimately have "last p \<in> set w" using a by (metis length_rev not_le nth_mem set_rev)
        moreover have "list_all (\<lambda>w. list_all (\<lambda>c. \<not> plain_byte c) w) space_runes"
          by (simp add: space_runes_def plain_byte_def upt_conv_Cons)
        ultimately show False using w(1) assms(2) by (auto simp: list_all_iff)
      qed
      with u have u': "u = drop (length w) t @ rev p" by simp
      from Some have "strip_words (map rev space_runes) (t @ rev p)
          = strip_words (map rev space_runes) u"
        by (subst strip_words.simps) simp
      with 1 [of "drop (length w) t"] Some u' show ?thesis by simp
    qed
  qed
  from this [of "rev s"] show ?thesis
    by (simp add: TrimSpaceRight_def HasPrefix_prefix suffix_to_prefix)
qed

lemma TrimSpace_keeps_prefix:
  assumes "HasPrefix s p" "p \<noteq> []" "plain_byte (hd p)" "plain_byte (last p)"
  shows "HasPrefix (TrimSpace s) p"
proof -
  obtain t where s: "s = p @ t" using assms(1) by (auto simp: HasPrefix_iff)
  have "strip_word space_runes s = None"
    using space_rune_not_plain assms(2,3) unfolding strip_word_None_iff s
    by (metis hd_append2 prefix_def)
  then have "TrimSpaceLeft s = s" by (simp add: TrimSpaceLeft_def strip_words_id)
  then show ?thesis using TrimSpaceRight_prefix [OF assms(2,4)] by (simp add: TrimSpace_def s)
qed

lemma selector_prefix_plain:
  "nsPrefix \<noteq> []" "plain_byte (hd nsPrefix)" "plain_byte (last nsPrefix)"
  "saPrefix \<noteq> []" "plain_byte (hd saPrefix)" "plain_byte (last saPrefix)"
  "podLabelPrefix \<noteq> []" "plain_byte (hd podLabelPrefix)" "plain_byte (last podLabelPrefix)"
  by (simp_all add: nsPrefix_def saPrefix_def podLabelPrefix_def plain_byte_def)

text \<open>
  The interface between identity planning and the resolver of an inference source: a
  resolved target carries pod-label selectors only. Planning relies on nothing else of
  the resolver, and then every selector of a plan is the namespace selector, the
  service-account selector or a pod-label selector.
\<close>

locale inference_target_source =
  fixes resolve :: "'source \<Rightarrow> ResolvedInferenceTarget result"
  assumes resolve_pod_labels:
    "resolve source = Inr target \<Longrightarrow> d \<in> set (t_DerivedSelectors target) \<Longrightarrow>
     HasPrefix d podLabelPrefix"
begin

lemma planned_selector_kinds:
  assumes "resolve source = Inr (in_Target i)" "PlanIdentity X i = Inr p" "s \<in> set (p_Selectors p)"
  shows "s = ns_selector (in_Namespace i) \<or> s = sa_selector (in_ServiceAccountName i)
         \<or> HasPrefix s podLabelPrefix"
proof -
  from assms(2) have safe: "safe_selectors (in_Namespace i) (in_ServiceAccountName i)
      (in_Variant i) (plan_selectors i)" and sel: "p_Selectors p = plan_selectors i"
    by (auto simp: PlanIdentity_Inr plan_input_valid_def)
  from assms(3) sel have "s \<in> set (plan_selectors i)" by simp
  then consider "s = TrimSpace (ns_selector (in_Namespace i))"
    | "s = TrimSpace (sa_selector (in_ServiceAccountName i))"
    | "s = TrimSpace (variant_selector (in_Variant i))"
    | d where "d \<in> set (t_DerivedSelectors (in_Target i))" "s = TrimSpace d"
    unfolding set_plan_selectors by auto
  then show ?thesis
  proof cases
    case 1
    then have "HasPrefix s nsPrefix"
      using TrimSpace_keeps_prefix [OF ns_selector_prefix] selector_prefix_plain by metis
    with safe \<open>s \<in> set (plan_selectors i)\<close> show ?thesis by (auto simp: safe_selectors_def)
  next
    case 2
    then have "HasPrefix s saPrefix"
      using TrimSpace_keeps_prefix [OF sa_selector_prefix] selector_prefix_plain by metis
    with safe \<open>s \<in> set (plan_selectors i)\<close> show ?thesis by (auto simp: safe_selectors_def)
  next
    case 3
    have "HasPrefix (variant_selector (in_Variant i)) podLabelPrefix"
      by (simp add: variant_selector_def variantSelectorPrefix_def)
    with 3 show ?thesis using TrimSpace_keeps_prefix selector_prefix_plain by metis
  next
    case (4 d)
    then show ?thesis
      using resolve_pod_labels [OF assms(1)] TrimSpace_keeps_prefix selector_prefix_plain by metis
  qed
qed

end

section \<open>Properties\<close>

text \<open>
  C16: A rendered plan never escapes its binding. Its selectors are sorted and distinct; it
  has the namespace selector of the binding and no other namespace selector, the
  service-account selector of the binding and no other, and exactly one selector for the
  boundary label, which names the binding's variant; and every selector the pool derives
  is kept.
\<close>
theorem PlanIdentity_selectors_safe:
  assumes "PlanIdentity X i = Inr p"
  shows "sorted (p_Selectors p) \<and> distinct (p_Selectors p)
    \<and> {s \<in> set (p_Selectors p). HasPrefix s nsPrefix} = {nsPrefix @ in_Namespace i}
    \<and> {s \<in> set (p_Selectors p). HasPrefix s saPrefix} = {saPrefix @ in_ServiceAccountName i}
    \<and> filter (\<lambda>s. HasPrefix s variantSelectorPrefix) (p_Selectors p)
        = [variantSelectorPrefix @ in_Variant i]
    \<and> TrimSpace ` set (t_DerivedSelectors (in_Target i)) - {[]} \<subseteq> set (p_Selectors p)"
proof -
  from assms have sel: "p_Selectors p = plan_selectors i"
    and safe: "safe_selectors (in_Namespace i) (in_ServiceAccountName i) (in_Variant i) (plan_selectors i)"
    by (auto simp: PlanIdentity_Inr plan_input_valid_def)
  obtain s where one: "filter (\<lambda>s. HasPrefix s variantSelectorPrefix) (plan_selectors i) = [s]"
    using safe by (auto simp: safe_selectors_def length_Suc_conv)
  then have "s \<in> set (filter (\<lambda>s. HasPrefix s variantSelectorPrefix) (plan_selectors i))" by simp
  then have "s = variant_selector (in_Variant i)"
    using safe unfolding safe_selectors_def by auto
  moreover have "sorted (plan_selectors i)" "distinct (plan_selectors i)"
    by (simp_all add: plan_selectors_def sorted_UniqueAndSorted distinct_UniqueAndSorted)
  moreover have "{s \<in> set (plan_selectors i). HasPrefix s nsPrefix} = {ns_selector (in_Namespace i)}"
    using safe ns_selector_prefix unfolding safe_selectors_def by blast
  moreover have
    "{s \<in> set (plan_selectors i). HasPrefix s saPrefix} = {sa_selector (in_ServiceAccountName i)}"
    using safe sa_selector_prefix unfolding safe_selectors_def by blast
  moreover have "TrimSpace ` set (t_DerivedSelectors (in_Target i)) - {[]} \<subseteq> set (plan_selectors i)"
    by (auto simp: set_plan_selectors)
  ultimately show ?thesis
    using one sel by (simp add: ns_selector_def sa_selector_def variant_selector_def)
qed

text \<open>
  C32: The order in which the pool's label map is visited does not matter: two lists of
  derived selectors with the same members give the same result, error or plan.
\<close>
theorem PlanIdentity_order_independent:
  assumes "set ds = set ds'"
  shows "PlanIdentity X (i\<lparr>in_Target := (in_Target i)\<lparr>t_DerivedSelectors := ds\<rparr>\<rparr>)
       = PlanIdentity X (i\<lparr>in_Target := (in_Target i)\<lparr>t_DerivedSelectors := ds'\<rparr>\<rparr>)"
  unfolding PlanIdentity_unfold plan_selectors_cong [OF assms, of i] plan_spiffe_id_derived
  by (simp split: option.split sum.split)

lemma spiffe_segments_inj:
  assumes "CHR ''/'' \<notin> set td" "CHR ''/'' \<notin> set td'" "CHR ''/'' \<notin> set ns" "CHR ''/'' \<notin> set ns'"
    "CHR ''/'' \<notin> set sa" "CHR ''/'' \<notin> set sa'" "CHR ''/'' \<notin> set k" "CHR ''/'' \<notin> set k'"
    "CHR ''/'' \<notin> set n" "CHR ''/'' \<notin> set n'"
  shows "''spiffe://'' @ td @ ''/ns/'' @ ns @ ''/sa/'' @ sa @ ''/inference/'' @ k @ ''/'' @ n @ ''/variant/'' @ v
       = ''spiffe://'' @ td' @ ''/ns/'' @ ns' @ ''/sa/'' @ sa' @ ''/inference/'' @ k' @ ''/'' @ n' @ ''/variant/'' @ v'
     \<longleftrightarrow> td = td' \<and> ns = ns' \<and> sa = sa' \<and> k = k' \<and> n = n' \<and> v = v'"
  using assms by (simp add: append_sep_eq)

text \<open>
  C17: SPIFFE IDs are injective. When two plans are rendered under trust domains and in
  namespaces without a slash, their SPIFFE IDs agree only if trust domain, namespace,
  service account, anchor and variant all agree.
\<close>
theorem PlanIdentity_spiffe_id_injective:
  assumes "dns1123_contract X" "PlanIdentity X i = Inr p" "PlanIdentity X j = Inr q"
    and "CHR ''/'' \<notin> set (in_TrustDomain i)" "CHR ''/'' \<notin> set (in_TrustDomain j)"
    and "CHR ''/'' \<notin> set (in_Namespace i)" "CHR ''/'' \<notin> set (in_Namespace j)"
  shows "p_SpiffeID p = p_SpiffeID q \<longleftrightarrow>
    in_TrustDomain i = in_TrustDomain j \<and> in_Namespace i = in_Namespace j
    \<and> in_ServiceAccountName i = in_ServiceAccountName j
    \<and> p_IdentityAnchor p = p_IdentityAnchor q \<and> p_Variant p = p_Variant q"
proof -
  have no_slash: "CHR ''/'' \<notin> set (in_ServiceAccountName l)
      \<and> CHR ''/'' \<notin> set (a_Kind (t_IdentityAnchor (in_Target l)))
      \<and> CHR ''/'' \<notin> set (a_Name (t_IdentityAnchor (in_Target l)))"
    if "PlanIdentity X l = Inr r" for l r
  proof -
    from that have "service_account_valid X (in_ServiceAccountName l)"
      "anchor_valid (t_IdentityAnchor (in_Target l))"
      by (auto simp: PlanIdentity_Inr plan_input_valid_def)
    moreover from this assms(1) have "dns1123_subdomain_shape (in_ServiceAccountName l)"
      by (auto simp: dns1123_contract_def service_account_valid_def)
    ultimately show ?thesis by (auto simp: anchor_valid_def dns1123_no_byte)
  qed
  from assms(2,3) have "p_SpiffeID p = plan_spiffe_id i" "p_SpiffeID q = plan_spiffe_id j"
    "p_IdentityAnchor p = t_IdentityAnchor (in_Target i)" "p_Variant p = in_Variant i"
    "p_IdentityAnchor q = t_IdentityAnchor (in_Target j)" "p_Variant q = in_Variant j"
    by (auto simp: PlanIdentity_Inr)
  moreover have "a = b \<longleftrightarrow> a_Kind a = a_Kind b \<and> a_Name a = a_Name b" for a b :: IdentityAnchor
    by (cases a; cases b) simp
  moreover have "plan_spiffe_id i = plan_spiffe_id j \<longleftrightarrow>
      in_TrustDomain i = in_TrustDomain j \<and> in_Namespace i = in_Namespace j
      \<and> in_ServiceAccountName i = in_ServiceAccountName j
      \<and> a_Kind (t_IdentityAnchor (in_Target i)) = a_Kind (t_IdentityAnchor (in_Target j))
      \<and> a_Name (t_IdentityAnchor (in_Target i)) = a_Name (t_IdentityAnchor (in_Target j))
      \<and> in_Variant i = in_Variant j"
    unfolding plan_spiffe_id_def renderInferenceTargetSPIFFEID_def renderTemplateData.simps
    using no_slash [OF assms(2)] no_slash [OF assms(3)] assms(4-7)
    by (intro spiffe_segments_inj) blast+
  ultimately show ?thesis by metis
qed

text \<open>
  C25: Failure taxonomy of planning. Every error of PlanIdentity is an identity state error
  whose condition type and reason are those of the first check that fails.
\<close>
theorem PlanIdentity_first_failure:
  assumes "PlanIdentity X i = Inl e"
  shows "\<exists>message. e = (if TrimSpace (in_TrustDomain i) = []
      then IdentityStateError ConditionTypeRenderFailure ReasonMissingTrustDomain message
    else if \<not> variant_valid X (in_Variant i)
      then IdentityStateError ConditionTypeUnsafeSelector ReasonInvalidIdentityBoundary message
    else if \<not> service_account_valid X (in_ServiceAccountName i)
      then IdentityStateError ConditionTypeRenderFailure ReasonInvalidServiceAccountName message
    else if \<not> anchor_valid (t_IdentityAnchor (in_Target i))
      then IdentityStateError ConditionTypeRenderFailure ReasonInvalidSPIFFEID message
    else IdentityStateError ConditionTypeUnsafeSelector ReasonUnsafeSelector message)"
proof -
  have sa: "service_account_valid X (in_ServiceAccountName i) \<Longrightarrow>
      renderSafetySelectors X (in_Namespace i) (in_ServiceAccountName i)
      = Inr [ns_selector (in_Namespace i), sa_selector (in_ServiceAccountName i)]"
    using renderSafetySelectors_cases(1) [of X "in_Namespace i" "in_ServiceAccountName i"] by simp
  show ?thesis
    using assms sa ValidateVariant_Some [of X "in_Variant i"]
      renderSafetySelectors_cases(2) [of X "in_ServiceAccountName i" "in_Namespace i"]
    unfolding PlanIdentity_unfold ValidateVariant_None [symmetric] validateIdentityAnchor_None [symmetric]
    by (auto split: option.splits sum.splits if_splits)
qed


section \<open>A concrete plan\<close>

text \<open>A pool with one label in a namespace, planned for a variant.\<close>

definition sample_target :: ResolvedInferenceTarget where
  "sample_target =
     \<lparr>t_IdentityAnchor = \<lparr>a_Kind = ''pool'', a_Name = ''p''\<rparr>,
      t_PodSelector = [(''matchLabels'', JObject [(''app'', JString ''m'')])],
      t_DerivedSelectors = [''k8s:pod-label:app:m'']\<rparr>"

definition sample_input :: "string \<Rightarrow> PlanInput" where
  "sample_input variant =
     \<lparr>in_Namespace = ''ns'', in_ServiceAccountName = ''sa'', in_TrustDomain = ''td'',
      in_Variant = variant, in_Target = sample_target\<rparr>"

definition sample_plan :: "string \<Rightarrow> Plan" where
  "sample_plan variant =
     \<lparr>p_SpiffeID = ''spiffe://td/ns/ns/sa/sa/inference/pool/p/variant/'' @ variant,
      p_Selectors = [''k8s:ns:ns'', ''k8s:pod-label:app:m'',
        ''k8s:pod-label:identity.kleym.sonda.red/variant:'' @ variant, ''k8s:sa:sa''],
      p_PodSelector = [(''matchLabels'', JObject [(''app'', JString ''m'')])],
      p_IdentityAnchor = \<lparr>a_Kind = ''pool'', a_Name = ''p''\<rparr>, p_Variant = variant\<rparr>"

lemmas plan_eval = TrimSpace_plain plain_byte_def nsPrefix_def saPrefix_def podLabelPrefix_def
  VariantLabelKey_def variantSelectorPrefix_def HasPrefix_def TrimPrefix_def UniqueAndSorted_def
  SortStrings_def Compare_def ref_ext_def ref_label_value_def ref_dns1123_def
  label_value_shape_def dns1123_subdomain_shape_def alphanumeric_def lower_alphanumeric_def

lemmas plan_code = PlanIdentity_def ValidateVariant_def renderSafetySelectors_def
  validateIdentityAnchor_def validateRenderedSafetySelectors_def renderInferenceTargetSPIFFEID_def

lemma sample_planned:
  "PlanIdentity ref_ext (sample_input ''a'') = Inr (sample_plan ''a'')"
  "PlanIdentity ref_ext (sample_input ''b'') = Inr (sample_plan ''b'')"
  "PlanIdentity ref_ext (sample_input []) =
     Inl (IdentityStateError ConditionTypeUnsafeSelector ReasonInvalidIdentityBoundary
       ''identityBoundary.variant must not be empty'')"
  by (simp_all add: plan_code plan_eval sample_input_def sample_target_def sample_plan_def Let_def)

theorem PlanIdentity_selectors_safe_witness:
  "filter (\<lambda>s. HasPrefix s variantSelectorPrefix) (p_Selectors (sample_plan ''a''))
     = [variantSelectorPrefix @ in_Variant (sample_input ''a'')]"
  using PlanIdentity_selectors_safe [OF sample_planned(1)] by blast

theorem PlanIdentity_order_independent_witness:
  "PlanIdentity ref_ext ((sample_input ''a'')\<lparr>in_Target :=
      (in_Target (sample_input ''a''))\<lparr>t_DerivedSelectors := [''x'', ''y'']\<rparr>\<rparr>)
   = PlanIdentity ref_ext ((sample_input ''a'')\<lparr>in_Target :=
      (in_Target (sample_input ''a''))\<lparr>t_DerivedSelectors := [''y'', ''x'', ''y'']\<rparr>\<rparr>)"
  by (rule PlanIdentity_order_independent) auto

theorem PlanIdentity_spiffe_id_injective_witness:
  "p_SpiffeID (sample_plan ''a'') \<noteq> p_SpiffeID (sample_plan ''b'')"
  using PlanIdentity_spiffe_id_injective [OF ref_ext_dns1123 sample_planned(1) sample_planned(2)]
  by (simp add: sample_input_def sample_plan_def)

theorem PlanIdentity_first_failure_witness:
  "\<exists>message. IdentityStateError ConditionTypeUnsafeSelector ReasonInvalidIdentityBoundary
       ''identityBoundary.variant must not be empty''
     = IdentityStateError ConditionTypeUnsafeSelector ReasonInvalidIdentityBoundary message"
  using PlanIdentity_first_failure [OF sample_planned(3)]
  by (simp add: sample_input_def variant_valid_def split: if_splits)

section \<open>Success of planning and completeness of conflict detection\<close>

lemma variant_valid_trimmed_selector:
  assumes "label_value_contract X" "variant_valid X v"
  shows "TrimSpace (variant_selector v) = variant_selector v"
proof -
  from assms have "v \<noteq> []" "alphanumeric (last v)"
    by (auto simp: label_value_contract_def variant_valid_def label_value_shape_def)
  then show ?thesis
    by (intro TrimSpace_plain)
       (simp_all add: variant_selector_def variantSelectorPrefix_def alphanumeric_plain
         selector_prefix_plain hd_append)
qed

lemma dns_selectors_trimmed:
  assumes "dns1123_subdomain_shape s"
  shows "TrimSpace (ns_selector s) = ns_selector s" "TrimSpace (sa_selector s) = sa_selector s"
  using assms
  by (auto intro!: TrimSpace_plain
      simp: ns_selector_def sa_selector_def dns1123_subdomain_shape_def selector_prefix_plain
        hd_append alphanumeric_plain lower_alphanumeric_imp)

lemma pod_label_prefix_exclusive:
  "HasPrefix s podLabelPrefix \<Longrightarrow> \<not> HasPrefix s nsPrefix \<and> \<not> HasPrefix s saPrefix"
  by (auto simp: HasPrefix_iff nsPrefix_def saPrefix_def podLabelPrefix_def)

lemma plan_selectors_safe:
  assumes "label_value_contract X" "variant_valid X (in_Variant i)"
    and ns: "dns1123_subdomain_shape (in_Namespace i)"
    and sa: "dns1123_subdomain_shape (in_ServiceAccountName i)"
    and ds: "\<And>d. d \<in> set (t_DerivedSelectors (in_Target i)) \<Longrightarrow> HasPrefix d podLabelPrefix
      \<and> (HasPrefix (TrimSpace d) variantSelectorPrefix
          \<longrightarrow> TrimSpace d = variant_selector (in_Variant i))"
  shows "safe_selectors (in_Namespace i) (in_ServiceAccountName i) (in_Variant i) (plan_selectors i)"
proof -
  let ?v = "variant_selector (in_Variant i)"
  let ?D = "TrimSpace ` set (t_DerivedSelectors (in_Target i))"
  have v: "TrimSpace ?v = ?v" using variant_valid_trimmed_selector assms(1,2) .
  have vp: "HasPrefix ?v podLabelPrefix"
    by (simp add: variant_selector_def variantSelectorPrefix_def)
  have D: "HasPrefix s podLabelPrefix \<and> (HasPrefix s variantSelectorPrefix \<longrightarrow> s = ?v)" if "s \<in> ?D" for s
    using that ds TrimSpace_keeps_prefix selector_prefix_plain by blast
  have sel: "set (plan_selectors i) = {ns_selector (in_Namespace i), sa_selector (in_ServiceAccountName i), ?v} \<union> ?D"
    (is "_ = ?S")
  proof -
    have "[] \<notin> ?S"
      using D selector_prefix_plain
      by (auto simp: ns_selector_def sa_selector_def variant_selector_def variantSelectorPrefix_def
          HasPrefix_iff)
    then show ?thesis
      unfolding set_plan_selectors image_Un image_insert image_empty v
        dns_selectors_trimmed(1) [OF ns] dns_selectors_trimmed(2) [OF sa] by blast
  qed
  have pre: "HasPrefix s nsPrefix \<longrightarrow> s = ns_selector (in_Namespace i)"
    "HasPrefix s saPrefix \<longrightarrow> s = sa_selector (in_ServiceAccountName i)"
    "HasPrefix s variantSelectorPrefix \<longrightarrow> s = ?v" if "s \<in> set (plan_selectors i)" for s
    using that D pod_label_prefix_exclusive vp prefixes_disjoint ns_selector_prefix sa_selector_prefix
    unfolding sel by blast+
  have "set (filter (\<lambda>s. HasPrefix s variantSelectorPrefix) (plan_selectors i)) = {?v}"
    using pre(3) sel variant_selector_prefix by auto
  moreover have "distinct (filter (\<lambda>s. HasPrefix s variantSelectorPrefix) (plan_selectors i))"
    by (simp add: plan_selectors_def distinct_UniqueAndSorted)
  ultimately have "length (filter (\<lambda>s. HasPrefix s variantSelectorPrefix) (plan_selectors i)) = 1"
    using distinct_card by fastforce
  moreover have "TrimSpace (in_ServiceAccountName i) \<noteq> []"
    using sa TrimSpace_plain [of "in_ServiceAccountName i"]
    by (auto simp: dns1123_subdomain_shape_def alphanumeric_plain lower_alphanumeric_imp)
  ultimately show ?thesis
    using pre sel unfolding safe_selectors_def by blast
qed

text \<open>
  C24: Planning succeeds on every well-formed input. With a trust domain, a variant that is
  a valid non-empty label value, DNS-1123 names for namespace and service account, a valid
  anchor, and derived selectors that are pod-label selectors and do not give the boundary
  label another value, PlanIdentity returns a plan.
\<close>
theorem PlanIdentity_succeeds:
  assumes "label_value_contract X" "dns1123_contract X"
    and "TrimSpace (in_TrustDomain i) \<noteq> []"
    and "in_Variant i = TrimSpace (in_Variant i)" "in_Variant i \<noteq> []"
    and "IsValidLabelValue X (in_Variant i) = []"
    and "dns1123_subdomain_shape (in_Namespace i)"
    and "IsDNS1123Subdomain X (in_ServiceAccountName i) = []"
    and "validateIdentityAnchor (t_IdentityAnchor (in_Target i)) = None"
    and "\<And>d. d \<in> set (t_DerivedSelectors (in_Target i)) \<Longrightarrow> HasPrefix d podLabelPrefix
      \<and> (HasPrefix (TrimSpace d) variantSelectorPrefix
          \<longrightarrow> TrimSpace d = variantSelectorPrefix @ in_Variant i)"
  shows "\<exists>p. PlanIdentity X i = Inr p"
proof -
  have v: "variant_valid X (in_Variant i)" using assms(4-6) by (simp add: variant_valid_def)
  have sa: "dns1123_subdomain_shape (in_ServiceAccountName i)"
    using assms(2,8) by (simp add: dns1123_contract_def)
  then have "TrimSpace (in_ServiceAccountName i) \<noteq> []"
    using TrimSpace_plain [of "in_ServiceAccountName i"]
    by (auto simp: dns1123_subdomain_shape_def alphanumeric_plain lower_alphanumeric_imp)
  with assms(8) have "service_account_valid X (in_ServiceAccountName i)"
    by (simp add: service_account_valid_def)
  moreover have "anchor_valid (t_IdentityAnchor (in_Target i))"
    using assms(9) by (simp add: validateIdentityAnchor_None)
  moreover have "safe_selectors (in_Namespace i) (in_ServiceAccountName i) (in_Variant i) (plan_selectors i)"
    using plan_selectors_safe [OF assms(1) v assms(7) sa] assms(10) by (simp add: variant_selector_def)
  ultimately have "plan_input_valid X i" using v assms(3) by (simp add: plan_input_valid_def)
  then show ?thesis by (simp add: PlanIdentity_Inr)
qed

theorem PlanIdentity_succeeds_witness: "\<exists>p. PlanIdentity ref_ext (sample_input ''a'') = Inr p"
  by (rule PlanIdentity_succeeds)
     (simp_all add: sample_input_def sample_target_def validateIdentityAnchor_def plan_eval
       label_value_contract_def dns1123_contract_def)

lemma directed_conflict_iff:
  "(snd (evaluateVariantPair left right) \<and> c = directed_conflict left right) \<longleftrightarrow>
   (vr_SpiffeID left = vr_SpiffeID right
     \<or> (nn_Namespace (vr_BindingRef left) = nn_Namespace (vr_BindingRef right)
        \<and> vr_ServiceAccountName left = vr_ServiceAccountName right
        \<and> vr_Variant left = vr_Variant right)) \<and>
   c = \<lparr>k_BindingRef = vr_BindingRef left, k_PeerBindingRef = vr_BindingRef right,
        k_Cause = (if vr_SpiffeID left = vr_SpiffeID right then CauseDuplicateSPIFFEID
                   else CauseVariantReuse),
        k_PeerSpiffeID = vr_SpiffeID right, k_PeerVariant = vr_Variant right\<rparr>"
  by (auto simp: evaluateVariantPair_def directed_conflict_def variantConflict_def)

text \<open>
  C18: The exclusivity evaluation is sound, complete and symmetric. Its result lists, for
  every two different records that share a SPIFFE ID, or namespace, service account and
  variant, both the conflict of the first with the second and the reverse, and nothing
  else; the cause is the shared SPIFFE ID whenever there is one.
\<close>
theorem EvaluateVariantConflicts_complete:
  "c \<in> set (EvaluateVariantConflicts records) \<longleftrightarrow>
   (\<exists>i j. i < length records \<and> j < length records \<and> i \<noteq> j \<and>
     (let left = records ! i; right = records ! j in
       (vr_SpiffeID left = vr_SpiffeID right
         \<or> (nn_Namespace (vr_BindingRef left) = nn_Namespace (vr_BindingRef right)
            \<and> vr_ServiceAccountName left = vr_ServiceAccountName right
            \<and> vr_Variant left = vr_Variant right)) \<and>
       c = \<lparr>k_BindingRef = vr_BindingRef left, k_PeerBindingRef = vr_BindingRef right,
            k_Cause = (if vr_SpiffeID left = vr_SpiffeID right then CauseDuplicateSPIFFEID
                       else CauseVariantReuse),
            k_PeerSpiffeID = vr_SpiffeID right, k_PeerVariant = vr_Variant right\<rparr>))"
  unfolding EvaluateVariantConflicts_def set_SortFunc set_collect_conflicts Let_def
    directed_conflict_iff ..

text \<open>
  C23: The result does not depend on the order in which the API server lists the bindings:
  permuted records give the very same sorted list of conflicts.
\<close>
theorem EvaluateVariantConflicts_order_independent:
  assumes "mset records = mset records'"
  shows "EvaluateVariantConflicts records = EvaluateVariantConflicts records'
    \<and> sorted_wrt (\<lambda>a b. compareVariantConflicts a b \<le> 0) (EvaluateVariantConflicts records)"
proof
  show "EvaluateVariantConflicts records = EvaluateVariantConflicts records'"
    by (rule EvaluateVariantConflicts_perm [OF assms])
  show "sorted_wrt (\<lambda>a b. compareVariantConflicts a b \<le> 0) (EvaluateVariantConflicts records)"
    unfolding EvaluateVariantConflicts_def by (rule conflict_order.SortFunc_sorted)
qed

definition sample_record :: "string \<Rightarrow> string \<Rightarrow> VariantRecord" where
  "sample_record name variant =
     \<lparr>vr_BindingRef = NamespacedName ''ns'' name, vr_ServiceAccountName = ''sa'',
      vr_Variant = variant, vr_SpiffeID = ''spiffe://td/'' @ name\<rparr>"

theorem EvaluateVariantConflicts_order_independent_witness:
  "EvaluateVariantConflicts [sample_record ''x'' ''a'', sample_record ''y'' ''a'', sample_record ''z'' ''b'']
   = EvaluateVariantConflicts [sample_record ''z'' ''b'', sample_record ''y'' ''a'', sample_record ''x'' ''a'']"
  by (rule EvaluateVariantConflicts_order_independent [THEN conjunct1]) simp

end
