(* ===== verification/Cluster.thy ===== *)
theory Cluster
  imports Api_Types
begin

text \<open>
  The Kubernetes API server as the program sees it. The server and the clock behind
  generated identifiers are not part of the repository: they are a record of functions
  from the history of calls to a reply, with no assumption on what they answer. The state
  of a run is the history itself, newest event first, so every call the code makes, with
  its arguments and its reply, can be spoken about. The second half holds the rules by
  which the properties of such runs are proved.
\<close>

section \<open>Calls and histories\<close>

datatype list_option = InNamespace string | MatchingFields string string

datatype event =
    GetBindingEv NamespacedName "binding result"
  | ListBindingsEv "list_option list" "(binding list) result"
  | UpdateBindingEv binding "binding result"
  | PatchStatusEv binding binding "binding result"
  | GetObjectEv GroupVersionKind NamespacedName "Unstructured result"
  | CreateEv Unstructured "Unstructured result"
  | UpdateEv Unstructured "Unstructured result"
  | DeleteEv Unstructured string "unit result"
  | ListPodsEv string "string gomap" "(Pod list) result"
  | ListDeploymentsEv "string gomap" "(Deployment list) result"
  | NewUUIDEv string
  | OutcomeEv string string
  | RecordedEv NamespacedName string string string

type_synonym trace = "event list"

text \<open>
  A patch of the status subresource is given by the object it starts from (whose resource
  version it must match) and the object it aims at. A deletion carries the UID the server
  must find. The last field is the number of further attempts a retry loop is granted.
\<close>

record api =
  get_binding :: "trace \<Rightarrow> NamespacedName \<Rightarrow> binding result"
  list_bindings :: "trace \<Rightarrow> list_option list \<Rightarrow> (binding list) result"
  update_binding :: "trace \<Rightarrow> binding \<Rightarrow> binding result"
  patch_status :: "trace \<Rightarrow> binding \<Rightarrow> binding \<Rightarrow> binding result"
  get_object :: "trace \<Rightarrow> GroupVersionKind \<Rightarrow> NamespacedName \<Rightarrow> Unstructured result"
  create_object :: "trace \<Rightarrow> Unstructured \<Rightarrow> Unstructured result"
  update_object :: "trace \<Rightarrow> Unstructured \<Rightarrow> Unstructured result"
  delete_object :: "trace \<Rightarrow> Unstructured \<Rightarrow> string \<Rightarrow> unit result"
  list_pods :: "trace \<Rightarrow> string \<Rightarrow> string gomap \<Rightarrow> (Pod list) result"
  list_deployments :: "trace \<Rightarrow> string gomap \<Rightarrow> (Deployment list) result"
  new_uuid :: "trace \<Rightarrow> string"
  conflict_retries :: "trace \<Rightarrow> nat"

type_synonym 'a run = "(trace, 'a) state"

definition call :: "(trace \<Rightarrow> 'r) \<Rightarrow> ('r \<Rightarrow> event) \<Rightarrow> 'r run" where
  "call reply event = State (\<lambda>t. let r = reply t in (r, event r # t))"

definition GetBinding :: "api \<Rightarrow> NamespacedName \<Rightarrow> (binding result) run" where
  "GetBinding A key = call (\<lambda>t. get_binding A t key) (GetBindingEv key)"

definition ListBindings :: "api \<Rightarrow> list_option list \<Rightarrow> ((binding list) result) run" where
  "ListBindings A options = call (\<lambda>t. list_bindings A t options) (ListBindingsEv options)"

definition UpdateBinding :: "api \<Rightarrow> binding \<Rightarrow> (binding result) run" where
  "UpdateBinding A b = call (\<lambda>t. update_binding A t b) (UpdateBindingEv b)"

definition PatchStatus :: "api \<Rightarrow> binding \<Rightarrow> binding \<Rightarrow> (binding result) run" where
  "PatchStatus A base target = call (\<lambda>t. patch_status A t base target) (PatchStatusEv base target)"

definition GetObject :: "api \<Rightarrow> GroupVersionKind \<Rightarrow> NamespacedName \<Rightarrow> (Unstructured result) run" where
  "GetObject A gvk key = call (\<lambda>t. get_object A t gvk key) (GetObjectEv gvk key)"

definition CreateObject :: "api \<Rightarrow> Unstructured \<Rightarrow> (Unstructured result) run" where
  "CreateObject A u = call (\<lambda>t. create_object A t u) (CreateEv u)"

definition UpdateObject :: "api \<Rightarrow> Unstructured \<Rightarrow> (Unstructured result) run" where
  "UpdateObject A u = call (\<lambda>t. update_object A t u) (UpdateEv u)"

definition DeleteObject :: "api \<Rightarrow> Unstructured \<Rightarrow> string \<Rightarrow> (unit result) run" where
  "DeleteObject A u uid = call (\<lambda>t. delete_object A t u uid) (DeleteEv u uid)"

definition ListPods :: "api \<Rightarrow> string \<Rightarrow> string gomap \<Rightarrow> ((Pod list) result) run" where
  "ListPods A namespace matchLabels =
     call (\<lambda>t. list_pods A t namespace matchLabels) (ListPodsEv namespace matchLabels)"

definition ListDeployments :: "api \<Rightarrow> string gomap \<Rightarrow> ((Deployment list) result) run" where
  "ListDeployments A matchLabels = call (\<lambda>t. list_deployments A t matchLabels) (ListDeploymentsEv matchLabels)"

definition NewUUID :: "api \<Rightarrow> string run" where
  "NewUUID A = call (new_uuid A) NewUUIDEv"

definition emit :: "event \<Rightarrow> unit run" where
  "emit e = State (\<lambda>t. ((), e # t))"

definition history :: "trace run" where
  "history = State (\<lambda>t. (t, t))"

text \<open>A server that knows no object, for concrete runs.\<close>

definition empty_api :: api where
  "empty_api =
     \<lparr>get_binding = (\<lambda>_ _. Inl (ApiError NotFound ''absent'')),
      list_bindings = (\<lambda>_ _. Inr []),
      update_binding = (\<lambda>_ b. Inr b),
      patch_status = (\<lambda>_ _ target. Inr target),
      get_object = (\<lambda>_ _ _. Inl (ApiError NotFound ''absent'')),
      create_object = (\<lambda>_ u. Inr (u\<lparr>u_UID := ''uid'', u_Generation := 1\<rparr>)),
      update_object = (\<lambda>_ u. Inr u),
      delete_object = (\<lambda>_ _ _. Inl (ApiError NotFound ''absent'')),
      list_pods = (\<lambda>_ _ _. Inr []), list_deployments = (\<lambda>_ _. Inr []),
      new_uuid = (\<lambda>_. ''claim''), conflict_retries = (\<lambda>_. 4)\<rparr>"

lemma empty_api_simps [simp]:
  "get_binding empty_api t key = Inl (ApiError NotFound ''absent'')"
  "list_bindings empty_api t options = Inr []"
  "update_binding empty_api t b = Inr b"
  "patch_status empty_api t base target = Inr target"
  "get_object empty_api t gvk key = Inl (ApiError NotFound ''absent'')"
  "create_object empty_api t u = Inr (u\<lparr>u_UID := ''uid'', u_Generation := 1\<rparr>)"
  "update_object empty_api t u = Inr u"
  "delete_object empty_api t u uid = Inl (ApiError NotFound ''absent'')"
  "list_pods empty_api t namespace labels = Inr []" "list_deployments empty_api t labels = Inr []"
  "new_uuid empty_api t = ''claim''" "conflict_retries empty_api t = 4"
  by (simp_all add: empty_api_def)

lemma run_call [simp]: "run_state (call reply event) t = (reply t, event (reply t) # t)"
  by (simp add: call_def Let_def)

lemma run_emit [simp]: "run_state (emit e) t = ((), e # t)"
  by (simp add: emit_def)

lemma run_history [simp]: "run_state history t = (t, t)"
  by (simp add: history_def)

lemma run_return [simp]: "run_state (State_Monad.return x) t = (x, t)"
  by (simp add: State_Monad.return_def)

lemma run_bind [simp]:
  "run_state (m \<bind> f) t = (case run_state m t of (x, t') \<Rightarrow> run_state (f x) t')"
  by (simp add: State_Monad.bind_def)

section \<open>Weakest preconditions\<close>

definition wp :: "'a run \<Rightarrow> ('a \<Rightarrow> trace \<Rightarrow> bool) \<Rightarrow> trace \<Rightarrow> bool" where
  "wp m Q t = (case run_state m t of (x, t') \<Rightarrow> Q x t')"

named_theorems wp_rules \<open>weakest preconditions of the calls\<close>

lemma wp_return [simp, wp_rules]: "wp (State_Monad.return x) Q t = Q x t"
  by (simp add: wp_def)

lemma wp_bind [simp, wp_rules]: "wp (m \<bind> f) Q t = wp m (\<lambda>x. wp (f x) Q) t"
  by (simp add: wp_def State_Monad.bind_def split: prod.split)

lemma wp_call [simp, wp_rules]: "wp (call reply event) Q t = Q (reply t) (event (reply t) # t)"
  by (simp add: wp_def call_def Let_def)

lemma wp_emit [simp, wp_rules]: "wp (emit e) Q t = Q () (e # t)"
  by (simp add: wp_def emit_def)

lemma wp_history [simp, wp_rules]: "wp history Q t = Q t t"
  by (simp add: wp_def history_def)

lemma wp_mono: "wp m P t \<Longrightarrow> (\<And>x t'. P x t' \<Longrightarrow> Q x t') \<Longrightarrow> wp m Q t"
  by (auto simp: wp_def)

lemma wp_conj: "wp m P t \<Longrightarrow> wp m Q t \<Longrightarrow> wp m (\<lambda>x t. P x t \<and> Q x t) t"
  by (auto simp: wp_def)

lemma wp_run: "wp m Q t \<Longrightarrow> run_state m t = (x, t') \<Longrightarrow> Q x t'"
  by (simp add: wp_def)

lemma wp_if [wp_rules]:
  "(b \<Longrightarrow> wp m Q t) \<Longrightarrow> (\<not> b \<Longrightarrow> wp n Q t) \<Longrightarrow> wp (if b then m else n) Q t"
  by simp

lemmas api_calls = GetBinding_def ListBindings_def UpdateBinding_def PatchStatus_def
  GetObject_def CreateObject_def UpdateObject_def DeleteObject_def ListPods_def
  ListDeployments_def NewUUID_def

section \<open>Growth of a history\<close>

text \<open>
  A run only adds events, and every event it adds satisfies a condition on the event and
  the history before it.
\<close>

definition extends :: "(event \<Rightarrow> trace \<Rightarrow> bool) \<Rightarrow> trace \<Rightarrow> trace \<Rightarrow> bool" where
  "extends ok t t' =
     (\<exists>new. t' = new @ t \<and> (\<forall>later e earlier. new = later @ e # earlier \<longrightarrow> ok e (earlier @ t)))"

lemma extends_refl [simp, intro]: "extends ok t t"
  by (simp add: extends_def)

lemma extends_Cons: "extends ok t t' \<Longrightarrow> ok e t' \<Longrightarrow> extends ok t (e # t')"
  unfolding extends_def
proof (elim exE conjE)
  fix new
  assume t': "t' = new @ t" and e: "ok e t'"
    and new: "\<forall>later e earlier. new = later @ e # earlier \<longrightarrow> ok e (earlier @ t)"
  have "ok d (earlier @ t)" if "e # new = later @ d # earlier" for later d earlier
    using that new e t' by (cases later) auto
  then show "\<exists>new. e # t' = new @ t \<and>
      (\<forall>later e earlier. new = later @ e # earlier \<longrightarrow> ok e (earlier @ t))"
    using t' by (intro exI [of _ "e # new"]) auto
qed

lemma extends_trans: "extends ok t t' \<Longrightarrow> extends ok t' t'' \<Longrightarrow> extends ok t t''"
  unfolding extends_def
proof (elim exE conjE)
  fix n n'
  assume *: "t' = n @ t" "t'' = n' @ t'"
    "\<forall>later e earlier. n = later @ e # earlier \<longrightarrow> ok e (earlier @ t)"
    "\<forall>later e earlier. n' = later @ e # earlier \<longrightarrow> ok e (earlier @ t')"
  have "ok e (earlier @ t)" if "n' @ n = later @ e # earlier" for later e earlier
    using that unfolding append_eq_append_conv2
  proof (elim exE disjE conjE)
    fix us
    assume "n' = later @ us" "us @ n = e # earlier"
    with * show ?thesis by (cases us) auto
  next
    fix us
    assume "n' @ us = later" "n = us @ e # earlier"
    with * show ?thesis by blast
  qed
  with * show "\<exists>new. t'' = new @ t \<and>
      (\<forall>later e earlier. new = later @ e # earlier \<longrightarrow> ok e (earlier @ t))"
    by (intro exI [of _ "n' @ n"]) auto
qed

lemma extends_set: "extends ok t t' \<Longrightarrow> set t \<subseteq> set t'"
  by (auto simp: extends_def)

lemma extends_suffix: "extends ok t t' \<Longrightarrow> suffix t t'"
  by (auto simp: extends_def suffix_def)

lemma extends_mono:
  "extends ok t t' \<Longrightarrow> (\<And>e past. ok e past \<Longrightarrow> ok' e past) \<Longrightarrow> extends ok' t t'"
  unfolding extends_def by blast

lemma extends_event:
  "extends ok t t' \<Longrightarrow> t' = later @ e # earlier @ t \<Longrightarrow> ok e (earlier @ t)"
  unfolding extends_def by auto

section \<open>Runs that keep to a rule\<close>

text \<open>A run keeps to a rule when every event it adds, from any history, satisfies it.\<close>

definition keeps :: "(event \<Rightarrow> trace \<Rightarrow> bool) \<Rightarrow> 'a run \<Rightarrow> bool" where
  "keeps ok m = (\<forall>t. extends ok t (snd (run_state m t)))"

named_theorems keeps_intro \<open>runs that keep to a rule\<close>

lemma keeps_return [keeps_intro]: "keeps ok (State_Monad.return x)"
  by (simp add: keeps_def)

lemma extends_all:
  assumes "extends (\<lambda>e _. P e) t t'"
  shows "\<exists>new. t' = new @ t \<and> list_all P new"
proof -
  from assms obtain new where "t' = new @ t"
    and ok: "\<forall>later e earlier. new = later @ e # earlier \<longrightarrow> P e" by (auto simp: extends_def)
  moreover have "list_all P new" using ok by (meson list_all_iff split_list)
  ultimately show ?thesis by blast
qed

lemma keepsD: "keeps ok m \<Longrightarrow> extends ok t (snd (run_state m t))"
  by (simp add: keeps_def)

lemma extends_bind:
  assumes "extends ok t (snd (run_state m t))"
    and "\<And>x t'. run_state m t = (x, t') \<Longrightarrow> extends ok t' (snd (run_state (f x) t'))"
  shows "extends ok t (snd (run_state (m \<bind> f) t))"
  using assms by (cases "run_state m t") (auto intro: extends_trans)

lemma keeps_bind_result:
  assumes "keeps ok m" "\<And>t x t'. run_state m t = (x, t') \<Longrightarrow> keeps ok (f x)"
  shows "keeps ok (m \<bind> f)"
  using assms unfolding keeps_def by (blast intro: extends_bind)

lemma keeps_bind [keeps_intro]: "keeps ok m \<Longrightarrow> (\<And>x. keeps ok (f x)) \<Longrightarrow> keeps ok (m \<bind> f)"
  by (rule keeps_bind_result)

lemma keeps_call: "(\<And>r past. ok (ev r) past) \<Longrightarrow> keeps ok (call reply ev)"
  by (simp add: keeps_def extends_Cons)

lemma keeps_emit: "(\<And>past. ok e past) \<Longrightarrow> keeps ok (emit e)"
  by (simp add: keeps_def extends_Cons)

lemma keeps_wp: "keeps ok m \<Longrightarrow> wp m (\<lambda>_ t'. extends ok t t') t"
  unfolding keeps_def wp_def by (metis case_prod_beta)

fun is_read :: "event \<Rightarrow> bool" where
  "is_read (GetBindingEv _ _) = True"
| "is_read (ListBindingsEv _ _) = True"
| "is_read (GetObjectEv _ _ _) = True"
| "is_read (ListPodsEv _ _ _) = True"
| "is_read (ListDeploymentsEv _ _) = True"
| "is_read _ = False"

text \<open>
  The rules that leave reads free: code that only reads keeps to all of them. The theories
  of the components that only read add their operations to this locale.
\<close>

locale free_reads =
  fixes ok :: "event \<Rightarrow> trace \<Rightarrow> bool"
  assumes read_ok: "is_read e \<Longrightarrow> ok e past"
begin

lemma keeps_reads:
  "keeps ok (GetBinding A key)" "keeps ok (ListBindings A opts)" "keeps ok (GetObject A gvk key)"
  "keeps ok (ListPods A ns labels)" "keeps ok (ListDeployments A labels)"
  by (simp_all add: api_calls keeps_call read_ok)

end

interpretation reading: free_reads "\<lambda>e _. is_read e"
  by unfold_locales

end
