(* ===== verification/Gaie.thy ===== *)
theory Gaie
  imports Identity Cluster
begin

text \<open>
  Package \<^verbatim>\<open>internal/gaie\<close>: the supported InferencePool types, the normalized pool
  reference of a binding, the lookup of a pool over candidate types, and the translation of
  a pool's selector into pod-label selectors.
\<close>

section \<open>Pool types (gvk.go)\<close>

definition inferencePoolGVKs :: "GroupVersionKind list" where
  "inferencePoolGVKs = [GroupVersionKind ''inference.networking.k8s.io'' ''v1'' ''InferencePool'']"

definition InferencePoolGVKs :: "GroupVersionKind list" where
  "InferencePoolGVKs = inferencePoolGVKs"

definition ResolvePoolGVKs :: "GroupVersionKind list \<Rightarrow> GroupVersionKind list" where
  "ResolvePoolGVKs available = (if length available > 0 then available else InferencePoolGVKs)"

definition supportedPoolGVKsForGroup :: "string \<Rightarrow> GroupVersionKind list" where
  "supportedPoolGVKsForGroup grp = filter (\<lambda>gvk. gvk_Group gvk = grp) inferencePoolGVKs"

definition CandidatePoolGVKs :: "GroupVersionKind list \<Rightarrow> string \<Rightarrow> GroupVersionKind list" where
  "CandidatePoolGVKs candidates grp =
     (if grp = [] then candidates
      else let filtered = filter (\<lambda>gvk. gvk_Group gvk = grp) candidates in
        if length filtered > 0 then filtered else supportedPoolGVKsForGroup grp)"

definition IsSupportedInferencePoolGroup :: "string \<Rightarrow> bool" where
  "IsSupportedInferencePoolGroup grp = (length (supportedPoolGVKsForGroup grp) > 0)"

section \<open>Pool references (types.go)\<close>

definition ConditionTypeInvalidRef :: string where
  [api_defs]: "ConditionTypeInvalidRef = ''InvalidRef''"
definition ReasonInferencePoolCRDMissing :: string where
  [api_defs]: "ReasonInferencePoolCRDMissing = ''InferencePoolCRDMissing''"
definition ReasonTargetPoolNotFound :: string where
  [api_defs]: "ReasonTargetPoolNotFound = ''TargetPoolNotFound''"

record PoolRef =
  ref_Name :: string
  ref_Group :: string
  ref_Namespace :: string

definition BindingPoolRef :: "ext \<Rightarrow> binding \<Rightarrow> PoolRef result" where
  "BindingPoolRef X binding =
     (let name = TrimSpace (pr_Name (s_PoolRef (b_Spec binding))) in
      if name = [] then Inl (PlainError ''spec.poolRef.name is required'')
      else let grp = TrimSpace (pr_Group (s_PoolRef (b_Spec binding))) in
        if grp \<noteq> [] \<and> \<not> IsSupportedInferencePoolGroup grp then
          Inl (PlainError (''spec.poolRef.group '' @ Quote X grp
            @ '' is not a supported GAIE InferencePool group''))
        else Inr \<lparr>ref_Name = name, ref_Group = grp, ref_Namespace = b_Namespace binding\<rparr>)"

section \<open>Pool lookup and selector derivation (resolver.go)\<close>

definition inferencePoolIdentityAnchorKind :: string where
  "inferencePoolIdentityAnchorKind = ''pool''"

text \<open>The candidates are tried in turn; a missing kind is remembered.\<close>

fun resolveByCandidates ::
    "api \<Rightarrow> NamespacedName \<Rightarrow> GroupVersionKind list \<Rightarrow> bool
      \<Rightarrow> ((Unstructured option \<times> bool) result) run" where
  "resolveByCandidates A key [] crdMissing = State_Monad.return (Inr (None, crdMissing))"
| "resolveByCandidates A key (gvk # rest) crdMissing = do {
     reply \<leftarrow> GetObject A gvk key;
     (case reply of
        Inr obj \<Rightarrow> State_Monad.return (Inr (Some obj, crdMissing))
      | Inl err \<Rightarrow>
          if IsNotFound err then resolveByCandidates A key rest crdMissing
          else if IsNoMatchError err then resolveByCandidates A key rest True
          else State_Monad.return (Inl err))
   }"

definition ResolveInferencePool ::
    "api \<Rightarrow> ext \<Rightarrow> GroupVersionKind list \<Rightarrow> PoolRef \<Rightarrow> (Unstructured result) run" where
  "ResolveInferencePool A X availablePoolGVKs poolRef = do {
     resolved \<leftarrow> resolveByCandidates A (NamespacedName (ref_Namespace poolRef) (ref_Name poolRef))
       (CandidatePoolGVKs (ResolvePoolGVKs availablePoolGVKs) (ref_Group poolRef)) False;
     State_Monad.return (case resolved of
        Inl err \<Rightarrow> Inl err
      | Inr (Some pool, _) \<Rightarrow> Inr pool
      | Inr (None, crdMissing) \<Rightarrow>
          if crdMissing then
            Inl (GaieStateError ConditionTypeInvalidRef ReasonInferencePoolCRDMissing
              ''InferencePool CRD is not installed'')
          else
            Inl (GaieStateError ConditionTypeInvalidRef ReasonTargetPoolNotFound
              (''poolRef '' @ Quote X (ref_Name poolRef) @ '' was not found'')))
   }"

text \<open>The loop over the match labels: the first entry that cannot be rendered ends it.\<close>

fun derive_selectors :: "ext \<Rightarrow> json gomap \<Rightarrow> (string list) result" where
  "derive_selectors X [] = Inr []"
| "derive_selectors X ((key, value) # rest) =
     (case value of
        JString valueText \<Rightarrow>
          if key = [] then
            Inl (PlainError ''pool selector labels must contain non-empty keys'')
          else if valueText = [] then
            Inl (PlainError ''pool selector labels must contain non-empty values'')
          else let errs = IsQualifiedName X key in
            if length errs > 0 then
              Inl (PlainError (''pool spec.selector.matchLabels key '' @ Quote X key
                @ '' is invalid: '' @ Join errs ''; ''))
            else let errs = IsValidLabelValue X valueText in
              if length errs > 0 then
                Inl (PlainError (''pool spec.selector.matchLabels['' @ Quote X key
                  @ ''] value '' @ Quote X valueText @ '' is invalid: '' @ Join errs ''; ''))
              else (case derive_selectors X rest of
                  Inl err \<Rightarrow> Inl err
                | Inr derived \<Rightarrow> Inr ((podLabelPrefix @ key @ '':'' @ valueText) # derived))
      | _ \<Rightarrow> Inl (PlainError (''pool spec.selector.matchLabels['' @ Quote X key
               @ ''] must be a string'')))"

definition is_string :: "json \<Rightarrow> bool" where
  "is_string v = (case v of JString _ \<Rightarrow> True | _ \<Rightarrow> False)"

text \<open>
  The labels of a selector map and the map to report: the object under matchLabels, or a
  flat map of strings, which is wrapped.
\<close>

definition select_match_labels :: "json gomap \<Rightarrow> (json gomap \<times> json gomap) result" where
  "select_match_labels selectorMap =
     (case map_get selectorMap ''matchLabels'' of
        Some rawMatchLabels \<Rightarrow>
          (case find (\<lambda>kv. fst kv \<noteq> ''matchLabels'') selectorMap of
             Some (key, _) \<Rightarrow>
               Inl (PlainError (''pool spec.selector.'' @ key @ '' is not supported''))
           | None \<Rightarrow>
             (case rawMatchLabels of
                JObject matchLabels \<Rightarrow> Inr (matchLabels, selectorMap)
              | _ \<Rightarrow> Inl (PlainError ''pool spec.selector.matchLabels must be an object'')))
      | None \<Rightarrow>
          if \<not> list_all (\<lambda>kv. is_string (snd kv)) selectorMap then
            Inl (PlainError ''pool selector must use matchLabels for deterministic rendering'')
          else Inr (selectorMap, [(''matchLabels'', JObject selectorMap)]))"

definition DeriveSelectorsFromPool ::
    "ext \<Rightarrow> Unstructured \<Rightarrow> (json gomap \<times> string list) result" where
  "DeriveSelectorsFromPool X pool =
     (case NestedMap X (u_Object pool) [''spec'', ''selector''] of
        Inl err \<Rightarrow> Inl (WrapError ''failed to decode pool spec.selector: '' err)
      | Inr found \<Rightarrow>
        (case found of
           None \<Rightarrow> Inl (PlainError ''pool spec.selector must be set'')
         | Some selectorMap \<Rightarrow>
           if length selectorMap = 0 then Inl (PlainError ''pool spec.selector must be set'')
           else if map_has selectorMap ''matchExpressions'' then
             Inl (PlainError ''pool spec.selector.matchExpressions are not supported'')
           else (case select_match_labels selectorMap of
               Inl err \<Rightarrow> Inl err
             | Inr (matchLabels, reported) \<Rightarrow>
               if length matchLabels = 0 then
                 Inl (PlainError ''pool spec.selector.matchLabels must not be empty'')
               else (case derive_selectors X matchLabels of
                   Inl err \<Rightarrow> Inl err
                 | Inr derivedSelectors \<Rightarrow> Inr (reported, derivedSelectors)))))"

definition ResolveInferenceTarget :: "ext \<Rightarrow> Unstructured \<Rightarrow> ResolvedInferenceTarget result" where
  "ResolveInferenceTarget X pool =
     (case DeriveSelectorsFromPool X pool of
        Inl err \<Rightarrow> Inl err
      | Inr (podSelector, derivedSelectors) \<Rightarrow> Inr
          \<lparr>t_IdentityAnchor =
             \<lparr>a_Kind = inferencePoolIdentityAnchorKind, a_Name = u_Name pool\<rparr>,
           t_PodSelector = podSelector, t_DerivedSelectors = derivedSelectors\<rparr>)"

section \<open>Derived selectors\<close>

text \<open>The labels that can be rendered, and what is rendered for them.\<close>

definition label_ok :: "ext \<Rightarrow> string \<times> json \<Rightarrow> bool" where
  "label_ok X kv =
     (\<exists>v. snd kv = JString v \<and> fst kv \<noteq> [] \<and> v \<noteq> [] \<and>
        IsQualifiedName X (fst kv) = [] \<and> IsValidLabelValue X v = [])"

fun label_text :: "json \<Rightarrow> string" where
  "label_text (JString v) = v"
| "label_text _ = []"

lemma derive_selectors_Inr:
  "derive_selectors X labels = Inr ds \<longleftrightarrow>
   (\<forall>kv \<in> set labels. label_ok X kv) \<and>
   ds = map (\<lambda>kv. podLabelPrefix @ fst kv @ '':'' @ label_text (snd kv)) labels"
proof (induction labels arbitrary: ds)
  case Nil
  then show ?case by auto
next
  case (Cons kv labels)
  obtain k v where kv: "kv = (k, v)" by (cases kv)
  show ?case
  proof (cases "label_ok X kv")
    case True
    then obtain s where "v = JString s" "k \<noteq> []" "s \<noteq> []" "IsQualifiedName X k = []"
        "IsValidLabelValue X s = []"
      by (auto simp: kv label_ok_def)
    then have step: "derive_selectors X (kv # labels) = (case derive_selectors X labels of
        Inl err \<Rightarrow> Inl err
      | Inr derived \<Rightarrow> Inr ((podLabelPrefix @ fst kv @ '':'' @ label_text (snd kv)) # derived))"
      by (simp add: kv split: sum.split)
    show ?thesis
    proof (cases "derive_selectors X labels")
      case (Inl e)
      then have "\<not> (\<forall>kv \<in> set labels. label_ok X kv)" using Cons.IH by (metis Inl_Inr_False)
      with Inl show ?thesis unfolding step by simp
    next
      case (Inr ds')
      with Cons.IH [of ds'] True show ?thesis unfolding step by auto
    qed
  next
    case False
    then show ?thesis
      by (auto simp: kv label_ok_def Let_def split: json.splits if_splits sum.splits)
  qed
qed

lemma derived_selectors_pod_label:
  assumes "ResolveInferenceTarget X pool = Inr target" "d \<in> set (t_DerivedSelectors target)"
  shows "HasPrefix d podLabelPrefix"
  using assms
  by (auto simp: ResolveInferenceTarget_def DeriveSelectorsFromPool_def derive_selectors_Inr
      split: sum.splits option.splits if_splits prod.splits)

text \<open>The pool resolver keeps the promise identity planning relies on.\<close>

interpretation gaie: inference_target_source "ResolveInferenceTarget X" for X
  by unfold_locales (rule derived_selectors_pod_label)


section \<open>Pool lookup\<close>

definition missing_reply :: "'a result \<Rightarrow> bool" where
  "missing_reply r = (case r of Inl err \<Rightarrow> IsNotFound err \<or> IsNoMatchError err | Inr _ \<Rightarrow> False)"

definition no_match_reply :: "'a result \<Rightarrow> bool" where
  "no_match_reply r = (case r of Inl err \<Rightarrow> IsNoMatchError err | Inr _ \<Rightarrow> False)"

lemma not_found_not_no_match: "IsNotFound err \<Longrightarrow> \<not> IsNoMatchError err"
  by (simp add: IsNotFound_def IsNoMatchError_def)

text \<open>
  What a lookup does: it asks for a first part of the candidates, all of which but the last
  are missing, and answers with the last reply or with nothing.
\<close>

definition lookup_outcome ::
    "NamespacedName \<Rightarrow> GroupVersionKind list \<Rightarrow> bool \<Rightarrow> trace \<Rightarrow> (Unstructured option \<times> bool) result
      \<Rightarrow> trace \<Rightarrow> (Unstructured result) list \<Rightarrow> bool" where
  "lookup_outcome key candidates crdMissing t res t' replies =
     (t' = rev (map (\<lambda>(gvk, r). GetObjectEv gvk key r) (zip candidates replies)) @ t \<and>
      length replies \<le> length candidates \<and>
      (if \<forall>r \<in> set replies. missing_reply r
       then length replies = length candidates
         \<and> res = Inr (None, crdMissing \<or> (\<exists>r \<in> set replies. no_match_reply r))
       else (\<forall>r \<in> set (butlast replies). missing_reply r) \<and>
         res = (case last replies of Inl err \<Rightarrow> Inl err
           | Inr obj \<Rightarrow> Inr (Some obj, crdMissing \<or> (\<exists>r \<in> set replies. no_match_reply r)))))"

lemma resolveByCandidates_outcome:
  "wp (resolveByCandidates A key candidates crdMissing)
     (\<lambda>res t'. \<exists>replies. lookup_outcome key candidates crdMissing t res t' replies) t"
proof (induction candidates arbitrary: crdMissing t)
  case Nil
  show ?case by (simp add: lookup_outcome_def exI [of _ "[]"])
next
  case (Cons gvk rest)
  define r where "r = get_object A t gvk key"
  have stop: ?case if "\<not> missing_reply r"
    using that
    by (auto simp: GetObject_def lookup_outcome_def missing_reply_def no_match_reply_def r_def [symmetric]
        split: sum.splits intro!: exI [of _ "[r]"])
  have go: ?case if m: "missing_reply r"
  proof -
    obtain err where err: "r = Inl err" and kind: "IsNotFound err \<or> IsNoMatchError err"
      using m by (auto simp: missing_reply_def split: sum.splits)
    define c where "c = (crdMissing \<or> no_match_reply r)"
    have step: "wp (resolveByCandidates A key (gvk # rest) crdMissing) Q t
        = wp (resolveByCandidates A key rest c) Q (GetObjectEv gvk key r # t)" for Q
      using kind not_found_not_no_match [of err]
      by (auto simp: GetObject_def r_def [symmetric] err c_def no_match_reply_def)
    have "lookup_outcome key (gvk # rest) crdMissing t res t' (r # replies)"
      if "lookup_outcome key rest c (GetObjectEv gvk key r # t) res t' replies" for res t' replies
    proof (cases "\<forall>r \<in> set replies. missing_reply r")
      case True
      with that m show ?thesis by (auto simp: lookup_outcome_def c_def)
    next
      case False
      then have "replies \<noteq> []" by auto
      with that m False show ?thesis
        by (auto simp: lookup_outcome_def c_def split: sum.split)
    qed
    then show ?thesis unfolding step
      by (intro wp_mono [OF Cons.IH [of c "GetObjectEv gvk key r # t"]]) blast
  qed
  show ?case using stop go by blast
qed

section \<open>Properties\<close>

lemma label_selector_inj:
  assumes "qualified_name_contract X" "label_ok X (k, v)" "label_ok X (k', v')"
    and "podLabelPrefix @ k @ '':'' @ label_text v = podLabelPrefix @ k' @ '':'' @ label_text v'"
  shows "k = k'"
proof -
  have "CHR '':'' \<notin> set k" if "label_ok X (k, v)" for k v
    using that assms(1) unfolding label_ok_def qualified_name_contract_def qualified_name_shape_def
    by (fastforce simp: list_all_iff)
  with assms(2,3) have "CHR '':'' \<notin> set k" "CHR '':'' \<notin> set k'" by blast+
  with assms(4) show ?thesis by (simp add: append_sep_eq)
qed

lemma select_match_labels_Inr:
  "select_match_labels m = Inr (labels, reported) \<Longrightarrow> m \<noteq> [] \<Longrightarrow> distinct (map fst m) \<Longrightarrow>
   reported = [(''matchLabels'', JObject labels)]"
proof (cases "map_get m ''matchLabels''")
  case None
  then show "select_match_labels m = Inr (labels, reported) \<Longrightarrow> ?thesis"
    by (auto simp: select_match_labels_def split: if_splits)
next
  case (Some raw)
  assume r: "select_match_labels m = Inr (labels, reported)" and d: "distinct (map fst m)" and ne: "m \<noteq> []"
  from r Some have f: "find (\<lambda>kv. fst kv \<noteq> ''matchLabels'') m = None"
    and raw: "raw = JObject labels" "reported = m"
    by (auto simp: select_match_labels_def split: option.splits json.splits)
  obtain a m' where m: "m = a # m'" using ne by (cases m) auto
  from f have all: "\<forall>kv \<in> set m. fst kv = ''matchLabels''" by (auto simp: find_None_iff)
  with m d have "m' = []" by (cases m') auto
  with m all Some raw show ?thesis by (cases a) (auto simp: map_get_def)
qed

lemma DeriveSelectorsFromPool_Inr:
  assumes "DeriveSelectorsFromPool X pool = Inr (podSelector, derived)"
  obtains m labels where "NestedMap X (u_Object pool) [''spec'', ''selector''] = Inr (Some m)"
    "m \<noteq> []" "select_match_labels m = Inr (labels, podSelector)" "labels \<noteq> []"
    "derive_selectors X labels = Inr derived"
  using assms that
  by (auto simp: DeriveSelectorsFromPool_def split: sum.splits option.splits if_splits prod.splits)

text \<open>
  What a pool contributes to an identity. When a pool is accepted, the reported pod
  selector is a single matchLabels object; each of its labels has a valid non-empty key and
  value and yields exactly one pod-label selector; and labels that differ yield selectors
  that differ.
\<close>
theorem DeriveSelectorsFromPool_labels:
  assumes "qualified_name_contract X"
    and "NestedMap X (u_Object pool) [''spec'', ''selector''] = Inr (Some m)" "distinct (map fst m)"
    and "DeriveSelectorsFromPool X pool = Inr (podSelector, derived)"
  shows "\<exists>labels. podSelector = [(''matchLabels'', JObject labels)] \<and> labels \<noteq> [] \<and>
    (\<forall>kv \<in> set labels. \<exists>s. snd kv = JString s \<and> s \<noteq> [] \<and> fst kv \<noteq> [] \<and>
       IsQualifiedName X (fst kv) = [] \<and> IsValidLabelValue X s = []) \<and>
    derived = map (\<lambda>kv. podLabelPrefix @ fst kv @ '':'' @ label_text (snd kv)) labels \<and>
    (distinct (map fst labels) \<longrightarrow> distinct derived)"
proof -
  obtain labels where sel: "select_match_labels m = Inr (labels, podSelector)" "m \<noteq> []" "labels \<noteq> []"
    and ds: "derive_selectors X labels = Inr derived"
    by (rule DeriveSelectorsFromPool_Inr [OF assms(4)]) (use assms(2) in auto)
  from ds have ok: "\<forall>kv \<in> set labels. label_ok X kv"
    and der: "derived = map (\<lambda>kv. podLabelPrefix @ fst kv @ '':'' @ label_text (snd kv)) labels"
    unfolding derive_selectors_Inr by blast+
  have "distinct derived" if "distinct (map fst labels)"
  proof -
    have "inj_on (\<lambda>kv. podLabelPrefix @ fst kv @ '':'' @ label_text (snd kv)) (set labels)"
    proof (rule inj_onI)
      fix a b assume ab: "a \<in> set labels" "b \<in> set labels"
        "podLabelPrefix @ fst a @ '':'' @ label_text (snd a) = podLabelPrefix @ fst b @ '':'' @ label_text (snd b)"
      have "fst a = fst b"
        using label_selector_inj [OF assms(1), of "fst a" "snd a" "fst b" "snd b"] ok ab by auto
      with that ab show "a = b" by (metis distinct_map inj_onD)
    qed
    with that show ?thesis unfolding der by (simp add: distinct_map)
  qed
  then show ?thesis
    using sel select_match_labels_Inr [OF sel(1,2) assms(3)] ok der
    unfolding label_ok_def by (intro exI [of _ labels]) blast
qed

definition sample_pool :: Unstructured where
  "sample_pool =
     \<lparr>u_GVK = GroupVersionKind ''inference.networking.k8s.io'' ''v1'' ''InferencePool'',
      u_Namespace = ''ns'', u_Name = ''p'', u_UID = ''u'', u_Generation = 1, u_DeletionTimestamp = None,
      u_Labels = [], u_Annotations = [],
      u_Object = [(''spec'', JObject [(''selector'', JObject [(''matchLabels'', JObject
        [(''app'', JString ''m'')])])])]\<rparr>"

lemmas pool_eval = ref_ext_def ref_qualified_name_def qualified_name_shape_def ref_label_value_def
  label_value_shape_def alphanumeric_def sample_pool_def map_has_def map_get_def podLabelPrefix_def

lemma sample_pool_derived:
  "DeriveSelectorsFromPool ref_ext sample_pool
     = Inr ([(''matchLabels'', JObject [(''app'', JString ''m'')])], [''k8s:pod-label:app:m''])"
  by (simp add: DeriveSelectorsFromPool_def select_match_labels_def pool_eval)

theorem DeriveSelectorsFromPool_labels_witness:
  "\<exists>labels. [(''matchLabels'', JObject [(''app'', JString ''m'')])] = [(''matchLabels'', JObject labels)]
     \<and> labels \<noteq> []"
  using DeriveSelectorsFromPool_labels [OF ref_ext_qualified_name _ _ sample_pool_derived,
      of "[(''matchLabels'', JObject [(''app'', JString ''m'')])]"]
  by (auto simp: ref_ext_def sample_pool_def)

text \<open>
  C33: Every selector of an identity planned for an InferencePool is the binding's namespace
  selector, the binding's service-account selector or a pod-label selector; a pool cannot
  introduce a selector of any other kind.
\<close>
theorem pool_plan_selector_kinds:
  assumes "ResolveInferenceTarget X pool = Inr (in_Target i)" "PlanIdentity X i = Inr p"
    and "s \<in> set (p_Selectors p)"
  shows "s = nsPrefix @ in_Namespace i \<or> s = saPrefix @ in_ServiceAccountName i
    \<or> HasPrefix s podLabelPrefix"
  using gaie.planned_selector_kinds [OF assms] by (simp add: ns_selector_def sa_selector_def)

lemma sample_pool_target: "ResolveInferenceTarget ref_ext sample_pool = Inr sample_target"
  unfolding ResolveInferenceTarget_def sample_pool_derived
  by (simp add: sample_target_def inferencePoolIdentityAnchorKind_def sample_pool_def)

theorem pool_plan_selector_kinds_witness:
  "''k8s:sa:sa'' = nsPrefix @ in_Namespace (sample_input ''a'')
    \<or> ''k8s:sa:sa'' = saPrefix @ in_ServiceAccountName (sample_input ''a'')
    \<or> HasPrefix ''k8s:sa:sa'' podLabelPrefix"
  by (rule pool_plan_selector_kinds [OF _ sample_planned(1), of sample_pool])
     (simp_all add: sample_pool_target, simp_all add: sample_input_def sample_plan_def)

text \<open>
  C34: Pool lookup is complete and its failures are classified exactly. It asks the
  candidate types in order and stops at the first that is neither absent nor unknown, whose
  reply, object or error, is the answer. When all are missing, the answer is that the CRD
  is missing if some type is unknown to the server, else that the pool was not found.
\<close>
theorem ResolveInferencePool_outcome:
  assumes "run_state (ResolveInferencePool A X available ref) t = (res, t')"
    and "candidates = CandidatePoolGVKs (ResolvePoolGVKs available) (ref_Group ref)"
  shows "\<exists>replies. length replies \<le> length candidates \<and>
    t' = rev (map (\<lambda>(gvk, r). GetObjectEv gvk (NamespacedName (ref_Namespace ref) (ref_Name ref)) r)
                (zip candidates replies)) @ t \<and>
    (if \<forall>r \<in> set replies. missing_reply r
     then length replies = length candidates \<and>
       res = Inl (if \<exists>r \<in> set replies. no_match_reply r
         then GaieStateError ConditionTypeInvalidRef ReasonInferencePoolCRDMissing
           ''InferencePool CRD is not installed''
         else GaieStateError ConditionTypeInvalidRef ReasonTargetPoolNotFound
           (''poolRef '' @ Quote X (ref_Name ref) @ '' was not found''))
     else (\<forall>r \<in> set (butlast replies). missing_reply r) \<and> res = last replies)"
proof -
  let ?key = "NamespacedName (ref_Namespace ref) (ref_Name ref)"
  define P where "P = (\<lambda>res t'. \<exists>replies. length replies \<le> length candidates \<and>
    t' = rev (map (\<lambda>(gvk, r). GetObjectEv gvk ?key r) (zip candidates replies)) @ t \<and>
    (if \<forall>r \<in> set replies. missing_reply r
     then length replies = length candidates \<and>
       res = Inl (if \<exists>r \<in> set replies. no_match_reply r
         then GaieStateError ConditionTypeInvalidRef ReasonInferencePoolCRDMissing
           ''InferencePool CRD is not installed''
         else GaieStateError ConditionTypeInvalidRef ReasonTargetPoolNotFound
           (''poolRef '' @ Quote X (ref_Name ref) @ '' was not found''))
     else (\<forall>r \<in> set (butlast replies). missing_reply r) \<and> res = last replies))"
  have "wp (ResolveInferencePool A X available ref) P t"
    unfolding ResolveInferencePool_def wp_bind assms(2) [symmetric]
  proof (rule wp_mono [OF resolveByCandidates_outcome], elim exE, unfold wp_return)
    fix r t'' replies
    assume o: "lookup_outcome ?key candidates False t r t'' replies"
    show "P (case r of Inl err \<Rightarrow> Inl err | Inr (Some pool, _) \<Rightarrow> Inr pool
      | Inr (None, crdMissing) \<Rightarrow>
          if crdMissing then Inl (GaieStateError ConditionTypeInvalidRef ReasonInferencePoolCRDMissing
            ''InferencePool CRD is not installed'')
          else Inl (GaieStateError ConditionTypeInvalidRef ReasonTargetPoolNotFound
            (''poolRef '' @ Quote X (ref_Name ref) @ '' was not found''))) t''"
    proof (cases "\<forall>r \<in> set replies. missing_reply r")
      case True
      with o show ?thesis unfolding P_def lookup_outcome_def
        by (intro exI [of _ replies]) simp
    next
      case False
      from o show ?thesis unfolding P_def lookup_outcome_def if_not_P [OF False]
        by (intro exI [of _ replies], unfold if_not_P [OF False]) (cases "last replies"; simp)
    qed
  qed
  with assms(1) show ?thesis by (simp add: wp_def P_def)
qed


theorem ResolveInferencePool_outcome_witness:
  "\<exists>replies. length replies \<le> Suc 0 \<and>
     [GetObjectEv (hd inferencePoolGVKs) (NamespacedName ''ns'' ''p'') (Inl (ApiError NotFound ''absent''))]
     = rev (map (\<lambda>(gvk, r). GetObjectEv gvk (NamespacedName ''ns'' ''p'') r) (zip inferencePoolGVKs replies))"
proof -
  let ?ref = "\<lparr>ref_Name = ''p'', ref_Group = [], ref_Namespace = ''ns''\<rparr>"
  have candidates: "inferencePoolGVKs = CandidatePoolGVKs (ResolvePoolGVKs []) (ref_Group ?ref)"
    by (simp add: CandidatePoolGVKs_def ResolvePoolGVKs_def InferencePoolGVKs_def)
  have "run_state (ResolveInferencePool empty_api ref_ext [] ?ref) [] =
      (Inl (GaieStateError ConditionTypeInvalidRef ReasonTargetPoolNotFound
         (''poolRef '' @ Quote ref_ext ''p'' @ '' was not found'')),
       [GetObjectEv (hd inferencePoolGVKs) (NamespacedName ''ns'' ''p'')
          (Inl (ApiError NotFound ''absent''))])"
    unfolding ResolveInferencePool_def candidates [symmetric]
    by (simp add: inferencePoolGVKs_def GetObject_def IsNotFound_def)
  moreover have "length inferencePoolGVKs = Suc 0" by (simp add: inferencePoolGVKs_def)
  ultimately show ?thesis
    using ResolveInferencePool_outcome [OF _ candidates, of empty_api ref_ext "[]"]
    unfolding append_Nil2 PoolRef.simps by (metis (no_types, lifting))
qed

section \<open>Lookup only reads\<close>

context free_reads
begin

lemma keeps_candidates: "keeps ok (resolveByCandidates A key gvks missing)"
proof (induction gvks arbitrary: missing)
  case Nil
  show ?case by (simp add: keeps_return)
next
  case (Cons gvk gvks)
  then show ?case by (auto intro!: keeps_intro keeps_reads split: sum.split)
qed

lemma keeps_pool: "keeps ok (ResolveInferencePool A X gvks ref)"
  unfolding ResolveInferencePool_def by (intro keeps_intro keeps_candidates)

end

end
