(* ===== verification/Spire_CM.thy ===== *)
theory Spire_CM
  imports Identity
begin

text \<open>
  Package \<^verbatim>\<open>internal/spirecm\<close>: the ClusterSPIFFEID object rendered for an identity plan,
  its name, its ownership claim, and the comparison with and merge into a live object.
\<close>

section \<open>Constants\<close>

definition defaultNameValue :: string where "defaultNameValue = ''kleym''"
definition ManagedByLabelKey :: string where "ManagedByLabelKey = ''kleym.sonda.red/managed-by''"
definition ManagedByLabelValue :: string where "ManagedByLabelValue = defaultNameValue"
definition BindingNameLabelKey :: string where
  "BindingNameLabelKey = ''kleym.sonda.red/binding-name''"
definition BindingNamespaceLabelKey :: string where
  "BindingNamespaceLabelKey = ''kleym.sonda.red/binding-namespace''"
definition OwnershipClaimIDAnnotationKey :: string where
  "OwnershipClaimIDAnnotationKey = ''kleym.sonda.red/ownership-claim-id''"
definition maxDNSLabelLength :: int where "maxDNSLabelLength = 63"
definition nameHashBytes :: nat where "nameHashBytes = 4"

definition clusterSPIFFEIDGVK :: GroupVersionKind where
  "clusterSPIFFEIDGVK = GroupVersionKind ''spire.spiffe.io'' ''v1alpha1'' ''ClusterSPIFFEID''"

definition ClusterSPIFFEIDGVK :: GroupVersionKind where
  "ClusterSPIFFEIDGVK = clusterSPIFFEIDGVK"

section \<open>Ownership claims\<close>

definition SetClusterSPIFFEIDOwnershipClaim :: "Unstructured \<Rightarrow> string \<Rightarrow> Unstructured" where
  "SetClusterSPIFFEIDOwnershipClaim object claimID =
     object\<lparr>u_Annotations := map_put (u_Annotations object) OwnershipClaimIDAnnotationKey claimID\<rparr>"

definition ClusterSPIFFEIDOwnershipClaim :: "Unstructured \<Rightarrow> string" where
  "ClusterSPIFFEIDOwnershipClaim object =
     map_index (u_Annotations object) OwnershipClaimIDAnnotationKey"

section \<open>Names\<close>

text \<open>
  The bytes of \<^verbatim>\<open>strings.ToLower\<close> as far as the label alphabet can tell: ASCII letters,
  and the two runes outside ASCII whose lower case is an ASCII letter (U+0130 and U+212A).
  Every other rune keeps to bytes outside the alphabet.
\<close>

definition lower_byte :: "char \<Rightarrow> char" where
  "lower_byte c = (let n = (of_char c :: nat) in
     if 65 \<le> n \<and> n \<le> 90 then char_of (n + 32) else c)"

fun ToLower :: "string \<Rightarrow> string" where
  "ToLower [] = []"
| "ToLower (a # s) =
     (case s of
        b # s' \<Rightarrow>
          if a = CHR 0xC4 \<and> b = CHR 0xB0 then CHR ''i'' # ToLower s'
          else (case s' of
             c # s'' \<Rightarrow>
               if a = CHR 0xE2 \<and> b = CHR 0x84 \<and> c = CHR 0xAA then CHR ''k'' # ToLower s''
               else lower_byte a # ToLower s
           | [] \<Rightarrow> lower_byte a # ToLower s)
      | [] \<Rightarrow> [lower_byte a])"

text \<open>The loop over the characters, with its flag; a run of other bytes gives one hyphen.\<close>

fun label_chars :: "bool \<Rightarrow> string \<Rightarrow> string" where
  "label_chars lastHyphen [] = []"
| "label_chars lastHyphen (c # s) =
     (if lower_alphanumeric c then c # label_chars False s
      else if \<not> lastHyphen then CHR ''-'' # label_chars True s
      else label_chars lastHyphen s)"

definition sanitizeDNSLabel :: "string \<Rightarrow> string" where
  "sanitizeDNSLabel input =
     (let lower = ToLower (TrimSpace input) in
      if lower = [] then []
      else let sanitized = TrimByte (label_chars False lower) CHR ''-'' in
        if sanitized = [] then [] else sanitized)"

definition BuildClusterSPIFFEIDName :: "string \<Rightarrow> string \<Rightarrow> string \<Rightarrow> string \<Rightarrow> string" where
  "BuildClusterSPIFFEIDName namespace bindingName identityAnchorKind spiffeID =
     (let modeText = (let m = sanitizeDNSLabel identityAnchorKind in
                        if m = [] then ''identity'' else m);
          hashSuffix = EncodeToString (take nameHashBytes (sha1_Sum spiffeID));
          base = sanitizeDNSLabel (defaultNameValue @ ''-'' @ namespace @ ''-'' @ bindingName);
          room = maxDNSLabelLength - int (length modeText) - int (length hashSuffix) - 2;
          maxBaseLen = (if room < 1 then 1 else room);
          base = (if int (length base) > maxBaseLen
                  then (let short = TrimByte (take (nat maxBaseLen) base) CHR ''-'' in
                          if short = [] then defaultNameValue else short)
                  else base)
      in base @ ''-'' @ modeText @ ''-'' @ hashSuffix)"

section \<open>The desired object\<close>

definition ManagedClusterSPIFFEIDLabels :: "binding \<Rightarrow> string gomap" where
  "ManagedClusterSPIFFEIDLabels binding =
     [(ManagedByLabelKey, ManagedByLabelValue), (BindingNameLabelKey, b_Name binding),
      (BindingNamespaceLabelKey, b_Namespace binding)]"

definition BuildClusterSPIFFEIDHint :: "binding \<Rightarrow> string" where
  "BuildClusterSPIFFEIDHint binding = b_Namespace binding @ ''/'' @ b_Name binding"

definition RenderFallback :: bool where "RenderFallback = False"

definition desired_spec :: "binding \<Rightarrow> Plan \<Rightarrow> string \<Rightarrow> json gomap" where
  "desired_spec binding plan className =
     [(''spiffeIDTemplate'', JString (p_SpiffeID plan)),
      (''podSelector'', JObject (p_PodSelector plan)),
      (''workloadSelectorTemplates'', JArray (map JString (p_Selectors plan))),
      (''fallback'', JBool RenderFallback),
      (''hint'', JString (BuildClusterSPIFFEIDHint binding))]
     @ (if className \<noteq> [] then [(''className'', JString className)] else [])"

definition DesiredClusterSPIFFEID :: "binding \<Rightarrow> Plan \<Rightarrow> string \<Rightarrow> Unstructured" where
  "DesiredClusterSPIFFEID binding plan className =
     \<lparr>u_GVK = ClusterSPIFFEIDGVK, u_Namespace = [],
      u_Name = BuildClusterSPIFFEIDName (b_Namespace binding) (b_Name binding)
        (a_Kind (p_IdentityAnchor plan)) (p_SpiffeID plan),
      u_UID = [], u_Generation = 0, u_DeletionTimestamp = None, u_Labels = ManagedClusterSPIFFEIDLabels binding,
      u_Annotations = [], u_Object = [(''spec'', JObject (desired_spec binding plan className))]\<rparr>"

section \<open>Comparison and merge\<close>

text \<open>
  An absent specification is a nil map, which \<^verbatim>\<open>reflect.DeepEqual\<close> tells apart from an
  empty one.
\<close>

definition spec_equal :: "json gomap option \<Rightarrow> json gomap option \<Rightarrow> bool" where
  "spec_equal a b =
     (case (a, b) of
        (None, None) \<Rightarrow> True
      | (Some m, Some n) \<Rightarrow> DeepEqual (JObject m) (JObject n)
      | _ \<Rightarrow> False)"

definition ClusterSPIFFEIDInSync :: "ext \<Rightarrow> Unstructured \<Rightarrow> Unstructured \<Rightarrow> bool" where
  "ClusterSPIFFEIDInSync X current desired =
     (case (NestedMap X (u_Object current) [''spec''], NestedMap X (u_Object desired) [''spec'']) of
        (Inr currentSpec, Inr desiredSpec) \<Rightarrow>
          if \<not> spec_equal currentSpec desiredSpec then False
          else list_all (\<lambda>(key, value). map_index (u_Labels current) key = value) (u_Labels desired)
      | _ \<Rightarrow> False)"

text \<open>
  The error and the found flag of the nested read are dropped; without a specification the
  field is set to a nil map, which the model writes as an empty object.
\<close>

definition MergeDesiredClusterSPIFFEID :: "ext \<Rightarrow> Unstructured \<Rightarrow> Unstructured \<Rightarrow> Unstructured" where
  "MergeDesiredClusterSPIFFEID X current desired =
     (let desiredSpec = (case NestedMap X (u_Object desired) [''spec''] of
                           Inr (Some m) \<Rightarrow> JObject m | _ \<Rightarrow> JObject [])
      in current\<lparr>u_Object := map_put (u_Object current) ''spec'' desiredSpec,
                 u_Labels := map_put_all (u_Labels current) (u_Labels desired)\<rparr>)"

section \<open>Lemmas on names\<close>

definition dns_label_byte :: "char \<Rightarrow> bool" where
  "dns_label_byte c = (lower_alphanumeric c \<or> c = CHR ''-'')"

lemma label_chars_bytes: "list_all dns_label_byte (label_chars h s)"
  by (induction h s rule: label_chars.induct) (auto simp: dns_label_byte_def)

lemma TrimByte_ends:
  assumes "TrimByte s c \<noteq> []"
  shows "hd (TrimByte s c) \<noteq> c" "last (TrimByte s c) \<noteq> c"
proof -
  let ?d = "dropWhile (\<lambda>d. d = c) s"
  have t: "TrimByte s c = rev (dropWhile (\<lambda>d. d = c) (rev ?d))" by (simp add: TrimByte_def)
  show "last (TrimByte s c) \<noteq> c"
    using assms hd_dropWhile [of "\<lambda>d. d = c" "rev ?d"] unfolding t by (auto simp: last_rev)
  have "?d \<noteq> []"
  proof
    assume "?d = []"
    then have "TrimByte s c = []" by (simp only: t rev.simps dropWhile.simps)
    with assms show False ..
  qed
  then have "hd ?d \<noteq> c" using hd_dropWhile [of "\<lambda>d. d = c" s] by blast
  moreover have "prefix (TrimByte s c) ?d"
    unfolding t by (metis suffix_dropWhile suffix_to_prefix rev_rev_ident)
  ultimately show "hd (TrimByte s c) \<noteq> c"
    using assms by (metis hd_append2 prefix_def)
qed

text \<open>A DNS label: at most 63 lower-case letters, digits and hyphens, none at the ends.\<close>

definition label_text_ok :: "string \<Rightarrow> bool" where
  "label_text_ok s =
     (s \<noteq> [] \<and> list_all dns_label_byte s \<and> lower_alphanumeric (hd s) \<and> lower_alphanumeric (last s))"

lemma label_text_trim:
  assumes "list_all dns_label_byte s" "TrimByte s CHR ''-'' \<noteq> []"
  shows "label_text_ok (TrimByte s CHR ''-'')"
proof -
  have "list_all dns_label_byte (TrimByte s CHR ''-'')"
    using assms(1) TrimByte_set [of s] by (auto simp: list_all_iff)
  then show ?thesis
    using assms(2) TrimByte_ends [OF assms(2)] unfolding label_text_ok_def list_all_iff dns_label_byte_def
    by (metis hd_in_set last_in_set)
qed

lemma sanitizeDNSLabel_ok: "sanitizeDNSLabel s \<noteq> [] \<Longrightarrow> label_text_ok (sanitizeDNSLabel s)"
  by (auto simp: sanitizeDNSLabel_def Let_def intro!: label_text_trim label_chars_bytes)

lemma label_text_ok_join:
  "label_text_ok a \<Longrightarrow> label_text_ok b \<Longrightarrow> label_text_ok (a @ ''-'' @ b)"
  by (auto simp: label_text_ok_def dns_label_byte_def hd_append)

lemma label_text_ok_plain [simp]:
  "label_text_ok ''kleym''" "label_text_ok ''identity''"
  by (simp_all add: label_text_ok_def dns_label_byte_def lower_alphanumeric_def)

lemma hash_suffix_ok:
  "label_text_ok (EncodeToString (take nameHashBytes (sha1_Sum s)))" (is "label_text_ok ?h")
  "length (EncodeToString (take nameHashBytes (sha1_Sum s))) = 8"
proof -
  show len: "length ?h = 8" by (simp add: nameHashBytes_def)
  have "lower_alphanumeric c" if "c \<in> set ?h" for c
    using that set_EncodeToString [of "take nameHashBytes (sha1_Sum s)"]
    by (auto simp: lower_alphanumeric_def)
  moreover have "?h \<noteq> []" using len by (metis list.size(3) zero_neq_numeral)
  ultimately show "label_text_ok ?h"
    by (auto simp: label_text_ok_def list_all_iff dns_label_byte_def)
qed

lemma ToLower_plain_hd:
  "lower_alphanumeric a \<Longrightarrow> ToLower (a # s) = a # ToLower s"
proof -
  assume a: "lower_alphanumeric a"
  then have "a \<noteq> CHR 0xC4" "a \<noteq> CHR 0xE2" by (auto simp: lower_alphanumeric_def)
  moreover have "lower_byte a = a" using a by (auto simp: lower_byte_def lower_alphanumeric_def Let_def)
  ultimately show ?thesis by (simp split: list.split)
qed

text \<open>The base of a name begins with kleym whatever the binding is called.\<close>

lemma base_prefix: "HasPrefix (sanitizeDNSLabel (''kleym-'' @ s)) ''kleym''"
proof -
  have t: "HasPrefix (TrimSpace (''kleym-'' @ s)) ''kleym''"
  proof -
    have "HasPrefix (TrimSpace (''kleym-'' @ s)) ''kleym-''"
      by (rule TrimSpace_keeps_prefix) (simp_all add: plain_byte_def)
    then show ?thesis by (rule HasPrefix_trans) simp
  qed
  then obtain r where r: "TrimSpace (''kleym-'' @ s) = ''kleym'' @ r" by (auto simp: HasPrefix_iff)
  have l: "label_chars False (ToLower (''kleym'' @ r)) = ''kleym'' @ label_chars False (ToLower r)"
    by (simp add: ToLower_plain_hd lower_alphanumeric_def del: ToLower.simps)
  have trim: "\<exists>q. TrimByte (''kleym'' @ t) CHR ''-'' = ''kleym'' @ q" for t
  proof -
    have "dropWhile (\<lambda>d. d = CHR ''-'') (rev t @ rev ''kleym'')
        = dropWhile (\<lambda>d. d = CHR ''-'') (rev t) @ rev ''kleym''"
      by (cases "\<forall>x \<in> set t. x = CHR ''-''") (auto simp: dropWhile_append)
    then show ?thesis by (simp add: TrimByte_def)
  qed
  have "ToLower (''kleym'' @ r) \<noteq> []" by (simp add: ToLower_plain_hd lower_alphanumeric_def del: ToLower.simps)
  then show ?thesis
    using trim [of "label_chars False (ToLower r)"]
    unfolding sanitizeDNSLabel_def r l Let_def by (auto simp: HasPrefix_iff)
qed

text \<open>Shortening a base keeps its first letter.\<close>

lemma short_base:
  assumes "HasPrefix base ''kleym''" "0 < n" "list_all dns_label_byte base"
  shows "TrimByte (take n base) CHR ''-'' \<noteq> []" "label_text_ok (TrimByte (take n base) CHR ''-'')"
    "length (TrimByte (take n base) CHR ''-'') \<le> n"
proof -
  obtain r m where "take n base = CHR ''k'' # r"
    using assms(1,2) by (cases n) (auto simp: HasPrefix_iff)
  then have "CHR ''k'' \<in> set (TrimByte (take n base) CHR ''-'')"
    by (auto simp: TrimByte_def dropWhile_append)
  then show ne: "TrimByte (take n base) CHR ''-'' \<noteq> []" by auto
  show "label_text_ok (TrimByte (take n base) CHR ''-'')"
    using assms(3) ne by (intro label_text_trim) (auto simp: list_all_iff dest: in_set_takeD)
  have "length (TrimByte s c) \<le> length s" for s c
    unfolding TrimByte_def by (metis (no_types, lifting) length_dropWhile_le length_rev order_trans)
  from this [of "take n base"] show "length (TrimByte (take n base) CHR ''-'') \<le> n"
    by (metis length_take min.bounded_iff min.cobounded2 order_trans)
qed

section \<open>Properties\<close>

lemma BuildClusterSPIFFEIDName_shape:
  assumes "length (sanitizeDNSLabel kind) \<le> 52"
  shows "label_text_ok (BuildClusterSPIFFEIDName namespace name kind spiffeID)
    \<and> length (BuildClusterSPIFFEIDName namespace name kind spiffeID) \<le> 63
    \<and> HasSuffix (BuildClusterSPIFFEIDName namespace name kind spiffeID)
        (''-'' @ EncodeToString (take nameHashBytes (sha1_Sum spiffeID)))"
proof -
  define mode where "mode = (let m = sanitizeDNSLabel kind in if m = [] then ''identity'' else m)"
  define h where "h = EncodeToString (take nameHashBytes (sha1_Sum spiffeID))"
  define base where "base = sanitizeDNSLabel (defaultNameValue @ ''-'' @ namespace @ ''-'' @ name)"
  define n where "n = (let room = maxDNSLabelLength - int (length mode) - int (length h) - 2
                       in if room < 1 then 1 else room)"
  define base' where "base' = (if int (length base) > n
      then (let short = TrimByte (take (nat n) base) CHR ''-'' in if short = [] then defaultNameValue else short)
      else base)"
  have name: "BuildClusterSPIFFEIDName namespace name kind spiffeID = base' @ ''-'' @ mode @ ''-'' @ h"
    unfolding BuildClusterSPIFFEIDName_def mode_def h_def base_def n_def base'_def Let_def by simp
  have mode: "label_text_ok mode" "length mode \<le> 52"
    using assms sanitizeDNSLabel_ok [of kind] by (auto simp: mode_def Let_def)
  have h: "label_text_ok h" "length h = 8" unfolding h_def by (rule hash_suffix_ok)+
  have n: "n = 53 - int (length mode)" using mode(2) h(2) by (simp add: n_def maxDNSLabelLength_def)
  have pre: "HasPrefix base ''kleym''"
    unfolding base_def defaultNameValue_def using base_prefix [of "namespace @ ''-'' @ name"] by simp
  then have base: "label_text_ok base" unfolding base_def by (intro sanitizeDNSLabel_ok) auto
  have base': "label_text_ok base'" "int (length base') \<le> n"
  proof -
    have "0 < nat n" using n mode(2) by simp
    moreover have "list_all dns_label_byte base" using base by (simp add: label_text_ok_def)
    ultimately have "TrimByte (take (nat n) base) CHR ''-'' \<noteq> []"
      "label_text_ok (TrimByte (take (nat n) base) CHR ''-'')"
      "length (TrimByte (take (nat n) base) CHR ''-'') \<le> nat n"
      using short_base pre by blast+
    then show "label_text_ok base'" "int (length base') \<le> n"
      using base n mode(2) by (auto simp: base'_def)
  qed
  have "label_text_ok (base' @ ''-'' @ mode @ ''-'' @ h)"
    using label_text_ok_join [OF base'(1) label_text_ok_join [OF mode(1) h(1)]] by simp
  moreover have "length (base' @ ''-'' @ mode @ ''-'' @ h) \<le> 63" using base'(2) h(2) n by simp
  moreover have "HasSuffix ((base' @ ''-'' @ mode) @ (''-'' @ h)) (''-'' @ h)"
    by (auto simp: HasSuffix_def HasPrefix_iff)
  ultimately show ?thesis unfolding name h_def [symmetric] by simp
qed

lemmas label_text_ok_BuildName = BuildClusterSPIFFEIDName_shape [THEN conjunct1]

text \<open>
  C35: Names are DNS labels. For an identity anchor whose kind takes at most 52 characters
  as a label, which covers pools, and for any namespace, binding name and SPIFFE ID, even
  ones the API server would not admit, the ClusterSPIFFEID name has at most 63 characters,
  all of them lower-case letters, digits or hyphens, with no hyphen at either end, and it
  ends in the hash of the SPIFFE ID.
\<close>
theorem BuildClusterSPIFFEIDName_dns_label:
  assumes "length (sanitizeDNSLabel kind) \<le> 52"
  shows "label_text_ok (BuildClusterSPIFFEIDName namespace name kind spiffeID)
    \<and> length (BuildClusterSPIFFEIDName namespace name kind spiffeID) \<le> 63
    \<and> HasSuffix (BuildClusterSPIFFEIDName namespace name kind spiffeID)
        (''-'' @ EncodeToString (take nameHashBytes (sha1_Sum spiffeID)))"
  using assms by (rule BuildClusterSPIFFEIDName_shape)

theorem BuildClusterSPIFFEIDName_dns_label_witness:
  "length (BuildClusterSPIFFEIDName ''Team A'' ''b'' ''pool'' ''spiffe://td'') \<le> 63"
  using BuildClusterSPIFFEIDName_dns_label [of "''pool''" "''Team A''" "''b''" "''spiffe://td''"]
  by (simp add: sanitizeDNSLabel_def TrimSpace_plain plain_byte_def lower_byte_def lower_alphanumeric_def
      TrimByte_def)


lemma desired_spec_distinct: "distinct (map fst (desired_spec b p c))"
  by (simp add: desired_spec_def)

lemma desired_spec_wf: "wf_json (JObject (p_PodSelector p)) \<Longrightarrow> wf_json (JObject (desired_spec b p c))"
  by (auto simp: desired_spec_def list_all_iff)

lemma managed_labels_distinct: "distinct (map fst (ManagedClusterSPIFFEIDLabels b))"
  by (simp add: ManagedClusterSPIFFEIDLabels_def ManagedByLabelKey_def BindingNameLabelKey_def
      BindingNamespaceLabelKey_def)

lemma nested_map_field:
  "nested_map_contract X \<Longrightarrow> map_of m k = Some (JObject o') \<Longrightarrow> NestedMap X m [k] = Inr (Some o')"
  unfolding nested_map_contract_def
  by (drule spec [of _ m], drule spec [of _ k]) simp

lemma nested_map_desired:
  "nested_map_contract X \<Longrightarrow>
   NestedMap X (u_Object (DesiredClusterSPIFFEID b p c)) [''spec''] = Inr (Some (desired_spec b p c))"
  by (rule nested_map_field) (simp_all add: DesiredClusterSPIFFEID_def)

text \<open>
  C27: Drift correction converges. Whatever the live object holds, after the desired object
  is merged into it the two are in sync, so the next pass makes no update; and the merge
  keeps the live object's name, UID, annotations (with its ownership claim), and every
  top-level field but the specification.
\<close>
theorem MergeDesiredClusterSPIFFEID_in_sync:
  assumes "nested_map_contract X" "wf_json (JObject (p_PodSelector plan))"
  shows "ClusterSPIFFEIDInSync X
      (MergeDesiredClusterSPIFFEID X current (DesiredClusterSPIFFEID binding plan className))
      (DesiredClusterSPIFFEID binding plan className)
    \<and> (let merged = MergeDesiredClusterSPIFFEID X current (DesiredClusterSPIFFEID binding plan className) in
        u_Name merged = u_Name current \<and> u_UID merged = u_UID current
        \<and> ClusterSPIFFEIDOwnershipClaim merged = ClusterSPIFFEIDOwnershipClaim current
        \<and> (\<forall>field. field \<noteq> ''spec'' \<longrightarrow> map_of (u_Object merged) field = map_of (u_Object current) field))"
proof -
  let ?d = "DesiredClusterSPIFFEID binding plan className"
  let ?m = "MergeDesiredClusterSPIFFEID X current ?d"
  have obj: "u_Object ?m = map_put (u_Object current) ''spec'' (JObject (desired_spec binding plan className))"
    and labels: "u_Labels ?m = map_put_all (u_Labels current) (u_Labels ?d)"
    by (simp_all add: MergeDesiredClusterSPIFFEID_def Let_def nested_map_desired [OF assms(1)])
  have "NestedMap X (u_Object ?m) [''spec''] = Inr (Some (desired_spec binding plan className))"
    by (rule nested_map_field [OF assms(1)]) (simp add: obj)
  moreover have "DeepEqual (JObject (desired_spec binding plan className)) (JObject (desired_spec binding plan className))"
    by (rule DeepEqual_refl [OF desired_spec_wf [OF assms(2)]])
  moreover have "map_index (u_Labels ?m) k = v" if "(k, v) \<in> set (u_Labels ?d)" for k v
    using that managed_labels_distinct [of binding] unfolding labels
    by (intro map_index_put_all_in) (simp_all add: DesiredClusterSPIFFEID_def)
  ultimately have "ClusterSPIFFEIDInSync X ?m ?d"
    by (auto simp: ClusterSPIFFEIDInSync_def nested_map_desired [OF assms(1)] spec_equal_def
        list_all_iff simp del: DeepEqual.simps)
  then show ?thesis
    by (auto simp: MergeDesiredClusterSPIFFEID_def Let_def ClusterSPIFFEIDOwnershipClaim_def)
qed

definition sample_binding :: binding where
  "sample_binding =
     \<lparr>b_Namespace = ''ns'', b_Name = ''b'', b_Generation = 1, b_ResourceVersion = ''1'',
      b_DeletionTimestamp = None, b_Finalizers = [],
      b_Spec = \<lparr>s_PoolRef = \<lparr>pr_Name = ''p'', pr_Group = []\<rparr>, s_ServiceAccountName = ''sa'',
        s_IdentityBoundary = \<lparr>ib_Variant = ''a''\<rparr>\<rparr>,
      b_Status = \<lparr>st_Conditions = [], st_TrustDomain = [], st_ClusterSPIFFEIDClassName = [],
        st_Conflicts = [], st_ComputedSpiffeIDs = [], st_RenderedSelectors = [],
        st_PendingClusterSPIFFEID = None, st_OwnedClusterSPIFFEID = None,
        st_RenderedClusterSPIFFEID = None\<rparr>\<rparr>"

definition bare_object :: Unstructured where
  "bare_object =
     \<lparr>u_GVK = clusterSPIFFEIDGVK, u_Namespace = [], u_Name = ''live'', u_UID = ''u1'', u_Generation = 3, u_DeletionTimestamp = None,
      u_Labels = [(''team'', ''x'')], u_Annotations = [], u_Object = [(''status'', JNull)]\<rparr>"

theorem MergeDesiredClusterSPIFFEID_in_sync_witness:
  "ClusterSPIFFEIDInSync ref_ext
     (MergeDesiredClusterSPIFFEID ref_ext bare_object (DesiredClusterSPIFFEID sample_binding (sample_plan ''a'') []))
     (DesiredClusterSPIFFEID sample_binding (sample_plan ''a'') [])"
  by (rule MergeDesiredClusterSPIFFEID_in_sync [THEN conjunct1]) (simp_all add: sample_plan_def)

text \<open>
  Claims are stored and read back. An object that is given a claim carries it, and its
  other annotations, its name and its UID are as before.
\<close>
theorem OwnershipClaim_roundtrip:
  "ClusterSPIFFEIDOwnershipClaim (SetClusterSPIFFEIDOwnershipClaim object claim) = claim
   \<and> (\<forall>key. key \<noteq> OwnershipClaimIDAnnotationKey \<longrightarrow>
        map_index (u_Annotations (SetClusterSPIFFEIDOwnershipClaim object claim)) key
        = map_index (u_Annotations object) key)
   \<and> u_Name (SetClusterSPIFFEIDOwnershipClaim object claim) = u_Name object
   \<and> u_UID (SetClusterSPIFFEIDOwnershipClaim object claim) = u_UID object"
  by (simp add: ClusterSPIFFEIDOwnershipClaim_def SetClusterSPIFFEIDOwnershipClaim_def)

theorem OwnershipClaim_roundtrip_witness:
  "map_index (u_Annotations (SetClusterSPIFFEIDOwnershipClaim bare_object ''c'')) ''other''
     = map_index (u_Annotations bare_object) ''other''"
  using OwnershipClaim_roundtrip [of bare_object "''c''"] by (simp add: OwnershipClaimIDAnnotationKey_def)

end
