(* ===== verification/Operator_Config.thy ===== *)
theory Operator_Config
  imports Go_Strings
begin

text \<open>
  Install-level settings (\<^verbatim>\<open>internal/controller/operator_config.go\<close>): the environment
  fallback for omitted flags and the validation that gates controller setup.
\<close>

definition trustDomainRequiredMessage :: string where
  "trustDomainRequiredMessage = ''trustDomain must be configured before Kleym can render SPIFFE IDs''"

definition EnvTrustDomain :: string where "EnvTrustDomain = ''KLEYM_TRUST_DOMAIN''"
definition EnvClusterSPIFFEIDClassName :: string where
  "EnvClusterSPIFFEIDClassName = ''KLEYM_CLUSTERSPIFFEID_CLASS_NAME''"

record OperatorConfig =
  oc_TrustDomain :: string
  oc_ClusterSPIFFEIDClassName :: string

record OperatorConfigExplicitFields =
  ex_TrustDomain :: bool
  ex_ClusterSPIFFEIDClassName :: bool

definition WithEnvFallback ::
    "OperatorConfig \<Rightarrow> (string \<Rightarrow> string option) \<Rightarrow> OperatorConfigExplicitFields \<Rightarrow> OperatorConfig" where
  "WithEnvFallback c lookupEnv explicit =
     (let c = (if \<not> ex_TrustDomain explicit
               then (case lookupEnv EnvTrustDomain of
                       Some value \<Rightarrow> c\<lparr>oc_TrustDomain := value\<rparr> | None \<Rightarrow> c)
               else c)
      in if \<not> ex_ClusterSPIFFEIDClassName explicit
         then (case lookupEnv EnvClusterSPIFFEIDClassName of
                 Some value \<Rightarrow> c\<lparr>oc_ClusterSPIFFEIDClassName := value\<rparr> | None \<Rightarrow> c)
         else c)"

definition Validate :: "OperatorConfig \<Rightarrow> go_error option" where
  "Validate c =
     (if TrimSpace (oc_TrustDomain c) = [] then Some (PlainError trustDomainRequiredMessage)
      else if oc_TrustDomain c \<noteq> TrimSpace (oc_TrustDomain c) then
        Some (PlainError ''trustDomain must not include leading or trailing whitespace'')
      else if HasPrefix (oc_TrustDomain c) ''spiffe://'' then
        Some (PlainError ''trustDomain must not include spiffe://'')
      else if Contains (oc_TrustDomain c) ''/'' then
        Some (PlainError ''trustDomain must not contain /'')
      else if oc_ClusterSPIFFEIDClassName c \<noteq> TrimSpace (oc_ClusterSPIFFEIDClassName c) then
        Some (PlainError ''clusterspiffeidClassName must not include leading or trailing whitespace'')
      else None)"

text \<open>
  The configurations that pass. The test for a scheme is implied by the test for a slash.
\<close>

definition config_valid :: "OperatorConfig \<Rightarrow> bool" where
  "config_valid c =
     (oc_TrustDomain c \<noteq> [] \<and> trimmed (oc_TrustDomain c) \<and> CHR ''/'' \<notin> set (oc_TrustDomain c) \<and>
      trimmed (oc_ClusterSPIFFEIDClassName c))"

lemma Validate_None: "Validate c = None \<longleftrightarrow> config_valid c"
proof -
  have "HasPrefix s ''spiffe://'' \<Longrightarrow> CHR ''/'' \<in> set s" for s by (auto simp: HasPrefix_iff)
  then show ?thesis
    by (auto simp: Validate_def config_valid_def TrimSpace_fixed [symmetric])
qed

text \<open>
  Explicit flags win over the environment, an omitted flag takes the environment value
  when there is one, and otherwise the configured value stays.
\<close>
theorem WithEnvFallback_precedence:
  "WithEnvFallback c env explicit =
     \<lparr>oc_TrustDomain =
        (if ex_TrustDomain explicit then oc_TrustDomain c
         else case env EnvTrustDomain of Some v \<Rightarrow> v | None \<Rightarrow> oc_TrustDomain c),
      oc_ClusterSPIFFEIDClassName =
        (if ex_ClusterSPIFFEIDClassName explicit then oc_ClusterSPIFFEIDClassName c
         else case env EnvClusterSPIFFEIDClassName of Some v \<Rightarrow> v
           | None \<Rightarrow> oc_ClusterSPIFFEIDClassName c)\<rparr>"
  by (cases c) (simp add: WithEnvFallback_def Let_def split: option.split)

end
