(* ===== verification/Binding_Status.thy ===== *)
theory Binding_Status
  imports Gaie Spire_CM Operator_Config
begin

text \<open>
  The status of a binding (\<^verbatim>\<open>inferenceidentitybinding_status.go\<close>), the state errors that
  are turned into conditions (\<^verbatim>\<open>_types.go\<close>, \<^verbatim>\<open>_resolver.go\<close>), and the outcome labels
  the metrics derive from a status (\<^verbatim>\<open>_metrics.go\<close>). All functions here are pure: a
  status goes in and the changed status comes out.
\<close>

section \<open>Constants (controller.go)\<close>

definition inferenceIdentityBindingFinalizer :: string where
  [ctrl_defs]: "inferenceIdentityBindingFinalizer = ''kleym.sonda.red/inferenceidentitybinding-finalizer''"
definition conditionTypeReady :: string where [ctrl_defs]: "conditionTypeReady = ''Ready''"
definition conditionTypeInvalidRef :: string where [ctrl_defs]: "conditionTypeInvalidRef = ''InvalidRef''"
definition conditionTypeUnsafeSelector :: string where
  [ctrl_defs]: "conditionTypeUnsafeSelector = ''UnsafeSelector''"
definition conditionTypeConflict :: string where [ctrl_defs]: "conditionTypeConflict = ''Conflict''"
definition conditionTypeRenderFailure :: string where
  [ctrl_defs]: "conditionTypeRenderFailure = ''RenderFailure''"
definition conditionReasonReconciled :: string where
  [ctrl_defs]: "conditionReasonReconciled = ''Reconciled''"
definition conditionReasonResolved :: string where [ctrl_defs]: "conditionReasonResolved = ''Resolved''"
definition conditionReasonInitializing :: string where
  [ctrl_defs]: "conditionReasonInitializing = ''Initializing''"
definition conditionReasonInvalidPoolRef :: string where
  [ctrl_defs]: "conditionReasonInvalidPoolRef = ''InvalidPoolRef''"
definition conditionReasonClusterSPIFFEIDCRDMissing :: string where
  [ctrl_defs]: "conditionReasonClusterSPIFFEIDCRDMissing = ''ClusterSPIFFEIDCRDMissing''"
definition conditionReasonManagedOutputApplyFailed :: string where
  [ctrl_defs]: "conditionReasonManagedOutputApplyFailed = ''ManagedOutputApplyFailed''"
definition conditionReasonVariantConflict :: string where
  [ctrl_defs]: "conditionReasonVariantConflict = ''VariantConflict''"
definition conditionReasonDuplicateSPIFFEID :: string where
  [ctrl_defs]: "conditionReasonDuplicateSPIFFEID = ''DuplicateSPIFFEID''"

text \<open>Durations are counted in nanoseconds, as \<^verbatim>\<open>time.Duration\<close> is.\<close>

definition Second :: int where "Second = 1000000000"
definition infraNotReadyRequeueAfter :: int where
  "infraNotReadyRequeueAfter = 30 * Second"
definition deleteVerificationRequeueAfter :: int where
  "deleteVerificationRequeueAfter = 2 * Second"

section \<open>State errors (types.go, resolver.go)\<close>

record reconcileStateError =
  se_conditionType :: string
  se_reason :: string
  se_message :: string

text \<open>
  The conversion of an error to a state error follows the chain of wrapped errors: first
  for an error of the controller, then of package identity, then of package gaie.
\<close>

fun error_chain :: "go_error \<Rightarrow> go_error list" where
  "error_chain (WrapError p e) = WrapError p e # error_chain e"
| "error_chain e = [e]"

fun as_reconcile_error :: "go_error \<Rightarrow> reconcileStateError option" where
  "as_reconcile_error (ReconcileStateError t r m) =
     Some \<lparr>se_conditionType = t, se_reason = r, se_message = m\<rparr>"
| "as_reconcile_error _ = None"

fun as_identity_error :: "go_error \<Rightarrow> reconcileStateError option" where
  "as_identity_error (IdentityStateError t r m) =
     Some \<lparr>se_conditionType = t, se_reason = r, se_message = m\<rparr>"
| "as_identity_error _ = None"

fun as_gaie_error :: "go_error \<Rightarrow> reconcileStateError option" where
  "as_gaie_error (GaieStateError t r m) =
     Some \<lparr>se_conditionType = t, se_reason = r, se_message = m\<rparr>"
| "as_gaie_error _ = None"

definition errors_As :: "(go_error \<Rightarrow> 'a option) \<Rightarrow> go_error \<Rightarrow> 'a option" where
  "errors_As f e = (case List.map_filter f (error_chain e) of [] \<Rightarrow> None | x # _ \<Rightarrow> Some x)"

definition errorsAsStateError :: "go_error \<Rightarrow> reconcileStateError option" where
  "errorsAsStateError err =
     (case errors_As as_reconcile_error err of
        Some stateErr \<Rightarrow> Some stateErr
      | None \<Rightarrow> (case errors_As as_identity_error err of
          Some identityErr \<Rightarrow> Some identityErr
        | None \<Rightarrow> errors_As as_gaie_error err))"

definition newStateError :: "string \<Rightarrow> string \<Rightarrow> string \<Rightarrow> reconcileStateError" where
  "newStateError conditionType reason message =
     \<lparr>se_conditionType = conditionType, se_reason = reason, se_message = message\<rparr>"

definition shouldCleanupManagedClusterSPIFFEIDs :: "string \<Rightarrow> bool" where
  "shouldCleanupManagedClusterSPIFFEIDs conditionType =
     (conditionType = conditionTypeInvalidRef \<or> conditionType = conditionTypeUnsafeSelector \<or>
      conditionType = conditionTypeRenderFailure)"

definition isInfrastructureNotReadyReason :: "string \<Rightarrow> bool" where
  "isInfrastructureNotReadyReason reason =
     (reason = ReasonInferencePoolCRDMissing \<or> reason = conditionReasonClusterSPIFFEIDCRDMissing)"

definition newClusterSPIFFEIDCRDMissingStateError :: reconcileStateError where
  "newClusterSPIFFEIDCRDMissingStateError =
     newStateError conditionTypeRenderFailure conditionReasonClusterSPIFFEIDCRDMissing
       ''ClusterSPIFFEID CRD is not installed''"

definition newManagedOutputApplyFailedStateError :: "go_error \<Rightarrow> reconcileStateError" where
  "newManagedOutputApplyFailedStateError err =
     newStateError conditionTypeRenderFailure conditionReasonManagedOutputApplyFailed
       (''Managed ClusterSPIFFEID output could not be applied: '' @ error_text err)"

section \<open>Writing conditions (status.go)\<close>

definition setCondition ::
    "ext \<Rightarrow> int \<Rightarrow> string \<Rightarrow> string \<Rightarrow> string \<Rightarrow> string \<Rightarrow> status \<Rightarrow> status" where
  "setCondition X generation conditionType conditionStatus reason message st =
     st\<lparr>st_Conditions := SetStatusCondition X (st_Conditions st)
       \<lparr>c_Type = conditionType, c_Status = conditionStatus, c_ObservedGeneration = generation,
        c_LastTransitionTime = [], c_Reason = reason, c_Message = message\<rparr>\<rparr>"

definition canonical_conditions :: "(string \<times> string) list" where
  "canonical_conditions =
     [(conditionTypeReady, ''Readiness has not been evaluated yet''),
      (conditionTypeInvalidRef, ''Reference validity has not been evaluated yet''),
      (conditionTypeUnsafeSelector, ''Selector safety has not been evaluated yet''),
      (conditionTypeConflict, ''Variant conflicts have not been evaluated yet''),
      (conditionTypeRenderFailure, ''Render health has not been evaluated yet'')]"

definition initialize_condition :: "ext \<Rightarrow> int \<Rightarrow> string \<times> string \<Rightarrow> status \<Rightarrow> status" where
  "initialize_condition X generation entry st =
     (case FindStatusCondition X (st_Conditions st) (fst entry) of
        None \<Rightarrow> setCondition X generation (fst entry) ConditionUnknown conditionReasonInitializing
                  (snd entry) st
      | Some existing \<Rightarrow>
          setCondition X generation (fst entry) (c_Status existing)
            (if TrimSpace (c_Reason existing) \<noteq> [] then c_Reason existing
             else conditionReasonInitializing)
            (if TrimSpace (c_Message existing) \<noteq> [] then c_Message existing else snd entry) st)"

definition initializeConditions :: "ext \<Rightarrow> status \<Rightarrow> int \<Rightarrow> status" where
  "initializeConditions X st generation =
     fold (initialize_condition X generation) canonical_conditions st"

definition applyOperatorConfig :: "status \<Rightarrow> OperatorConfig \<Rightarrow> status" where
  "applyOperatorConfig st config =
     st\<lparr>st_TrustDomain := oc_TrustDomain config,
        st_ClusterSPIFFEIDClassName := oc_ClusterSPIFFEIDClassName config\<rparr>"

definition applySuccessStatus ::
    "ext \<Rightarrow> status \<Rightarrow> int \<Rightarrow> Plan list \<Rightarrow> RenderedClusterSPIFFEIDStatus list \<Rightarrow> status" where
  "applySuccessStatus X st generation identities managedStatuses =
     (let st = st\<lparr>
        st_ComputedSpiffeIDs := map (\<lambda>rendered. \<lparr>cs_SpiffeID = p_SpiffeID rendered\<rparr>) identities,
        st_RenderedSelectors := map (\<lambda>rendered. \<lparr>rs_SpiffeID = p_SpiffeID rendered,
          rs_Selectors = p_Selectors rendered\<rparr>) identities,
        st_Conflicts := [],
        st_RenderedClusterSPIFFEID :=
          (if length managedStatuses > 0 then Some (managedStatuses ! 0) else None)\<rparr>;
      st = setCondition X generation conditionTypeReady ConditionTrue conditionReasonReconciled
             ''Binding reconciled'' st;
      st = setCondition X generation conditionTypeInvalidRef ConditionFalse conditionReasonResolved
             ''References are valid'' st;
      st = setCondition X generation conditionTypeUnsafeSelector ConditionFalse conditionReasonResolved
             ''Selectors are safe'' st;
      st = setCondition X generation conditionTypeConflict ConditionFalse conditionReasonResolved
             ''Variant is exclusive'' st
      in setCondition X generation conditionTypeRenderFailure ConditionFalse conditionReasonResolved
           ''Rendering is healthy'' st)"

text \<open>The fields every other outcome clears.\<close>

definition clear_rendered :: "status \<Rightarrow> status" where
  "clear_rendered st = st\<lparr>st_ComputedSpiffeIDs := [], st_RenderedSelectors := [],
     st_RenderedClusterSPIFFEID := None\<rparr>"

definition applyConflictStatus :: "ext \<Rightarrow> status \<Rightarrow> int \<Rightarrow> VariantConflict list \<Rightarrow> status" where
  "applyConflictStatus X st generation conflicts =
     (let st = (clear_rendered st)\<lparr>st_Conflicts := map (\<lambda>conflict.
            \<lparr>vc_BindingName = nn_Name (k_PeerBindingRef conflict), vc_Cause = k_Cause conflict,
             vc_SpiffeID = k_PeerSpiffeID conflict, vc_Variant = k_PeerVariant conflict\<rparr>) conflicts\<rparr>;
          reason = (if \<exists>conflict \<in> set conflicts. k_Cause conflict = CauseDuplicateSPIFFEID
                    then conditionReasonDuplicateSPIFFEID else conditionReasonVariantConflict);
          message = ''Variant conflicts with one or more peer bindings'';
          st = setCondition X generation conditionTypeReady ConditionFalse reason message st;
          st = setCondition X generation conditionTypeInvalidRef ConditionFalse conditionReasonResolved
             ''References are valid'' st;
          st = setCondition X generation conditionTypeUnsafeSelector ConditionFalse conditionReasonResolved
             ''Selectors are safe'' st;
          st = setCondition X generation conditionTypeConflict ConditionTrue reason message st
      in setCondition X generation conditionTypeRenderFailure ConditionFalse conditionReasonResolved
           ''Rendering is healthy'' st)"

definition applyPendingManagedOutputStatus :: "ext \<Rightarrow> status \<Rightarrow> int \<Rightarrow> status" where
  "applyPendingManagedOutputStatus X st generation =
     (let st = (clear_rendered st)\<lparr>st_Conflicts := []\<rparr>;
          message = ''Waiting to confirm managed output creation'';
          st = setCondition X generation conditionTypeReady ConditionUnknown conditionReasonInitializing
             message st;
          st = setCondition X generation conditionTypeInvalidRef ConditionFalse conditionReasonResolved
             ''References are valid'' st;
          st = setCondition X generation conditionTypeUnsafeSelector ConditionFalse conditionReasonResolved
             ''Selectors are safe'' st;
          st = setCondition X generation conditionTypeConflict ConditionFalse conditionReasonResolved
             ''Variant is exclusive'' st
      in setCondition X generation conditionTypeRenderFailure ConditionFalse conditionReasonResolved
           ''Rendering is healthy'' st)"

definition applyPendingConflictStatus :: "ext \<Rightarrow> status \<Rightarrow> int \<Rightarrow> status" where
  "applyPendingConflictStatus X st generation =
     (let st = (clear_rendered st)\<lparr>st_Conflicts := []\<rparr>;
          st = setCondition X generation conditionTypeReady ConditionUnknown conditionReasonInitializing
             ''Waiting for managed output absence'' st;
          st = setCondition X generation conditionTypeInvalidRef ConditionFalse conditionReasonResolved
             ''References are valid'' st;
          st = setCondition X generation conditionTypeUnsafeSelector ConditionFalse conditionReasonResolved
             ''Selectors are safe'' st;
          st = setCondition X generation conditionTypeConflict ConditionUnknown conditionReasonInitializing
             ''Waiting for managed output absence'' st
      in setCondition X generation conditionTypeRenderFailure ConditionFalse conditionReasonResolved
           ''Rendering is healthy'' st)"

definition applyPendingManagedOutputReplacementStatus :: "ext \<Rightarrow> status \<Rightarrow> int \<Rightarrow> status" where
  "applyPendingManagedOutputReplacementStatus X st generation =
     (let st = (clear_rendered st)\<lparr>st_Conflicts := []\<rparr>;
          message = ''Waiting for previous managed output absence before creating its replacement'';
          st = setCondition X generation conditionTypeReady ConditionUnknown conditionReasonInitializing
             message st;
          st = setCondition X generation conditionTypeInvalidRef ConditionFalse conditionReasonResolved
             ''References are valid'' st;
          st = setCondition X generation conditionTypeUnsafeSelector ConditionFalse conditionReasonResolved
             ''Selectors are safe'' st;
          st = setCondition X generation conditionTypeConflict ConditionFalse conditionReasonResolved
             ''Variant is exclusive'' st
      in setCondition X generation conditionTypeRenderFailure ConditionFalse conditionReasonResolved
           ''Rendering is healthy'' st)"

definition applyFailureStatus :: "ext \<Rightarrow> status \<Rightarrow> int \<Rightarrow> reconcileStateError \<Rightarrow> status" where
  "applyFailureStatus X st generation stateErr =
     (let st = (clear_rendered st)\<lparr>st_Conflicts := []\<rparr>;
          st = setCondition X generation conditionTypeReady ConditionFalse (se_reason stateErr)
             (se_message stateErr) st;
          st = setCondition X generation (se_conditionType stateErr) ConditionTrue (se_reason stateErr)
             (se_message stateErr) st;
          st = (if se_conditionType stateErr \<noteq> conditionTypeInvalidRef then
                  setCondition X generation conditionTypeInvalidRef ConditionFalse
                    conditionReasonResolved ''References are valid'' st else st);
          st = (if se_conditionType stateErr \<noteq> conditionTypeUnsafeSelector then
                  setCondition X generation conditionTypeUnsafeSelector ConditionFalse
                    conditionReasonResolved ''Selectors are safe'' st else st);
          st = (if se_conditionType stateErr \<noteq> conditionTypeConflict then
                  setCondition X generation conditionTypeConflict ConditionFalse
                    conditionReasonResolved ''Variant is exclusive'' st else st)
      in if se_conditionType stateErr \<noteq> conditionTypeRenderFailure then
           setCondition X generation conditionTypeRenderFailure ConditionFalse
             conditionReasonResolved ''Rendering is healthy'' st
         else st)"

section \<open>Outcome labels (metrics.go)\<close>

definition metricReasonInitializing :: string where
  [ctrl_defs]: "metricReasonInitializing = ''Initializing''"
definition metricReasonUnclassifiedFailure :: string where
  [ctrl_defs]: "metricReasonUnclassifiedFailure = ''UnclassifiedFailure''"

definition failureOutcomeConditionOrder :: "string list" where
  "failureOutcomeConditionOrder =
     [conditionTypeInvalidRef, conditionTypeUnsafeSelector, conditionTypeConflict,
      conditionTypeRenderFailure]"

text \<open>The loop over the failure conditions: the first that holds.\<close>

fun first_failure :: "ext \<Rightarrow> status \<Rightarrow> string list \<Rightarrow> (string \<times> string) option" where
  "first_failure X st [] = None"
| "first_failure X st (conditionType # rest) =
     (case FindStatusCondition X (st_Conditions st) conditionType of
        Some condition \<Rightarrow>
          if c_Status condition = ConditionTrue then Some (c_Type condition, c_Reason condition)
          else first_failure X st rest
      | None \<Rightarrow> first_failure X st rest)"

definition deriveBindingOutcomeLabels :: "ext \<Rightarrow> status \<Rightarrow> bool \<Rightarrow> (string \<times> string) option" where
  "deriveBindingOutcomeLabels X st allowInitializing =
     (let ready = FindStatusCondition X (st_Conditions st) conditionTypeReady;
          fallback = (case first_failure X st failureOutcomeConditionOrder of
              Some labels \<Rightarrow> Some labels
            | None \<Rightarrow> (case ready of
                Some c \<Rightarrow> if c_Status c = ConditionFalse
                  then Some (conditionTypeReady, metricReasonUnclassifiedFailure) else None
              | None \<Rightarrow> None))
      in case ready of
           Some c \<Rightarrow>
             if c_Status c = ConditionTrue then Some (conditionTypeReady, c_Reason c)
             else if allowInitializing \<and> c_Status c = ConditionUnknown
               \<and> c_Reason c = metricReasonInitializing
             then Some (conditionTypeReady, metricReasonInitializing)
             else fallback
         | None \<Rightarrow> fallback)"

text \<open>
  The gauge collector counts the bindings per pair of labels in a map. Without a list
  function, or when listing fails, it reports nothing.
\<close>

fun bump :: "('k \<times> nat) list \<Rightarrow> 'k \<Rightarrow> ('k \<times> nat) list" where
  "bump [] k = [(k, 1)]"
| "bump ((k', n) # m) k = (if k' = k then (k', Suc n) # m else (k', n) # bump m k)"

definition aggregate_outcomes :: "ext \<Rightarrow> binding list \<Rightarrow> ((string \<times> string) \<times> nat) list" where
  "aggregate_outcomes X bindings =
     fold (\<lambda>b aggregated. case deriveBindingOutcomeLabels X (b_Status b) True of
             Some labels \<Rightarrow> bump aggregated labels | None \<Rightarrow> aggregated) bindings []"

definition Collect :: "ext \<Rightarrow> ((binding list) result) option \<Rightarrow> ((string \<times> string) \<times> nat) list" where
  "Collect X listFunc =
     (case listFunc of
        None \<Rightarrow> []
      | Some (Inl _) \<Rightarrow> []
      | Some (Inr bindings) \<Rightarrow> aggregate_outcomes X bindings)"

section \<open>Reading conditions back\<close>

definition cond :: "ext \<Rightarrow> status \<Rightarrow> string \<Rightarrow> (string \<times> string \<times> string \<times> int) option" where
  "cond X st t = map_option (\<lambda>c. (c_Status c, c_Reason c, c_Message c, c_ObservedGeneration c))
     (FindStatusCondition X (st_Conditions st) t)"

named_theorems status_simps \<open>conditions and fields after a status write\<close>

lemma cond_setCondition [status_simps]:
  assumes "conditions_contract X"
  shows "cond X (setCondition X g t s r m st) t' = (if t' = t then Some (s, r, m, g) else cond X st t')"
proof (cases "t' = t")
  case True
  let ?c = "\<lparr>c_Type = t, c_Status = s, c_ObservedGeneration = g, c_LastTransitionTime = [],
             c_Reason = r, c_Message = m\<rparr>"
  obtain d where "FindStatusCondition X (SetStatusCondition X (st_Conditions st) ?c) (c_Type ?c) = Some d"
      "same_condition ?c d"
    using assms unfolding conditions_contract_def by blast
  with True show ?thesis by (auto simp: cond_def setCondition_def same_condition_def)
next
  case False
  with assms show ?thesis by (simp add: cond_def setCondition_def conditions_contract_def)
qed

lemma setCondition_fields [status_simps, simp]:
  "st_TrustDomain (setCondition X g t s r m st) = st_TrustDomain st"
  "st_ClusterSPIFFEIDClassName (setCondition X g t s r m st) = st_ClusterSPIFFEIDClassName st"
  "st_Conflicts (setCondition X g t s r m st) = st_Conflicts st"
  "st_ComputedSpiffeIDs (setCondition X g t s r m st) = st_ComputedSpiffeIDs st"
  "st_RenderedSelectors (setCondition X g t s r m st) = st_RenderedSelectors st"
  "st_PendingClusterSPIFFEID (setCondition X g t s r m st) = st_PendingClusterSPIFFEID st"
  "st_OwnedClusterSPIFFEID (setCondition X g t s r m st) = st_OwnedClusterSPIFFEID st"
  "st_RenderedClusterSPIFFEID (setCondition X g t s r m st) = st_RenderedClusterSPIFFEID st"
  by (simp_all add: setCondition_def)

lemma clear_rendered_fields [status_simps, simp]:
  "st_TrustDomain (clear_rendered st) = st_TrustDomain st"
  "st_ClusterSPIFFEIDClassName (clear_rendered st) = st_ClusterSPIFFEIDClassName st"
  "st_ComputedSpiffeIDs (clear_rendered st) = []" "st_RenderedSelectors (clear_rendered st) = []"
  "st_RenderedClusterSPIFFEID (clear_rendered st) = None"
  "st_PendingClusterSPIFFEID (clear_rendered st) = st_PendingClusterSPIFFEID st"
  "st_OwnedClusterSPIFFEID (clear_rendered st) = st_OwnedClusterSPIFFEID st"
  by (simp_all add: clear_rendered_def)

lemma first_failure_cond:
  assumes "conditions_contract X"
  shows "first_failure X st ts = (case find (\<lambda>t. map_option fst (cond X st t) = Some ConditionTrue) ts of
      Some t \<Rightarrow> Some (t, fst (snd (the (cond X st t)))) | None \<Rightarrow> None)"
proof (induction ts)
  case Nil
  then show ?case by simp
next
  case (Cons t ts)
  have "c_Type c = t" if "FindStatusCondition X (st_Conditions st) t = Some c" for c
    using assms that by (simp add: conditions_contract_def)
  with Cons show ?case by (auto simp: cond_def split: option.splits)
qed

section \<open>What a status write promises\<close>

definition failure_types :: "string set" where
  "failure_types = {conditionTypeInvalidRef, conditionTypeUnsafeSelector, conditionTypeConflict,
     conditionTypeRenderFailure}"

definition canonical_types :: "string set" where
  "canonical_types = insert conditionTypeReady failure_types"

text \<open>
  The contract of the functions that write an outcome: they leave the ownership records and
  the operator settings alone, give each of the five conditions the status the outcome
  stands for, observed at the given generation, and the statuses fit together.
\<close>

locale status_writer =
  fixes put :: "ext \<Rightarrow> status \<Rightarrow> int \<Rightarrow> status" and verdict :: "string \<Rightarrow> string"
  assumes keeps_ownership:
      "st_PendingClusterSPIFFEID (put X st g) = st_PendingClusterSPIFFEID st"
      "st_OwnedClusterSPIFFEID (put X st g) = st_OwnedClusterSPIFFEID st"
    and keeps_settings:
      "st_TrustDomain (put X st g) = st_TrustDomain st"
      "st_ClusterSPIFFEIDClassName (put X st g) = st_ClusterSPIFFEIDClassName st"
    and settles: "conditions_contract X \<Longrightarrow> t \<in> canonical_types \<Longrightarrow>
      \<exists>r m. cond X (put X st g) t = Some (verdict t, r, m, g)"
    and coherent: "verdict conditionTypeReady = ConditionTrue \<Longrightarrow> t \<in> failure_types \<Longrightarrow> verdict t = ConditionFalse"
      "t \<in> failure_types \<Longrightarrow> verdict t = ConditionTrue \<Longrightarrow> verdict conditionTypeReady = ConditionFalse"
begin

lemma ready_excludes_failure:
  assumes "conditions_contract X" "cond X (put X st g) conditionTypeReady = Some (ConditionTrue, r, m, h)"
    and "t \<in> failure_types"
  shows "\<exists>r m. cond X (put X st g) t = Some (ConditionFalse, r, m, g)"
proof -
  have "verdict conditionTypeReady = ConditionTrue"
    using settles [OF assms(1), of conditionTypeReady st g] assms(2) by (auto simp: canonical_types_def)
  with coherent(1) settles [OF assms(1), of t st g] assms(3) show ?thesis
    by (auto simp: canonical_types_def)
qed

lemma outcome_ready:
  assumes "conditions_contract X" "verdict conditionTypeReady = ConditionTrue"
  shows "\<exists>r. deriveBindingOutcomeLabels X (put X st g) a = Some (conditionTypeReady, r)"
proof -
  obtain r m where "cond X (put X st g) conditionTypeReady = Some (ConditionTrue, r, m, g)"
    using settles [OF assms(1), of conditionTypeReady st g] assms(2) by (auto simp: canonical_types_def)
  then show ?thesis by (auto simp: deriveBindingOutcomeLabels_def cond_def)
qed

lemma outcome_failure:
  assumes "conditions_contract X" "t \<in> failure_types" "verdict t = ConditionTrue"
    and unique: "\<And>t'. t' \<in> failure_types \<Longrightarrow> verdict t' = ConditionTrue \<Longrightarrow> t' = t"
  shows "\<exists>r m. cond X (put X st g) t = Some (ConditionTrue, r, m, g)
    \<and> deriveBindingOutcomeLabels X (put X st g) a = Some (t, r)"
proof -
  let ?st = "put X st g"
  obtain r m where t: "cond X ?st t = Some (ConditionTrue, r, m, g)"
    using settles [OF assms(1), of t st g] assms(2,3) by (auto simp: canonical_types_def)
  obtain r' m' where ready: "cond X ?st conditionTypeReady = Some (ConditionFalse, r', m', g)"
    using settles [OF assms(1), of conditionTypeReady st g] coherent(2) [OF assms(2,3)]
    by (auto simp: canonical_types_def)
  have only: "map_option fst (cond X ?st t') = Some ConditionTrue \<longleftrightarrow> t' = t" if "t' \<in> failure_types" for t'
    using settles [OF assms(1), of t' st g] unique [OF that] that assms(3)
    by (auto simp: canonical_types_def)
  have "find (\<lambda>t. map_option fst (cond X ?st t) = Some ConditionTrue) failureOutcomeConditionOrder = Some t"
    using only assms(2) unfolding failureOutcomeConditionOrder_def failure_types_def by auto
  then have "first_failure X ?st failureOutcomeConditionOrder = Some (t, r)"
    by (simp add: first_failure_cond [OF assms(1)] t)
  with ready t show ?thesis
    by (auto simp: deriveBindingOutcomeLabels_def cond_def Let_def api_defs)
qed

end


section \<open>The writers of the controller\<close>

definition statuses :: "(string \<times> string) list \<Rightarrow> string \<Rightarrow> string" where
  "statuses vs t = (case map_of vs t of Some s \<Rightarrow> s | None \<Rightarrow> ConditionFalse)"

lemmas writer_defs = applySuccessStatus_def applyConflictStatus_def applyPendingManagedOutputStatus_def
  applyPendingConflictStatus_def applyPendingManagedOutputReplacementStatus_def applyFailureStatus_def
  newStateError_def Let_def

lemmas writer_types = failure_types_def canonical_types_def statuses_def ctrl_defs api_defs

lemma cond_updates [status_simps, simp]:
  "cond X (st\<lparr>st_Conflicts := a\<rparr>) t = cond X st t"
  "cond X (clear_rendered st) t = cond X st t"
  by (simp_all add: cond_def clear_rendered_def)

interpretation success: status_writer "\<lambda>X st g. applySuccessStatus X st g identities managed"
    "statuses [(conditionTypeReady, ConditionTrue)]" for identities managed
  by unfold_locales
     (auto simp: writer_defs writer_types cond_setCondition)

interpretation conflict: status_writer "\<lambda>X st g. applyConflictStatus X st g conflicts"
    "statuses [(conditionTypeConflict, ConditionTrue)]" for conflicts
  by unfold_locales
     (auto simp: writer_defs writer_types cond_setCondition)

interpretation pending_output: status_writer applyPendingManagedOutputStatus
    "statuses [(conditionTypeReady, ConditionUnknown)]"
  by unfold_locales
     (auto simp: writer_defs writer_types cond_setCondition)

interpretation pending_conflict: status_writer applyPendingConflictStatus
    "statuses [(conditionTypeReady, ConditionUnknown), (conditionTypeConflict, ConditionUnknown)]"
  by unfold_locales
     (auto simp: writer_defs writer_types cond_setCondition)

interpretation replacement: status_writer applyPendingManagedOutputReplacementStatus
    "statuses [(conditionTypeReady, ConditionUnknown)]"
  by unfold_locales
     (auto simp: writer_defs writer_types cond_setCondition)

interpretation invalid_ref: status_writer
    "\<lambda>X st g. applyFailureStatus X st g (newStateError conditionTypeInvalidRef r m)"
    "statuses [(conditionTypeInvalidRef, ConditionTrue)]" for r m
  by unfold_locales
     (auto simp: writer_defs writer_types cond_setCondition)

interpretation unsafe_selector: status_writer
    "\<lambda>X st g. applyFailureStatus X st g (newStateError conditionTypeUnsafeSelector r m)"
    "statuses [(conditionTypeUnsafeSelector, ConditionTrue)]" for r m
  by unfold_locales
     (auto simp: writer_defs writer_types cond_setCondition)

interpretation render_failure: status_writer
    "\<lambda>X st g. applyFailureStatus X st g (newStateError conditionTypeRenderFailure r m)"
    "statuses [(conditionTypeRenderFailure, ConditionTrue)]" for r m
  by unfold_locales
     (auto simp: writer_defs writer_types cond_setCondition)

lemma statuses_single:
  "statuses [(t, ConditionTrue)] t = ConditionTrue"
  "statuses [(t, ConditionTrue)] t' = ConditionTrue \<Longrightarrow> t' = t"
  by (simp_all add: statuses_def api_defs split: if_splits)

lemma failure_types_in [simp]:
  "conditionTypeInvalidRef \<in> failure_types" "conditionTypeUnsafeSelector \<in> failure_types"
  "conditionTypeConflict \<in> failure_types" "conditionTypeRenderFailure \<in> failure_types"
  by (simp_all add: failure_types_def)

lemma ownership_preserved [status_simps]:
  "st_PendingClusterSPIFFEID (applyFailureStatus X st g e) = st_PendingClusterSPIFFEID st"
  "st_OwnedClusterSPIFFEID (applyFailureStatus X st g e) = st_OwnedClusterSPIFFEID st"
  by (simp_all add: applyFailureStatus_def Let_def)

lemma initialize_condition_fields:
  "st_PendingClusterSPIFFEID (initialize_condition X g e st) = st_PendingClusterSPIFFEID st"
  "st_OwnedClusterSPIFFEID (initialize_condition X g e st) = st_OwnedClusterSPIFFEID st"
  by (simp_all add: initialize_condition_def split: option.split)

lemma initializeConditions_fields [status_simps]:
  "st_PendingClusterSPIFFEID (initializeConditions X st g) = st_PendingClusterSPIFFEID st"
  "st_OwnedClusterSPIFFEID (initializeConditions X st g) = st_OwnedClusterSPIFFEID st"
  by (simp_all add: initializeConditions_def canonical_conditions_def initialize_condition_fields)

lemma applyOperatorConfig_fields [status_simps]:
  "st_PendingClusterSPIFFEID (applyOperatorConfig st c) = st_PendingClusterSPIFFEID st"
  "st_OwnedClusterSPIFFEID (applyOperatorConfig st c) = st_OwnedClusterSPIFFEID st"
  by (simp_all add: applyOperatorConfig_def)

section \<open>Properties\<close>

text \<open>
  C36: A failure is reported under exactly one condition. After a state error of one of the
  four failure types, that condition is True with the error's reason and message, Ready is
  False with the same reason and message, the other three are False, all observed at the
  binding's generation; rendered output and conflicts are cleared, and the ownership
  records and operator settings are untouched.
\<close>
theorem applyFailureStatus_exclusive:
  assumes "conditions_contract X" "se_conditionType e \<in> failure_types"
  shows "cond X (applyFailureStatus X st g e) conditionTypeReady
      = Some (ConditionFalse, se_reason e, se_message e, g)
    \<and> cond X (applyFailureStatus X st g e) (se_conditionType e)
      = Some (ConditionTrue, se_reason e, se_message e, g)
    \<and> (\<forall>t \<in> failure_types - {se_conditionType e}. \<exists>m.
        cond X (applyFailureStatus X st g e) t = Some (ConditionFalse, conditionReasonResolved, m, g))
    \<and> st_ComputedSpiffeIDs (applyFailureStatus X st g e) = []
    \<and> st_RenderedSelectors (applyFailureStatus X st g e) = []
    \<and> st_RenderedClusterSPIFFEID (applyFailureStatus X st g e) = None
    \<and> st_Conflicts (applyFailureStatus X st g e) = []
    \<and> st_PendingClusterSPIFFEID (applyFailureStatus X st g e) = st_PendingClusterSPIFFEID st
    \<and> st_OwnedClusterSPIFFEID (applyFailureStatus X st g e) = st_OwnedClusterSPIFFEID st
    \<and> st_TrustDomain (applyFailureStatus X st g e) = st_TrustDomain st
    \<and> st_ClusterSPIFFEIDClassName (applyFailureStatus X st g e) = st_ClusterSPIFFEIDClassName st"
  using assms
  by (auto simp: applyFailureStatus_def Let_def failure_types_def ctrl_defs cond_setCondition)

theorem applyFailureStatus_exclusive_witness:
  "cond ref_ext (applyFailureStatus ref_ext (b_Status sample_binding) 7
     newClusterSPIFFEIDCRDMissingStateError) conditionTypeReady
   = Some (ConditionFalse, conditionReasonClusterSPIFFEIDCRDMissing, ''ClusterSPIFFEID CRD is not installed'', 7)"
  using applyFailureStatus_exclusive [OF ref_ext_conditions, of newClusterSPIFFEIDCRDMissingStateError
      "b_Status sample_binding" 7]
  by (simp add: newClusterSPIFFEIDCRDMissingStateError_def newStateError_def failure_types_def)

text \<open>
  C37: Every terminal outcome is counted under its own labels. A success status is counted
  as Ready; a conflict status as Conflict; and a state error as its condition with its
  reason, never as an unclassified failure.
\<close>
theorem terminal_outcomes_classified:
  assumes "conditions_contract X"
  shows "(\<exists>r. deriveBindingOutcomeLabels X (applySuccessStatus X st g identities managed) False
        = Some (conditionTypeReady, r))
    \<and> (\<exists>r. deriveBindingOutcomeLabels X (applyConflictStatus X st g conflicts) False
        = Some (conditionTypeConflict, r))
    \<and> deriveBindingOutcomeLabels X (applyFailureStatus X st g (newStateError conditionTypeInvalidRef r m)) False
        = Some (conditionTypeInvalidRef, r)
    \<and> deriveBindingOutcomeLabels X (applyFailureStatus X st g (newStateError conditionTypeUnsafeSelector r m)) False
        = Some (conditionTypeUnsafeSelector, r)
    \<and> deriveBindingOutcomeLabels X (applyFailureStatus X st g (newStateError conditionTypeRenderFailure r m)) False
        = Some (conditionTypeRenderFailure, r)"
proof (intro conjI)
  show "\<exists>r. deriveBindingOutcomeLabels X (applySuccessStatus X st g identities managed) False
      = Some (conditionTypeReady, r)"
    by (rule success.outcome_ready [OF assms]) (simp add: statuses_def)
  show "\<exists>r. deriveBindingOutcomeLabels X (applyConflictStatus X st g conflicts) False
      = Some (conditionTypeConflict, r)"
    using conflict.outcome_failure [OF assms _ statuses_single] by fastforce
  have reason: "cond X (applyFailureStatus X st g (newStateError t r m)) t = Some (ConditionTrue, r, m, g)"
    if "t \<in> failure_types" for t
    using that assms
    by (auto simp: applyFailureStatus_def newStateError_def Let_def failure_types_def ctrl_defs cond_setCondition)
  show "deriveBindingOutcomeLabels X (applyFailureStatus X st g (newStateError conditionTypeInvalidRef r m)) False
      = Some (conditionTypeInvalidRef, r)"
    using invalid_ref.outcome_failure [OF assms failure_types_in(1) statuses_single(1),
        where st = st and g = g and r = r and m = m and a = False]
      reason [OF failure_types_in(1)] by (simp add: statuses_single(2))
  show "deriveBindingOutcomeLabels X (applyFailureStatus X st g (newStateError conditionTypeUnsafeSelector r m)) False
      = Some (conditionTypeUnsafeSelector, r)"
    using unsafe_selector.outcome_failure [OF assms failure_types_in(2) statuses_single(1),
        where st = st and g = g and r = r and m = m and a = False]
      reason [OF failure_types_in(2)] by (simp add: statuses_single(2))
  show "deriveBindingOutcomeLabels X (applyFailureStatus X st g (newStateError conditionTypeRenderFailure r m)) False
      = Some (conditionTypeRenderFailure, r)"
    using render_failure.outcome_failure [OF assms failure_types_in(4) statuses_single(1),
        where st = st and g = g and r = r and m = m and a = False]
      reason [OF failure_types_in(4)] by (simp add: statuses_single(2))
qed

theorem terminal_outcomes_classified_witness:
  "deriveBindingOutcomeLabels ref_ext (applyFailureStatus ref_ext (b_Status sample_binding) 1
     (newStateError conditionTypeInvalidRef ''TargetPoolNotFound'' ''gone'')) False
   = Some (conditionTypeInvalidRef, ''TargetPoolNotFound'')"
  using terminal_outcomes_classified [OF ref_ext_conditions] by blast

text \<open>
  Initialization is complete and keeps what is known. Afterwards each of the five
  conditions is present and observed at the generation; one that was present keeps its
  status, and one that was absent is Unknown with reason Initializing.
\<close>
theorem initializeConditions_complete:
  assumes "conditions_contract X" "t \<in> canonical_types"
  shows "\<exists>s r m. cond X (initializeConditions X st g) t = Some (s, r, m, g)
    \<and> (case cond X st t of
         None \<Rightarrow> s = ConditionUnknown \<and> r = conditionReasonInitializing
       | Some (s', r', _, _) \<Rightarrow> s = s' \<and> (TrimSpace r' \<noteq> [] \<longrightarrow> r = r'))"
proof -
  have init: "cond X (initialize_condition X g e st') t' =
      (if t' = fst e then
         Some (case cond X st' t' of
           None \<Rightarrow> (ConditionUnknown, conditionReasonInitializing, snd e, g)
         | Some (s, r, m, _) \<Rightarrow> (s, if TrimSpace r \<noteq> [] then r else conditionReasonInitializing,
             if TrimSpace m \<noteq> [] then m else snd e, g))
       else cond X st' t')" for st' e t'
    by (auto simp: initialize_condition_def cond_setCondition [OF assms(1)] cond_def [of X st']
        split: option.splits)
  have keep: "cond X (fold (initialize_condition X g) es st') t' = cond X st' t'"
    if "t' \<notin> fst ` set es" for es st' t'
    using that by (induction es arbitrary: st') (auto simp: init)
  have "\<exists>s r m. cond X (fold (initialize_condition X g) es st') t = Some (s, r, m, g)
      \<and> (case cond X st' t of
           None \<Rightarrow> s = ConditionUnknown \<and> r = conditionReasonInitializing
         | Some (s', r', _, _) \<Rightarrow> s = s' \<and> (TrimSpace r' \<noteq> [] \<longrightarrow> r = r'))"
    if "distinct (map fst es)" "t \<in> fst ` set es" for es st'
    using that
  proof (induction es arbitrary: st')
    case Nil
    then show ?case by simp
  next
    case (Cons e es)
    show ?case
    proof (cases "fst e = t")
      case True
      with Cons.prems have "t \<notin> fst ` set es" by auto
      with True show ?thesis by (auto simp: keep init split: option.splits)
    next
      case False
      with Cons.prems have "distinct (map fst es)" "t \<in> fst ` set es" by auto
      from Cons.IH [OF this, of "initialize_condition X g e st'"] False show ?thesis
        by (simp add: init)
    qed
  qed
  moreover have "distinct (map fst canonical_conditions)" "t \<in> fst ` set canonical_conditions"
    using assms(2)
    by (auto simp: canonical_conditions_def canonical_types_def failure_types_def ctrl_defs)
  ultimately show ?thesis unfolding initializeConditions_def by blast
qed

theorem initializeConditions_complete_witness:
  "\<exists>s r m. cond ref_ext (initializeConditions ref_ext (b_Status sample_binding) 3) conditionTypeReady
     = Some (s, r, m, 3)"
  using initializeConditions_complete [OF ref_ext_conditions, of conditionTypeReady "b_Status sample_binding" 3]
  by (auto simp: canonical_types_def)

section \<open>The gauge\<close>

lemma map_of_bump: "map_of (bump m k) = (map_of m)(k \<mapsto> (case map_of m k of None \<Rightarrow> 1 | Some n \<Rightarrow> Suc n))"
  by (induction m k rule: bump.induct) (auto simp: fun_eq_iff)

definition outcome_count :: "ext \<Rightarrow> binding list \<Rightarrow> string \<times> string \<Rightarrow> nat" where
  "outcome_count X bs labels =
     length (filter (\<lambda>b. deriveBindingOutcomeLabels X (b_Status b) True = Some labels) bs)"

lemma distinct_bump: "distinct (map fst m) \<Longrightarrow> distinct (map fst (bump m k))"
proof (induction m k rule: bump.induct)
  case (2 k' n m k)
  have "fst ` set (bump m k) \<subseteq> insert k (fst ` set m)" by (induction m k rule: bump.induct) auto
  with 2 show ?case by auto
qed simp

lemma aggregate_outcomes_step:
  "aggregate_outcomes X (bs @ [b]) =
     (case deriveBindingOutcomeLabels X (b_Status b) True of
        Some labels \<Rightarrow> bump (aggregate_outcomes X bs) labels | None \<Rightarrow> aggregate_outcomes X bs)"
  by (simp add: aggregate_outcomes_def split: option.split)

text \<open>
  The gauge reports, for each pair of labels that some binding has, one sample, and its
  value is the number of bindings with these labels. No binding is counted twice, and only
  bindings without a status outcome are left out.
\<close>
theorem Collect_counts:
  "distinct (map fst (Collect X (Some (Inr bs)))) \<and>
   map_of (Collect X (Some (Inr bs))) labels =
     (if outcome_count X bs labels = 0 then None else Some (outcome_count X bs labels))"
proof -
  have "distinct (map fst (aggregate_outcomes X bs)) \<and>
    map_of (aggregate_outcomes X bs) labels =
      (if outcome_count X bs labels = 0 then None else Some (outcome_count X bs labels))" for bs labels
  proof (induction bs arbitrary: labels rule: rev_induct)
    case Nil
    then show ?case by (simp add: aggregate_outcomes_def outcome_count_def)
  next
    case (snoc b bs)
    then show ?case
      by (cases "deriveBindingOutcomeLabels X (b_Status b) True")
         (auto simp: aggregate_outcomes_step outcome_count_def map_of_bump distinct_bump)
  qed
  then show ?thesis by (simp add: Collect_def)
qed

end
