(* ===== verification/Ownership.thy ===== *)
theory Ownership
  imports Binding_Status
begin

text \<open>
  Managed output: the durable ownership protocol of
  \<^verbatim>\<open>inferenceidentitybinding_ownership.go\<close> and the reconciliation, replacement and cleanup
  of ClusterSPIFFEID objects of \<^verbatim>\<open>inferenceidentitybinding_spiffe.go\<close>. A function that
  changes the binding it is given returns the changed binding with its result.
\<close>

section \<open>The reconciler\<close>

text \<open>
  The client, the third-party functions, the settings, whether an event recorder and a
  metrics recorder are set, and the pool types found at setup.
\<close>

record reconciler =
  r_Client :: api
  r_Ext :: ext
  r_Config :: OperatorConfig
  r_Recorder :: bool
  r_MetricsRecorder :: bool
  r_availablePoolGVKs :: "GroupVersionKind list"

section \<open>Ownership records (ownership.go)\<close>

datatype managedOutputRecordKind =
  managedOutputUnclaimed | managedOutputPending | managedOutputConfirmed

datatype managedOutputObservationKind =
    unclaimedOutputAbsent | unclaimedOutputForeign
  | pendingOutputAbsent | pendingOutputMatched | pendingOutputForeign
  | confirmedOutputAbsent | confirmedOutputMatched | confirmedOutputForeign

record managedOutputRecord =
  mr_kind :: managedOutputRecordKind
  mr_name :: string
  mr_claimID :: string
  mr_uid :: string

record managedOutputObservation =
  mo_kind :: managedOutputObservationKind
  mo_record :: managedOutputRecord
  mo_object :: "Unstructured option"

abbreviation pending :: "binding \<Rightarrow> PendingClusterSPIFFEIDStatus option" where
  "pending b \<equiv> st_PendingClusterSPIFFEID (b_Status b)"

abbreviation owned :: "binding \<Rightarrow> OwnedClusterSPIFFEIDStatus option" where
  "owned b \<equiv> st_OwnedClusterSPIFFEID (b_Status b)"

definition managedOutputRecordFromStatus :: "binding \<Rightarrow> managedOutputRecord result" where
  "managedOutputRecordFromStatus binding =
     (case (pending binding, owned binding) of
        (Some _, Some _) \<Rightarrow> Inl (PlainError
          ''binding status records both pending and confirmed ClusterSPIFFEID ownership'')
      | (Some p, None) \<Rightarrow>
          if TrimSpace (pend_Name p) = [] \<or> TrimSpace (pend_ClaimID p) = [] then
            Inl (PlainError
              ''binding status has an incomplete pending ClusterSPIFFEID ownership record'')
          else Inr \<lparr>mr_kind = managedOutputPending, mr_name = pend_Name p,
                     mr_claimID = pend_ClaimID p, mr_uid = []\<rparr>
      | (None, Some own) \<Rightarrow>
          if TrimSpace (own_Name own) = [] \<or> own_UID own = [] then
            Inl (PlainError
              ''binding status has an incomplete confirmed ClusterSPIFFEID ownership record'')
          else Inr \<lparr>mr_kind = managedOutputConfirmed, mr_name = own_Name own,
                     mr_claimID = [], mr_uid = own_UID own\<rparr>
      | (None, None) \<Rightarrow>
          Inr \<lparr>mr_kind = managedOutputUnclaimed, mr_name = [], mr_claimID = [], mr_uid = []\<rparr>)"

definition classifyPendingOutput ::
    "managedOutputRecord \<Rightarrow> Unstructured option \<Rightarrow> managedOutputObservationKind" where
  "classifyPendingOutput record object =
     (case object of
        None \<Rightarrow> pendingOutputAbsent
      | Some u \<Rightarrow>
          if u_Name u = mr_name record \<and> ClusterSPIFFEIDOwnershipClaim u = mr_claimID record
          then pendingOutputMatched else pendingOutputForeign)"

definition classifyConfirmedOutput ::
    "managedOutputRecord \<Rightarrow> Unstructured option \<Rightarrow> managedOutputObservationKind" where
  "classifyConfirmedOutput record object =
     (case object of
        None \<Rightarrow> confirmedOutputAbsent
      | Some u \<Rightarrow>
          if u_Name u = mr_name record \<and> u_UID u = mr_uid record
          then confirmedOutputMatched else confirmedOutputForeign)"

definition classifyManagedClusterSPIFFEID ::
    "managedOutputRecord \<Rightarrow> Unstructured option \<Rightarrow> managedOutputObservation" where
  "classifyManagedClusterSPIFFEID record object =
     \<lparr>mo_kind = (case mr_kind record of
          managedOutputPending \<Rightarrow> classifyPendingOutput record object
        | managedOutputConfirmed \<Rightarrow> classifyConfirmedOutput record object
        | managedOutputUnclaimed \<Rightarrow>
            if object \<noteq> None then unclaimedOutputForeign else unclaimedOutputAbsent),
      mo_record = record, mo_object = object\<rparr>"

definition observeManagedClusterSPIFFEID ::
    "reconciler \<Rightarrow> binding \<Rightarrow> string \<Rightarrow> (managedOutputObservation result) run" where
  "observeManagedClusterSPIFFEID r binding unclaimedName =
     (case managedOutputRecordFromStatus binding of
        Inl err \<Rightarrow> State_Monad.return (Inl err)
      | Inr record \<Rightarrow>
          let lookupName = (if mr_kind record = managedOutputUnclaimed then unclaimedName
                            else mr_name record)
          in if lookupName = [] then
               State_Monad.return (Inr (classifyManagedClusterSPIFFEID record None))
             else do {
               reply \<leftarrow> GetObject (r_Client r) clusterSPIFFEIDGVK (NamespacedName [] lookupName);
               State_Monad.return (case reply of
                  Inr object \<Rightarrow> Inr (classifyManagedClusterSPIFFEID record (Some object))
                | Inl err \<Rightarrow>
                    if IsNotFound err then Inr (classifyManagedClusterSPIFFEID record None)
                    else Inl err)
             })"

definition patchOwnershipStatus ::
    "reconciler \<Rightarrow> binding \<Rightarrow> binding \<Rightarrow> (binding \<times> go_error option) run" where
  "patchOwnershipStatus r base binding = do {
     reply \<leftarrow> PatchStatus (r_Client r) base (base\<lparr>b_Status := b_Status binding\<rparr>);
     State_Monad.return (case reply of
        Inl err \<Rightarrow> (binding\<lparr>b_Status := b_Status base\<rparr>, Some err)
      | Inr target \<Rightarrow> (binding\<lparr>b_ResourceVersion := b_ResourceVersion target\<rparr>, None))
   }"

definition reserveClusterSPIFFEIDClaim ::
    "reconciler \<Rightarrow> binding \<Rightarrow> string \<Rightarrow> (binding \<times> string result) run" where
  "reserveClusterSPIFFEIDClaim r binding desiredName =
     (case managedOutputRecordFromStatus binding of
        Inl err \<Rightarrow> State_Monad.return (binding, Inl err)
      | Inr record \<Rightarrow>
          if mr_kind record \<noteq> managedOutputUnclaimed then
            State_Monad.return (binding, Inl (PlainError (''cannot reserve ClusterSPIFFEID ''
              @ Quote (r_Ext r) desiredName @ '' while '' @ Quote (r_Ext r) (mr_name record)
              @ '' is recorded'')))
          else do {
            claimID \<leftarrow> NewUUID (r_Client r);
            let st = applyPendingManagedOutputStatus (r_Ext r) (b_Status binding) (b_Generation binding);
            let st = st\<lparr>st_PendingClusterSPIFFEID := Some \<lparr>pend_Name = desiredName, pend_ClaimID = claimID\<rparr>,
                       st_OwnedClusterSPIFFEID := None\<rparr>;
            patched \<leftarrow> patchOwnershipStatus r binding (binding\<lparr>b_Status := st\<rparr>);
            State_Monad.return (case patched of
               (binding', Some err) \<Rightarrow> (binding', Inl err)
             | (binding', None) \<Rightarrow> (binding', Inr claimID))
          })"

definition confirmClusterSPIFFEIDOwnership ::
    "reconciler \<Rightarrow> binding \<Rightarrow> string \<Rightarrow> string \<Rightarrow> (binding \<times> go_error option) run" where
  "confirmClusterSPIFFEIDOwnership r binding name uid =
     (if uid = [] then
        State_Monad.return (binding, Some (PlainError (''cannot confirm ClusterSPIFFEID ''
          @ Quote (r_Ext r) name @ '' ownership without a Kubernetes UID'')))
      else patchOwnershipStatus r binding (binding\<lparr>b_Status := (b_Status binding)\<lparr>
             st_PendingClusterSPIFFEID := None,
             st_OwnedClusterSPIFFEID := Some \<lparr>own_Name = name, own_UID = uid\<rparr>\<rparr>\<rparr>))"

definition clearClusterSPIFFEIDOwnership ::
    "reconciler \<Rightarrow> binding \<Rightarrow> (binding \<times> go_error option) run" where
  "clearClusterSPIFFEIDOwnership r binding =
     (if pending binding = None \<and> owned binding = None then State_Monad.return (binding, None)
      else patchOwnershipStatus r binding (binding\<lparr>b_Status := (b_Status binding)\<lparr>
             st_PendingClusterSPIFFEID := None, st_OwnedClusterSPIFFEID := None\<rparr>\<rparr>))"

definition recordedClusterSPIFFEIDName :: "binding \<Rightarrow> string" where
  "recordedClusterSPIFFEIDName binding =
     (case owned binding of
        Some own \<Rightarrow> own_Name own
      | None \<Rightarrow> (case pending binding of Some p \<Rightarrow> pend_Name p | None \<Rightarrow> []))"

section \<open>Applying output (spiffe.go)\<close>

definition observedGenerationStatus :: "Unstructured \<Rightarrow> int option" where
  "observedGenerationStatus object = (if u_Generation object \<le> 0 then None else Some (u_Generation object))"

definition renderedClusterSPIFFEIDStatus :: "Plan \<Rightarrow> Unstructured \<Rightarrow> RenderedClusterSPIFFEIDStatus" where
  "renderedClusterSPIFFEIDStatus identity object =
     \<lparr>rc_Name = u_Name object, rc_SpiffeID = p_SpiffeID identity,
      rc_SelectorFingerprint = SelectorFingerprint (p_Selectors identity),
      rc_ObservedGeneration = observedGenerationStatus object\<rparr>"

definition object_uid :: "Unstructured option \<Rightarrow> string" where
  "object_uid object = (case object of Some u \<Rightarrow> u_UID u | None \<Rightarrow> [])"

definition foreignManagedOutputError :: "ext \<Rightarrow> string \<Rightarrow> managedOutputObservation \<Rightarrow> go_error" where
  "foreignManagedOutputError X name observation =
     (case mo_kind observation of
        pendingOutputForeign \<Rightarrow> PlainError (''refusing same-name ClusterSPIFFEID '' @ Quote X name
          @ '': live ownership claim does not match the durable pending claim'')
      | confirmedOutputForeign \<Rightarrow> PlainError (''refusing same-name ClusterSPIFFEID '' @ Quote X name
          @ '': live UID '' @ Quote X (object_uid (mo_object observation))
          @ '' does not match confirmed UID '' @ Quote X (mr_uid (mo_record observation)))
      | _ \<Rightarrow> PlainError (''refusing pre-existing ClusterSPIFFEID '' @ Quote X name
          @ '' without durable ownership status''))"

text \<open>
  A matched observation always carries the live object; the branch without one cannot be
  taken and returns nothing.
\<close>

definition authorizeManagedOutputApply ::
    "reconciler \<Rightarrow> binding \<Rightarrow> Unstructured \<Rightarrow> managedOutputObservation
      \<Rightarrow> (binding \<times> (Unstructured option) result) run" where
  "authorizeManagedOutputApply r binding desired observation =
     (let foreign = foreignManagedOutputError (r_Ext r) (u_Name desired) observation in
      case mo_kind observation of
        unclaimedOutputAbsent \<Rightarrow> State_Monad.return (binding, Inr None)
      | pendingOutputAbsent \<Rightarrow> State_Monad.return (binding, Inr None)
      | pendingOutputMatched \<Rightarrow>
          (case mo_object observation of
             None \<Rightarrow> State_Monad.return (binding, Inr None)
           | Some object \<Rightarrow> do {
               confirmed \<leftarrow> confirmClusterSPIFFEIDOwnership r binding (u_Name object) (u_UID object);
               State_Monad.return (case confirmed of
                  (binding', Some err) \<Rightarrow> (binding', Inl err)
                | (binding', None) \<Rightarrow> (binding', Inr (Some object)))
             })
      | confirmedOutputMatched \<Rightarrow> State_Monad.return (binding, Inr (mo_object observation))
      | confirmedOutputAbsent \<Rightarrow> do {
          cleared \<leftarrow> clearClusterSPIFFEIDOwnership r binding;
          State_Monad.return (case cleared of
             (binding', Some err) \<Rightarrow> (binding', Inl err)
           | (binding', None) \<Rightarrow> (binding', Inr None))
        }
      | unclaimedOutputForeign \<Rightarrow> State_Monad.return (binding, Inl foreign)
      | _ \<Rightarrow> do {
          cleared \<leftarrow> clearClusterSPIFFEIDOwnership r binding;
          State_Monad.return (case cleared of
             (binding', Some err) \<Rightarrow> (binding', Inl err)
           | (binding', None) \<Rightarrow> (binding', Inl foreign))
        })"

text \<open>The part of creation that follows once a claim is durably recorded.\<close>

definition create_with_claim ::
    "reconciler \<Rightarrow> binding \<Rightarrow> Plan \<Rightarrow> Unstructured \<Rightarrow> string
      \<Rightarrow> (binding \<times> RenderedClusterSPIFFEIDStatus result) run" where
  "create_with_claim r binding identity desired claimID = do {
     let desired = SetClusterSPIFFEIDOwnershipClaim desired claimID;
     reply \<leftarrow> CreateObject (r_Client r) desired;
     (case reply of
        Inl err \<Rightarrow> State_Monad.return (binding, Inl (
          if IsAlreadyExists err
          then WrapError (''refusing same-name ClusterSPIFFEID '' @ Quote (r_Ext r) (u_Name desired)
                 @ '' after create race: '') err
          else err))
      | Inr created \<Rightarrow>
          if u_UID created = [] then
            State_Monad.return (binding, Inl (PlainError (''created ClusterSPIFFEID ''
              @ Quote (r_Ext r) (u_Name created) @ '' has no Kubernetes UID'')))
          else do {
            confirmed \<leftarrow> confirmClusterSPIFFEIDOwnership r binding (u_Name created) (u_UID created);
            State_Monad.return (case confirmed of
               (binding', Some err) \<Rightarrow> (binding', Inl err)
             | (binding', None) \<Rightarrow> (binding', Inr (renderedClusterSPIFFEIDStatus identity created)))
          })
   }"

definition createManagedClusterSPIFFEID ::
    "reconciler \<Rightarrow> binding \<Rightarrow> Plan \<Rightarrow> Unstructured \<Rightarrow> managedOutputObservation
      \<Rightarrow> (binding \<times> RenderedClusterSPIFFEIDStatus result) run" where
  "createManagedClusterSPIFFEID r binding identity desired observation =
     (if mo_kind observation \<noteq> pendingOutputAbsent then do {
        reserved \<leftarrow> reserveClusterSPIFFEIDClaim r binding (u_Name desired);
        (case reserved of
           (binding', Inl err) \<Rightarrow> State_Monad.return (binding', Inl err)
         | (binding', Inr claimID) \<Rightarrow> create_with_claim r binding' identity desired claimID)
      }
      else create_with_claim r binding identity desired (mr_claimID (mo_record observation)))"

definition updateManagedClusterSPIFFEID ::
    "reconciler \<Rightarrow> Plan \<Rightarrow> Unstructured \<Rightarrow> Unstructured \<Rightarrow> (RenderedClusterSPIFFEIDStatus result) run" where
  "updateManagedClusterSPIFFEID r identity current desired =
     (if \<not> ClusterSPIFFEIDInSync (r_Ext r) current desired then do {
        reply \<leftarrow> UpdateObject (r_Client r) (MergeDesiredClusterSPIFFEID (r_Ext r) current desired);
        State_Monad.return (case reply of
           Inl err \<Rightarrow> Inl err
         | Inr updated \<Rightarrow> Inr (renderedClusterSPIFFEIDStatus identity updated))
      }
      else State_Monad.return (Inr (renderedClusterSPIFFEIDStatus identity current)))"

definition reconcileClusterSPIFFEID ::
    "reconciler \<Rightarrow> binding \<Rightarrow> Plan \<Rightarrow> Unstructured \<Rightarrow> (binding \<times> RenderedClusterSPIFFEIDStatus result) run" where
  "reconcileClusterSPIFFEID r binding identity desired = do {
     observed \<leftarrow> observeManagedClusterSPIFFEID r binding (u_Name desired);
     (case observed of
        Inl err \<Rightarrow> State_Monad.return (binding, Inl err)
      | Inr observation \<Rightarrow> do {
          authorized \<leftarrow> authorizeManagedOutputApply r binding desired observation;
          (case authorized of
             (binding', Inl err) \<Rightarrow> State_Monad.return (binding', Inl err)
           | (binding', Inr None) \<Rightarrow> createManagedClusterSPIFFEID r binding' identity desired observation
           | (binding', Inr (Some current)) \<Rightarrow> do {
               updated \<leftarrow> updateManagedClusterSPIFFEID r identity current desired;
               State_Monad.return (binding', updated)
             })
        })
   }"

fun reconcileClusterSPIFFEIDs ::
    "reconciler \<Rightarrow> binding \<Rightarrow> Plan list \<Rightarrow> (binding \<times> (RenderedClusterSPIFFEIDStatus list) result) run" where
  "reconcileClusterSPIFFEIDs r binding [] = State_Monad.return (binding, Inr [])"
| "reconcileClusterSPIFFEIDs r binding (identity # rest) = do {
     reconciled \<leftarrow> reconcileClusterSPIFFEID r binding identity
       (DesiredClusterSPIFFEID binding identity (oc_ClusterSPIFFEIDClassName (r_Config r)));
     (case reconciled of
        (binding', Inl err) \<Rightarrow> State_Monad.return (binding', Inl err)
      | (binding', Inr st) \<Rightarrow> do {
          others \<leftarrow> reconcileClusterSPIFFEIDs r binding' rest;
          State_Monad.return (case others of
             (binding'', Inl err) \<Rightarrow> (binding'', Inl err)
           | (binding'', Inr sts) \<Rightarrow> (binding'', Inr (st # sts)))
        })
   }"

section \<open>Withdrawing output (spiffe.go)\<close>

text \<open>What each observation leaves of managed output, with the record brought up to date.\<close>

definition list_observed ::
    "reconciler \<Rightarrow> binding \<Rightarrow> managedOutputObservation \<Rightarrow> (binding \<times> (Unstructured list) result) run" where
  "list_observed r binding observation =
     (case (mo_kind observation, mo_object observation) of
        (pendingOutputMatched, Some object) \<Rightarrow> do {
          confirmed \<leftarrow> confirmClusterSPIFFEIDOwnership r binding (u_Name object) (u_UID object);
          State_Monad.return (case confirmed of
             (binding', Some err) \<Rightarrow> (binding', Inl err)
           | (binding', None) \<Rightarrow> (binding', Inr [object]))
        }
      | (confirmedOutputMatched, Some object) \<Rightarrow> State_Monad.return (binding, Inr [object])
      | (kind, _) \<Rightarrow>
          if kind \<in> {pendingOutputAbsent, pendingOutputForeign, confirmedOutputAbsent,
                     confirmedOutputForeign}
          then do {
            cleared \<leftarrow> clearClusterSPIFFEIDOwnership r binding;
            State_Monad.return (case cleared of
               (binding', Some err) \<Rightarrow> (binding', Inl err)
             | (binding', None) \<Rightarrow> (binding', Inr []))
          }
          else State_Monad.return (binding, Inr []))"

definition listManagedClusterSPIFFEIDs ::
    "reconciler \<Rightarrow> binding \<Rightarrow> (binding \<times> (Unstructured list) result) run" where
  "listManagedClusterSPIFFEIDs r binding = do {
     observed \<leftarrow> observeManagedClusterSPIFFEID r binding [];
     (case observed of
        Inl err \<Rightarrow> State_Monad.return (binding, Inl err)
      | Inr observation \<Rightarrow> list_observed r binding observation)
   }"

fun delete_objects :: "reconciler \<Rightarrow> Unstructured list \<Rightarrow> (go_error option) run" where
  "delete_objects r [] = State_Monad.return None"
| "delete_objects r (object # rest) = do {
     reply \<leftarrow> DeleteObject (r_Client r) object (u_UID object);
     (case reply of
        Inl err \<Rightarrow> if \<not> IsNotFound err then State_Monad.return (Some err) else delete_objects r rest
      | Inr _ \<Rightarrow> delete_objects r rest)
   }"

definition cleanupManagedClusterSPIFFEIDs ::
    "reconciler \<Rightarrow> binding \<Rightarrow> (binding \<times> go_error option) run" where
  "cleanupManagedClusterSPIFFEIDs r binding = do {
     listed \<leftarrow> listManagedClusterSPIFFEIDs r binding;
     (case listed of
        (binding', Inl err) \<Rightarrow> State_Monad.return (binding', Some err)
      | (binding', Inr objects) \<Rightarrow> do {
          deleted \<leftarrow> delete_objects r objects;
          State_Monad.return (binding', deleted)
        })
   }"

definition cleanupChangedClusterSPIFFEIDName ::
    "reconciler \<Rightarrow> binding \<Rightarrow> string \<Rightarrow> (binding \<times> bool result) run" where
  "cleanupChangedClusterSPIFFEIDName r binding desiredName =
     (let recordedName = recordedClusterSPIFFEIDName binding in
      if recordedName = [] \<or> recordedName = desiredName then State_Monad.return (binding, Inr False)
      else do {
        cleaned \<leftarrow> cleanupManagedClusterSPIFFEIDs r binding;
        (case cleaned of
           (binding, Some err) \<Rightarrow> State_Monad.return (binding, Inl err)
         | (binding, None) \<Rightarrow> do {
             listed \<leftarrow> listManagedClusterSPIFFEIDs r binding;
             (case listed of
                (binding, Inl err) \<Rightarrow> State_Monad.return (binding, Inl err)
              | (binding, Inr remaining) \<Rightarrow>
                  if length remaining = 0 then
                    (if recordedClusterSPIFFEIDName binding \<noteq> [] then do {
                       cleared \<leftarrow> clearClusterSPIFFEIDOwnership r binding;
                       State_Monad.return (case cleared of
                          (binding, Some err) \<Rightarrow> (binding, Inl err)
                        | (binding, None) \<Rightarrow> (binding, Inr False))
                     }
                     else State_Monad.return (binding, Inr False))
                  else State_Monad.return (binding, Inr True))
           })
      })"

end
