(* ===== verification/Reporting.thy ===== *)
theory Reporting
  imports Ownership
begin

text \<open>
  How a reconcile reports: the status patch with its retries (\<^verbatim>\<open>patchStatus\<close>), metrics
  outcomes, recorded events, and the two ways a failure is published
  (\<^verbatim>\<open>applyStateError\<close>, \<^verbatim>\<open>patchManagedOutputApplyFailureStatus\<close>).
\<close>

section \<open>The status patch (status.go)\<close>

text \<open>
  One attempt: the desired status is put on the latest persisted object, with the
  ownership records of the latter; nothing is sent when that changes nothing.
\<close>

definition patch_attempt :: "reconciler \<Rightarrow> binding \<Rightarrow> (binding \<times> go_error option) run" where
  "patch_attempt r binding = do {
     got \<leftarrow> GetBinding (r_Client r) (binding_ref binding);
     (case got of
        Inl err \<Rightarrow> State_Monad.return (binding, Some err)
      | Inr latest \<Rightarrow>
          let target = latest\<lparr>b_Status := (b_Status binding)\<lparr>
                st_PendingClusterSPIFFEID := pending latest,
                st_OwnedClusterSPIFFEID := owned latest\<rparr>\<rparr>
          in if b_Status latest \<noteq> b_Status target then do {
               reply \<leftarrow> PatchStatus (r_Client r) latest target;
               State_Monad.return (case reply of
                  Inl err \<Rightarrow> (binding, Some err)
                | Inr patched \<Rightarrow> (binding\<lparr>b_Status := b_Status patched,
                    b_ResourceVersion := b_ResourceVersion patched\<rparr>, None))
             }
             else State_Monad.return (binding\<lparr>b_Status := b_Status target,
                    b_ResourceVersion := b_ResourceVersion target\<rparr>, None))
   }"

text \<open>
  \<^verbatim>\<open>retry.RetryOnConflict\<close>: the attempt is repeated while it fails with a conflict and
  attempts are left; the last error is returned.
\<close>

fun patch_attempts :: "reconciler \<Rightarrow> binding \<Rightarrow> nat \<Rightarrow> (binding \<times> go_error option) run" where
  "patch_attempts r binding 0 = patch_attempt r binding"
| "patch_attempts r binding (Suc n) = do {
     tried \<leftarrow> patch_attempt r binding;
     (case tried of
        (_, Some err) \<Rightarrow>
          if IsConflict err then patch_attempts r binding n else State_Monad.return (binding, Some err)
      | (binding', None) \<Rightarrow> State_Monad.return (binding', None))
   }"

definition patchStatus :: "reconciler \<Rightarrow> binding \<Rightarrow> (binding \<times> go_error option) run" where
  "patchStatus r binding = do {
     t \<leftarrow> history;
     patch_attempts r binding (conflict_retries (r_Client r) t)
   }"

section \<open>Outcomes and events (metrics.go, controller.go)\<close>

definition RecordTerminalOutcome :: "ext \<Rightarrow> binding \<Rightarrow> unit run" where
  "RecordTerminalOutcome X binding =
     (case deriveBindingOutcomeLabels X (b_Status binding) False of
        None \<Rightarrow> State_Monad.return ()
      | Some (condition, reason) \<Rightarrow> emit (OutcomeEv condition reason))"

definition recordTerminalOutcome :: "reconciler \<Rightarrow> binding \<Rightarrow> unit run" where
  "recordTerminalOutcome r binding =
     (if \<not> r_MetricsRecorder r then State_Monad.return ()
      else RecordTerminalOutcome (r_Ext r) binding)"

definition EventTypeNormal :: string where "EventTypeNormal = ''Normal''"
definition EventTypeWarning :: string where "EventTypeWarning = ''Warning''"

definition recordEventf :: "reconciler \<Rightarrow> binding \<Rightarrow> string \<Rightarrow> string \<Rightarrow> string \<Rightarrow> unit run" where
  "recordEventf r object eventType reason message =
     (if \<not> r_Recorder r then State_Monad.return ()
      else emit (RecordedEv (binding_ref object) eventType reason message))"

section \<open>Publishing failures (controller.go)\<close>

definition patchManagedOutputApplyFailureStatus ::
    "reconciler \<Rightarrow> binding \<Rightarrow> go_error \<Rightarrow> (binding \<times> go_error option) run" where
  "patchManagedOutputApplyFailureStatus r binding applyErr = do {
     let stateErr = newManagedOutputApplyFailedStateError applyErr;
     let binding = binding\<lparr>b_Status :=
       applyFailureStatus (r_Ext r) (b_Status binding) (b_Generation binding) stateErr\<rparr>;
     patched \<leftarrow> patchStatus r binding;
     (case patched of
        (binding, Some err) \<Rightarrow> State_Monad.return (binding, Some err)
      | (binding, None) \<Rightarrow> do {
          recordTerminalOutcome r binding;
          recordEventf r binding EventTypeWarning (se_reason stateErr) (se_message stateErr);
          State_Monad.return (binding, None)
        })
   }"

text \<open>A binding whose managed output failed: the failure is published, then returned.\<close>

definition fail_apply :: "reconciler \<Rightarrow> binding \<Rightarrow> go_error \<Rightarrow> (binding \<times> int \<times> go_error option) run" where
  "fail_apply r binding err = do {
     published \<leftarrow> patchManagedOutputApplyFailureStatus r binding err;
     State_Monad.return (case published of
        (binding, Some statusErr) \<Rightarrow> (binding, 0, Some statusErr)
      | (binding, None) \<Rightarrow> (binding, 0, Some err))
   }"

definition applyStateError ::
    "reconciler \<Rightarrow> binding \<Rightarrow> reconcileStateError \<Rightarrow> (binding \<times> go_error option) run" where
  "applyStateError r binding stateErr = do {
     cleaned \<leftarrow>
       (if shouldCleanupManagedClusterSPIFFEIDs (se_conditionType stateErr) then do {
          cleaned \<leftarrow> cleanupManagedClusterSPIFFEIDs r binding;
          (case cleaned of
             (binding, Some err) \<Rightarrow> State_Monad.return (binding, Some err)
           | (binding, None) \<Rightarrow> do {
               listed \<leftarrow> listManagedClusterSPIFFEIDs r binding;
               (case listed of
                  (binding, Inl err) \<Rightarrow> State_Monad.return (binding, Some err)
                | (binding, Inr remaining) \<Rightarrow>
                    if length remaining = 0 then clearClusterSPIFFEIDOwnership r binding
                    else State_Monad.return (binding, None))
             })
        }
        else State_Monad.return (binding, None));
     State_Monad.return (case cleaned of
        (binding, Some err) \<Rightarrow> (binding, Some err)
      | (binding, None) \<Rightarrow> (binding\<lparr>b_Status :=
          applyFailureStatus (r_Ext r) (b_Status binding) (b_Generation binding) stateErr\<rparr>, None))
   }"

end
