(* ===== verification/Conflict.thy ===== *)
theory Conflict
  imports Reporting
begin

text \<open>
  Rendering for a binding (\<^verbatim>\<open>inferenceidentitybinding_render.go\<close>, \<^verbatim>\<open>_resolver.go\<close>,
  \<^verbatim>\<open>_gvk.go\<close>) and the exclusivity check of a namespace
  (\<^verbatim>\<open>inferenceidentitybinding_conflict.go\<close>): evaluation of all peers, withdrawal of the
  output of a conflict set, and the status that is published for it.
\<close>

section \<open>Rendering (render.go, resolver.go, gvk.go)\<close>

definition resolvePoolGVKs :: "reconciler \<Rightarrow> GroupVersionKind list" where
  "resolvePoolGVKs r = ResolvePoolGVKs (r_availablePoolGVKs r)"

definition resolveInferencePool :: "reconciler \<Rightarrow> PoolRef \<Rightarrow> (Unstructured result) run" where
  "resolveInferencePool r poolRef =
     ResolveInferencePool (r_Client r) (r_Ext r) (resolvePoolGVKs r) poolRef"

definition renderIdentity :: "reconciler \<Rightarrow> binding \<Rightarrow> Unstructured \<Rightarrow> Plan result" where
  "renderIdentity r binding pool =
     (case ResolveInferenceTarget (r_Ext r) pool of
        Inl err \<Rightarrow> Inl (IdentityStateError ConditionTypeUnsafeSelector ReasonInvalidPoolSelector
          (error_text err))
      | Inr target \<Rightarrow> PlanIdentity (r_Ext r)
          \<lparr>in_Namespace = b_Namespace binding,
           in_ServiceAccountName = binding_service_account binding,
           in_TrustDomain = oc_TrustDomain (r_Config r),
           in_Variant = binding_variant binding, in_Target = target\<rparr>)"

definition bindingIdentityVariant :: "ext \<Rightarrow> binding \<Rightarrow> go_error option" where
  "bindingIdentityVariant X binding = ValidateVariant X (binding_variant binding)"

definition renderIdentityForBinding :: "reconciler \<Rightarrow> binding \<Rightarrow> (Plan result) run" where
  "renderIdentityForBinding r binding =
     (case BindingPoolRef (r_Ext r) binding of
        Inl err \<Rightarrow> State_Monad.return (Inl err)
      | Inr poolRef \<Rightarrow> do {
          resolved \<leftarrow> resolveInferencePool r poolRef;
          State_Monad.return (case resolved of
             Inl err \<Rightarrow> Inl err
           | Inr pool \<Rightarrow> renderIdentity r binding pool)
        })"

section \<open>Evaluation (conflict.go)\<close>

text \<open>
  A member of the withdrawal set is a binding of its own, or the very binding that is being
  reconciled, which the caller goes on to use.
\<close>

datatype member = Current | Peer binding

definition member_binding :: "binding \<Rightarrow> member \<Rightarrow> binding" where
  "member_binding binding m = (case m of Current \<Rightarrow> binding | Peer b \<Rightarrow> b)"

record bindingConflictState =
  bc_conflicts :: "VariantConflict list"
  bc_members :: "member list"
  bc_blocked :: bool

text \<open>What a peer contributes: a plan, nothing, or output that blocks recovery.\<close>

datatype peer_identity = Relevant Plan | Irrelevant | BlocksRecovery

definition same_key :: "binding \<Rightarrow> binding \<Rightarrow> bool" where
  "same_key a b = (b_Namespace a = b_Namespace b \<and> b_Name a = b_Name b)"

definition render_peer ::
    "reconciler \<Rightarrow> binding \<Rightarrow> Plan \<Rightarrow> binding \<Rightarrow> (binding \<times> peer_identity result) run" where
  "render_peer r current currentIdentity peer =
     (if same_key peer current then State_Monad.return (peer, Inr (Relevant currentIdentity))
      else do {
        rendered \<leftarrow> renderIdentityForBinding r peer;
        (case rendered of
           Inr plan \<Rightarrow> State_Monad.return (peer, Inr (Relevant plan))
         | Inl err \<Rightarrow>
             (case errorsAsStateError err of
                Some _ \<Rightarrow> do {
                  listed \<leftarrow> listManagedClusterSPIFFEIDs r peer;
                  State_Monad.return (case listed of
                     (peer, Inl listErr) \<Rightarrow> (peer, Inl listErr)
                   | (peer, Inr remaining) \<Rightarrow>
                       (peer, Inr (if length remaining > 0 then BlocksRecovery else Irrelevant)))
                }
              | None \<Rightarrow> State_Monad.return (peer, Inl err)))
      })"

definition identityForConflictEvaluation ::
    "reconciler \<Rightarrow> binding \<Rightarrow> Plan \<Rightarrow> binding \<Rightarrow> (binding \<times> peer_identity result) run" where
  "identityForConflictEvaluation r current currentIdentity peer =
     (if \<not> timestamp_is_zero (b_DeletionTimestamp peer) then do {
        listed \<leftarrow> listManagedClusterSPIFFEIDs r peer;
        (case listed of
           (peer, Inl err) \<Rightarrow> State_Monad.return (peer, Inl err)
         | (peer, Inr remaining) \<Rightarrow>
             if length remaining = 0 then State_Monad.return (peer, Inr Irrelevant)
             else render_peer r current currentIdentity peer)
      }
      else render_peer r current currentIdentity peer)"

definition variantRecord :: "binding \<Rightarrow> Plan \<Rightarrow> VariantRecord" where
  "variantRecord binding plan =
     \<lparr>vr_BindingRef = binding_ref binding,
      vr_ServiceAccountName = binding_service_account binding,
      vr_Variant = p_Variant plan, vr_SpiffeID = p_SpiffeID plan\<rparr>"

definition appendConflictMember :: "binding \<Rightarrow> member list \<Rightarrow> member option \<Rightarrow> member list" where
  "appendConflictMember binding members new =
     (case new of
        None \<Rightarrow> members
      | Some m \<Rightarrow>
          if \<exists>member \<in> set members.
               same_key (member_binding binding member) (member_binding binding m)
          then members else members @ [m])"

text \<open>The map of bindings by reference: a later entry for a reference replaces an earlier one.\<close>

fun ref_put :: "(NamespacedName \<times> binding) list \<Rightarrow> NamespacedName \<Rightarrow> binding \<Rightarrow> (NamespacedName \<times> binding) list" where
  "ref_put [] k v = [(k, v)]"
| "ref_put ((k', v') # m) k v = (if k' = k then (k, v) # m else (k', v') # ref_put m k v)"

definition currentBindingConflictState ::
    "binding \<Rightarrow> VariantRecord list \<Rightarrow> (NamespacedName \<times> binding) list \<Rightarrow> bindingConflictState" where
  "currentBindingConflictState binding records bindingsByRef =
     (let currentRef = binding_ref binding;
          conflicts = filter (\<lambda>conflict. k_BindingRef conflict = currentRef)
            (EvaluateVariantConflicts records);
          member = (\<lambda>ref. map_option Peer (map_of bindingsByRef ref))
      in if length conflicts = 0 then \<lparr>bc_conflicts = [], bc_members = [], bc_blocked = False\<rparr>
         else \<lparr>bc_conflicts = conflicts,
               bc_members = fold (\<lambda>conflict members.
                   appendConflictMember binding members (member (k_PeerBindingRef conflict)))
                 conflicts (appendConflictMember binding [] (member currentRef)),
               bc_blocked = False\<rparr>)"

text \<open>The loop over the listed bindings.\<close>

fun evaluate_peers ::
    "reconciler \<Rightarrow> binding \<Rightarrow> Plan \<Rightarrow> binding list
      \<Rightarrow> VariantRecord list \<times> (NamespacedName \<times> binding) list \<times> binding list
      \<Rightarrow> ((VariantRecord list \<times> (NamespacedName \<times> binding) list \<times> binding list) result) run" where
  "evaluate_peers r current currentIdentity [] acc = State_Monad.return (Inr acc)"
| "evaluate_peers r current currentIdentity (item # rest) (records, byRef, blocked) = do {
     evaluated \<leftarrow> identityForConflictEvaluation r current currentIdentity item;
     (case evaluated of
        (_, Inl err) \<Rightarrow> State_Monad.return (Inl err)
      | (peer, Inr BlocksRecovery) \<Rightarrow>
          evaluate_peers r current currentIdentity rest (records, byRef, blocked @ [peer])
      | (_, Inr Irrelevant) \<Rightarrow>
          evaluate_peers r current currentIdentity rest (records, byRef, blocked)
      | (peer, Inr (Relevant plan)) \<Rightarrow>
          evaluate_peers r current currentIdentity rest
            (records @ [variantRecord peer plan], ref_put byRef (binding_ref peer) peer, blocked))
   }"

definition evaluateBindingConflicts ::
    "reconciler \<Rightarrow> binding \<Rightarrow> Plan \<Rightarrow> (bindingConflictState result) run" where
  "evaluateBindingConflicts r binding currentIdentity = do {
     listed \<leftarrow> ListBindings (r_Client r) [InNamespace (b_Namespace binding)];
     (case listed of
        Inl err \<Rightarrow> State_Monad.return (Inl err)
      | Inr items \<Rightarrow> do {
          evaluated \<leftarrow> evaluate_peers r binding currentIdentity items ([], [], []);
          State_Monad.return (case evaluated of
             Inl err \<Rightarrow> Inl err
           | Inr (records, bindingsByRef, blockedMembers) \<Rightarrow>
               let state = currentBindingConflictState binding records bindingsByRef in
               Inr (if length blockedMembers > 0
                    then state\<lparr>bc_blocked := True, bc_members :=
                      fold (\<lambda>peer members. appendConflictMember binding members (Some (Peer peer)))
                        blockedMembers
                        (appendConflictMember binding (bc_members state) (Some Current))\<rparr>
                    else state))
        })
   }"

section \<open>Withdrawal (conflict.go)\<close>

fun cleanup_members ::
    "reconciler \<Rightarrow> binding \<Rightarrow> member list \<Rightarrow> (binding \<times> (member list) result) run" where
  "cleanup_members r binding [] = State_Monad.return (binding, Inr [])"
| "cleanup_members r binding (member # rest) = do {
     cleaned \<leftarrow> cleanupManagedClusterSPIFFEIDs r (member_binding binding member);
     (case cleaned of
        (b, err) \<Rightarrow>
          let binding' = (case member of Current \<Rightarrow> b | Peer _ \<Rightarrow> binding);
              member' = (case member of Current \<Rightarrow> Current | Peer _ \<Rightarrow> Peer b)
          in (case err of
             Some e \<Rightarrow> State_Monad.return (binding', Inl e)
           | None \<Rightarrow> do {
               others \<leftarrow> cleanup_members r binding' rest;
               State_Monad.return (case others of
                  (binding'', Inl e) \<Rightarrow> (binding'', Inl e)
                | (binding'', Inr members) \<Rightarrow> (binding'', Inr (member' # members)))
             }))
   }"

fun members_absent :: "reconciler \<Rightarrow> binding \<Rightarrow> member list \<Rightarrow> (binding \<times> bool result) run" where
  "members_absent r binding [] = State_Monad.return (binding, Inr True)"
| "members_absent r binding (member # rest) = do {
     listed \<leftarrow> listManagedClusterSPIFFEIDs r (member_binding binding member);
     (case listed of
        (b, remaining) \<Rightarrow>
          let binding' = (case member of Current \<Rightarrow> b | Peer _ \<Rightarrow> binding)
          in (case remaining of
             Inl err \<Rightarrow> State_Monad.return (binding', Inl err)
           | Inr objects \<Rightarrow>
               if length objects > 0 then State_Monad.return (binding', Inr False)
               else members_absent r binding' rest))
   }"

definition withdrawConflictOutputs ::
    "reconciler \<Rightarrow> binding \<Rightarrow> member list \<Rightarrow> (binding \<times> bool result) run" where
  "withdrawConflictOutputs r binding members = do {
     cleaned \<leftarrow> cleanup_members r binding members;
     (case cleaned of
        (binding', Inl err) \<Rightarrow> State_Monad.return (binding', Inl err)
      | (binding', Inr members') \<Rightarrow> members_absent r binding' members')
   }"

text \<open>
  The result says whether the reconcile ends here, and if so with which requeue delay and
  error.
\<close>

definition reconcileConflictState ::
    "reconciler \<Rightarrow> binding \<Rightarrow> Plan \<Rightarrow> (binding \<times> bool \<times> int \<times> go_error option) run" where
  "reconcileConflictState r binding currentIdentity = do {
     evaluated \<leftarrow> evaluateBindingConflicts r binding currentIdentity;
     (case evaluated of
        Inl err \<Rightarrow> do {
          failed \<leftarrow> fail_apply r binding err;
          State_Monad.return (fst failed, True, snd failed)
        }
      | Inr conflictState \<Rightarrow>
          if length (bc_conflicts conflictState) = 0 \<and> \<not> bc_blocked conflictState
          then State_Monad.return (binding, False, 0, None)
          else do {
            withdrawn \<leftarrow> withdrawConflictOutputs r binding (bc_members conflictState);
            (case withdrawn of
               (binding, Inl err) \<Rightarrow> do {
                 failed \<leftarrow> fail_apply r binding err;
                 State_Monad.return (fst failed, True, snd failed)
               }
             | (binding, Inr outputsAbsent) \<Rightarrow>
                 if \<not> outputsAbsent \<or> bc_blocked conflictState then do {
                   let binding = binding\<lparr>b_Status :=
                     applyPendingConflictStatus (r_Ext r) (b_Status binding) (b_Generation binding)\<rparr>;
                   patched \<leftarrow> patchStatus r binding;
                   State_Monad.return (case patched of
                      (binding, Some err) \<Rightarrow> (binding, True, 0, Some err)
                    | (binding, None) \<Rightarrow> (binding, True, deleteVerificationRequeueAfter, None))
                 }
                 else do {
                   let binding = binding\<lparr>b_Status := applyConflictStatus (r_Ext r) (b_Status binding)
                     (b_Generation binding) (bc_conflicts conflictState)\<rparr>;
                   patched \<leftarrow> patchStatus r binding;
                   (case patched of
                      (binding, Some err) \<Rightarrow> State_Monad.return (binding, True, 0, Some err)
                    | (binding, None) \<Rightarrow> do {
                        recordTerminalOutcome r binding;
                        State_Monad.return (binding, True, 0, None)
                      })
                 })
          })
   }"

section \<open>A peer with an invalid pool reference\<close>

lemma evaluate_peers_invalid_ref:
  assumes "peer \<in> set items" "\<not> same_key peer current" "timestamp_is_zero (b_DeletionTimestamp peer)"
    and "BindingPoolRef (r_Ext r) peer = Inl err"
  shows "\<exists>e. fst (run_state (evaluate_peers r current plan items acc) t) = Inl e"
  using assms(1)
proof (induction items arbitrary: acc t)
  case (Cons item items)
  obtain records byRef blocked where acc: "acc = (records, byRef, blocked)" by (cases acc)
  obtain x t1 where x: "run_state (identityForConflictEvaluation r current plan item) t = (x, t1)" by fastforce
  show ?case
  proof (cases "item = peer")
    case True
    obtain m where "err = PlainError m" using assms(4) by (auto simp: BindingPoolRef_def Let_def split: if_splits)
    then have "errorsAsStateError err = None" by (simp add: errorsAsStateError_def errors_As_def)
    then have "x = (peer, Inl err)" using x True assms(2,3,4)
      by (simp add: identityForConflictEvaluation_def render_peer_def renderIdentityForBinding_def)
    with x acc show ?thesis by simp
  next
    case False
    with Cons have "peer \<in> set items" by auto
    with Cons.IH x acc show ?thesis by (auto split: sum.split peer_identity.split prod.split)
  qed
qed simp

text \<open>
  C39: One binding with an unusable pool reference stops the conflict check of its whole
  namespace: when such a peer is listed that is not being deleted, the evaluation for every
  other binding ends in an error, because the peer's failure is not a state error as it is in the peer's own
  reconcile.
\<close>
theorem invalid_pool_ref_blocks_namespace:
  assumes "list_bindings (r_Client r) t [InNamespace (b_Namespace current)] = Inr items"
    and "peer \<in> set items" "\<not> same_key peer current" "timestamp_is_zero (b_DeletionTimestamp peer)"
    and "TrimSpace (pr_Name (s_PoolRef (b_Spec peer))) = []"
  shows "\<exists>e. fst (run_state (evaluateBindingConflicts r current plan) t) = Inl e"
proof -
  have "BindingPoolRef (r_Ext r) peer = Inl (PlainError ''spec.poolRef.name is required'')"
    using assms(5) by (simp add: BindingPoolRef_def)
  from evaluate_peers_invalid_ref [OF assms(2,3,4) this, of plan "([], [], [])"] obtain e where
    "fst (run_state (evaluate_peers r current plan items ([], [], []))
      (ListBindingsEv [InNamespace (b_Namespace current)] (Inr items) # t)) = Inl e" by blast
  then show ?thesis using assms(1)
    by (auto simp: evaluateBindingConflicts_def ListBindings_def split: prod.split)
qed

definition blank_peer :: binding where
  "blank_peer = sample_binding\<lparr>b_Name := ''c'', b_Spec := (b_Spec sample_binding)
     \<lparr>s_PoolRef := \<lparr>pr_Name = '' '', pr_Group = []\<rparr>\<rparr>\<rparr>"

definition crowded_reconciler :: reconciler where
  "crowded_reconciler = \<lparr>r_Client = empty_api\<lparr>list_bindings := (\<lambda>_ _. Inr [sample_binding, blank_peer])\<rparr>,
     r_Ext = ref_ext, r_Config = \<lparr>oc_TrustDomain = ''td'', oc_ClusterSPIFFEIDClassName = []\<rparr>,
     r_Recorder = True, r_MetricsRecorder = True, r_availablePoolGVKs = []\<rparr>"

theorem invalid_pool_ref_blocks_namespace_witness:
  "\<exists>e. fst (run_state (evaluateBindingConflicts crowded_reconciler sample_binding (sample_plan ''a'')) []) = Inl e"
  by (rule invalid_pool_ref_blocks_namespace [where peer = blank_peer and items = "[sample_binding, blank_peer]"])
     (simp_all add: crowded_reconciler_def blank_peer_def same_key_def sample_binding_def timestamp_is_zero_def TrimSpace_blank)

end
