(* ===== verification/Ownership_Safety.thy ===== *)
theory Ownership_Safety
  imports Ownership
begin

text \<open>
  The safety of managed output. What the history has shown to be durably recorded on a
  binding decides which calls are authorized; the ownership record moves through a small
  state machine; and every operation of the ownership protocol makes only authorized
  calls, whatever the API server answers.
\<close>

section \<open>What a history shows\<close>

text \<open>The bindings whose persisted form an event shows: replies, and accepted patches.\<close>

fun shown_bindings :: "event \<Rightarrow> binding list" where
  "shown_bindings (GetBindingEv _ (Inr b)) = [b]"
| "shown_bindings (ListBindingsEv _ (Inr bs)) = bs"
| "shown_bindings (UpdateBindingEv _ (Inr b)) = [b]"
| "shown_bindings (PatchStatusEv _ target (Inr b)) = [target, b]"
| "shown_bindings _ = []"

type_synonym ownership = "PendingClusterSPIFFEIDStatus option \<times> OwnedClusterSPIFFEIDStatus option"

definition ownership_of :: "binding \<Rightarrow> ownership" where
  "ownership_of b = (pending b, owned b)"

definition recorded :: "trace \<Rightarrow> ownership \<Rightarrow> bool" where
  "recorded t s = (\<exists>e \<in> set t. \<exists>b \<in> set (shown_bindings e). ownership_of b = s)"

abbreviation durable :: "trace \<Rightarrow> binding \<Rightarrow> bool" where
  "durable t b \<equiv> recorded t (ownership_of b)"

lemma recorded_mono: "recorded t s \<Longrightarrow> set t \<subseteq> set t' \<Longrightarrow> recorded t' s"
  unfolding recorded_def by blast

section \<open>The ownership state machine\<close>

text \<open>
  A live object is foreign to a record when its name or its claim (while pending) or its
  UID (once confirmed) differs.
\<close>

definition foreign_to :: "ownership \<Rightarrow> Unstructured \<Rightarrow> bool" where
  "foreign_to s u =
     (case s of
        (Some p, None) \<Rightarrow> u_Name u \<noteq> pend_Name p \<or> ClusterSPIFFEIDOwnershipClaim u \<noteq> pend_ClaimID p
      | (None, Some own) \<Rightarrow> u_Name u \<noteq> own_Name own \<or> u_UID u \<noteq> own_UID own
      | _ \<Rightarrow> False)"

definition record_name :: "ownership \<Rightarrow> string" where
  "record_name s = (case s of (_, Some own) \<Rightarrow> own_Name own | (Some p, None) \<Rightarrow> pend_Name p | _ \<Rightarrow> [])"

inductive ownership_step :: "trace \<Rightarrow> ownership \<Rightarrow> ownership \<Rightarrow> bool" where
  keep: "ownership_step past s s"
| reserve: "ownership_step (NewUUIDEv claim # past) (None, None)
    (Some \<lparr>pend_Name = name, pend_ClaimID = claim\<rparr>, None)"
| confirm_live: "u_Name u = pend_Name p \<Longrightarrow> ClusterSPIFFEIDOwnershipClaim u = pend_ClaimID p \<Longrightarrow>
    u_UID u \<noteq> [] \<Longrightarrow>
    ownership_step (GetObjectEv clusterSPIFFEIDGVK key (Inr u) # past) (Some p, None)
      (None, Some \<lparr>own_Name = u_Name u, own_UID = u_UID u\<rparr>)"
| confirm_created: "ClusterSPIFFEIDOwnershipClaim d = pend_ClaimID p \<Longrightarrow> u_UID u \<noteq> [] \<Longrightarrow>
    ownership_step (CreateEv d (Inr u) # past) (Some p, None)
      (None, Some \<lparr>own_Name = u_Name u, own_UID = u_UID u\<rparr>)"
| clear_absent: "IsNotFound e \<Longrightarrow>
    ownership_step (GetObjectEv clusterSPIFFEIDGVK (NamespacedName [] (record_name s)) (Inl e) # past)
      s (None, None)"
| clear_foreign: "foreign_to s u \<Longrightarrow>
    ownership_step (GetObjectEv clusterSPIFFEIDGVK (NamespacedName [] (record_name s)) (Inr u) # past)
      s (None, None)"

inductive_cases ownership_stepE: "ownership_step past s s'"

text \<open>A binding never comes to have both records by such a step.\<close>

definition exclusive :: "ownership \<Rightarrow> bool" where
  "exclusive s = (fst s = None \<or> snd s = None)"

lemma ownership_step_exclusive: "ownership_step past s s' \<Longrightarrow> exclusive s \<Longrightarrow> exclusive s'"
  by (induction rule: ownership_step.induct) (auto simp: exclusive_def)

section \<open>Authorized calls\<close>

text \<open>
  An object may be deleted or updated only under the name and UID a durable record
  confirms, with the UID as a precondition of the deletion; it may be created only with
  the claim and name of a durable pending record; a status patch moves the ownership record
  by one step of the machine; and a binding is written without its finalizer only when its
  durable status has no record left. Reads and local events are free.
\<close>

fun authorized :: "event \<Rightarrow> trace \<Rightarrow> bool" where
  "authorized (DeleteEv u uid _) past =
     (uid = u_UID u \<and> uid \<noteq> [] \<and>
      recorded past (None, Some \<lparr>own_Name = u_Name u, own_UID = uid\<rparr>))"
| "authorized (UpdateEv u _) past =
     (u_UID u \<noteq> [] \<and> recorded past (None, Some \<lparr>own_Name = u_Name u, own_UID = u_UID u\<rparr>))"
| "authorized (CreateEv u _) past =
     recorded past (Some \<lparr>pend_Name = u_Name u, pend_ClaimID = ClusterSPIFFEIDOwnershipClaim u\<rparr>, None)"
| "authorized (PatchStatusEv base target _) past =
     (ownership_step past (ownership_of base) (ownership_of target) \<and> recorded past (ownership_of base))"
| "authorized (UpdateBindingEv b _) past =
     (inferenceIdentityBindingFinalizer \<in> set (b_Finalizers b)
      \<or> (ownership_of b = (None, None) \<and> recorded past (None, None)))"
| "authorized _ past = True"

abbreviation safe_extension :: "trace \<Rightarrow> trace \<Rightarrow> bool" where
  "safe_extension \<equiv> extends authorized"

interpretation authorized_calls: free_reads authorized
proof
  fix e past
  assume "is_read e"
  then show "authorized e past" by (cases e) simp_all
qed

text \<open>Operations on a binding change its status and resource version, nothing else.\<close>

definition same_object :: "binding \<Rightarrow> binding \<Rightarrow> bool" where
  "same_object b b' =
     (b' = b\<lparr>b_Status := b_Status b', b_ResourceVersion := b_ResourceVersion b'\<rparr>)"

definition safe_outcome :: "trace \<Rightarrow> binding \<Rightarrow> trace \<Rightarrow> binding \<Rightarrow> bool" where
  "safe_outcome t b t' b' = (safe_extension t t' \<and> durable t' b' \<and> same_object b b')"

lemma same_object_iff:
  "same_object b b' \<longleftrightarrow> b_Namespace b' = b_Namespace b \<and> b_Name b' = b_Name b \<and>
     b_Generation b' = b_Generation b \<and> b_DeletionTimestamp b' = b_DeletionTimestamp b \<and>
     b_Finalizers b' = b_Finalizers b \<and> b_Spec b' = b_Spec b"
  by (cases b; cases b') (auto simp: same_object_def)

lemma same_object_refl [simp]: "same_object b b"
  by (simp add: same_object_iff)

lemma same_object_trans: "same_object a b \<Longrightarrow> same_object b c \<Longrightarrow> same_object a c"
  by (simp add: same_object_iff)

lemma safe_outcome_refl: "durable t b \<Longrightarrow> safe_outcome t b t b"
  by (simp add: safe_outcome_def)

lemma safe_outcome_trans:
  "safe_outcome t b t' b' \<Longrightarrow> safe_outcome t' b' t'' b'' \<Longrightarrow> safe_outcome t b t'' b''"
  unfolding safe_outcome_def by (blast intro: extends_trans same_object_trans)

lemma safe_outcome_Cons: "durable t b \<Longrightarrow> authorized e t \<Longrightarrow> safe_outcome t b (e # t) b"
  unfolding safe_outcome_def by (auto intro: extends_Cons recorded_mono)

lemma safe_outcome_more:
  "safe_outcome t b t' b' \<Longrightarrow> safe_extension t' t'' \<Longrightarrow> safe_outcome t b t'' b'"
  unfolding safe_outcome_def by (blast intro: extends_trans recorded_mono dest: extends_set)

lemma safe_outcomeD:
  "safe_outcome t b t' b' \<Longrightarrow> safe_extension t t'" "safe_outcome t b t' b' \<Longrightarrow> durable t' b'"
  "safe_outcome t b t' b' \<Longrightarrow> same_object b b'"
  by (simp_all add: safe_outcome_def)

lemma recorded_extension: "recorded t s \<Longrightarrow> safe_extension t t' \<Longrightarrow> recorded t' s"
  by (blast intro: recorded_mono dest: extends_set)

section \<open>Observing and recording\<close>

text \<open>
  An observation reports the record of the binding, and for a claimed binding the newest
  event is the lookup of the recorded name, whose reply it classifies.
\<close>

definition observes :: "binding \<Rightarrow> managedOutputObservation \<Rightarrow> trace \<Rightarrow> bool" where
  "observes b obs t =
     (managedOutputRecordFromStatus b = Inr (mo_record obs) \<and>
      obs = classifyManagedClusterSPIFFEID (mo_record obs) (mo_object obs) \<and>
      (mr_kind (mo_record obs) \<noteq> managedOutputUnclaimed \<longrightarrow>
        (\<exists>reply past. t = GetObjectEv clusterSPIFFEIDGVK (NamespacedName [] (mr_name (mo_record obs))) reply # past
          \<and> (case mo_object obs of Some u \<Rightarrow> reply = Inr u
             | None \<Rightarrow> \<exists>e. reply = Inl e \<and> IsNotFound e))))"

lemma not_blank: "TrimSpace s \<noteq> [] \<Longrightarrow> s \<noteq> []"
  by auto

lemma record_cases:
  assumes "managedOutputRecordFromStatus b = Inr record"
  obtains (unclaimed) "ownership_of b = (None, None)" "mr_kind record = managedOutputUnclaimed"
  | (pending) p where "ownership_of b = (Some p, None)" "mr_kind record = managedOutputPending"
      "mr_name record = pend_Name p" "mr_claimID record = pend_ClaimID p" "pend_Name p \<noteq> []"
      "pend_ClaimID p \<noteq> []"
  | (confirmed) own where "ownership_of b = (None, Some own)" "mr_kind record = managedOutputConfirmed"
      "mr_name record = own_Name own" "mr_uid record = own_UID own" "own_Name own \<noteq> []" "own_UID own \<noteq> []"
  using assms
  by (auto simp: managedOutputRecordFromStatus_def ownership_of_def
      split: option.splits if_splits) (metis not_blank)+

lemma classify_simps [simp]:
  "mo_record (classifyManagedClusterSPIFFEID rec obj) = rec"
  "mo_object (classifyManagedClusterSPIFFEID rec obj) = obj"
  by (simp_all add: classifyManagedClusterSPIFFEID_def)

lemma observe_wp:
  assumes "\<And>e t'. safe_extension t t' \<Longrightarrow> Q (Inl e) t'"
    and "\<And>obs t'. safe_extension t t' \<Longrightarrow> observes b obs t' \<Longrightarrow> Q (Inr obs) t'"
  shows "wp (observeManagedClusterSPIFFEID r b name) Q t"
proof (cases "managedOutputRecordFromStatus b")
  case (Inl e)
  with assms(1) show ?thesis by (simp add: observeManagedClusterSPIFFEID_def)
next
  case (Inr rec)
  define lookup where "lookup = (if mr_kind rec = managedOutputUnclaimed then name else mr_name rec)"
  have named: "lookup \<noteq> []" if "mr_kind rec \<noteq> managedOutputUnclaimed"
    using Inr that by (auto simp: lookup_def elim: record_cases)
  show ?thesis
  proof (cases "lookup = []")
    case True
    with named have "mr_kind rec = managedOutputUnclaimed" by auto
    then show ?thesis
      using True Inr assms(2) [OF extends_refl, of "classifyManagedClusterSPIFFEID rec None"]
      by (simp add: observeManagedClusterSPIFFEID_def observes_def lookup_def)
  next
    case False
    let ?e = "GetObjectEv clusterSPIFFEIDGVK (NamespacedName [] lookup)"
    define reply where "reply = get_object (r_Client r) t clusterSPIFFEIDGVK (NamespacedName [] lookup)"
    have ext: "safe_extension t (?e reply # t)" by (rule extends_Cons) simp_all
    have obs: "observes b (classifyManagedClusterSPIFFEID rec obj) (?e reply # t)"
      if "case obj of Some u \<Rightarrow> reply = Inr u | None \<Rightarrow> \<exists>e. reply = Inl e \<and> IsNotFound e" for obj
      using that Inr by (auto simp: observes_def lookup_def)
    have "Q (case reply of Inr object \<Rightarrow> Inr (classifyManagedClusterSPIFFEID rec (Some object))
        | Inl err \<Rightarrow> if IsNotFound err then Inr (classifyManagedClusterSPIFFEID rec None) else Inl err)
        (?e reply # t)"
      using assms(1) [OF ext] assms(2) [OF ext obs, of None] assms(2) [OF ext obs, of "Some (projr reply)"]
      by (cases reply) auto
    then show ?thesis
      using False Inr
      by (simp add: observeManagedClusterSPIFFEID_def lookup_def [symmetric] GetObject_def
          reply_def [symmetric] Let_def)
  qed
qed

lemma patchOwnership_wp:
  assumes "durable t b" "ownership_step t (ownership_of b) (ownership_of b')" "same_object b b'"
    and "\<And>e t' c. safe_outcome t b t' c \<Longrightarrow> Q (c, Some e) t'"
    and "\<And>t' c. safe_outcome t b t' c \<Longrightarrow> ownership_of c = ownership_of b' \<Longrightarrow> Q (c, None) t'"
  shows "wp (patchOwnershipStatus r b b') Q t"
proof -
  let ?target = "b\<lparr>b_Status := b_Status b'\<rparr>"
  define reply where "reply = patch_status (r_Client r) t b ?target"
  let ?e = "PatchStatusEv b ?target reply"
  have own: "ownership_of ?target = ownership_of b'" by (simp add: ownership_of_def)
  have ext: "safe_extension t (?e # t)"
    using assms(1,2) own by (intro extends_Cons) auto
  have "safe_outcome t b (?e # t) (b'\<lparr>b_Status := b_Status b\<rparr>)"
    unfolding safe_outcome_def
    using ext recorded_extension [OF assms(1) ext] assms(3)
    by (simp add: same_object_iff ownership_of_def)
  moreover have "safe_outcome t b (?e # t) (b'\<lparr>b_ResourceVersion := v\<rparr>)" if "reply = Inr c" for v c
    unfolding safe_outcome_def
    using ext assms(3) that by (auto simp: same_object_iff recorded_def ownership_of_def)
  ultimately show ?thesis
    using assms(4) assms(5)
    by (cases reply)
       (simp_all add: patchOwnershipStatus_def PatchStatus_def reply_def [symmetric] ownership_of_def)
qed

lemma clear_wp:
  assumes "durable t b" "ownership_step t (ownership_of b) (None, None)"
    and "\<And>e t' c. safe_outcome t b t' c \<Longrightarrow> Q (c, Some e) t'"
    and "\<And>t' c. safe_outcome t b t' c \<Longrightarrow> ownership_of c = (None, None) \<Longrightarrow> Q (c, None) t'"
  shows "wp (clearClusterSPIFFEIDOwnership r b) Q t"
proof (cases "ownership_of b = (None, None)")
  case True
  with assms(4) [OF safe_outcome_refl [OF assms(1)]] show ?thesis
    by (simp add: clearClusterSPIFFEIDOwnership_def ownership_of_def)
next
  case False
  then have "\<not> (pending b = None \<and> owned b = None)" by (auto simp: ownership_of_def)
  then show ?thesis
    unfolding clearClusterSPIFFEIDOwnership_def
    by (simp only: if_False)
       (rule patchOwnership_wp [OF assms(1)],
         use assms(2-4) in \<open>simp_all add: ownership_of_def same_object_iff\<close>)
qed

lemma confirm_wp:
  assumes "durable t b"
    and "uid \<noteq> [] \<Longrightarrow> ownership_step t (ownership_of b) (None, Some \<lparr>own_Name = name, own_UID = uid\<rparr>)"
    and "\<And>e t' c. safe_outcome t b t' c \<Longrightarrow> Q (c, Some e) t'"
    and "\<And>t' c. safe_outcome t b t' c \<Longrightarrow> uid \<noteq> [] \<Longrightarrow>
      ownership_of c = (None, Some \<lparr>own_Name = name, own_UID = uid\<rparr>) \<Longrightarrow> Q (c, None) t'"
  shows "wp (confirmClusterSPIFFEIDOwnership r b name uid) Q t"
proof (cases "uid = []")
  case True
  with assms(3) [OF safe_outcome_refl [OF assms(1)]] show ?thesis
    by (simp add: confirmClusterSPIFFEIDOwnership_def)
next
  case False
  then show ?thesis
    unfolding confirmClusterSPIFFEIDOwnership_def
    by (simp only: if_False)
       (rule patchOwnership_wp [OF assms(1)],
         use assms(2-4) False in \<open>simp_all add: ownership_of_def same_object_iff\<close>)
qed

section \<open>What an observation entitles to\<close>

lemma observes_cases:
  assumes "observes b obs t"
  obtains (unclaimed) "ownership_of b = (None, None)"
      "mo_kind obs = (if mo_object obs \<noteq> None then unclaimedOutputForeign else unclaimedOutputAbsent)"
  | (pending_absent) p e past where "ownership_of b = (Some p, None)" "mo_kind obs = pendingOutputAbsent"
      "mr_claimID (mo_record obs) = pend_ClaimID p" "IsNotFound e"
      "t = GetObjectEv clusterSPIFFEIDGVK (NamespacedName [] (pend_Name p)) (Inl e) # past"
  | (pending_live) p u past where "ownership_of b = (Some p, None)" "mo_object obs = Some u"
      "mo_kind obs = (if u_Name u = pend_Name p \<and> ClusterSPIFFEIDOwnershipClaim u = pend_ClaimID p
        then pendingOutputMatched else pendingOutputForeign)"
      "t = GetObjectEv clusterSPIFFEIDGVK (NamespacedName [] (pend_Name p)) (Inr u) # past"
  | (confirmed_absent) own e past where "ownership_of b = (None, Some own)" "mo_kind obs = confirmedOutputAbsent"
      "IsNotFound e" "t = GetObjectEv clusterSPIFFEIDGVK (NamespacedName [] (own_Name own)) (Inl e) # past"
  | (confirmed_live) own u past where "ownership_of b = (None, Some own)" "mo_object obs = Some u"
      "own_UID own \<noteq> []"
      "mo_kind obs = (if u_Name u = own_Name own \<and> u_UID u = own_UID own
        then confirmedOutputMatched else confirmedOutputForeign)"
      "t = GetObjectEv clusterSPIFFEIDGVK (NamespacedName [] (own_Name own)) (Inr u) # past"
proof -
  from assms have rec: "managedOutputRecordFromStatus b = Inr (mo_record obs)"
    and cls: "mo_kind obs = mo_kind (classifyManagedClusterSPIFFEID (mo_record obs) (mo_object obs))"
    and ev: "mr_kind (mo_record obs) \<noteq> managedOutputUnclaimed \<Longrightarrow>
        (\<exists>reply past. t = GetObjectEv clusterSPIFFEIDGVK (NamespacedName [] (mr_name (mo_record obs))) reply # past
          \<and> (case mo_object obs of Some u \<Rightarrow> reply = Inr u
             | None \<Rightarrow> \<exists>e. reply = Inl e \<and> IsNotFound e))"
    by (auto simp: observes_def)
  from rec show thesis
  proof (cases rule: record_cases)
    case unclaimed
    with cls that(1) show ?thesis by (simp add: classifyManagedClusterSPIFFEID_def)
  next
    case (pending p)
    with cls ev that(2,3) show ?thesis
      by (cases "mo_object obs") (auto simp: classifyManagedClusterSPIFFEID_def classifyPendingOutput_def)
  next
    case (confirmed own)
    with cls ev that(4,5) show ?thesis
      by (cases "mo_object obs") (auto simp: classifyManagedClusterSPIFFEID_def classifyConfirmedOutput_def)
  qed
qed

lemma observed_gone:
  assumes "observes b obs t" "mo_kind obs \<in> {pendingOutputAbsent, pendingOutputForeign,
    confirmedOutputAbsent, confirmedOutputForeign}"
  shows "ownership_step t (ownership_of b) (None, None)"
  using assms(1)
proof (cases rule: observes_cases)
  case unclaimed
  with assms(2) show ?thesis by (auto split: if_splits)
next
  case (pending_absent p e past)
  then show ?thesis using clear_absent [of e "ownership_of b"] by (simp add: record_name_def)
next
  case (pending_live p u past)
  then show ?thesis
    using clear_foreign [of "ownership_of b" u] assms(2)
    by (auto simp: record_name_def foreign_to_def split: if_splits)
next
  case (confirmed_absent own e past)
  then show ?thesis using clear_absent [of e "ownership_of b"] by (simp add: record_name_def)
next
  case (confirmed_live own u past)
  then show ?thesis
    using clear_foreign [of "ownership_of b" u] assms(2)
    by (auto simp: record_name_def foreign_to_def split: if_splits)
qed

lemma observed_pending_matched:
  assumes "observes b obs t" "mo_kind obs = pendingOutputMatched"
  obtains u p where "mo_object obs = Some u" "ownership_of b = (Some p, None)" "pend_Name p = u_Name u"
    "u_UID u \<noteq> [] \<Longrightarrow>
      ownership_step t (ownership_of b) (None, Some \<lparr>own_Name = u_Name u, own_UID = u_UID u\<rparr>)"
  using assms(1)
proof (cases rule: observes_cases)
  case (pending_live p u past)
  with assms(2) have "u_Name u = pend_Name p" "ClusterSPIFFEIDOwnershipClaim u = pend_ClaimID p"
    by (auto split: if_splits)
  with pending_live that [of u p] confirm_live [of u p] show ?thesis by simp
qed (use assms(2) in \<open>auto split: if_splits\<close>)

lemma observed_confirmed_matched:
  assumes "observes b obs t" "mo_kind obs = confirmedOutputMatched"
  obtains u where "mo_object obs = Some u" "u_UID u \<noteq> []"
    "ownership_of b = (None, Some \<lparr>own_Name = u_Name u, own_UID = u_UID u\<rparr>)"
  using assms(1)
proof (cases rule: observes_cases)
  case (confirmed_live own u past)
  with assms(2) have "u_Name u = own_Name own" "u_UID u = own_UID own" by (simp_all split: if_splits)
  then have "own = \<lparr>own_Name = u_Name u, own_UID = u_UID u\<rparr>" by (cases own) simp
  with confirmed_live that [of u] show ?thesis by simp
qed (use assms(2) in \<open>auto split: if_splits\<close>)

lemma observed_unclaimed:
  assumes "observes b obs t" "mo_kind obs \<in> {unclaimedOutputAbsent, unclaimedOutputForeign}"
  shows "ownership_of b = (None, None)"
  using assms(1)
  by (cases rule: observes_cases) (use assms(2) in \<open>auto split: if_splits\<close>)

section \<open>Withdrawal is safe\<close>

text \<open>The common shape of an outcome that ends in an error or a result.\<close>

lemma cleared_wp:
  assumes "durable t b" "ownership_step t (ownership_of b) (None, None)"
    and "\<And>e t' c. safe_outcome t b t' c \<Longrightarrow> Q (c, Inl e) t'"
    and "\<And>t' c. safe_outcome t b t' c \<Longrightarrow> ownership_of c = (None, None) \<Longrightarrow> Q (c, x) t'"
  shows "wp (clearClusterSPIFFEIDOwnership r b \<bind> (\<lambda>cleared. State_Monad.return (case cleared of
      (c, Some err) \<Rightarrow> (c, Inl err) | (c, None) \<Rightarrow> (c, x)))) Q t"
  unfolding wp_bind
  by (rule clear_wp [OF assms(1,2)]) (simp_all add: assms(3,4))

lemma confirmed_wp:
  assumes "durable t b"
    and "uid \<noteq> [] \<Longrightarrow> ownership_step t (ownership_of b) (None, Some \<lparr>own_Name = name, own_UID = uid\<rparr>)"
    and "\<And>e t' c. safe_outcome t b t' c \<Longrightarrow> Q (c, Inl e) t'"
    and "\<And>t' c. safe_outcome t b t' c \<Longrightarrow> uid \<noteq> [] \<Longrightarrow>
      ownership_of c = (None, Some \<lparr>own_Name = name, own_UID = uid\<rparr>) \<Longrightarrow> Q (c, x) t'"
  shows "wp (confirmClusterSPIFFEIDOwnership r b name uid \<bind> (\<lambda>confirmed. State_Monad.return (case confirmed of
      (c, Some err) \<Rightarrow> (c, Inl err) | (c, None) \<Rightarrow> (c, x)))) Q t"
  unfolding wp_bind
  by (rule confirm_wp [OF assms(1,2)]) (simp_all add: assms(3,4))

lemma list_observed_wp:
  assumes "durable t b" "observes b obs t"
    and err: "\<And>e t' c. safe_outcome t b t' c \<Longrightarrow> Q (c, Inl e) t'"
    and none: "\<And>t' c. safe_outcome t b t' c \<Longrightarrow> ownership_of c = (None, None) \<Longrightarrow> Q (c, Inr []) t'"
    and one: "\<And>t' c u. safe_outcome t b t' c \<Longrightarrow> u_UID u \<noteq> [] \<Longrightarrow>
      ownership_of c = (None, Some \<lparr>own_Name = u_Name u, own_UID = u_UID u\<rparr>) \<Longrightarrow> Q (c, Inr [u]) t'"
  shows "wp (list_observed r b obs) Q t"
proof -
  have gone: "wp (clearClusterSPIFFEIDOwnership r b \<bind> (\<lambda>cleared. State_Monad.return (case cleared of
      (c, Some err) \<Rightarrow> (c, Inl err) | (c, None) \<Rightarrow> (c, Inr [])))) Q t"
    if "mo_kind obs \<in> {pendingOutputAbsent, pendingOutputForeign, confirmedOutputAbsent, confirmedOutputForeign}"
    by (rule cleared_wp [OF assms(1) observed_gone [OF assms(2) that]]) (simp_all add: err none)
  consider (gone) "mo_kind obs \<in> {pendingOutputAbsent, pendingOutputForeign, confirmedOutputAbsent, confirmedOutputForeign}"
    | (unclaimed) "mo_kind obs \<in> {unclaimedOutputAbsent, unclaimedOutputForeign}"
    | (pending) "mo_kind obs = pendingOutputMatched" | (confirmed) "mo_kind obs = confirmedOutputMatched"
    by (cases "mo_kind obs") auto
  then show ?thesis
  proof cases
    case gone
    then have "list_observed r b obs = clearClusterSPIFFEIDOwnership r b \<bind> (\<lambda>cleared. State_Monad.return
        (case cleared of (c, Some err) \<Rightarrow> (c, Inl err) | (c, None) \<Rightarrow> (c, Inr [])))"
      by (auto simp: list_observed_def)
    with \<open>mo_kind obs \<in> _ \<Longrightarrow> _\<close> [OF gone] show ?thesis by (simp only:)
  next
    case unclaimed
    then have "list_observed r b obs = State_Monad.return (b, Inr [])"
      by (auto simp: list_observed_def)
    with none [OF safe_outcome_refl [OF assms(1)] observed_unclaimed [OF assms(2) unclaimed]]
    show ?thesis by simp
  next
    case pending
    obtain u p where u: "mo_object obs = Some u"
      "u_UID u \<noteq> [] \<Longrightarrow> ownership_step t (ownership_of b) (None, Some \<lparr>own_Name = u_Name u, own_UID = u_UID u\<rparr>)"
      by (rule observed_pending_matched [OF assms(2) pending]) blast
    show ?thesis
      unfolding list_observed_def
      by (simp only: pending u(1) prod.case managedOutputObservationKind.case option.case)
         (rule confirmed_wp [OF assms(1) u(2)], simp_all add: err one)
  next
    case confirmed
    obtain u where "mo_object obs = Some u" "u_UID u \<noteq> []"
      "ownership_of b = (None, Some \<lparr>own_Name = u_Name u, own_UID = u_UID u\<rparr>)"
      by (rule observed_confirmed_matched [OF assms(2) confirmed])
    with confirmed one [OF safe_outcome_refl [OF assms(1)]] show ?thesis
      by (simp add: list_observed_def)
  qed
qed

lemma list_wp:
  assumes "durable t b"
    and err: "\<And>e t' c. safe_outcome t b t' c \<Longrightarrow> Q (c, Inl e) t'"
    and none: "\<And>t' c. safe_outcome t b t' c \<Longrightarrow> ownership_of c = (None, None) \<Longrightarrow> Q (c, Inr []) t'"
    and one: "\<And>t' c u. safe_outcome t b t' c \<Longrightarrow> u_UID u \<noteq> [] \<Longrightarrow>
      ownership_of c = (None, Some \<lparr>own_Name = u_Name u, own_UID = u_UID u\<rparr>) \<Longrightarrow> Q (c, Inr [u]) t'"
  shows "wp (listManagedClusterSPIFFEIDs r b) Q t"
  unfolding listManagedClusterSPIFFEIDs_def wp_bind
proof (rule observe_wp, goal_cases)
  case (1 e t')
  then have "safe_outcome t b t' b" using safe_outcome_more safe_outcome_refl assms(1) by blast
  then show ?case by (simp add: err)
next
  case (2 obs t')
  have out: "safe_outcome t b t' b" using 2(1) safe_outcome_more safe_outcome_refl assms(1) by blast
  note trans = safe_outcome_trans [OF out]
  show ?case
    using list_observed_wp [OF safe_outcomeD(2) [OF out] 2(2), of Q] err [OF trans] none [OF trans] one [OF trans]
    by simp
qed

lemma delete_wp:
  assumes "\<And>u. u \<in> set objects \<Longrightarrow> u_UID u \<noteq> [] \<and>
      recorded t (None, Some \<lparr>own_Name = u_Name u, own_UID = u_UID u\<rparr>)"
    and "\<And>res t'. safe_extension t t' \<Longrightarrow> Q res t'"
  shows "wp (delete_objects r objects) Q t"
  using assms
proof (induction objects arbitrary: t)
  case Nil
  then show ?case by simp
next
  case (Cons u objects)
  define reply where "reply = delete_object (r_Client r) t u (u_UID u)"
  let ?t = "DeleteEv u (u_UID u) reply # t"
  have ext: "safe_extension t ?t" using Cons.prems(1) [of u] by (intro extends_Cons) auto
  have rest: "wp (delete_objects r objects) Q ?t"
    by (rule Cons.IH)
       (use Cons.prems ext in \<open>auto intro: recorded_extension extends_trans\<close>)
  show ?case
    using rest Cons.prems(2) [OF ext]
    by (auto simp: DeleteObject_def reply_def [symmetric] split: sum.split)
qed

lemma cleanup_wp:
  assumes "durable t b" "\<And>res t' c. safe_outcome t b t' c \<Longrightarrow> Q (c, res) t'"
  shows "wp (cleanupManagedClusterSPIFFEIDs r b) Q t"
  unfolding cleanupManagedClusterSPIFFEIDs_def wp_bind
proof (rule list_wp [OF assms(1)], goal_cases)
  case (1 e t' c)
  then show ?case by (simp add: assms(2))
next
  case (2 t' c)
  then show ?case by (simp add: assms(2))
next
  case (3 t' c u)
  have "recorded t' (None, Some \<lparr>own_Name = u_Name u, own_UID = u_UID u\<rparr>)"
    using 3 by (metis safe_outcomeD(2))
  then have "wp (delete_objects r [u]) (\<lambda>x. wp (State_Monad.return (c, x)) Q) t'"
    by (intro delete_wp) (use 3 assms(2) in \<open>auto intro: safe_outcome_more\<close>)
  then show ?case by (simp del: delete_objects.simps)
qed

lemma recordedClusterSPIFFEIDName_eq: "recordedClusterSPIFFEIDName b = record_name (ownership_of b)"
  by (simp add: recordedClusterSPIFFEIDName_def record_name_def ownership_of_def split: option.split)

lemma cleanupChanged_wp:
  assumes "durable t b"
    and err: "\<And>e t' c. safe_outcome t b t' c \<Longrightarrow> Q (c, Inl e) t'"
    and wait: "\<And>t' c. safe_outcome t b t' c \<Longrightarrow> Q (c, Inr True) t'"
    and go: "\<And>t' c. safe_outcome t b t' c \<Longrightarrow> record_name (ownership_of c) \<in> {[], name} \<Longrightarrow> Q (c, Inr False) t'"
  shows "wp (cleanupChangedClusterSPIFFEIDName r b name) Q t"
proof (cases "record_name (ownership_of b) \<in> {[], name}")
  case True
  with go [OF safe_outcome_refl [OF assms(1)]] show ?thesis
    by (auto simp: cleanupChangedClusterSPIFFEIDName_def recordedClusterSPIFFEIDName_eq Let_def)
next
  case False
  have listed: "wp (listManagedClusterSPIFFEIDs r c) (\<lambda>listed. wp (case listed of
                (binding, Inl err) \<Rightarrow> State_Monad.return (binding, Inl err)
              | (binding, Inr remaining) \<Rightarrow>
                  if remaining = [] then
                    (if recordedClusterSPIFFEIDName binding \<noteq> [] then do {
                       cleared \<leftarrow> clearClusterSPIFFEIDOwnership r binding;
                       State_Monad.return (case cleared of
                          (binding, Some err) \<Rightarrow> (binding, Inl err)
                        | (binding, None) \<Rightarrow> (binding, Inr False))
                     }
                     else State_Monad.return (binding, Inr False))
                  else State_Monad.return (binding, Inr True)) Q) t'"
    if "safe_outcome t b t' c" for t' c
    using safe_outcome_trans [OF that] safe_outcomeD(2) [OF that]
    by (intro list_wp) (simp_all add: err wait go recordedClusterSPIFFEIDName_eq record_name_def)
  show ?thesis
    using False
    by (auto simp: cleanupChangedClusterSPIFFEIDName_def recordedClusterSPIFFEIDName_eq [of b] Let_def
        err listed split: option.split intro!: cleanup_wp [OF assms(1)])
qed

section \<open>Creation and update are safe\<close>

lemma reserve_wp:
  assumes "durable t b"
    and err: "\<And>e t' c. safe_outcome t b t' c \<Longrightarrow> Q (c, Inl e) t'"
    and ok: "\<And>claim t' c. safe_outcome t b t' c \<Longrightarrow>
      ownership_of c = (Some \<lparr>pend_Name = name, pend_ClaimID = claim\<rparr>, None) \<Longrightarrow> Q (c, Inr claim) t'"
  shows "wp (reserveClusterSPIFFEIDClaim r b name) Q t"
proof (cases "managedOutputRecordFromStatus b")
  case (Inl e)
  then show ?thesis
    using err [OF safe_outcome_refl [OF assms(1)]] by (simp add: reserveClusterSPIFFEIDClaim_def)
next
  case (Inr rec)
  show ?thesis
  proof (cases "mr_kind rec = managedOutputUnclaimed")
    case False
    with Inr err [OF safe_outcome_refl [OF assms(1)]] show ?thesis
      by (simp add: reserveClusterSPIFFEIDClaim_def)
  next
    case True
    define claim where "claim = new_uuid (r_Client r) t"
    define t1 where "t1 = NewUUIDEv claim # t"
    define st where "st = (applyPendingManagedOutputStatus (r_Ext r) (b_Status b) (b_Generation b))
      \<lparr>st_PendingClusterSPIFFEID := Some \<lparr>pend_Name = name, pend_ClaimID = claim\<rparr>, st_OwnedClusterSPIFFEID := None\<rparr>"
    have none: "ownership_of b = (None, None)" using Inr True by (auto elim: record_cases)
    have own: "ownership_of (b\<lparr>b_Status := st\<rparr>) = (Some \<lparr>pend_Name = name, pend_ClaimID = claim\<rparr>, None)"
      by (simp add: ownership_of_def st_def)
    have out: "safe_outcome t b t1 b" unfolding t1_def by (rule safe_outcome_Cons [OF assms(1)]) simp
    have step: "ownership_step t1 (ownership_of b) (ownership_of (b\<lparr>b_Status := st\<rparr>))"
      unfolding none own t1_def by (rule reserve)
    have "wp (patchOwnershipStatus r b (b\<lparr>b_Status := st\<rparr>)) (\<lambda>patched. wp (State_Monad.return (case patched of
               (binding', Some err) \<Rightarrow> (binding', Inl err)
             | (binding', None) \<Rightarrow> (binding', Inr claim))) Q) t1"
      by (rule patchOwnership_wp [OF safe_outcomeD(2) [OF out] step])
         (simp_all add: same_object_iff own err ok safe_outcome_trans [OF out])
    with Inr True show ?thesis
      by (simp add: reserveClusterSPIFFEIDClaim_def NewUUID_def claim_def [symmetric] t1_def [symmetric]
          st_def [symmetric] Let_def)
  qed
qed

lemma create_with_claim_wp:
  assumes "durable t b" "ownership_of b = (Some \<lparr>pend_Name = u_Name desired, pend_ClaimID = claim\<rparr>, None)"
    and err: "\<And>e t' c. safe_outcome t b t' c \<Longrightarrow> Q (c, Inl e) t'"
    and ok: "\<And>own st t' c. safe_outcome t b t' c \<Longrightarrow> ownership_of c = (None, Some own) \<Longrightarrow>
      own_Name own = rc_Name st \<Longrightarrow> Q (c, Inr st) t'"
  shows "wp (create_with_claim r b identity desired claim) Q t"
proof -
  define d where "d = SetClusterSPIFFEIDOwnershipClaim desired claim"
  have d: "u_Name d = u_Name desired" "ClusterSPIFFEIDOwnershipClaim d = claim"
    by (simp_all add: d_def SetClusterSPIFFEIDOwnershipClaim_def ClusterSPIFFEIDOwnershipClaim_def)
  define reply where "reply = create_object (r_Client r) t d"
  have out: "safe_outcome t b (CreateEv d reply # t) b"
    using assms(1,2) d by (intro safe_outcome_Cons) simp_all
  have confirm: "wp (confirmClusterSPIFFEIDOwnership r b (u_Name u) (u_UID u) \<bind> (\<lambda>confirmed.
      State_Monad.return (case confirmed of (c, Some err) \<Rightarrow> (c, Inl err)
        | (c, None) \<Rightarrow> (c, Inr (renderedClusterSPIFFEIDStatus identity u))))) Q (CreateEv d reply # t)"
    if "reply = Inr u" for u
  proof (rule confirmed_wp [OF safe_outcomeD(2) [OF out]], goal_cases)
    case 1
    then show ?case using confirm_created [of d "\<lparr>pend_Name = u_Name desired, pend_ClaimID = claim\<rparr>" u]
      by (simp add: assms(2) d(2) that)
  next
    case (2 e t' c)
    then show ?case by (intro err safe_outcome_trans [OF out])
  next
    case (3 t' c)
    then show ?case
      by (intro ok [where own = "\<lparr>own_Name = u_Name u, own_UID = u_UID u\<rparr>"] safe_outcome_trans [OF out])
         (simp_all add: renderedClusterSPIFFEIDStatus_def)
  qed
  show ?thesis
    unfolding create_with_claim_def CreateObject_def Let_def d_def [symmetric] wp_bind wp_call reply_def [symmetric]
    using confirm err [OF out] by (cases reply) simp_all
qed

lemma update_wp:
  assumes "u_UID current \<noteq> []"
    and "recorded t (None, Some \<lparr>own_Name = u_Name current, own_UID = u_UID current\<rparr>)"
    and "\<And>res t'. safe_extension t t' \<Longrightarrow> Q res t'"
  shows "wp (updateManagedClusterSPIFFEID r identity current desired) Q t"
proof -
  let ?m = "MergeDesiredClusterSPIFFEID (r_Ext r) current desired"
  have "u_Name ?m = u_Name current" "u_UID ?m = u_UID current"
    by (simp_all add: MergeDesiredClusterSPIFFEID_def Let_def)
  then have "safe_extension t (UpdateEv ?m reply # t)" for reply
    using assms(1,2) by (intro extends_Cons) simp_all
  with assms(3) show ?thesis by (simp add: updateManagedClusterSPIFFEID_def UpdateObject_def)
qed

lemma authorize_wp:
  assumes "durable t b" "observes b obs t"
    and err: "\<And>e t' c. safe_outcome t b t' c \<Longrightarrow> Q (c, Inl e) t'"
    and absent: "\<And>t' c. safe_outcome t b t' c \<Longrightarrow> ownership_of c = (None, None) \<Longrightarrow>
      mo_kind obs \<noteq> pendingOutputAbsent \<Longrightarrow> Q (c, Inr None) t'"
    and pending: "\<And>p. mo_kind obs = pendingOutputAbsent \<Longrightarrow> ownership_of b = (Some p, None) \<Longrightarrow>
      mr_claimID (mo_record obs) = pend_ClaimID p \<Longrightarrow> Q (b, Inr None) t"
    and live: "\<And>t' c u. safe_outcome t b t' c \<Longrightarrow> u_UID u \<noteq> [] \<Longrightarrow>
      ownership_of c = (None, Some \<lparr>own_Name = u_Name u, own_UID = u_UID u\<rparr>) \<Longrightarrow> Q (c, Inr (Some u)) t'"
  shows "wp (authorizeManagedOutputApply r b desired obs) Q t"
proof (cases "mo_kind obs")
  case unclaimedOutputAbsent
  with absent [OF safe_outcome_refl [OF assms(1)] observed_unclaimed [OF assms(2)]] show ?thesis
    by (simp add: authorizeManagedOutputApply_def)
next
  case unclaimedOutputForeign
  with err [OF safe_outcome_refl [OF assms(1)]] show ?thesis
    by (simp add: authorizeManagedOutputApply_def)
next
  case pendingOutputAbsent
  from assms(2) show ?thesis
    by (cases rule: observes_cases)
       (use pendingOutputAbsent pending in \<open>auto simp: authorizeManagedOutputApply_def split: if_splits\<close>)
next
  case pendingOutputMatched
  obtain u p where u: "mo_object obs = Some u"
    "u_UID u \<noteq> [] \<Longrightarrow> ownership_step t (ownership_of b) (None, Some \<lparr>own_Name = u_Name u, own_UID = u_UID u\<rparr>)"
    by (rule observed_pending_matched [OF assms(2) pendingOutputMatched]) blast
  show ?thesis
    unfolding authorizeManagedOutputApply_def Let_def
    by (simp only: pendingOutputMatched u(1) managedOutputObservationKind.case option.case)
       (rule confirmed_wp [OF assms(1) u(2)], simp_all add: err live)
next
  case confirmedOutputMatched
  obtain u where "mo_object obs = Some u" "u_UID u \<noteq> []"
    "ownership_of b = (None, Some \<lparr>own_Name = u_Name u, own_UID = u_UID u\<rparr>)"
    by (rule observed_confirmed_matched [OF assms(2) confirmedOutputMatched])
  with confirmedOutputMatched live [OF safe_outcome_refl [OF assms(1)]] show ?thesis
    by (simp add: authorizeManagedOutputApply_def)
next
  case confirmedOutputAbsent
  then have "ownership_step t (ownership_of b) (None, None)" by (intro observed_gone [OF assms(2)]) simp
  then show ?thesis
    unfolding authorizeManagedOutputApply_def Let_def
    by (simp only: confirmedOutputAbsent managedOutputObservationKind.case)
       (rule cleared_wp [OF assms(1)], simp_all add: err absent confirmedOutputAbsent)
next
  case pendingOutputForeign
  then have "ownership_step t (ownership_of b) (None, None)" by (intro observed_gone [OF assms(2)]) simp
  then show ?thesis
    unfolding authorizeManagedOutputApply_def Let_def
    by (simp only: pendingOutputForeign managedOutputObservationKind.case)
       (rule cleared_wp [OF assms(1)], simp_all add: err)
next
  case confirmedOutputForeign
  then have "ownership_step t (ownership_of b) (None, None)" by (intro observed_gone [OF assms(2)]) simp
  then show ?thesis
    unfolding authorizeManagedOutputApply_def Let_def
    by (simp only: confirmedOutputForeign managedOutputObservationKind.case)
       (rule cleared_wp [OF assms(1)], simp_all add: err)
qed

lemma create_wp:
  assumes "durable t b"
    and "mo_kind obs \<noteq> pendingOutputAbsent \<or>
      ownership_of b = (Some \<lparr>pend_Name = u_Name desired, pend_ClaimID = mr_claimID (mo_record obs)\<rparr>, None)"
    and err: "\<And>e t' c. safe_outcome t b t' c \<Longrightarrow> Q (c, Inl e) t'"
    and ok: "\<And>own st t' c. safe_outcome t b t' c \<Longrightarrow> ownership_of c = (None, Some own) \<Longrightarrow>
      Q (c, Inr st) t'"
  shows "wp (createManagedClusterSPIFFEID r b identity desired obs) Q t"
proof (cases "mo_kind obs = pendingOutputAbsent")
  case True
  with assms(2) have "ownership_of b
      = (Some \<lparr>pend_Name = u_Name desired, pend_ClaimID = mr_claimID (mo_record obs)\<rparr>, None)" by simp
  then show ?thesis
    unfolding createManagedClusterSPIFFEID_def using True
    by (simp add: create_with_claim_wp [OF assms(1) _ err ok])
next
  case False
  have "wp (create_with_claim r c identity desired claim) Q t'"
    if out: "safe_outcome t b t' c"
      and "ownership_of c = (Some \<lparr>pend_Name = u_Name desired, pend_ClaimID = claim\<rparr>, None)" for t' c claim
    by (rule create_with_claim_wp [OF safe_outcomeD(2) [OF out] that(2)])
       (blast intro: err ok safe_outcome_trans [OF out])+
  then show ?thesis
    unfolding createManagedClusterSPIFFEID_def using False
    by (simp add: reserve_wp [OF assms(1)] err)
qed

lemma reconcileOne_wp:
  assumes "durable t b" "record_name (ownership_of b) \<in> {[], u_Name desired}"
    and err: "\<And>e t' c. safe_outcome t b t' c \<Longrightarrow> Q (c, Inl e) t'"
    and ok: "\<And>own st t' c. safe_outcome t b t' c \<Longrightarrow> ownership_of c = (None, Some own) \<Longrightarrow>
      Q (c, Inr st) t'"
  shows "wp (reconcileClusterSPIFFEID r b identity desired) Q t"
  unfolding reconcileClusterSPIFFEID_def wp_bind
proof (rule observe_wp, goal_cases)
  case (1 e t1)
  have "safe_outcome t b t1 b" using 1 safe_outcome_more safe_outcome_refl assms(1) by blast
  then show ?case by (simp add: err)
next
  case (2 obs t1)
  have out: "safe_outcome t b t1 b" using 2(1) safe_outcome_more safe_outcome_refl assms(1) by blast
  note obs = 2(2)
  have "wp (authorizeManagedOutputApply r b desired obs) (\<lambda>authorized. wp (case authorized of
             (binding', Inl err) \<Rightarrow> State_Monad.return (binding', Inl err)
           | (binding', Inr None) \<Rightarrow> createManagedClusterSPIFFEID r binding' identity desired obs
           | (binding', Inr (Some current)) \<Rightarrow> do {
               updated \<leftarrow> updateManagedClusterSPIFFEID r identity current desired;
               State_Monad.return (binding', updated)
             }) Q) t1"
  proof (rule authorize_wp [OF safe_outcomeD(2) [OF out] obs], goal_cases)
    case (1 e t2 c)
    then show ?case by (simp add: err safe_outcome_trans [OF out])
  next
    case (2 t2 c)
    then show ?case
      using create_wp [OF safe_outcomeD(2) [OF 2(1)], of obs desired Q r identity]
        err ok safe_outcome_trans [OF safe_outcome_trans [OF out 2(1)]] by simp
  next
    case (3 p)
    have "record_name (ownership_of b) \<noteq> []"
      using obs 3 by (auto simp: record_name_def observes_def elim: record_cases)
    with 3 assms(2) have "pend_Name p = u_Name desired" by (simp add: record_name_def)
    with 3 have "ownership_of b
        = (Some \<lparr>pend_Name = u_Name desired, pend_ClaimID = mr_claimID (mo_record obs)\<rparr>, None)"
      by (cases p) simp
    then show ?case
      using create_wp [OF safe_outcomeD(2) [OF out], of obs desired Q r identity]
        err ok safe_outcome_trans [OF out] by simp
  next
    case (4 t2 c u)
    have out2: "safe_outcome t b t2 c" by (rule safe_outcome_trans [OF out 4(1)])
    have "wp (updateManagedClusterSPIFFEID r identity u desired) (\<lambda>x. wp (State_Monad.return (c, x)) Q) t2"
    proof (rule update_wp [OF 4(2)], goal_cases)
      case 1
      then show ?case using safe_outcomeD(2) [OF 4(1)] 4(3) by simp
    next
      case (2 res t3)
      then show ?case using err ok safe_outcome_more [OF out2 2] 4(3) by (cases res) auto
    qed
    then show ?case by simp
  qed
  then show ?case by simp
qed

lemma reconcileAll_wp:
  assumes "durable t b"
    and "record_name (ownership_of b) \<in>
      {[], u_Name (DesiredClusterSPIFFEID b identity (oc_ClusterSPIFFEIDClassName (r_Config r)))}"
    and err: "\<And>e t' c. safe_outcome t b t' c \<Longrightarrow> Q (c, Inl e) t'"
    and ok: "\<And>own st t' c. safe_outcome t b t' c \<Longrightarrow> ownership_of c = (None, Some own) \<Longrightarrow>
      Q (c, Inr [st]) t'"
  shows "wp (reconcileClusterSPIFFEIDs r b [identity]) Q t"
  unfolding reconcileClusterSPIFFEIDs.simps wp_bind
  by (rule reconcileOne_wp [OF assms(1,2)]) (simp_all add: err ok)

end
