(* ===== verification/Reconciler.thy ===== *)
theory Reconciler
  imports Conflict Ownership_Safety
begin

text \<open>
  The reconcile loop of \<^verbatim>\<open>inferenceidentitybinding_controller.go\<close>: desired state,
  deletion, and \<^verbatim>\<open>Reconcile\<close> itself. The result of a reconcile is the requeue delay and
  the error, if any; log output is left out.
\<close>

section \<open>Desired state and deletion\<close>

definition computeDesiredState :: "reconciler \<Rightarrow> binding \<Rightarrow> ((Plan list) result) run" where
  "computeDesiredState r binding =
     (case BindingPoolRef (r_Ext r) binding of
        Inl err \<Rightarrow> State_Monad.return (Inl (ReconcileStateError conditionTypeInvalidRef
          conditionReasonInvalidPoolRef (error_text err)))
      | Inr poolRef \<Rightarrow> do {
          resolved \<leftarrow> resolveInferencePool r poolRef;
          State_Monad.return (case resolved of
             Inl err \<Rightarrow> Inl err
           | Inr pool \<Rightarrow>
               (case renderIdentity r binding pool of
                  Inl err \<Rightarrow> Inl err
                | Inr identity \<Rightarrow> Inr [identity]))
        })"

definition reconcileDelete :: "reconciler \<Rightarrow> binding \<Rightarrow> (int \<times> go_error option) run" where
  "reconcileDelete r binding =
     (if \<not> ContainsFinalizer (r_Ext r) (b_Finalizers binding) inferenceIdentityBindingFinalizer
      then State_Monad.return (0, None)
      else do {
        cleaned \<leftarrow> cleanupManagedClusterSPIFFEIDs r binding;
        (case cleaned of
           (binding, Some err) \<Rightarrow> do {
             failed \<leftarrow> fail_apply r binding err;
             State_Monad.return (snd failed)
           }
         | (binding, None) \<Rightarrow> do {
             listed \<leftarrow> listManagedClusterSPIFFEIDs r binding;
             (case listed of
                (binding, Inl err) \<Rightarrow> do {
                  failed \<leftarrow> fail_apply r binding err;
                  State_Monad.return (snd failed)
                }
              | (binding, Inr remaining) \<Rightarrow>
                  if length remaining > 0 then
                    State_Monad.return (deleteVerificationRequeueAfter, None)
                  else do {
                    cleared \<leftarrow> (if recordedClusterSPIFFEIDName binding \<noteq> []
                      then clearClusterSPIFFEIDOwnership r binding
                      else State_Monad.return (binding, None));
                    (case cleared of
                       (binding, Some err) \<Rightarrow> State_Monad.return (0, Some err)
                     | (binding, None) \<Rightarrow> do {
                         updated \<leftarrow> UpdateBinding (r_Client r) (binding\<lparr>b_Finalizers :=
                           RemoveFinalizer (r_Ext r) (b_Finalizers binding)
                             inferenceIdentityBindingFinalizer\<rparr>);
                         State_Monad.return (case updated of
                            Inl err \<Rightarrow> (0, Some err)
                          | Inr _ \<Rightarrow> (0, None))
                       })
                  })
           })
      })"

section \<open>Reconcile\<close>

text \<open>Phase 3: the finalizer is added before anything is created.\<close>

definition ensure_finalizer :: "reconciler \<Rightarrow> binding \<Rightarrow> (binding result) run" where
  "ensure_finalizer r binding =
     (if \<not> ContainsFinalizer (r_Ext r) (b_Finalizers binding) inferenceIdentityBindingFinalizer
      then UpdateBinding (r_Client r) (binding\<lparr>b_Finalizers :=
        AddFinalizer (r_Ext r) (b_Finalizers binding) inferenceIdentityBindingFinalizer\<rparr>)
      else State_Monad.return (Inr binding))"

text \<open>
  A state error is applied and published; the requeue delay is for failures of the
  infrastructure, which recover without a change of the binding.
\<close>

definition publish_state_error ::
    "reconciler \<Rightarrow> binding \<Rightarrow> reconcileStateError \<Rightarrow> (int \<times> go_error option) run" where
  "publish_state_error r binding stateErr = do {
     applied \<leftarrow> applyStateError r binding stateErr;
     (case applied of
        (binding, Some err) \<Rightarrow> do {
          failed \<leftarrow> fail_apply r binding err;
          State_Monad.return (snd failed)
        }
      | (binding, None) \<Rightarrow> do {
          patched \<leftarrow> patchStatus r binding;
          (case patched of
             (binding, Some err) \<Rightarrow> State_Monad.return (0, Some err)
           | (binding, None) \<Rightarrow> do {
               recordTerminalOutcome r binding;
               recordEventf r binding EventTypeWarning (se_reason stateErr) (se_message stateErr);
               State_Monad.return
                 (if isInfrastructureNotReadyReason (se_reason stateErr)
                  then infraNotReadyRequeueAfter else 0, None)
             })
        })
   }"

text \<open>Phase 5: the output is applied and success is published.\<close>

definition apply_output :: "reconciler \<Rightarrow> binding \<Rightarrow> Plan list \<Rightarrow> string \<Rightarrow> (int \<times> go_error option) run" where
  "apply_output r binding identities primaryName = do {
     reconciled \<leftarrow> reconcileClusterSPIFFEIDs r binding identities;
     (case reconciled of
        (binding, Inl err) \<Rightarrow>
          if IsNoMatchError err then publish_state_error r binding newClusterSPIFFEIDCRDMissingStateError
          else do {
            failed \<leftarrow> fail_apply r binding err;
            State_Monad.return (snd failed)
          }
      | (binding, Inr managedStatuses) \<Rightarrow> do {
          let binding = binding\<lparr>b_Status := applySuccessStatus (r_Ext r) (b_Status binding)
            (b_Generation binding) identities managedStatuses\<rparr>;
          patched \<leftarrow> patchStatus r binding;
          (case patched of
             (binding, Some err) \<Rightarrow> State_Monad.return (0, Some err)
           | (binding, None) \<Rightarrow> do {
               recordTerminalOutcome r binding;
               recordEventf r binding EventTypeNormal conditionReasonReconciled
                 (''reconciled ClusterSPIFFEID '' @ Quote (r_Ext r) primaryName);
               State_Monad.return (0, None)
             })
        })
   }"

text \<open>
  From a rendered identity on: the conflict state first, then a change of the output's
  name, then the output itself.
\<close>

definition reconcile_rendered ::
    "reconciler \<Rightarrow> binding \<Rightarrow> Plan list \<Rightarrow> Plan \<Rightarrow> (int \<times> go_error option) run" where
  "reconcile_rendered r binding identities primaryIdentity = do {
     conflict \<leftarrow> reconcileConflictState r binding primaryIdentity;
     (case conflict of
        (binding, handled, requeue, err) \<Rightarrow>
          if handled \<or> err \<noteq> None then State_Monad.return (requeue, err)
          else do {
            let primaryName = u_Name (DesiredClusterSPIFFEID binding primaryIdentity
              (oc_ClusterSPIFFEIDClassName (r_Config r)));
            changed \<leftarrow> cleanupChangedClusterSPIFFEIDName r binding primaryName;
            (case changed of
               (binding, Inl err) \<Rightarrow> do {
                 failed \<leftarrow> fail_apply r binding err;
                 State_Monad.return (snd failed)
               }
             | (binding, Inr True) \<Rightarrow> do {
                 let binding = binding\<lparr>b_Status := applyPendingManagedOutputReplacementStatus (r_Ext r)
                   (b_Status binding) (b_Generation binding)\<rparr>;
                 patched \<leftarrow> patchStatus r binding;
                 State_Monad.return (case patched of
                    (_, Some err) \<Rightarrow> (0, Some err)
                  | (_, None) \<Rightarrow> (deleteVerificationRequeueAfter, None))
               }
             | (binding, Inr False) \<Rightarrow> apply_output r binding identities primaryName)
          })
   }"

definition Reconcile :: "reconciler \<Rightarrow> NamespacedName \<Rightarrow> (int \<times> go_error option) run" where
  "Reconcile r req = do {
     got \<leftarrow> GetBinding (r_Client r) req;
     (case got of
        Inl err \<Rightarrow> State_Monad.return (0, if IsNotFound err then None else Some err)
      | Inr binding \<Rightarrow>
          if \<not> timestamp_is_zero (b_DeletionTimestamp binding) then reconcileDelete r binding
          else do {
            finalized \<leftarrow> ensure_finalizer r binding;
            (case finalized of
               Inl err \<Rightarrow> State_Monad.return (0, Some err)
             | Inr binding \<Rightarrow> do {
                 let st = initializeConditions (r_Ext r) (b_Status binding) (b_Generation binding);
                 let binding = binding\<lparr>b_Status := applyOperatorConfig st (r_Config r)\<rparr>;
                 computed \<leftarrow> (case bindingIdentityVariant (r_Ext r) binding of
                     Some err \<Rightarrow> State_Monad.return (Inl err)
                   | None \<Rightarrow> computeDesiredState r binding);
                 (case computed of
                    Inl err \<Rightarrow>
                      (case errorsAsStateError err of
                         None \<Rightarrow> State_Monad.return (0, Some err)
                       | Some stateErr \<Rightarrow> publish_state_error r binding stateErr)
                  | Inr identities \<Rightarrow> reconcile_rendered r binding identities (identities ! 0))
               })
          })
   }"

end
