(* ===== verification/Reconcile_Safety.thy ===== *)
theory Reconcile_Safety
  imports Reconciler
begin

text \<open>
  The reconcile loop makes only authorized calls, whatever the API server answers: each
  step of the loop extends the history safely and leaves the binding with an ownership
  record the history has shown.
\<close>

section \<open>Status writes keep the ownership record\<close>

lemmas kept_ownership = success.keeps_ownership conflict.keeps_ownership pending_output.keeps_ownership
  pending_conflict.keeps_ownership replacement.keeps_ownership ownership_preserved
  initializeConditions_fields applyOperatorConfig_fields

lemma ownership_of_update [simp]:
  "ownership_of (b\<lparr>b_Status := st\<rparr>) = (st_PendingClusterSPIFFEID st, st_OwnedClusterSPIFFEID st)"
  "ownership_of (b\<lparr>b_ResourceVersion := v\<rparr>) = ownership_of b"
  "ownership_of (b\<lparr>b_Finalizers := fs\<rparr>) = ownership_of b"
  by (simp_all add: ownership_of_def)

lemma ownership_of_kept:
  "ownership_of (b\<lparr>b_Status := applyFailureStatus X (b_Status b) g e\<rparr>) = ownership_of b"
  "ownership_of (b\<lparr>b_Status := applySuccessStatus X (b_Status b) g ids ms\<rparr>) = ownership_of b"
  "ownership_of (b\<lparr>b_Status := applyConflictStatus X (b_Status b) g cs\<rparr>) = ownership_of b"
  "ownership_of (b\<lparr>b_Status := applyPendingConflictStatus X (b_Status b) g\<rparr>) = ownership_of b"
  "ownership_of (b\<lparr>b_Status := applyPendingManagedOutputReplacementStatus X (b_Status b) g\<rparr>) = ownership_of b"
  "ownership_of (b\<lparr>b_Status := applyOperatorConfig (initializeConditions X (b_Status b) g) c\<rparr>) = ownership_of b"
  by (simp_all add: kept_ownership, simp_all add: ownership_of_def)

text \<open>Rewriting the status of a binding without touching the record is a safe outcome.\<close>

lemma safe_status:
  "safe_outcome t (b\<lparr>b_Status := st\<rparr>) t' c \<Longrightarrow> safe_outcome t b t' c"
  by (simp add: safe_outcome_def same_object_iff)

section \<open>Reporting\<close>

lemma patch_attempt_wp:
  assumes "durable t b" "\<And>res t' c. safe_outcome t b t' c \<Longrightarrow> Q (c, res) t'"
  shows "wp (patch_attempt r b) Q t"
proof -
  define got where "got = get_binding (r_Client r) t (binding_ref b)"
  let ?t = "GetBindingEv (binding_ref b) got # t"
  have out: "safe_outcome t b ?t b" by (rule safe_outcome_Cons [OF assms(1)]) simp
  show ?thesis
  proof (cases got)
    case (Inl e)
    then show ?thesis
      using assms(2) [OF out] by (simp add: patch_attempt_def GetBinding_def got_def [symmetric])
  next
    case (Inr latest)
    define target where "target = latest\<lparr>b_Status := (b_Status b)\<lparr>
      st_PendingClusterSPIFFEID := pending latest, st_OwnedClusterSPIFFEID := owned latest\<rparr>\<rparr>"
    have own: "ownership_of target = ownership_of latest"
      by (simp add: target_def) (simp add: ownership_of_def)
    have seen: "recorded ?t (ownership_of latest)" using Inr by (simp add: recorded_def)
    have same: "safe_outcome t b ?t (b\<lparr>b_Status := b_Status target, b_ResourceVersion := v\<rparr>)" for v
      using out seen own unfolding safe_outcome_def by (simp add: same_object_iff ownership_of_def)
    define reply where "reply = patch_status (r_Client r) ?t latest target"
    let ?t2 = "PatchStatusEv latest target reply # ?t"
    have ext: "safe_extension ?t ?t2"
      using seen by (intro extends_Cons [OF extends_refl]) (simp add: own ownership_step.keep)
    have patched: "safe_outcome t b ?t2 (b\<lparr>b_Status := b_Status p, b_ResourceVersion := v\<rparr>)"
      if "reply = Inr p" for p v
      using that extends_trans [OF safe_outcomeD(1) [OF out] ext]
      by (auto simp: safe_outcome_def same_object_iff recorded_def ownership_of_def)
    have failed: "safe_outcome t b ?t2 b" by (rule safe_outcome_more [OF out ext])
    show ?thesis
    proof (cases "b_Status latest = b_Status target")
      case True
      then show ?thesis
        unfolding patch_attempt_def GetBinding_def wp_bind wp_call got_def [symmetric] Inr sum.case Let_def
          target_def [symmetric]
        using assms(2) [OF same] Inr by simp
    next
      case False
      have "Q (case reply of Inl err \<Rightarrow> (b, Some err)
          | Inr p \<Rightarrow> (b\<lparr>b_Status := b_Status p, b_ResourceVersion := b_ResourceVersion p\<rparr>, None)) ?t2"
        using assms(2) [OF patched] assms(2) [OF failed] by (cases reply) auto
      with False Inr show ?thesis
        unfolding patch_attempt_def GetBinding_def PatchStatus_def wp_bind wp_call got_def [symmetric]
          sum.case Let_def target_def [symmetric]
        by (simp add: target_def [symmetric] reply_def)
    qed
  qed
qed

lemma patch_attempts_wp:
  assumes "durable t b" "\<And>res t' c. safe_outcome t b t' c \<Longrightarrow> Q (c, res) t'"
  shows "wp (patch_attempts r b n) Q t"
  using assms
proof (induction n arbitrary: t)
  case 0
  then show ?case by (simp add: patch_attempt_wp)
next
  case (Suc n)
  have rest: "wp (patch_attempts r b n) Q t'" and err: "Q (b, res) t'"
    if "safe_outcome t b t' c" for t' c res
  proof -
    have ext: "safe_extension t t'" by (rule safe_outcomeD(1) [OF that])
    have out: "safe_outcome t b t' b"
      by (rule safe_outcome_more [OF safe_outcome_refl [OF Suc.prems(1)] ext])
    show "Q (b, res) t'" by (rule Suc.prems(2) [OF out])
    show "wp (patch_attempts r b n) Q t'"
      by (rule Suc.IH [OF safe_outcomeD(2) [OF out]]) (blast intro: Suc.prems(2) safe_outcome_trans [OF out])
  qed
  have step: "wp (case x of (_, Some err) \<Rightarrow>
          if IsConflict err then patch_attempts r b n else State_Monad.return (b, Some err)
      | (binding', None) \<Rightarrow> State_Monad.return (binding', None)) Q t'"
    if "safe_outcome t b t' (fst x)" for x t'
    using rest [OF that] err [OF that] Suc.prems(2) [OF that]
    by (cases x; cases "snd x") auto
  show ?case
    unfolding patch_attempts.simps wp_bind
    by (rule patch_attempt_wp [OF Suc.prems(1)]) (rule step, simp)
qed

lemma patchStatus_wp:
  "durable t b \<Longrightarrow> (\<And>res t' c. safe_outcome t b t' c \<Longrightarrow> Q (c, res) t') \<Longrightarrow> wp (patchStatus r b) Q t"
  by (simp add: patchStatus_def patch_attempts_wp)

lemma outcome_wp:
  assumes "\<And>t'. safe_extension t t' \<Longrightarrow> Q () t'"
  shows "wp (recordTerminalOutcome r b) Q t" "wp (recordEventf r b k rs m) Q t"
proof -
  have "Q () (OutcomeEv c s # t)" "Q () (RecordedEv n k rs m # t)" for c s n
    by (rule assms, rule extends_Cons, simp_all)+
  then show "wp (recordTerminalOutcome r b) Q t" "wp (recordEventf r b k rs m) Q t"
    using assms [OF extends_refl]
    by (auto simp: recordTerminalOutcome_def RecordTerminalOutcome_def recordEventf_def split: option.split)
qed

lemma publishFailure_wp:
  assumes "durable t b" "\<And>res t' c. safe_outcome t b t' c \<Longrightarrow> Q (c, res) t'"
  shows "wp (patchManagedOutputApplyFailureStatus r b e) Q t"
  unfolding patchManagedOutputApplyFailureStatus_def Let_def wp_bind
proof (rule patchStatus_wp, goal_cases)
  case 1
  then show ?case using assms(1) by (simp only: ownership_of_kept)
next
  case (2 res t' c)
  have out: "safe_outcome t b t' c" by (rule safe_status [OF 2])
  show ?case
  proof (cases res)
    case (Some e')
    then show ?thesis using assms(2) [OF out] by simp
  next
    case None
    show ?thesis
      unfolding None prod.case option.case wp_bind wp_return
      by (intro outcome_wp assms(2) safe_outcome_more [OF out]) (blast intro: extends_trans)
  qed
qed

lemma fail_apply_wp:
  assumes "durable t b" "\<And>x t' c. safe_outcome t b t' c \<Longrightarrow> Q (c, x) t'"
  shows "wp (fail_apply r b e) Q t"
  unfolding fail_apply_def wp_bind
  by (rule publishFailure_wp [OF assms(1)]) (simp add: assms(2) split: option.split)

lemma applyStateError_wp:
  assumes "durable t b" "\<And>res t' c. safe_outcome t b t' c \<Longrightarrow> Q (c, res) t'"
  shows "wp (applyStateError r b e) Q t"
proof -
  let ?done = "\<lambda>cleaned. wp (State_Monad.return (case cleaned of
        (binding, Some err) \<Rightarrow> (binding, Some err)
      | (binding, None) \<Rightarrow> (binding\<lparr>b_Status :=
          applyFailureStatus (r_Ext r) (b_Status binding) (b_Generation binding) e\<rparr>, None))) Q"
  have fin: "?done (c, res) t'" if "safe_outcome t b t' c" for c res t'
  proof -
    have "safe_outcome t b t' (c\<lparr>b_Status := applyFailureStatus (r_Ext r) (b_Status c) (b_Generation c) e\<rparr>)"
      using that unfolding safe_outcome_def ownership_of_kept by (simp add: same_object_iff)
    with that assms(2) show ?thesis by (cases res) auto
  qed
  have listed: "wp (listManagedClusterSPIFFEIDs r c) (\<lambda>x. wp (case x of
        (binding, Inl err) \<Rightarrow> State_Monad.return (binding, Some err)
      | (binding, Inr remaining) \<Rightarrow>
          if length remaining = 0 then clearClusterSPIFFEIDOwnership r binding
          else State_Monad.return (binding, None)) ?done) t'"
    if out: "safe_outcome t b t' c" for c t'
  proof (rule list_wp [OF safe_outcomeD(2) [OF out]], goal_cases)
    case (1 e' t2 d)
    then show ?case using fin [OF safe_outcome_trans [OF out 1], of "Some e'"] by simp
  next
    case (2 t2 d)
    then have "pending d = None" "owned d = None" by (simp_all add: ownership_of_def)
    then show ?case using fin [OF safe_outcome_trans [OF out 2(1)], of None]
      by (simp add: clearClusterSPIFFEIDOwnership_def)
  next
    case (3 t2 d u)
    then show ?case using fin [OF safe_outcome_trans [OF out 3(1)], of None] by simp
  qed
  show ?thesis
  proof (cases "shouldCleanupManagedClusterSPIFFEIDs (se_conditionType e)")
    case False
    then show ?thesis
      using fin [OF safe_outcome_refl [OF assms(1)], of None] by (simp add: applyStateError_def)
  next
    case True
    have clean: "wp (cleanupManagedClusterSPIFFEIDs r b) (\<lambda>x. wp (case x of
          (binding, Some err) \<Rightarrow> State_Monad.return (binding, Some err)
        | (binding, None) \<Rightarrow> do {
            listed \<leftarrow> listManagedClusterSPIFFEIDs r binding;
            (case listed of
               (binding, Inl err) \<Rightarrow> State_Monad.return (binding, Some err)
             | (binding, Inr remaining) \<Rightarrow>
                 if length remaining = 0 then clearClusterSPIFFEIDOwnership r binding
                 else State_Monad.return (binding, None))
          }) ?done) t"
    proof (rule cleanup_wp [OF assms(1)], goal_cases)
      case (1 res t' c)
      show ?case
      proof (cases res)
        case None
        then show ?thesis using listed [OF 1] by (simp only: prod.case option.case wp_bind)
      next
        case (Some e')
        then show ?thesis using fin [OF 1, of res] by (simp only: prod.case option.case wp_return)
      qed
    qed
    show ?thesis unfolding applyStateError_def wp_bind if_P [OF True] by (rule clean)
  qed
qed

section \<open>Rendering and conflict evaluation\<close>

lemma resolveInferencePool_wp:
  "(\<And>res t'. safe_extension t t' \<Longrightarrow> Q res t') \<Longrightarrow> wp (resolveInferencePool r ref) Q t"
  unfolding resolveInferencePool_def
  by (rule wp_mono [OF keeps_wp [OF authorized_calls.keeps_pool]])

lemma renderForBinding_wp:
  "(\<And>res t'. safe_extension t t' \<Longrightarrow> Q res t') \<Longrightarrow> wp (renderIdentityForBinding r b) Q t"
  by (auto simp: renderIdentityForBinding_def split: sum.split intro: resolveInferencePool_wp)

text \<open>Listing managed output, when the caller does not look at the result.\<close>

lemma list_any_wp:
  "durable t b \<Longrightarrow> (\<And>res t' c. safe_outcome t b t' c \<Longrightarrow> Q (c, res) t') \<Longrightarrow>
   wp (listManagedClusterSPIFFEIDs r b) Q t"
  by (rule list_wp)

lemma render_peer_wp:
  assumes "durable t peer" "\<And>res t' c. safe_outcome t peer t' c \<Longrightarrow> Q (c, res) t'"
  shows "wp (render_peer r current identity peer) Q t"
proof (cases "same_key peer current")
  case True
  then show ?thesis using assms(2) [OF safe_outcome_refl [OF assms(1)]] by (simp add: render_peer_def)
next
  case False
  have "wp (renderIdentityForBinding r peer) (\<lambda>rendered. wp (case rendered of
           Inr plan \<Rightarrow> State_Monad.return (peer, Inr (Relevant plan))
         | Inl err \<Rightarrow>
             (case errorsAsStateError err of
                Some _ \<Rightarrow> do {
                  listed \<leftarrow> listManagedClusterSPIFFEIDs r peer;
                  State_Monad.return (case listed of
                     (peer, Inl listErr) \<Rightarrow> (peer, Inl listErr)
                   | (peer, Inr remaining) \<Rightarrow>
                       (peer, Inr (if length remaining > 0 then BlocksRecovery else Irrelevant)))
                }
              | None \<Rightarrow> State_Monad.return (peer, Inl err))) Q) t"
  proof (rule renderForBinding_wp, goal_cases)
    case (1 res t')
    have out: "safe_outcome t peer t' peer"
      by (rule safe_outcome_more [OF safe_outcome_refl [OF assms(1)] 1])
    have "wp (listManagedClusterSPIFFEIDs r peer) (\<lambda>listed. wp (State_Monad.return (case listed of
                     (peer, Inl listErr) \<Rightarrow> (peer, Inl listErr)
                   | (peer, Inr remaining) \<Rightarrow>
                       (peer, Inr (if remaining \<noteq> [] then BlocksRecovery else Irrelevant)))) Q) t'"
      by (rule list_any_wp [OF safe_outcomeD(2) [OF out]])
         (simp add: assms(2) safe_outcome_trans [OF out] split: sum.split)
    then show ?case using assms(2) [OF out] by (auto split: sum.split option.split)
  qed
  then show ?thesis unfolding render_peer_def if_not_P [OF False] wp_bind .
qed

lemma identityForConflict_wp:
  assumes "durable t peer" "\<And>res t' c. safe_outcome t peer t' c \<Longrightarrow> Q (c, res) t'"
  shows "wp (identityForConflictEvaluation r current identity peer) Q t"
proof (cases "timestamp_is_zero (b_DeletionTimestamp peer)")
  case True
  then show ?thesis by (simp add: identityForConflictEvaluation_def render_peer_wp assms)
next
  case False
  have "wp (listManagedClusterSPIFFEIDs r peer) (\<lambda>listed. wp (case listed of
           (peer, Inl err) \<Rightarrow> State_Monad.return (peer, Inl err)
         | (peer, Inr remaining) \<Rightarrow>
             if length remaining = 0 then State_Monad.return (peer, Inr Irrelevant)
             else render_peer r current identity peer) Q) t"
  proof (rule list_any_wp [OF assms(1)], goal_cases)
    case (1 res t' c)
    have "wp (render_peer r current identity c) Q t'"
      by (rule render_peer_wp [OF safe_outcomeD(2) [OF 1]]) (blast intro: assms(2) safe_outcome_trans [OF 1])
    then show ?case using assms(2) [OF 1] by (auto split: sum.split)
  qed
  then show ?thesis unfolding identityForConflictEvaluation_def wp_bind if_P [OF False] .
qed

definition all_durable :: "trace \<Rightarrow> binding set \<Rightarrow> bool" where
  "all_durable t B = (\<forall>b \<in> B. durable t b)"

lemma all_durable_extension: "all_durable t B \<Longrightarrow> safe_extension t t' \<Longrightarrow> all_durable t' B"
  unfolding all_durable_def by (blast intro: recorded_extension)

lemma all_durable_mono: "all_durable t B \<Longrightarrow> A \<subseteq> B \<Longrightarrow> all_durable t A"
  unfolding all_durable_def by blast

lemma all_durable_insert: "all_durable t B \<Longrightarrow> durable t b \<Longrightarrow> all_durable t (insert b B)"
  unfolding all_durable_def by blast

lemma snd_ref_put: "snd ` set (ref_put m k v) \<subseteq> insert v (snd ` set m)"
  by (induction m k v rule: ref_put.induct) auto

lemma evaluate_peers_wp:
  assumes "all_durable t (set items)" "all_durable t (snd ` set byRef)" "all_durable t (set blocked)"
    and err: "\<And>e t'. safe_extension t t' \<Longrightarrow> Q (Inl e) t'"
    and ok: "\<And>rs m bl t'. safe_extension t t' \<Longrightarrow> all_durable t' (snd ` set m) \<Longrightarrow>
      all_durable t' (set bl) \<Longrightarrow> Q (Inr (rs, m, bl)) t'"
  shows "wp (evaluate_peers r current identity items (records, byRef, blocked)) Q t"
  using assms
proof (induction items arbitrary: t records byRef blocked)
  case Nil
  then show ?case by simp
next
  case (Cons item items)
  have item: "durable t item" using Cons.prems(1) by (simp add: all_durable_def)
  have rest: "wp (evaluate_peers r current identity items (rs, m, bl)) Q t'"
    if out: "safe_outcome t item t' c" and m: "snd ` set m \<subseteq> insert c (snd ` set byRef)"
      and bl: "set bl \<subseteq> insert c (set blocked)" for t' c rs m bl
  proof (rule Cons.IH)
    have ext: "safe_extension t t'" by (rule safe_outcomeD(1) [OF out])
    have c: "durable t' c" by (rule safe_outcomeD(2) [OF out])
    show "all_durable t' (set items)" "all_durable t' (snd ` set m)" "all_durable t' (set bl)"
      using all_durable_extension [OF Cons.prems(1) ext]
        all_durable_mono [OF all_durable_insert [OF all_durable_extension [OF Cons.prems(2) ext] c] m]
        all_durable_mono [OF all_durable_insert [OF all_durable_extension [OF Cons.prems(3) ext] c] bl]
      by (simp_all add: all_durable_def)
    show "Q (Inl e) t2" if "safe_extension t' t2" for e t2
      by (rule Cons.prems(4) [OF extends_trans [OF ext that]])
    show "Q (Inr (rs', m', bl')) t2" if "safe_extension t' t2" "all_durable t2 (snd ` set m')"
      "all_durable t2 (set bl')" for rs' m' bl' t2
      by (rule Cons.prems(5) [OF extends_trans [OF ext that(1)] that(2,3)])
  qed
  show ?case
    unfolding evaluate_peers.simps wp_bind
  proof (rule identityForConflict_wp [OF item], goal_cases)
    case (1 res t' c)
    show ?case
    proof (cases res)
      case (Inl e)
      then show ?thesis using Cons.prems(4) [OF safe_outcomeD(1) [OF 1]] by simp
    next
      case (Inr p)
      then show ?thesis
        using rest [OF 1, of byRef blocked] rest [OF 1, of byRef "blocked @ [c]"]
          rest [OF 1, of "ref_put byRef (binding_ref c) c" blocked] snd_ref_put [of byRef "binding_ref c" c]
        by (cases p) auto
    qed
  qed
qed

text \<open>The members of a conflict set are the current binding and listed peers.\<close>

lemma set_appendConflictMember:
  "set (appendConflictMember b ms new) \<subseteq> set ms \<union> set_option new"
  by (auto simp: appendConflictMember_def split: option.splits if_splits)

lemma fold_append_members:
  "set (fold (\<lambda>x ms. appendConflictMember b ms (f x)) xs ms) \<subseteq> set ms \<union> (\<Union>x \<in> set xs. set_option (f x))"
proof (induction xs arbitrary: ms)
  case Nil
  then show ?case by simp
next
  case (Cons x xs)
  show ?case using Cons.IH [of "appendConflictMember b ms (f x)"] set_appendConflictMember [of b ms "f x"]
    by fastforce
qed

lemma map_of_peer: "set_option (map_option Peer (map_of m k)) \<subseteq> Peer ` snd ` set m"
  by (auto dest!: map_of_SomeD intro: rev_image_eqI)

lemma conflict_state_members:
  "set (bc_members (currentBindingConflictState b records m)) \<subseteq> Peer ` snd ` set m"
proof -
  let ?f = "\<lambda>c. map_option Peer (map_of m (k_PeerBindingRef c))"
  have "set (fold (\<lambda>c ms. appendConflictMember b ms (?f c)) cs
      (appendConflictMember b [] (map_option Peer (map_of m k)))) \<subseteq> Peer ` snd ` set m" for cs k
  proof (rule order_trans [OF fold_append_members], intro Un_least UN_least map_of_peer)
    show "set (appendConflictMember b [] (map_option Peer (map_of m k))) \<subseteq> Peer ` snd ` set m"
      using set_appendConflictMember [of b "[]" "map_option Peer (map_of m k)"] map_of_peer [of m k] by auto
  qed
  note members = this
  show ?thesis unfolding currentBindingConflictState_def Let_def
    by (simp, intro impI members)
qed

definition members_durable :: "trace \<Rightarrow> binding \<Rightarrow> member list \<Rightarrow> bool" where
  "members_durable t b ms = (\<forall>m \<in> set ms. durable t (member_binding b m))"

lemma members_durable_step:
  "members_durable t b ms \<Longrightarrow> safe_extension t t' \<Longrightarrow> durable t' b' \<Longrightarrow> members_durable t' b' ms"
  unfolding members_durable_def member_binding_def
  by (auto split: member.splits intro: recorded_extension)

lemma evaluateConflicts_wp:
  assumes "durable t b"
    and err: "\<And>e t'. safe_extension t t' \<Longrightarrow> Q (Inl e) t'"
    and ok: "\<And>state t'. safe_extension t t' \<Longrightarrow> members_durable t' b (bc_members state) \<Longrightarrow> Q (Inr state) t'"
  shows "wp (evaluateBindingConflicts r b identity) Q t"
proof -
  define listed where "listed = list_bindings (r_Client r) t [InNamespace (b_Namespace b)]"
  let ?t = "ListBindingsEv [InNamespace (b_Namespace b)] listed # t"
  have ext: "safe_extension t ?t" by (rule extends_Cons [OF extends_refl]) simp
  show ?thesis
  proof (cases listed)
    case (Inl e)
    then show ?thesis
      using err [OF ext] by (simp add: evaluateBindingConflicts_def ListBindings_def listed_def [symmetric])
  next
    case (Inr items)
    have items: "all_durable ?t (set items)" using Inr by (auto simp: all_durable_def recorded_def)
    have "wp (evaluate_peers r b identity items ([], [], [])) (\<lambda>evaluated. wp (State_Monad.return
        (case evaluated of Inl err \<Rightarrow> Inl err
         | Inr (records, bindingsByRef, blockedMembers) \<Rightarrow>
             let state = currentBindingConflictState b records bindingsByRef in
             Inr (if length blockedMembers > 0
                  then state\<lparr>bc_blocked := True, bc_members :=
                    fold (\<lambda>peer members. appendConflictMember b members (Some (Peer peer))) blockedMembers
                      (appendConflictMember b (bc_members state) (Some Current))\<rparr>
                  else state))) Q) ?t"
    proof (rule evaluate_peers_wp [OF items], goal_cases)
      case (3 e t')
      then show ?case using err [OF extends_trans [OF ext 3]] by simp
    next
      case (4 rs m bl t')
      let ?s = "currentBindingConflictState b rs m"
      let ?ms = "fold (\<lambda>peer members. appendConflictMember b members (Some (Peer peer))) bl
          (appendConflictMember b (bc_members ?s) (Some Current))"
      have b: "durable t' b" by (rule recorded_extension [OF assms(1) extends_trans [OF ext 4(1)]])
      have "set ?ms \<subseteq> set (bc_members ?s) \<union> {Current} \<union> Peer ` set bl"
        using fold_append_members [where f = "\<lambda>peer. Some (Peer peer)" and xs = bl]
          set_appendConflictMember [of b "bc_members ?s" "Some Current"] by fastforce
      then have sub: "set ?ms \<subseteq> {Current} \<union> Peer ` (snd ` set m \<union> set bl)"
        using conflict_state_members [of b rs m] by blast
      have dur: "members_durable t' b ms" if "set ms \<subseteq> {Current} \<union> Peer ` (snd ` set m \<union> set bl)" for ms
        using that 4(2,3) b unfolding members_durable_def all_durable_def member_binding_def
        by (fastforce split: member.splits)
      have "members_durable t' b (bc_members ?s)"
        by (rule dur) (use conflict_state_members [of b rs m] in blast)
      then show ?case
        using ok [OF extends_trans [OF ext 4(1)]] dur [OF sub] by (simp add: Let_def)
    qed (simp_all add: all_durable_def)
    then show ?thesis
      unfolding evaluateBindingConflicts_def ListBindings_def wp_bind wp_call listed_def [symmetric]
      using Inr by simp
  qed
qed

lemma cleanup_members_wp:
  assumes "durable t b" "members_durable t b ms"
    and err: "\<And>e t' c. safe_outcome t b t' c \<Longrightarrow> Q (c, Inl e) t'"
    and ok: "\<And>ms' t' c. safe_outcome t b t' c \<Longrightarrow> members_durable t' c ms' \<Longrightarrow> Q (c, Inr ms') t'"
  shows "wp (cleanup_members r b ms) Q t"
  using assms
proof (induction ms arbitrary: t b Q)
  case Nil
  then show ?case using safe_outcome_refl by (simp add: members_durable_def)
next
  case (Cons m ms)
  have m: "durable t (member_binding b m)" using Cons.prems(2) by (simp add: members_durable_def)
  show ?case
    unfolding cleanup_members.simps wp_bind
  proof (rule cleanup_wp [OF m], goal_cases)
    case (1 res t1 c)
    let ?b = "case m of Current \<Rightarrow> c | Peer _ \<Rightarrow> b"
    let ?m = "case m of Current \<Rightarrow> Current | Peer _ \<Rightarrow> Peer c"
    have ext: "safe_extension t t1" by (rule safe_outcomeD(1) [OF 1])
    have out: "safe_outcome t b t1 ?b"
      using 1 safe_outcome_more [OF safe_outcome_refl [OF Cons.prems(1)] ext]
      by (cases m) (simp_all add: member_binding_def)
    have c: "durable t1 c" by (rule safe_outcomeD(2) [OF 1])
    have ms: "members_durable t1 ?b ms"
      using members_durable_step [OF Cons.prems(2) ext safe_outcomeD(2) [OF out]]
      by (simp add: members_durable_def)
    have rest: "wp (cleanup_members r ?b ms) (\<lambda>x. wp (State_Monad.return (case x of
                  (binding'', Inl e) \<Rightarrow> (binding'', Inl e)
                | (binding'', Inr members) \<Rightarrow> (binding'', Inr (?m # members)))) Q) t1"
    proof (rule Cons.IH [OF safe_outcomeD(2) [OF out] ms], goal_cases)
      case (1 e t2 d)
      then show ?case using Cons.prems(3) [OF safe_outcome_trans [OF out 1]] by simp
    next
      case (2 t2 d ms')
      have "durable t2 (member_binding d ?m)"
        using safe_outcomeD(2) [OF 2(1)] recorded_extension [OF c safe_outcomeD(1) [OF 2(1)]]
        by (cases m) (simp_all add: member_binding_def)
      with 2(2) have "members_durable t2 d (?m # ms')" by (simp add: members_durable_def)
      then show ?case using Cons.prems(4) [OF safe_outcome_trans [OF out 2(1)]] by simp
    qed
    show ?case
      using rest Cons.prems(3) [OF out]
      unfolding prod.case Let_def by (cases res) (simp_all only: option.case wp_bind wp_return)
  qed
qed

lemma members_absent_wp:
  assumes "durable t b" "members_durable t b ms" "\<And>res t' c. safe_outcome t b t' c \<Longrightarrow> Q (c, res) t'"
  shows "wp (members_absent r b ms) Q t"
  using assms
proof (induction ms arbitrary: t b)
  case Nil
  then show ?case using safe_outcome_refl by simp
next
  case (Cons m ms)
  have m: "durable t (member_binding b m)" using Cons.prems(2) by (simp add: members_durable_def)
  show ?case
    unfolding members_absent.simps wp_bind
  proof (rule list_any_wp [OF m], goal_cases)
    case (1 res t1 c)
    let ?b = "case m of Current \<Rightarrow> c | Peer _ \<Rightarrow> b"
    have ext: "safe_extension t t1" by (rule safe_outcomeD(1) [OF 1])
    have out: "safe_outcome t b t1 ?b"
      using 1 safe_outcome_more [OF safe_outcome_refl [OF Cons.prems(1)] ext]
      by (cases m) (simp_all add: member_binding_def)
    have ms: "members_durable t1 ?b ms"
      using members_durable_step [OF Cons.prems(2) ext safe_outcomeD(2) [OF out]]
      by (simp add: members_durable_def)
    have "wp (members_absent r ?b ms) Q t1"
      by (rule Cons.IH [OF safe_outcomeD(2) [OF out] ms]) (blast intro: Cons.prems(3) safe_outcome_trans [OF out])
    then show ?case
      using Cons.prems(3) [OF out] unfolding prod.case Let_def by (cases res) (auto simp only: sum.case wp_return split: if_split)
  qed
qed

lemma withdraw_wp:
  assumes "durable t b" "members_durable t b ms" "\<And>res t' c. safe_outcome t b t' c \<Longrightarrow> Q (c, res) t'"
  shows "wp (withdrawConflictOutputs r b ms) Q t"
  unfolding withdrawConflictOutputs_def wp_bind
proof (rule cleanup_members_wp [OF assms(1,2)], goal_cases)
  case (1 e t' c)
  then show ?case by (simp add: assms(3))
next
  case (2 ms' t' c)
  have "wp (members_absent r c ms') Q t'"
    by (rule members_absent_wp [OF safe_outcomeD(2) [OF 2(1)] 2(2)])
       (blast intro: assms(3) safe_outcome_trans [OF 2(1)])
  then show ?case by simp
qed

lemma patch_kept_wp:
  assumes "safe_outcome t b t' c" "ownership_of (c\<lparr>b_Status := st\<rparr>) = ownership_of c"
    and "\<And>res t'' d. safe_outcome t b t'' d \<Longrightarrow> Q (d, res) t''"
  shows "wp (patchStatus r (c\<lparr>b_Status := st\<rparr>)) Q t'"
proof (rule patchStatus_wp, goal_cases)
  case 1
  then show ?case using safe_outcomeD(2) [OF assms(1)] by (simp only: assms(2))
next
  case (2 res t'' d)
  show ?case by (rule assms(3) [OF safe_outcome_trans [OF assms(1) safe_status [OF 2]]])
qed

lemma conflictState_wp:
  assumes "durable t b" "\<And>x t' c. safe_outcome t b t' c \<Longrightarrow> Q (c, x) t'"
  shows "wp (reconcileConflictState r b identity) Q t"
  unfolding reconcileConflictState_def wp_bind
proof (rule evaluateConflicts_wp [OF assms(1)], goal_cases)
  case (1 e t1)
  have out: "safe_outcome t b t1 b" by (rule safe_outcome_more [OF safe_outcome_refl [OF assms(1)] 1])
  have "wp (fail_apply r b e) (\<lambda>x. wp (State_Monad.return (fst x, True, snd x)) Q) t1"
    by (rule fail_apply_wp [OF safe_outcomeD(2) [OF out]]) (simp add: assms(2) safe_outcome_trans [OF out])
  then show ?case by (simp only: sum.case wp_bind)
next
  case (2 state t1)
  have out: "safe_outcome t b t1 b" by (rule safe_outcome_more [OF safe_outcome_refl [OF assms(1)] 2(1)])
  show ?case
  proof (cases "length (bc_conflicts state) = 0 \<and> \<not> bc_blocked state")
    case True
    then show ?thesis using assms(2) [OF out] by simp
  next
    case False
    show ?thesis
      unfolding sum.case if_not_P [OF False] wp_bind
    proof (rule withdraw_wp [OF safe_outcomeD(2) [OF out] 2(2)], goal_cases)
      case (1 res t2 c)
      have out2: "safe_outcome t b t2 c" by (rule safe_outcome_trans [OF out 1])
      show ?case
      proof (cases res)
        case (Inl e)
        have "wp (fail_apply r c e) (\<lambda>x. wp (State_Monad.return (fst x, True, snd x)) Q) t2"
          by (rule fail_apply_wp [OF safe_outcomeD(2) [OF out2]]) (simp add: assms(2) safe_outcome_trans [OF out2])
        then show ?thesis by (simp only: Inl prod.case sum.case wp_bind)
      next
        case (Inr absent)
        show ?thesis
          unfolding Inr prod.case sum.case Let_def
        proof (intro wp_if, goal_cases)
          case 1
          show ?case unfolding wp_bind
            by (rule patch_kept_wp [OF out2 ownership_of_kept(4)]) (simp add: assms(2) split: option.split)
        next
          case 2
          show ?case unfolding wp_bind
          proof (rule patch_kept_wp [OF out2 ownership_of_kept(3)], goal_cases)
            case (1 res t3 d)
            then show ?case
              by (cases res) (auto intro!: outcome_wp assms(2) intro: safe_outcome_more)
          qed
        qed
      qed
    qed
  qed
qed

section \<open>The reconcile loop\<close>

text \<open>From a safe outcome on, a failure that is published ends the run safely.\<close>

lemma fail_end_wp:
  assumes "safe_outcome t b t' c" "\<And>x t''. safe_extension t t'' \<Longrightarrow> Q x t''"
  shows "wp (fail_apply r c e \<bind> (\<lambda>failed. State_Monad.return (snd failed))) Q t'"
  unfolding wp_bind wp_return
  by (rule fail_apply_wp [OF safe_outcomeD(2) [OF assms(1)]])
     (simp add: assms(2) safe_outcomeD(1) [OF safe_outcome_trans [OF assms(1)]])

lemma delete_binding_wp:
  assumes "finalizer_contract (r_Ext r)" "durable t b" "\<And>x t'. safe_extension t t' \<Longrightarrow> Q x t'"
  shows "wp (reconcileDelete r b) Q t"
proof (cases "ContainsFinalizer (r_Ext r) (b_Finalizers b) inferenceIdentityBindingFinalizer")
  case False
  then show ?thesis using assms(3) [OF extends_refl] by (simp add: reconcileDelete_def)
next
  case True
  let ?remove = "\<lambda>d. d\<lparr>b_Finalizers := RemoveFinalizer (r_Ext r) (b_Finalizers d) inferenceIdentityBindingFinalizer\<rparr>"
  have remove: "wp (UpdateBinding (r_Client r) (?remove d) \<bind> (\<lambda>updated. State_Monad.return (case updated of
        Inl err \<Rightarrow> (0, Some err) | Inr _ \<Rightarrow> (0, None)))) Q t2"
    if out: "safe_outcome t b t2 d" and none: "ownership_of d = (None, None)" for t2 d
  proof -
    have "safe_extension t (UpdateBindingEv (?remove d) reply # t2)" for reply
      using safe_outcomeD(2) [OF out] none
      by (intro extends_Cons [OF safe_outcomeD(1) [OF out]]) simp
    with assms(3) show ?thesis by (simp add: UpdateBinding_def)
  qed
  let ?finish = "\<lambda>listed. case listed of
                (binding, Inl err) \<Rightarrow> do {
                  failed \<leftarrow> fail_apply r binding err;
                  State_Monad.return (snd failed)
                }
              | (binding, Inr remaining) \<Rightarrow>
                  if length remaining > 0 then
                    State_Monad.return (deleteVerificationRequeueAfter, None)
                  else do {
                    cleared \<leftarrow> (if recordedClusterSPIFFEIDName binding \<noteq> []
                      then clearClusterSPIFFEIDOwnership r binding
                      else State_Monad.return (binding, None));
                    (case cleared of
                       (binding, Some err) \<Rightarrow> State_Monad.return (0, Some err)
                     | (binding, None) \<Rightarrow> do {
                         updated \<leftarrow> UpdateBinding (r_Client r) (?remove binding);
                         State_Monad.return (case updated of
                            Inl err \<Rightarrow> (0, Some err)
                          | Inr _ \<Rightarrow> (0, None))
                       })
                  }"
  have listed: "wp (listManagedClusterSPIFFEIDs r c) (\<lambda>x. wp (?finish x) Q) t1"
    if out: "safe_outcome t b t1 c" for t1 c
  proof (rule list_wp [OF safe_outcomeD(2) [OF out]], goal_cases)
    case (1 e t2 d)
    show ?case unfolding prod.case sum.case
      by (rule fail_end_wp [OF safe_outcome_trans [OF out 1] assms(3)])
  next
    case (2 t2 d)
    then have "recordedClusterSPIFFEIDName d = []"
      by (simp add: recordedClusterSPIFFEIDName_eq record_name_def)
    then show ?case
      using remove [OF safe_outcome_trans [OF out 2(1)] 2(2)] by simp
  next
    case (3 t2 d u)
    show ?case using assms(3) [OF safe_outcomeD(1) [OF safe_outcome_trans [OF out 3(1)]]] by simp
  qed
  have "wp (cleanupManagedClusterSPIFFEIDs r b) (\<lambda>x. wp (case x of
           (binding, Some err) \<Rightarrow> do {
             failed \<leftarrow> fail_apply r binding err;
             State_Monad.return (snd failed)
           }
         | (binding, None) \<Rightarrow> do {
             listed \<leftarrow> listManagedClusterSPIFFEIDs r binding;
             ?finish listed
           }) Q) t"
  proof (rule cleanup_wp [OF assms(2)], goal_cases)
    case (1 res t1 c)
    show ?case
    proof (cases res)
      case None
      then show ?thesis using listed [OF 1] by (simp only: prod.case option.case wp_bind)
    next
      case (Some e)
      then show ?thesis using fail_end_wp [OF 1 assms(3)] by (simp only: prod.case option.case)
    qed
  qed
  then show ?thesis using True unfolding reconcileDelete_def by (simp only: simp_thms if_False wp_bind)
qed

lemma report_end_wp:
  assumes "safe_outcome t b t' c" "\<And>x t''. safe_extension t t'' \<Longrightarrow> Q x t''"
  shows "wp (recordTerminalOutcome r c \<bind> (\<lambda>_. recordEventf r c k rs m \<bind> (\<lambda>_. State_Monad.return x))) Q t'"
  unfolding wp_bind wp_return
  by (intro outcome_wp assms(2)) (blast intro: extends_trans safe_outcomeD(1) [OF assms(1)])

lemma publish_wp:
  assumes "durable t b" "\<And>x t'. safe_extension t t' \<Longrightarrow> Q x t'"
  shows "wp (publish_state_error r b e) Q t"
  unfolding publish_state_error_def wp_bind
proof (rule applyStateError_wp [OF assms(1)], goal_cases)
  case (1 res t1 c)
  show ?case
  proof (cases res)
    case (Some err)
    then show ?thesis using fail_end_wp [OF 1 assms(2)] by (simp only: prod.case option.case)
  next
    case None
    have "wp (patchStatus r c) (\<lambda>patched. wp (case patched of
             (binding, Some err) \<Rightarrow> State_Monad.return (0, Some err)
           | (binding, None) \<Rightarrow> do {
               recordTerminalOutcome r binding;
               recordEventf r binding EventTypeWarning (se_reason e) (se_message e);
               State_Monad.return
                 (if isInfrastructureNotReadyReason (se_reason e)
                  then infraNotReadyRequeueAfter else 0, None)
             }) Q) t1"
    proof (rule patchStatus_wp [OF safe_outcomeD(2) [OF 1]], goal_cases)
      case (1 res2 t2 d)
      have out: "safe_outcome t b t2 d" by (rule safe_outcome_trans [OF \<open>safe_outcome t b t1 c\<close> 1])
      show ?case
        using report_end_wp [OF out assms(2)] assms(2) [OF safe_outcomeD(1) [OF out]]
        by (cases res2) (simp_all only: prod.case option.case wp_return)
    qed
    then show ?thesis using None by (simp only: prod.case option.case wp_bind)
  qed
qed

lemma apply_output_wp:
  assumes "durable t b"
    and "record_name (ownership_of b) \<in>
      {[], u_Name (DesiredClusterSPIFFEID b identity (oc_ClusterSPIFFEIDClassName (r_Config r)))}"
    and "\<And>x t'. safe_extension t t' \<Longrightarrow> Q x t'"
  shows "wp (apply_output r b [identity] name) Q t"
  unfolding apply_output_def wp_bind
proof (rule reconcileAll_wp [OF assms(1,2)], goal_cases)
  case (1 e t1 c)
  have "wp (publish_state_error r c newClusterSPIFFEIDCRDMissingStateError) Q t1"
    by (rule publish_wp [OF safe_outcomeD(2) [OF 1]])
       (blast intro: assms(3) extends_trans safe_outcomeD(1) [OF 1])
  then show ?case
    using fail_end_wp [OF 1 assms(3)] unfolding prod.case sum.case by (intro wp_if)
next
  case (2 own st t1 c)
  show ?case
    unfolding prod.case sum.case Let_def wp_bind
  proof (rule patch_kept_wp [OF 2(1) ownership_of_kept(2)], goal_cases)
    case (1 res t2 d)
    show ?case
      using report_end_wp [OF 1 assms(3)] assms(3) [OF safe_outcomeD(1) [OF 1]]
      by (cases res) (simp_all only: prod.case option.case wp_return)
  qed
qed

lemma DesiredClusterSPIFFEID_same_object:
  "same_object b c \<Longrightarrow> u_Name (DesiredClusterSPIFFEID c p n) = u_Name (DesiredClusterSPIFFEID b p n)"
  by (simp add: same_object_iff DesiredClusterSPIFFEID_def)

lemma reconcile_rendered_wp:
  assumes "durable t b" "\<And>x t'. safe_extension t t' \<Longrightarrow> Q x t'"
  shows "wp (reconcile_rendered r b [identity] identity) Q t"
  unfolding reconcile_rendered_def wp_bind
proof (rule conflictState_wp [OF assms(1)], goal_cases)
  case (1 x t1 c)
  obtain handled requeue err where x: "x = (handled, requeue, err)" by (cases x)
  let ?name = "u_Name (DesiredClusterSPIFFEID c identity (oc_ClusterSPIFFEIDClassName (r_Config r)))"
  show ?case
    unfolding x prod.case
  proof (intro wp_if, goal_cases)
    case 1
    then show ?case using assms(2) [OF safe_outcomeD(1) [OF \<open>safe_outcome t b t1 c\<close>]] by simp
  next
    case 2
    note out = \<open>safe_outcome t b t1 c\<close>
    show ?case
      unfolding Let_def wp_bind
    proof (rule cleanupChanged_wp [OF safe_outcomeD(2) [OF out]], goal_cases)
      case (1 e t2 d)
      show ?case unfolding prod.case sum.case
        by (rule fail_end_wp [OF safe_outcome_trans [OF out 1] assms(2)])
    next
      case (2 t2 d)
      show ?case
        unfolding prod.case sum.case bool.case wp_bind
        by (rule patch_kept_wp [OF safe_outcome_trans [OF out 2] ownership_of_kept(5)])
           (simp add: assms(2) safe_outcomeD(1) split: option.split)
    next
      case (3 t2 d)
      have out2: "safe_outcome t b t2 d" by (rule safe_outcome_trans [OF out 3(1)])
      have "wp (apply_output r d [identity] ?name) Q t2"
        by (rule apply_output_wp [OF safe_outcomeD(2) [OF out2]])
           (use 3 DesiredClusterSPIFFEID_same_object [OF safe_outcomeD(3) [OF 3(1)]] in
             \<open>auto intro: assms(2) extends_trans [OF safe_outcomeD(1) [OF out2]]\<close>)
      then show ?case by (simp only: prod.case sum.case bool.case)
    qed
  qed
qed

lemma computeDesired_wp:
  assumes "\<And>e t'. safe_extension t t' \<Longrightarrow> Q (Inl e) t'" "\<And>i t'. safe_extension t t' \<Longrightarrow> Q (Inr [i]) t'"
  shows "wp (computeDesiredState r b) Q t"
  using assms
  by (auto simp: computeDesiredState_def split: sum.split intro!: resolveInferencePool_wp)

lemma ensure_finalizer_wp:
  assumes "finalizer_contract (r_Ext r)" "durable t b"
    and "\<And>e t'. safe_extension t t' \<Longrightarrow> Q (Inl e) t'"
    and "\<And>c t'. safe_extension t t' \<Longrightarrow> durable t' c \<Longrightarrow> Q (Inr c) t'"
  shows "wp (ensure_finalizer r b) Q t"
proof (cases "ContainsFinalizer (r_Ext r) (b_Finalizers b) inferenceIdentityBindingFinalizer")
  case True
  then show ?thesis using assms(4) [OF extends_refl assms(2)] by (simp add: ensure_finalizer_def)
next
  case False
  define b' where "b' = b\<lparr>b_Finalizers :=
    AddFinalizer (r_Ext r) (b_Finalizers b) inferenceIdentityBindingFinalizer\<rparr>"
  define reply where "reply = update_binding (r_Client r) t b'"
  have ext: "safe_extension t (UpdateBindingEv b' reply # t)"
    using assms(1) by (intro extends_Cons [OF extends_refl]) (simp add: b'_def finalizer_contract_def)
  have "durable (UpdateBindingEv b' reply # t) c" if "reply = Inr c" for c
    using that by (simp add: recorded_def)
  with assms(3,4) [OF ext] show ?thesis
    using False
    by (cases reply) (simp_all add: ensure_finalizer_def UpdateBinding_def b'_def [symmetric] reply_def [symmetric])
qed

lemma Reconcile_wp:
  assumes "finalizer_contract (r_Ext r)" "\<And>x t'. safe_extension t t' \<Longrightarrow> Q x t'"
  shows "wp (Reconcile r req) Q t"
proof -
  define got where "got = get_binding (r_Client r) t req"
  let ?t = "GetBindingEv req got # t"
  have ext: "safe_extension t ?t" by (rule extends_Cons [OF extends_refl]) simp
  note more = assms(2) [OF extends_trans [OF ext]]
  show ?thesis
  proof (cases got)
    case (Inl e)
    then show ?thesis using assms(2) [OF ext] by (simp add: Reconcile_def GetBinding_def got_def [symmetric])
  next
    case (Inr b)
    have b: "durable ?t b" using Inr by (simp add: recorded_def)
    show ?thesis
      unfolding Reconcile_def GetBinding_def wp_bind wp_call got_def [symmetric] Inr sum.case
      unfolding Inr [symmetric]
    proof (intro wp_if, goal_cases)
      case 1
      show ?case by (rule delete_binding_wp [OF assms(1) b more])
    next
      case 2
      show ?case
        unfolding wp_bind
      proof (rule ensure_finalizer_wp [OF assms(1) b], goal_cases)
        case (1 e t1)
        then show ?case using more by simp
      next
        case (2 c t1)
        define d where "d = c\<lparr>b_Status := applyOperatorConfig
          (initializeConditions (r_Ext r) (b_Status c) (b_Generation c)) (r_Config r)\<rparr>"
        have d: "durable t1 d" using 2(2) unfolding d_def ownership_of_kept .
        have computed: "wp (case x of Inl err \<Rightarrow> (case errorsAsStateError err of
              None \<Rightarrow> State_Monad.return (0, Some err) | Some stateErr \<Rightarrow> publish_state_error r d stateErr)
            | Inr identities \<Rightarrow> reconcile_rendered r d identities (identities ! 0)) Q t2"
          if "safe_extension t1 t2" "\<And>ids. x = Inr ids \<Longrightarrow> \<exists>i. ids = [i]" for x t2
        proof -
          have d2: "durable t2 d" by (rule recorded_extension [OF d that(1)])
          have fin: "\<And>x t3. safe_extension t2 t3 \<Longrightarrow> Q x t3"
            by (rule more) (blast intro: extends_trans 2(1) that(1))
          show ?thesis
            using publish_wp [OF d2 fin] reconcile_rendered_wp [OF d2 fin] fin [OF extends_refl] that(2)
            by (fastforce split: sum.split option.split)
        qed
        have body: "wp (case bindingIdentityVariant (r_Ext r) d of
            Some err \<Rightarrow> State_Monad.return (Inl err) | None \<Rightarrow> computeDesiredState r d)
          (\<lambda>x. wp (case x of Inl err \<Rightarrow> (case errorsAsStateError err of
              None \<Rightarrow> State_Monad.return (0, Some err) | Some stateErr \<Rightarrow> publish_state_error r d stateErr)
            | Inr identities \<Rightarrow> reconcile_rendered r d identities (identities ! 0)) Q) t1"
        proof (cases "bindingIdentityVariant (r_Ext r) d")
          case None
          then show ?thesis by (simp only: option.case) (rule computeDesired_wp; rule computed; fastforce)
        next
          case (Some e)
          then show ?thesis using computed [OF extends_refl, of "Inl e"] by simp
        qed
        show ?case
          unfolding sum.case Let_def d_def [symmetric] wp_bind by (rule body)
      qed
    qed
  qed
qed


lemma Reconcile_safe:
  assumes "finalizer_contract (r_Ext r)" "run_state (Reconcile r req) t = (res, t')"
    and "t' = later @ e # earlier @ t"
  shows "authorized e (earlier @ t)"
proof -
  have "wp (Reconcile r req) (\<lambda>x t'. safe_extension t t') t"
    by (rule Reconcile_wp [OF assms(1)])
  from wp_run [OF this assms(2)] assms(3) show ?thesis by (rule extends_event)
qed

section \<open>Properties\<close>

text \<open>
  C1: Foreign output is never deleted. Whatever the API server answers, every deletion a
  reconcile makes carries the object's UID as a precondition, and an earlier reply or
  accepted patch showed a binding whose status confirms ownership of exactly that name and
  UID.
\<close>
theorem Reconcile_delete_authorized:
  assumes "finalizer_contract (r_Ext r)" "run_state (Reconcile r req) t = (res, t')"
    and "t' = later @ DeleteEv object uid reply # earlier @ t"
  shows "uid = u_UID object \<and> uid \<noteq> [] \<and>
    (\<exists>event \<in> set (earlier @ t). \<exists>b \<in> set (shown_bindings event).
       pending b = None \<and> owned b = Some \<lparr>own_Name = u_Name object, own_UID = uid\<rparr>)"
  using Reconcile_safe [OF assms] unfolding authorized.simps recorded_def ownership_of_def
  by blast

text \<open>
  C7: Only confirmed output is updated. Every update of a ClusterSPIFFEID names an object
  whose name and UID an earlier shown binding status confirms as owned.
\<close>
theorem Reconcile_update_authorized:
  assumes "finalizer_contract (r_Ext r)" "run_state (Reconcile r req) t = (res, t')"
    and "t' = later @ UpdateEv object reply # earlier @ t"
  shows "u_UID object \<noteq> [] \<and>
    (\<exists>event \<in> set (earlier @ t). \<exists>b \<in> set (shown_bindings event).
       pending b = None \<and> owned b = Some \<lparr>own_Name = u_Name object, own_UID = u_UID object\<rparr>)"
  using Reconcile_safe [OF assms] unfolding authorized.simps recorded_def ownership_of_def
  by blast

text \<open>
  C4: Nothing is created before its claim is durable. Every created ClusterSPIFFEID carries
  a claim, and an earlier reply or accepted patch showed a binding whose status records
  that claim as pending for the same name.
\<close>
theorem Reconcile_create_claimed:
  assumes "finalizer_contract (r_Ext r)" "run_state (Reconcile r req) t = (res, t')"
    and "t' = later @ CreateEv object reply # earlier @ t"
  shows "\<exists>event \<in> set (earlier @ t). \<exists>b \<in> set (shown_bindings event). owned b = None \<and>
    pending b = Some \<lparr>pend_Name = u_Name object, pend_ClaimID = ClusterSPIFFEIDOwnershipClaim object\<rparr>"
  using Reconcile_safe [OF assms] unfolding authorized.simps recorded_def ownership_of_def
  by blast

text \<open>
  C3: Ownership moves only on evidence. Every status patch of a reconcile leaves the
  ownership record as it is or makes one step of the ownership machine: an unclaimed
  binding reserves a fresh identifier, a pending claim is confirmed by the object just read
  or created with that claim, and a record is dropped when the object just read under its
  name is absent or foreign. A binding with at most one record never gets two.
\<close>
theorem Reconcile_ownership_steps:
  assumes "finalizer_contract (r_Ext r)" "run_state (Reconcile r req) t = (res, t')"
    and "t' = later @ PatchStatusEv base target reply # earlier @ t"
  shows "ownership_step (earlier @ t) (pending base, owned base) (pending target, owned target)
    \<and> (pending base = None \<or> owned base = None \<longrightarrow> pending target = None \<or> owned target = None)"
proof -
  have step: "ownership_step (earlier @ t) (ownership_of base) (ownership_of target)"
    using Reconcile_safe [OF assms] by simp
  from ownership_step_exclusive [OF this] step show ?thesis
    by (simp add: ownership_of_def exclusive_def)
qed

text \<open>
  C8: The finalizer goes last. A reconcile writes a binding without its finalizer only when
  that binding records no output, pending or owned, and the API server was seen to hold
  such a status.
\<close>
theorem Reconcile_finalizer_last:
  assumes "finalizer_contract (r_Ext r)" "run_state (Reconcile r req) t = (res, t')"
    and "t' = later @ UpdateBindingEv binding reply # earlier @ t"
    and "inferenceIdentityBindingFinalizer \<notin> set (b_Finalizers binding)"
  shows "pending binding = None \<and> owned binding = None \<and>
    (\<exists>event \<in> set (earlier @ t). \<exists>b \<in> set (shown_bindings event). pending b = None \<and> owned b = None)"
  using Reconcile_safe [OF assms(1-3)] assms(4)
  unfolding authorized.simps recorded_def ownership_of_def by blast

end
