(* ===== verification/Sample_Runs.thy ===== *)
theory Sample_Runs
  imports Reconcile_Safety
begin

text \<open>
  Concrete runs of the reconcile loop against small clusters, evaluated step by step. They
  show that the hypotheses of the safety theorems are met by real runs: a deletion, a
  creation and a drift correction.
\<close>

section \<open>Concrete runs\<close>

text \<open>
  A cluster with one pool, one binding, and possibly one ClusterSPIFFEID, which a deletion
  removes. Creations, updates and patches succeed.
\<close>

fun is_delete :: "event \<Rightarrow> bool" where
  "is_delete (DeleteEv _ _ _) = True"
| "is_delete _ = False"

definition world :: "binding \<Rightarrow> Unstructured option \<Rightarrow> api" where
  "world b out =
     \<lparr>get_binding = (\<lambda>_ _. Inr b),
      list_bindings = (\<lambda>_ _. Inr [b]),
      update_binding = (\<lambda>_ b. Inr b),
      patch_status = (\<lambda>_ _ target. Inr target),
      get_object = (\<lambda>t gvk _. if gvk = clusterSPIFFEIDGVK
        then (if list_ex is_delete t then Inl (ApiError NotFound ''absent'')
              else case out of None \<Rightarrow> Inl (ApiError NotFound ''absent'') | Some u \<Rightarrow> Inr u)
        else Inr sample_pool),
      create_object = (\<lambda>_ u. Inr (u\<lparr>u_UID := ''uid'', u_Generation := 1\<rparr>)),
      update_object = (\<lambda>_ u. Inr u),
      delete_object = (\<lambda>_ _ _. Inr ()),
      list_pods = (\<lambda>_ _ _. Inr []), list_deployments = (\<lambda>_ _. Inr []),
      new_uuid = (\<lambda>_. ''claim''), conflict_retries = (\<lambda>_. 0)\<rparr>"

lemma world_simps [simp]:
  "get_binding (world b out) t key = Inr b"
  "list_bindings (world b out) t options = Inr [b]"
  "update_binding (world b out) t c = Inr c"
  "patch_status (world b out) t base target = Inr target"
  "get_object (world b out) t gvk key = (if gvk = clusterSPIFFEIDGVK
     then (if list_ex is_delete t then Inl (ApiError NotFound ''absent'')
           else case out of None \<Rightarrow> Inl (ApiError NotFound ''absent'') | Some u \<Rightarrow> Inr u)
     else Inr sample_pool)"
  "create_object (world b out) t u = Inr (u\<lparr>u_UID := ''uid'', u_Generation := 1\<rparr>)"
  "update_object (world b out) t u = Inr u"
  "delete_object (world b out) t u uid = Inr ()"
  "new_uuid (world b out) t = ''claim''" "conflict_retries (world b out) t = 0"
  by (simp_all add: world_def)

definition sample_reconciler :: "api \<Rightarrow> reconciler" where
  "sample_reconciler A = \<lparr>r_Client = A, r_Ext = ref_ext,
     r_Config = \<lparr>oc_TrustDomain = ''td'', oc_ClusterSPIFFEIDClassName = []\<rparr>,
     r_Recorder = True, r_MetricsRecorder = True, r_availablePoolGVKs = []\<rparr>"

definition deleting_binding :: binding where
  "deleting_binding = sample_binding\<lparr>b_DeletionTimestamp := Some 1,
     b_Finalizers := [inferenceIdentityBindingFinalizer],
     b_Status := (b_Status sample_binding)\<lparr>st_OwnedClusterSPIFFEID :=
       Some \<lparr>own_Name = ''live'', own_UID = ''u1''\<rparr>\<rparr>\<rparr>"

definition released_binding :: binding where
  "released_binding = deleting_binding\<lparr>b_Status := (b_Status sample_binding)\<rparr>"


lemma sample_reconciler_simps [simp]:
  "r_Client (sample_reconciler A) = A" "r_Ext (sample_reconciler A) = ref_ext"
  "r_Config (sample_reconciler A) = \<lparr>oc_TrustDomain = ''td'', oc_ClusterSPIFFEIDClassName = []\<rparr>"
  "r_Recorder (sample_reconciler A)" "r_MetricsRecorder (sample_reconciler A)"
  "r_availablePoolGVKs (sample_reconciler A) = []"
  by (simp_all add: sample_reconciler_def)

lemma ref_ext_finalizer_simps [simp]:
  "ContainsFinalizer ref_ext fs f = (f \<in> set fs)"
  "AddFinalizer ref_ext fs f = (if f \<in> set fs then fs else fs @ [f])"
  "RemoveFinalizer ref_ext fs f = filter (\<lambda>g. g \<noteq> f) fs"
  by (simp_all add: ref_ext_def)

lemma deleting_binding_simps [simp]:
  "pending deleting_binding = None"
  "owned deleting_binding = Some \<lparr>own_Name = ''live'', own_UID = ''u1''\<rparr>"
  "b_DeletionTimestamp deleting_binding = Some 1"
  "b_Finalizers deleting_binding = [inferenceIdentityBindingFinalizer]"
  "pending released_binding = None" "owned released_binding = None"
  "b_Finalizers released_binding = [inferenceIdentityBindingFinalizer]"
  "deleting_binding\<lparr>b_Status := (b_Status deleting_binding)\<lparr>st_PendingClusterSPIFFEID := None,
     st_OwnedClusterSPIFFEID := None\<rparr>\<rparr> = released_binding"
  by (simp_all add: deleting_binding_def released_binding_def sample_binding_def)

lemma bare_object_simps [simp]: "u_Name bare_object = ''live''" "u_UID bare_object = ''u1''"
  by (simp_all add: bare_object_def)

lemmas run_defs = api_calls IsNotFound_def observeManagedClusterSPIFFEID_def
  classifyManagedClusterSPIFFEID_def classifyConfirmedOutput_def managedOutputRecordFromStatus_def
  TrimSpace_plain plain_byte_def listManagedClusterSPIFFEIDs_def list_observed_def
  cleanupManagedClusterSPIFFEIDs_def clearClusterSPIFFEIDOwnership_def patchOwnershipStatus_def
  recordedClusterSPIFFEIDName_def timestamp_is_zero_def Let_def

abbreviation csid_key :: "string \<Rightarrow> NamespacedName" where
  "csid_key \<equiv> NamespacedName []"

definition deletion_prefix :: trace where
  "deletion_prefix =
    [GetObjectEv clusterSPIFFEIDGVK (csid_key ''live'') (Inr bare_object),
     GetBindingEv (NamespacedName ''ns'' ''b'') (Inr deleting_binding)]"

definition withdrawn_prefix :: trace where
  "withdrawn_prefix =
    [GetObjectEv clusterSPIFFEIDGVK (csid_key ''live'') (Inl (ApiError NotFound ''absent'')),
     DeleteEv bare_object ''u1'' (Inr ())] @ deletion_prefix"

text \<open>Deletion of a binding that owns an object: the object goes, then the record, then the finalizer.\<close>

lemma deletion_run:
  "run_state (Reconcile (sample_reconciler (world deleting_binding (Some bare_object)))
     (NamespacedName ''ns'' ''b'')) [] =
   ((0, None),
    [UpdateBindingEv (released_binding\<lparr>b_Finalizers := []\<rparr>) (Inr (released_binding\<lparr>b_Finalizers := []\<rparr>)),
     PatchStatusEv deleting_binding released_binding (Inr released_binding)] @ withdrawn_prefix)"
  by (simp add: Reconcile_def reconcileDelete_def run_defs withdrawn_prefix_def deletion_prefix_def)
     (simp add: deleting_binding_def released_binding_def sample_binding_def)

theorem Reconcile_delete_authorized_witness:
  "\<exists>event \<in> set deletion_prefix. \<exists>b \<in> set (shown_bindings event).
     pending b = None \<and> owned b = Some \<lparr>own_Name = u_Name bare_object, own_UID = ''u1''\<rparr>"
  using Reconcile_delete_authorized [OF _ deletion_run,
      of "[UpdateBindingEv (released_binding\<lparr>b_Finalizers := []\<rparr>) (Inr (released_binding\<lparr>b_Finalizers := []\<rparr>)),
        PatchStatusEv deleting_binding released_binding (Inr released_binding),
        GetObjectEv clusterSPIFFEIDGVK (csid_key ''live'') (Inl (ApiError NotFound ''absent''))]"
        bare_object "''u1''" "Inr ()" deletion_prefix]
  by (simp add: withdrawn_prefix_def)

theorem Reconcile_ownership_steps_witness:
  "ownership_step withdrawn_prefix (pending deleting_binding, owned deleting_binding)
     (pending released_binding, owned released_binding)"
  using Reconcile_ownership_steps [OF _ deletion_run,
      of "[UpdateBindingEv (released_binding\<lparr>b_Finalizers := []\<rparr>) (Inr (released_binding\<lparr>b_Finalizers := []\<rparr>))]"
        deleting_binding released_binding "Inr released_binding" withdrawn_prefix]
  by (simp add: withdrawn_prefix_def)

theorem Reconcile_finalizer_last_witness:
  "\<exists>event \<in> set (PatchStatusEv deleting_binding released_binding (Inr released_binding) # withdrawn_prefix).
     \<exists>b \<in> set (shown_bindings event). pending b = None \<and> owned b = None"
  using Reconcile_finalizer_last [OF _ deletion_run,
      of "[]" "released_binding\<lparr>b_Finalizers := []\<rparr>" "Inr (released_binding\<lparr>b_Finalizers := []\<rparr>)"
        "PatchStatusEv deleting_binding released_binding (Inr released_binding) # withdrawn_prefix"]
  by (simp add: withdrawn_prefix_def)


text \<open>
  A cluster that stops answering once a ClusterSPIFFEID was to be created or updated, so
  that the run ends there.
\<close>

fun is_apply :: "event \<Rightarrow> bool" where
  "is_apply (CreateEv _ _) = True"
| "is_apply (UpdateEv _ _) = True"
| "is_apply _ = False"

definition flaky :: "binding \<Rightarrow> Unstructured option \<Rightarrow> api" where
  "flaky b out = (world b out)\<lparr>
     get_binding := (\<lambda>t _. if list_ex is_apply t then Inl (ApiError OtherKind ''down'') else Inr b),
     create_object := (\<lambda>_ _. Inl (ApiError OtherKind ''down'')),
     update_object := (\<lambda>_ _. Inl (ApiError OtherKind ''down''))\<rparr>"

lemma flaky_simps [simp]:
  "get_binding (flaky b out) t key = (if list_ex is_apply t then Inl (ApiError OtherKind ''down'') else Inr b)"
  "create_object (flaky b out) t u = Inl (ApiError OtherKind ''down'')"
  "update_object (flaky b out) t u = Inl (ApiError OtherKind ''down'')"
  "list_bindings (flaky b out) = list_bindings (world b out)"
  "patch_status (flaky b out) = patch_status (world b out)"
  "get_object (flaky b out) = get_object (world b out)"
  "new_uuid (flaky b out) = new_uuid (world b out)"
  "conflict_retries (flaky b out) = conflict_retries (world b out)"
  by (simp_all add: flaky_def)

definition sample_name :: string where
  "sample_name = BuildClusterSPIFFEIDName ''ns'' ''b'' ''pool'' (p_SpiffeID (sample_plan ''a''))"

lemma sample_name_label: "label_text_ok sample_name"
  unfolding sample_name_def
  by (rule label_text_ok_BuildName)
     (simp add: sanitizeDNSLabel_def TrimSpace_plain plain_byte_def lower_byte_def lower_alphanumeric_def
      TrimByte_def)

lemma sample_name_trim [simp]: "TrimSpace sample_name = sample_name" "sample_name \<noteq> []"
proof -
  show ne: "sample_name \<noteq> []" using sample_name_label by (simp add: label_text_ok_def)
  show "TrimSpace sample_name = sample_name"
    using sample_name_label ne
    by (intro TrimSpace_plain) (auto simp: label_text_ok_def lower_alphanumeric_imp alphanumeric_plain)
qed

lemma desired_sample_name [simp]:
  "b_Namespace c = ''ns'' \<Longrightarrow> b_Name c = ''b'' \<Longrightarrow>
   u_Name (DesiredClusterSPIFFEID c (sample_plan ''a'') cl) = sample_name"
  by (simp add: DesiredClusterSPIFFEID_def sample_name_def sample_plan_def)

text \<open>The sample binding with its finalizer, without and with a confirmed record.\<close>

definition ready_binding :: "OwnedClusterSPIFFEIDStatus option \<Rightarrow> binding" where
  "ready_binding own = sample_binding\<lparr>b_Finalizers := [inferenceIdentityBindingFinalizer],
     b_Status := (b_Status sample_binding)\<lparr>st_OwnedClusterSPIFFEID := own\<rparr>\<rparr>"

definition working_binding :: "OwnedClusterSPIFFEIDStatus option \<Rightarrow> binding" where
  "working_binding own = (ready_binding own)\<lparr>b_Status := applyOperatorConfig
     (initializeConditions ref_ext (b_Status (ready_binding own)) 1)
     \<lparr>oc_TrustDomain = ''td'', oc_ClusterSPIFFEIDClassName = []\<rparr>\<rparr>"

lemma working_binding_simps [simp]:
  "pending (ready_binding own) = None" "owned (ready_binding own) = own"
  "b_Finalizers (ready_binding own) = [inferenceIdentityBindingFinalizer]"
  "b_DeletionTimestamp (ready_binding own) = None" "b_Generation (ready_binding own) = 1"
  "b_Namespace (ready_binding own) = ''ns''" "b_Name (ready_binding own) = ''b''"
  "b_Spec (ready_binding own) = b_Spec sample_binding"
  "pending (working_binding own) = None" "owned (working_binding own) = own"
  "b_DeletionTimestamp (working_binding own) = None" "b_Generation (working_binding own) = 1"
  "b_Namespace (working_binding own) = ''ns''" "b_Name (working_binding own) = ''b''"
  "b_Spec (working_binding own) = b_Spec sample_binding"
  by (simp_all add: ready_binding_def working_binding_def sample_binding_def initializeConditions_fields
      applyOperatorConfig_fields)

lemma sample_variant_ok:
  "b_Spec c = b_Spec sample_binding \<Longrightarrow> bindingIdentityVariant ref_ext c = None"
  by (simp add: bindingIdentityVariant_def ValidateVariant_None variant_valid_def sample_binding_def plan_eval)

lemma sample_pool_ref:
  "b_Namespace c = ''ns'' \<Longrightarrow> b_Spec c = b_Spec sample_binding \<Longrightarrow>
   BindingPoolRef ref_ext c = Inr \<lparr>ref_Name = ''p'', ref_Group = [], ref_Namespace = ''ns''\<rparr>"
  by (simp add: BindingPoolRef_def sample_binding_def TrimSpace_plain plain_byte_def)

lemma sample_rendered:
  "b_Namespace c = ''ns'' \<Longrightarrow> b_Spec c = b_Spec sample_binding \<Longrightarrow>
   renderIdentity (sample_reconciler A) c sample_pool = Inr (sample_plan ''a'')"
  using sample_planned(1)
  by (simp add: renderIdentity_def sample_pool_target sample_input_def sample_binding_def)

definition pool_gvk :: GroupVersionKind where
  "pool_gvk = GroupVersionKind ''inference.networking.k8s.io'' ''v1'' ''InferencePool''"

lemma pool_gvk_other [simp]: "pool_gvk \<noteq> clusterSPIFFEIDGVK"
  by (simp add: pool_gvk_def clusterSPIFFEIDGVK_def)

lemma pool_candidates: "CandidatePoolGVKs (ResolvePoolGVKs (ResolvePoolGVKs [])) [] = [pool_gvk]"
  by (simp add: CandidatePoolGVKs_def ResolvePoolGVKs_def InferencePoolGVKs_def inferencePoolGVKs_def pool_gvk_def)

text \<open>The calls up to the application of the output.\<close>

definition resolved_prefix :: "OwnedClusterSPIFFEIDStatus option \<Rightarrow> trace" where
  "resolved_prefix own =
    [ListBindingsEv [InNamespace ''ns''] (Inr [ready_binding own]),
     GetObjectEv pool_gvk (NamespacedName ''ns'' ''p'') (Inr sample_pool),
     GetBindingEv (NamespacedName ''ns'' ''b'') (Inr (ready_binding own))]"


lemma Reconcile_to_rendered_at:
  assumes "get_binding A [] (NamespacedName ''ns'' ''b'') = Inr (ready_binding own)"
    and "\<And>t key. get_object A t pool_gvk key = Inr sample_pool"
  shows "run_state (Reconcile (sample_reconciler A) (NamespacedName ''ns'' ''b'')) [] =
    run_state (reconcile_rendered (sample_reconciler A) (working_binding own) [sample_plan ''a''] (sample_plan ''a''))
      (tl (resolved_prefix own))"
  using assms unfolding Reconcile_def
  by (simp add: api_calls timestamp_is_zero_def ensure_finalizer_def Let_def
      working_binding_def [symmetric] sample_variant_ok computeDesiredState_def sample_pool_ref
      resolveInferencePool_def ResolveInferencePool_def resolvePoolGVKs_def pool_candidates sample_rendered
      resolved_prefix_def)

lemma no_conflict_run_at:
  assumes "list_bindings A (tl (resolved_prefix own)) [InNamespace ''ns''] = Inr [ready_binding own]"
  shows "run_state (reconcileConflictState (sample_reconciler A) (working_binding own) (sample_plan ''a''))
      (tl (resolved_prefix own)) = ((working_binding own, False, 0, None), resolved_prefix own)"
  using assms unfolding reconcileConflictState_def
  by (simp add: evaluateBindingConflicts_def api_calls identityForConflictEvaluation_def timestamp_is_zero_def
      render_peer_def same_key_def currentBindingConflictState_def EvaluateVariantConflicts_def Let_def
      resolved_prefix_def)

lemma Reconcile_to_rendered:
  fixes out own
  defines "r \<equiv> sample_reconciler (flaky (ready_binding own) out)"
  shows "run_state (Reconcile r (NamespacedName ''ns'' ''b'')) [] =
    run_state (reconcile_rendered r (working_binding own) [sample_plan ''a''] (sample_plan ''a''))
      (tl (resolved_prefix own))"
  unfolding r_def by (rule Reconcile_to_rendered_at) simp_all

lemma no_conflict_run:
  fixes out own
  defines "r \<equiv> sample_reconciler (flaky (ready_binding own) out)"
  shows "run_state (reconcileConflictState r (working_binding own) (sample_plan ''a'')) (tl (resolved_prefix own))
    = ((working_binding own, False, 0, None), resolved_prefix own)"
  unfolding r_def by (rule no_conflict_run_at) simp

definition claimed_status :: status where
  "claimed_status = (applyPendingManagedOutputStatus ref_ext (b_Status (working_binding None)) 1)
     \<lparr>st_PendingClusterSPIFFEID := Some \<lparr>pend_Name = sample_name, pend_ClaimID = ''claim''\<rparr>,
      st_OwnedClusterSPIFFEID := None\<rparr>"

definition claimed_binding :: binding where
  "claimed_binding = (working_binding None)\<lparr>b_Status := claimed_status\<rparr>"

definition claimed_object :: Unstructured where
  "claimed_object = SetClusterSPIFFEIDOwnershipClaim
     (DesiredClusterSPIFFEID (working_binding None) (sample_plan ''a'') []) ''claim''"

definition claimed_prefix :: trace where
  "claimed_prefix =
    [PatchStatusEv (working_binding None) claimed_binding (Inr claimed_binding),
     NewUUIDEv ''claim'',
     GetObjectEv clusterSPIFFEIDGVK (csid_key sample_name) (Inl (ApiError NotFound ''absent''))]
    @ resolved_prefix None"

lemmas apply_run_defs = apply_output_def reconcileClusterSPIFFEID_def authorizeManagedOutputApply_def
  createManagedClusterSPIFFEID_def reserveClusterSPIFFEIDClaim_def create_with_claim_def
  updateManagedClusterSPIFFEID_def fail_apply_def patchManagedOutputApplyFailureStatus_def
  patchStatus_def patch_attempt_def IsNoMatchError_def IsAlreadyExists_def binding_ref_def

lemma creation_run:
  "run_state (Reconcile (sample_reconciler (flaky (ready_binding None) None)) (NamespacedName ''ns'' ''b'')) [] =
   ((0, Some (ApiError OtherKind ''down'')),
    [GetBindingEv (NamespacedName ''ns'' ''b'') (Inl (ApiError OtherKind ''down'')),
     CreateEv claimed_object (Inl (ApiError OtherKind ''down''))] @ claimed_prefix)"
  unfolding Reconcile_to_rendered reconcile_rendered_def
  by (simp add: no_conflict_run cleanupChangedClusterSPIFFEIDName_def run_defs apply_run_defs)
     (simp add: claimed_prefix_def claimed_binding_def claimed_status_def claimed_object_def resolved_prefix_def)

theorem Reconcile_create_claimed_witness:
  "\<exists>event \<in> set claimed_prefix. \<exists>b \<in> set (shown_bindings event). owned b = None \<and>
     pending b = Some \<lparr>pend_Name = u_Name claimed_object,
       pend_ClaimID = ClusterSPIFFEIDOwnershipClaim claimed_object\<rparr>"
  using Reconcile_create_claimed [OF _ creation_run,
      of "[GetBindingEv (NamespacedName ''ns'' ''b'') (Inl (ApiError OtherKind ''down''))]"
        claimed_object "Inl (ApiError OtherKind ''down'')" claimed_prefix]
  by simp

definition drifted_object :: Unstructured where
  "drifted_object = bare_object\<lparr>u_Name := sample_name\<rparr>"

abbreviation sample_owned :: "OwnedClusterSPIFFEIDStatus option" where
  "sample_owned \<equiv> Some \<lparr>own_Name = sample_name, own_UID = ''u1''\<rparr>"

definition corrected_object :: Unstructured where
  "corrected_object = MergeDesiredClusterSPIFFEID ref_ext drifted_object
     (DesiredClusterSPIFFEID (working_binding sample_owned) (sample_plan ''a'') [])"

definition observed_prefix :: trace where
  "observed_prefix = GetObjectEv clusterSPIFFEIDGVK (csid_key sample_name) (Inr drifted_object)
     # resolved_prefix sample_owned"

lemma drifted_object_simps: "u_Name drifted_object = sample_name" "u_UID drifted_object = ''u1''"
  by (simp_all add: drifted_object_def)

lemma drifted: "\<not> ClusterSPIFFEIDInSync ref_ext drifted_object (DesiredClusterSPIFFEID b p c)"
  by (simp add: ClusterSPIFFEIDInSync_def nested_map_desired ref_ext_def drifted_object_def bare_object_def
      spec_equal_def DesiredClusterSPIFFEID_def)

lemma update_run:
  "run_state (Reconcile (sample_reconciler (flaky (ready_binding sample_owned) (Some drifted_object)))
     (NamespacedName ''ns'' ''b'')) [] =
   ((0, Some (ApiError OtherKind ''down'')),
    [GetBindingEv (NamespacedName ''ns'' ''b'') (Inl (ApiError OtherKind ''down'')),
     UpdateEv corrected_object (Inl (ApiError OtherKind ''down''))] @ observed_prefix)"
  unfolding Reconcile_to_rendered reconcile_rendered_def
  by (simp add: no_conflict_run cleanupChangedClusterSPIFFEIDName_def run_defs apply_run_defs drifted
      drifted_object_simps)
     (simp add: observed_prefix_def corrected_object_def resolved_prefix_def)

theorem Reconcile_update_authorized_witness:
  "\<exists>event \<in> set observed_prefix. \<exists>b \<in> set (shown_bindings event).
     pending b = None \<and> owned b = Some \<lparr>own_Name = u_Name corrected_object, own_UID = u_UID corrected_object\<rparr>"
  using Reconcile_update_authorized [OF _ update_run,
      of "[GetBindingEv (NamespacedName ''ns'' ''b'') (Inl (ApiError OtherKind ''down''))]"
        corrected_object "Inl (ApiError OtherKind ''down'')" observed_prefix]
  by simp

end
