(* ===== verification/Watch.thy ===== *)
theory Watch
  imports Reconciler
begin

text \<open>
  What wakes the reconcile loop: the field indexes, the event predicate and the mappings
  from a changed object to the bindings to reconcile
  (\<^verbatim>\<open>inferenceidentitybinding_watch.go\<close>), and the setup that wires them
  (\<^verbatim>\<open>SetupWithManager\<close>, \<^verbatim>\<open>filterAvailableGVKs\<close> and the registration of the metrics). The
  properties say which bindings an event of a pool or of a managed output wakes: those that
  depend on the object, when the event is a creation, a deletion or an update of the
  generation or of the deletion state, and none for any other update.
\<close>

section \<open>Field indexes\<close>

definition fieldIndexPoolRefName :: string where
  "fieldIndexPoolRefName = ''spec.poolRef.name''"
definition fieldIndexManagedClusterSPIFFEIDName :: string where
  "fieldIndexManagedClusterSPIFFEIDName = ''status.clusterSPIFFEIDName''"

text \<open>A \<^verbatim>\<open>client.Object\<close> is a binding or an unstructured object.\<close>

datatype client_object = BindingObject binding | UnstructuredObject Unstructured

fun GetNamespace :: "client_object \<Rightarrow> string" where
  "GetNamespace (BindingObject b) = b_Namespace b"
| "GetNamespace (UnstructuredObject u) = u_Namespace u"

fun GetName :: "client_object \<Rightarrow> string" where
  "GetName (BindingObject b) = b_Name b"
| "GetName (UnstructuredObject u) = u_Name u"

fun GetGroup :: "client_object \<Rightarrow> string" where
  "GetGroup (BindingObject b) = fst GroupVersion"
| "GetGroup (UnstructuredObject u) = gvk_Group (u_GVK u)"

definition bindingPoolRefNameIndexValue :: "client_object \<Rightarrow> string list" where
  "bindingPoolRefNameIndexValue rawObj =
     (case rawObj of
        UnstructuredObject _ \<Rightarrow> []
      | BindingObject binding \<Rightarrow>
          let poolName = TrimSpace (pr_Name (s_PoolRef (b_Spec binding))) in
          if poolName = [] then [] else [poolName])"

text \<open>The loop of \<^verbatim>\<open>compactIndexValues\<close>, with the values seen so far.\<close>

fun compact_values :: "string list \<Rightarrow> string list \<Rightarrow> string list" where
  "compact_values seen [] = []"
| "compact_values seen (value # values) =
     (let value = TrimSpace value in
      if value = [] then compact_values seen values
      else if value \<in> set seen then compact_values seen values
      else value # compact_values (value # seen) values)"

definition compactIndexValues :: "string list \<Rightarrow> string list" where
  "compactIndexValues values = compact_values [] values"

definition bindingClusterSPIFFEIDNameIndexValues :: "client_object \<Rightarrow> string list" where
  "bindingClusterSPIFFEIDNameIndexValues rawObj =
     (case rawObj of
        UnstructuredObject _ \<Rightarrow> []
      | BindingObject binding \<Rightarrow> compactIndexValues
          ((case pending binding of Some p \<Rightarrow> [pend_Name p] | None \<Rightarrow> [])
           @ (case owned binding of Some own \<Rightarrow> [own_Name own] | None \<Rightarrow> [])))"

type_synonym field_index = "string \<times> (client_object \<Rightarrow> string list)"

text \<open>The manager's indexer answers each registration; the indexes registered are returned.\<close>

definition setupFieldIndexes :: "(string \<Rightarrow> go_error option) \<Rightarrow> (field_index list) result" where
  "setupFieldIndexes indexField =
     (case indexField fieldIndexPoolRefName of
        Some err \<Rightarrow> Inl (WrapError ''failed to index InferenceIdentityBinding poolRef.name: '' err)
      | None \<Rightarrow>
        (case indexField fieldIndexManagedClusterSPIFFEIDName of
           Some err \<Rightarrow> Inl (WrapError
             ''failed to index InferenceIdentityBinding managed ClusterSPIFFEID name: '' err)
         | None \<Rightarrow> Inr
             [(fieldIndexPoolRefName, bindingPoolRefNameIndexValue),
              (fieldIndexManagedClusterSPIFFEIDName, bindingClusterSPIFFEIDNameIndexValues)]))"

section \<open>Event predicate\<close>

fun GetGeneration :: "client_object \<Rightarrow> int" where
  "GetGeneration (BindingObject b) = b_Generation b"
| "GetGeneration (UnstructuredObject u) = u_Generation u"

fun GetDeletionTimestamp :: "client_object \<Rightarrow> int option" where
  "GetDeletionTimestamp (BindingObject b) = b_DeletionTimestamp b"
| "GetDeletionTimestamp (UnstructuredObject u) = u_DeletionTimestamp u"

text \<open>The objects of an update event may be nil.\<close>

datatype watch_event =
    CreateEvent client_object
  | DeleteEvent client_object
  | UpdateEvent "client_object option" "client_object option"
  | GenericEvent client_object

definition deletionTimestampChanged :: "client_object \<Rightarrow> client_object \<Rightarrow> bool" where
  "deletionTimestampChanged oldObject newObject =
     (let oldDeleting = GetDeletionTimestamp oldObject \<noteq> None;
          newDeleting = GetDeletionTimestamp newObject \<noteq> None
      in oldDeleting \<noteq> newDeleting)"

fun reconcileWatchPredicate :: "watch_event \<Rightarrow> bool" where
  "reconcileWatchPredicate (CreateEvent _) = True"
| "reconcileWatchPredicate (DeleteEvent _) = True"
| "reconcileWatchPredicate (UpdateEvent objectOld objectNew) =
     (case (objectOld, objectNew) of
        (Some oldObject, Some newObject) \<Rightarrow>
          if GetGeneration oldObject \<noteq> GetGeneration newObject then True
          else deletionTimestampChanged oldObject newObject
      | _ \<Rightarrow> True)"
| "reconcileWatchPredicate (GenericEvent _) = True"

section \<open>From a changed object to requests\<close>

definition compareRequests :: "ext \<Rightarrow> NamespacedName \<Rightarrow> NamespacedName \<Rightarrow> int" where
  "compareRequests X a b = Compare (NamespacedName_String X a) (NamespacedName_String X b)"

definition bindingPointers :: "binding list \<Rightarrow> binding list" where
  "bindingPointers bindings = map (\<lambda>b. b) bindings"

definition requestsForBindings :: "ext \<Rightarrow> binding list \<Rightarrow> NamespacedName list" where
  "requestsForBindings X bindings =
     SortFunc (compareRequests X)
       (map (\<lambda>b. NamespacedName (b_Namespace b) (b_Name b)) bindings)"

definition requestsForBindingItems :: "ext \<Rightarrow> binding list \<Rightarrow> NamespacedName list" where
  "requestsForBindingItems X bindings = requestsForBindings X (bindingPointers bindings)"

definition listBindingsReferencingPool ::
    "reconciler \<Rightarrow> string \<Rightarrow> string \<Rightarrow> ((binding list) result) run" where
  "listBindingsReferencingPool r namespace poolName = do {
     listed \<leftarrow> ListBindings (r_Client r)
       [InNamespace namespace, MatchingFields fieldIndexPoolRefName poolName];
     State_Monad.return (case listed of
        Inl err \<Rightarrow> Inl err
      | Inr items \<Rightarrow> Inr (bindingPointers items))
   }"

definition listBindingsByManagedClusterSPIFFEIDName ::
    "reconciler \<Rightarrow> string \<Rightarrow> ((binding list) result) run" where
  "listBindingsByManagedClusterSPIFFEIDName r name = do {
     listed \<leftarrow> ListBindings (r_Client r) [MatchingFields fieldIndexManagedClusterSPIFFEIDName name];
     State_Monad.return (case listed of
        Inl err \<Rightarrow> Inl err
      | Inr items \<Rightarrow> Inr (bindingPointers items))
   }"

definition pool_group_differs :: "string \<Rightarrow> binding \<Rightarrow> bool" where
  "pool_group_differs poolGroup binding =
     (let refGroup = TrimSpace (pr_Group (s_PoolRef (b_Spec binding))) in
      refGroup \<noteq> [] \<and> poolGroup \<noteq> [] \<and> refGroup \<noteq> poolGroup)"

definition mapBindingToPeers :: "reconciler \<Rightarrow> client_object \<Rightarrow> (NamespacedName list) run" where
  "mapBindingToPeers r object = do {
     peers \<leftarrow> ListBindings (r_Client r) [InNamespace (GetNamespace object)];
     State_Monad.return (case peers of
        Inl _ \<Rightarrow> []
      | Inr items \<Rightarrow> requestsForBindingItems (r_Ext r) items)
   }"

definition mapPoolToBindings :: "reconciler \<Rightarrow> client_object \<Rightarrow> (NamespacedName list) run" where
  "mapPoolToBindings r object = do {
     listed \<leftarrow> listBindingsReferencingPool r (GetNamespace object) (GetName object);
     (case listed of
        Inl _ \<Rightarrow> State_Monad.return []
      | Inr bindings \<Rightarrow>
          let filtered = filter (\<lambda>b. \<not> pool_group_differs (GetGroup object) b) bindings in
          if length filtered = 0 then State_Monad.return []
          else do {
            peers \<leftarrow> ListBindings (r_Client r) [InNamespace (GetNamespace object)];
            State_Monad.return (case peers of
               Inl _ \<Rightarrow> []
             | Inr items \<Rightarrow> requestsForBindingItems (r_Ext r) items)
          })
   }"

definition mapClusterSPIFFEIDToBindings ::
    "reconciler \<Rightarrow> client_object \<Rightarrow> (NamespacedName list) run" where
  "mapClusterSPIFFEIDToBindings r object = do {
     listed \<leftarrow> listBindingsByManagedClusterSPIFFEIDName r (GetName object);
     State_Monad.return (case listed of
        Inl _ \<Rightarrow> []
      | Inr bindings \<Rightarrow> requestsForBindings (r_Ext r) bindings)
   }"

section \<open>Setup (controller.go, metrics.go)\<close>

definition metricNameIdentityBindingOutcomes :: string where
  "metricNameIdentityBindingOutcomes = ''kleym_identity_binding_outcomes_total''"
definition metricNameIdentityBindings :: string where
  "metricNameIdentityBindings = ''kleym_identity_bindings''"

datatype register_reply = Registered | AlreadyRegistered | RegisterFailed go_error

text \<open>
  A watch as it is given to the controller builder: the type of object it follows, the
  handler that turns an event into requests, and the predicate that filters its events.
\<close>

datatype watch_source = BindingSource | UnstructuredSource GroupVersionKind

datatype event_handler =
    EnqueueRequestForObject
  | EnqueueRequestsFromMapFunc "client_object \<Rightarrow> (NamespacedName list) run"

record watch =
  wt_Source :: watch_source
  wt_Handler :: event_handler
  wt_Predicate :: "watch_event \<Rightarrow> bool"

text \<open>
  What setup asks of the manager: the metrics registry, the field indexer, the REST mapper
  and the controller builder, each with its answer.
\<close>

record manager =
  m_Register :: "string \<Rightarrow> register_reply"
  m_IndexField :: "string \<Rightarrow> go_error option"
  m_RESTMapping :: "GroupVersionKind \<Rightarrow> go_error option"
  m_Complete :: "watch list \<Rightarrow> go_error option"

definition registerMetricsCollector :: "manager \<Rightarrow> string \<Rightarrow> go_error option" where
  "registerMetricsCollector mgr collector =
     (case m_Register mgr collector of
        Registered \<Rightarrow> None
      | AlreadyRegistered \<Rightarrow> None
      | RegisterFailed err \<Rightarrow> Some err)"

definition register :: "manager \<Rightarrow> go_error option" where
  "register mgr =
     (case registerMetricsCollector mgr metricNameIdentityBindingOutcomes of
        Some err \<Rightarrow> Some err
      | None \<Rightarrow> registerMetricsCollector mgr metricNameIdentityBindings)"

fun filterAvailableGVKs ::
    "ext \<Rightarrow> (GroupVersionKind \<Rightarrow> go_error option) \<Rightarrow> GroupVersionKind list
      \<Rightarrow> (GroupVersionKind list) result" where
  "filterAvailableGVKs X mapper [] = Inr []"
| "filterAvailableGVKs X mapper (gvk # candidates) =
     (case mapper gvk of
        Some err \<Rightarrow>
          if IsNoMatchError err then filterAvailableGVKs X mapper candidates
          else Inl (WrapError (''resolve REST mapping for '' @ GVK_String X gvk @ '': '') err)
      | None \<Rightarrow>
          (case filterAvailableGVKs X mapper candidates of
             Inl err \<Rightarrow> Inl err
           | Inr available \<Rightarrow> Inr (gvk # available)))"

definition SetupWithManager :: "manager \<Rightarrow> reconciler \<Rightarrow> (reconciler \<times> watch list) result" where
  "SetupWithManager mgr r =
     (case Validate (r_Config r) of
        Some err \<Rightarrow> Inl err
      | None \<Rightarrow>
        let r = r\<lparr>r_Recorder := True, r_MetricsRecorder := True\<rparr> in
        (case register mgr of
           Some err \<Rightarrow> Inl err
         | None \<Rightarrow>
           (case setupFieldIndexes (m_IndexField mgr) of
              Inl err \<Rightarrow> Inl err
            | Inr _ \<Rightarrow>
              (case filterAvailableGVKs (r_Ext r) (m_RESTMapping mgr) inferencePoolGVKs of
                 Inl err \<Rightarrow> Inl err
               | Inr availablePoolGVKs \<Rightarrow>
                   if length availablePoolGVKs = 0 then
                     Inl (PlainError (''no supported GAIE InferencePool GVKs are available: pool candidates=[''
                       @ Join (map (GVK_String (r_Ext r)) inferencePoolGVKs) '' '' @ '']''))
                   else
                     let r = r\<lparr>r_availablePoolGVKs := availablePoolGVKs\<rparr> in
                     (case filterAvailableGVKs (r_Ext r) (m_RESTMapping mgr) [clusterSPIFFEIDGVK] of
                        Inl err \<Rightarrow> Inl err
                      | Inr availableClusterSPIFFEIDGVKs \<Rightarrow>
                          let watchPredicate = reconcileWatchPredicate;
                              watches =
                                [\<lparr>wt_Source = BindingSource, wt_Handler = EnqueueRequestForObject,
                                   wt_Predicate = watchPredicate\<rparr>,
                                 \<lparr>wt_Source = BindingSource,
                                   wt_Handler = EnqueueRequestsFromMapFunc (mapBindingToPeers r),
                                   wt_Predicate = watchPredicate\<rparr>]
                                @ map (\<lambda>gvk. \<lparr>wt_Source = UnstructuredSource gvk,
                                    wt_Handler = EnqueueRequestsFromMapFunc (mapPoolToBindings r),
                                    wt_Predicate = watchPredicate\<rparr>) availablePoolGVKs
                                @ map (\<lambda>gvk. \<lparr>wt_Source = UnstructuredSource gvk,
                                    wt_Handler = EnqueueRequestsFromMapFunc (mapClusterSPIFFEIDToBindings r),
                                    wt_Predicate = watchPredicate\<rparr>) availableClusterSPIFFEIDGVKs in
                          (case m_Complete mgr watches of
                             Some err \<Rightarrow> Inl err
                           | None \<Rightarrow> Inr (r, watches)))))))"

section \<open>Index values\<close>

text \<open>
  What a field index promises to the lookups: its values are trimmed, not empty and
  distinct.
\<close>

locale name_index =
  fixes index_values :: "client_object \<Rightarrow> string list"
  assumes index_clean: "v \<in> set (index_values o') \<Longrightarrow> v \<noteq> [] \<and> trimmed v"
    and index_distinct: "distinct (index_values o')"
begin

lemma not_indexed: "\<not> trimmed v \<Longrightarrow> v \<notin> set (index_values o')" "[] \<notin> set (index_values o')"
  using index_clean by auto

lemma indexed_trim: "v \<in> set (index_values o') \<Longrightarrow> TrimSpace v = v"
  using index_clean TrimSpace_fixed by blast

end

lemma set_compact_values:
  "set (compact_values seen vs) = TrimSpace ` set vs - {[]} - set seen"
proof (induction vs arbitrary: seen)
  case (Cons v vs)
  then show ?case by (cases "TrimSpace v = []"; cases "TrimSpace v \<in> set seen") (auto simp: Let_def)
qed simp

lemma distinct_compact_values: "distinct (compact_values seen vs)"
  by (induction vs arbitrary: seen) (auto simp: Let_def set_compact_values)

interpretation pool_index: name_index bindingPoolRefNameIndexValue
  by unfold_locales
     (auto simp: bindingPoolRefNameIndexValue_def Let_def trimmed_TrimSpace
        split: client_object.splits if_splits)

interpretation output_index: name_index bindingClusterSPIFFEIDNameIndexValues
  by unfold_locales
     (auto simp: bindingClusterSPIFFEIDNameIndexValues_def compactIndexValues_def trimmed_TrimSpace
        set_compact_values distinct_compact_values split: client_object.splits)

lemma output_index_values:
  "n \<in> set (bindingClusterSPIFFEIDNameIndexValues (BindingObject b)) \<longleftrightarrow>
     n \<noteq> [] \<and> ((\<exists>p. pending b = Some p \<and> TrimSpace (pend_Name p) = n) \<or>
                (\<exists>own. owned b = Some own \<and> TrimSpace (own_Name own) = n))"
  by (cases "pending b"; cases "owned b")
     (auto simp: bindingClusterSPIFFEIDNameIndexValues_def compactIndexValues_def Let_def)

section \<open>Listing through the indexes\<close>

text \<open>
  The cached client of controller-runtime: a list call returns the bindings every option
  selects. The empty namespace selects all; a field is compared with the values its index
  function computed.
\<close>

fun selected :: "field_index list \<Rightarrow> binding \<Rightarrow> list_option \<Rightarrow> bool" where
  "selected indexes b (InNamespace namespace) = (namespace = [] \<or> b_Namespace b = namespace)"
| "selected indexes b (MatchingFields field v) =
     (case map_of indexes field of
        None \<Rightarrow> False
      | Some index_values \<Rightarrow> v \<in> set (index_values (BindingObject b)))"

definition cache_contract :: "api \<Rightarrow> field_index list \<Rightarrow> binding set \<Rightarrow> bool" where
  "cache_contract A indexes bindings =
     (\<forall>t opts. \<exists>items. list_bindings A t opts = Inr items \<and>
        set items = {b \<in> bindings. list_all (selected indexes b) opts})"

lemma cache_list:
  assumes "cache_contract A indexes bindings"
  obtains items where "list_bindings A t opts = Inr items"
    "set items = {b \<in> bindings. list_all (selected indexes b) opts}"
  using assms unfolding cache_contract_def by blast

lemma set_requestsForBindings [simp]:
  "set (requestsForBindings X bs) = binding_ref ` set bs"
  by (auto simp: requestsForBindings_def binding_ref_def)

lemma set_requestsForBindingItems [simp]:
  "set (requestsForBindingItems X bs) = binding_ref ` set bs"
  by (simp add: requestsForBindingItems_def bindingPointers_def)

lemma setupFieldIndexes_Inr:
  "setupFieldIndexes f = Inr indexes \<Longrightarrow>
   map_of indexes fieldIndexPoolRefName = Some bindingPoolRefNameIndexValue \<and>
   map_of indexes fieldIndexManagedClusterSPIFFEIDName = Some bindingClusterSPIFFEIDNameIndexValues"
  by (auto simp: setupFieldIndexes_def fieldIndexPoolRefName_def
      fieldIndexManagedClusterSPIFFEIDName_def split: option.splits)

lemma mapBindingToPeers_set:
  assumes "cache_contract (r_Client r) indexes bindings"
  shows "set (fst (run_state (mapBindingToPeers r object) t)) =
    binding_ref ` {b \<in> bindings. GetNamespace object = [] \<or> b_Namespace b = GetNamespace object}"
  by (rule cache_list [OF assms, of t "[InNamespace (GetNamespace object)]"])
     (simp add: mapBindingToPeers_def ListBindings_def)


section \<open>Delivery of events\<close>

text \<open>
  controller-runtime hands the events of a type to the watches that follow it. What its
  documentation says of this: an event that a watch's predicate rejects never reaches the
  handler; \<^verbatim>\<open>EnqueueRequestForObject\<close> enqueues the object of the event; a map function is
  asked about every object of the event, for an update the old and the new one, and what it
  returns is enqueued. The delivery itself is a parameter.
\<close>

fun event_objects :: "watch_event \<Rightarrow> client_object list" where
  "event_objects (CreateEvent x) = [x]"
| "event_objects (DeleteEvent x) = [x]"
| "event_objects (UpdateEvent objectOld objectNew) = List.map_filter (\<lambda>x. x) [objectOld, objectNew]"
| "event_objects (GenericEvent x) = [x]"

fun follows :: "watch_source \<Rightarrow> client_object \<Rightarrow> bool" where
  "follows BindingSource (BindingObject _) = True"
| "follows (UnstructuredSource gvk) (UnstructuredObject u) = (u_GVK u = gvk)"
| "follows _ _ = False"

type_synonym delivery = "watch \<Rightarrow> watch_event \<Rightarrow> (NamespacedName list) run"

definition filters_events :: "delivery \<Rightarrow> bool" where
  "filters_events deliver = (\<forall>w event t. \<not> wt_Predicate w event \<longrightarrow> run_state (deliver w event) t = ([], t))"

definition enqueues_object :: "delivery \<Rightarrow> bool" where
  "enqueues_object deliver =
     (\<forall>w event namespace name t. wt_Predicate w event \<longrightarrow> wt_Handler w = EnqueueRequestForObject \<longrightarrow>
        event_objects event \<noteq> [] \<longrightarrow> (\<forall>x \<in> set (event_objects event). GetNamespace x = namespace \<and> GetName x = name) \<longrightarrow>
        set (fst (run_state (deliver w event) t)) = {NamespacedName namespace name})"

definition enqueues_mapped :: "delivery \<Rightarrow> bool" where
  "enqueues_mapped deliver =
     (\<forall>w event f answer t. wt_Predicate w event \<longrightarrow> wt_Handler w = EnqueueRequestsFromMapFunc f \<longrightarrow>
        (\<forall>x \<in> set (event_objects event). \<forall>t. set (fst (run_state (f x) t)) = answer x) \<longrightarrow>
        set (fst (run_state (deliver w event) t)) = \<Union> (answer ` set (event_objects event)))"

definition delivery_contract :: "delivery \<Rightarrow> bool" where
  "delivery_contract deliver = (filters_events deliver \<and> enqueues_object deliver \<and> enqueues_mapped deliver)"

text \<open>The bindings that an event wakes, through any of the watches on its type of object.\<close>

definition woken :: "delivery \<Rightarrow> watch list \<Rightarrow> watch_event \<Rightarrow> trace \<Rightarrow> NamespacedName set" where
  "woken deliver watches event t =
     \<Union> ((\<lambda>w. set (fst (run_state (deliver w event) t))) `
       {w \<in> set watches. \<forall>x \<in> set (event_objects event). follows (wt_Source w) x})"

text \<open>
  The events that matter: creation, deletion, a request from outside, and an update that
  changes the generation or whether the object is being deleted.
\<close>

fun generation_or_deletion_changed :: "watch_event \<Rightarrow> bool" where
  "generation_or_deletion_changed (UpdateEvent (Some old) (Some new)) \<longleftrightarrow>
     GetGeneration old \<noteq> GetGeneration new \<or>
     GetDeletionTimestamp old = None \<and> GetDeletionTimestamp new \<noteq> None \<or>
     GetDeletionTimestamp old \<noteq> None \<and> GetDeletionTimestamp new = None"
| "generation_or_deletion_changed _ = True"

lemma reconcileWatchPredicate_iff: "reconcileWatchPredicate event = generation_or_deletion_changed event"
  by (cases event rule: generation_or_deletion_changed.cases)
     (auto simp: deletionTimestampChanged_def Let_def split: option.split)

lemma follows_unstructured:
  assumes "xs \<noteq> []" "\<forall>x \<in> set xs. \<exists>u. x = UnstructuredObject u \<and> u_GVK u = gvk"
  shows "(\<forall>x \<in> set xs. follows source x) \<longleftrightarrow> source = UnstructuredSource gvk"
  using assms by (cases source; cases xs) auto

lemma deliver_mapped:
  assumes "delivery_contract deliver" "event_objects event \<noteq> []"
    and "\<And>x t. x \<in> set (event_objects event) \<Longrightarrow> set (fst (run_state (f x) t)) = answer"
  shows "set (fst (run_state (deliver \<lparr>wt_Source = source, wt_Handler = EnqueueRequestsFromMapFunc f,
      wt_Predicate = reconcileWatchPredicate\<rparr> event) t)) = (if generation_or_deletion_changed event then answer else {})"
proof -
  let ?w = "\<lparr>wt_Source = source, wt_Handler = EnqueueRequestsFromMapFunc f, wt_Predicate = reconcileWatchPredicate\<rparr>"
  have contract: "filters_events deliver" "enqueues_mapped deliver" using assms(1) by (simp_all add: delivery_contract_def)
  show ?thesis
  proof (cases "generation_or_deletion_changed event")
    case True
    have "set (fst (run_state (deliver ?w event) t)) = \<Union> ((\<lambda>_. answer) ` set (event_objects event))"
      by (rule contract(2) [unfolded enqueues_mapped_def, rule_format], simp_all add: True reconcileWatchPredicate_iff)
         (erule assms(3))
    with True assms(2) show ?thesis by simp
  next
    case False
    have "run_state (deliver ?w event) t = ([], t)"
      by (rule contract(1) [unfolded filters_events_def, rule_format]) (simp add: False reconcileWatchPredicate_iff)
    with False show ?thesis by simp
  qed
qed

section \<open>Properties\<close>

text \<open>
  The states of setup: on success the configuration is valid, at least one supported pool
  type is served, exactly the served types are watched, and the reconciler is otherwise the
  one given.
\<close>

lemma filterAvailableGVKs_filter:
  "filterAvailableGVKs X mapper gvks = Inr available \<Longrightarrow>
   available = filter (\<lambda>gvk. mapper gvk = None) gvks"
  by (induction gvks arbitrary: available) (auto split: option.splits if_splits sum.splits)

abbreviation object_watch :: watch where
  "object_watch \<equiv> \<lparr>wt_Source = BindingSource, wt_Handler = EnqueueRequestForObject,
     wt_Predicate = reconcileWatchPredicate\<rparr>"

abbreviation map_watch :: "watch_source \<Rightarrow> (client_object \<Rightarrow> (NamespacedName list) run) \<Rightarrow> watch" where
  "map_watch source f \<equiv> \<lparr>wt_Source = source, wt_Handler = EnqueueRequestsFromMapFunc f,
     wt_Predicate = reconcileWatchPredicate\<rparr>"

lemma SetupWithManager_Inr:
  assumes "SetupWithManager mgr r = Inr (r', watches)"
  shows "config_valid (r_Config r)"
    "setupFieldIndexes (m_IndexField mgr) \<noteq> Inl err"
    "r_availablePoolGVKs r' = inferencePoolGVKs"
    "r' = r\<lparr>r_Recorder := True, r_MetricsRecorder := True, r_availablePoolGVKs := inferencePoolGVKs\<rparr>"
    "watches = [object_watch, map_watch BindingSource (mapBindingToPeers r')]
       @ map (\<lambda>gvk. map_watch (UnstructuredSource gvk) (mapPoolToBindings r')) inferencePoolGVKs
       @ (if m_RESTMapping mgr clusterSPIFFEIDGVK = None
          then [map_watch (UnstructuredSource clusterSPIFFEIDGVK) (mapClusterSPIFFEIDToBindings r')] else [])"
proof -
  from assms obtain pools outputs indexes where *:
    "Validate (r_Config r) = None" "register mgr = None"
    "setupFieldIndexes (m_IndexField mgr) = Inr indexes"
    "filterAvailableGVKs (r_Ext r) (m_RESTMapping mgr) inferencePoolGVKs = Inr pools" "pools \<noteq> []"
    "filterAvailableGVKs (r_Ext r) (m_RESTMapping mgr) [clusterSPIFFEIDGVK] = Inr outputs"
    "watches = [object_watch, map_watch BindingSource (mapBindingToPeers r')]
       @ map (\<lambda>gvk. map_watch (UnstructuredSource gvk) (mapPoolToBindings r')) pools
       @ map (\<lambda>gvk. map_watch (UnstructuredSource gvk) (mapClusterSPIFFEIDToBindings r')) outputs"
    "r' = r\<lparr>r_Recorder := True, r_MetricsRecorder := True, r_availablePoolGVKs := pools\<rparr>"
    by (auto simp: SetupWithManager_def Let_def split: option.splits sum.splits if_splits)
  have pools: "pools = inferencePoolGVKs"
    using filterAvailableGVKs_filter [OF *(4)] *(5)
    by (auto simp: inferencePoolGVKs_def split: if_splits)
  from * pools show "config_valid (r_Config r)" "setupFieldIndexes (m_IndexField mgr) \<noteq> Inl err"
    "r_availablePoolGVKs r' = inferencePoolGVKs"
    "r' = r\<lparr>r_Recorder := True, r_MetricsRecorder := True, r_availablePoolGVKs := inferencePoolGVKs\<rparr>"
    by (simp_all add: Validate_None)
  show "watches = [object_watch, map_watch BindingSource (mapBindingToPeers r')]
       @ map (\<lambda>gvk. map_watch (UnstructuredSource gvk) (mapPoolToBindings r')) inferencePoolGVKs
       @ (if m_RESTMapping mgr clusterSPIFFEIDGVK = None
          then [map_watch (UnstructuredSource clusterSPIFFEIDGVK) (mapClusterSPIFFEIDToBindings r')] else [])"
    using *(7) pools filterAvailableGVKs_filter [OF *(6)] by simp
qed





lemma mapClusterSPIFFEIDToBindings_exact:
  assumes "setupFieldIndexes indexField = Inr indexes"
    and "cache_contract (r_Client r) indexes bindings"
  shows "set (fst (run_state (mapClusterSPIFFEIDToBindings r x) t)) =
    binding_ref ` {b \<in> bindings. GetName x \<in> set (bindingClusterSPIFFEIDNameIndexValues (BindingObject b))}"
proof -
  let ?opts = "[MatchingFields fieldIndexManagedClusterSPIFFEIDName (GetName x)]"
  obtain items where items: "list_bindings (r_Client r) t ?opts = Inr items"
    "set items = {b \<in> bindings. list_all (selected indexes b) ?opts}"
    by (rule cache_list [OF assms(2)])
  then show ?thesis using setupFieldIndexes_Inr [OF assms(1)]
    by (simp add: mapClusterSPIFFEIDToBindings_def listBindingsByManagedClusterSPIFFEIDName_def
        ListBindings_def bindingPointers_def)
qed

text \<open>
  C26: After a successful setup, with the cached client and the delivery of events working
  as documented, an event of a ClusterSPIFFEID wakes exactly the bindings whose status
  records its name as pending or owned, white space at the ends of the recorded name aside,
  provided that its type was served at setup and that the event is a creation, a deletion,
  or an update that changes the generation or the deletion state. Otherwise it wakes none.
\<close>
theorem output_change_wakes:
  assumes "SetupWithManager mgr r = Inr (r', watches)"
    and "setupFieldIndexes (m_IndexField mgr) = Inr indexes"
    and "cache_contract (r_Client r') indexes bindings" and "delivery_contract deliver"
    and "event_objects event \<noteq> []" and "name \<noteq> []"
    and "\<forall>x \<in> set (event_objects event). \<exists>u. x = UnstructuredObject u \<and> u_GVK u = clusterSPIFFEIDGVK \<and> u_Name u = name"
  shows "woken deliver watches event t =
    (if m_RESTMapping mgr clusterSPIFFEIDGVK = None \<and> generation_or_deletion_changed event
     then binding_ref ` {b \<in> bindings.
       (\<exists>p. pending b = Some p \<and> TrimSpace (pend_Name p) = name) \<or>
       (\<exists>own. owned b = Some own \<and> TrimSpace (own_Name own) = name)}
     else {})"
proof -
  note wired = SetupWithManager_Inr [OF assms(1)]
  let ?recorded = "{b \<in> bindings. (\<exists>p. pending b = Some p \<and> TrimSpace (pend_Name p) = name) \<or>
       (\<exists>own. owned b = Some own \<and> TrimSpace (own_Name own) = name)}"
  have answer: "set (fst (run_state (mapClusterSPIFFEIDToBindings r' x) t)) = binding_ref ` ?recorded"
    if "x \<in> set (event_objects event)" for x t
  proof -
    have "GetName x = name" using bspec [OF assms(7) that] by auto
    then show ?thesis
      using mapClusterSPIFFEIDToBindings_exact [OF assms(2,3)] assms(6) by (simp add: output_index_values)
  qed
  have objects: "\<forall>x \<in> set (event_objects event). \<exists>u. x = UnstructuredObject u \<and> u_GVK u = clusterSPIFFEIDGVK"
    using assms(7) by blast
  have "{w \<in> set watches. \<forall>x \<in> set (event_objects event). follows (wt_Source w) x} =
      (if m_RESTMapping mgr clusterSPIFFEIDGVK = None
       then {map_watch (UnstructuredSource clusterSPIFFEIDGVK) (mapClusterSPIFFEIDToBindings r')} else {})"
    unfolding follows_unstructured [OF assms(5) objects] wired(5)
    by (auto simp: inferencePoolGVKs_def clusterSPIFFEIDGVK_def)
  then show ?thesis
    using deliver_mapped [OF assms(4,5), of "mapClusterSPIFFEIDToBindings r'", OF answer] by (simp add: woken_def del: set_empty set_empty2)
qed

text \<open>
  An event of a binding wakes the binding itself, which may be gone, and all bindings of its
  namespace.
\<close>

lemma follows_binding:
  assumes "xs \<noteq> []" "\<forall>x \<in> set xs. \<exists>b. x = BindingObject b"
  shows "(\<forall>x \<in> set xs. follows source x) \<longleftrightarrow> source = BindingSource"
  using assms by (cases source; cases xs) auto

lemma binding_change_wakes:
  assumes "SetupWithManager mgr r = Inr (r', watches)" "cache_contract (r_Client r') indexes bindings"
    and "delivery_contract deliver" "event_objects event \<noteq> []" "namespace \<noteq> []"
    and "\<forall>x \<in> set (event_objects event). \<exists>b. x = BindingObject b \<and> b_Namespace b = namespace \<and> b_Name b = name"
  shows "woken deliver watches event t =
    (if generation_or_deletion_changed event
     then insert (NamespacedName namespace name) (binding_ref ` {b \<in> bindings. b_Namespace b = namespace}) else {})"
proof -
  have objects: "\<forall>x \<in> set (event_objects event). \<exists>b. x = BindingObject b" using assms(6) by blast
  have at: "GetNamespace x = namespace" "GetName x = name" if "x \<in> set (event_objects event)" for x
    using bspec [OF assms(6) that] by auto
  have peers: "set (fst (run_state (mapBindingToPeers r' x) t)) = binding_ref ` {b \<in> bindings. b_Namespace b = namespace}"
    if "x \<in> set (event_objects event)" for x t
    using mapBindingToPeers_set [OF assms(2)] at [OF that] assms(5) by simp
  have own: "set (fst (run_state (deliver object_watch event) t)) =
      (if generation_or_deletion_changed event then {NamespacedName namespace name} else {})"
  proof (cases "generation_or_deletion_changed event")
    case True
    have "set (fst (run_state (deliver object_watch event) t)) = {NamespacedName namespace name}"
      by (rule assms(3) [unfolded delivery_contract_def enqueues_object_def, THEN conjunct2, THEN conjunct1, rule_format])
         (simp_all add: True reconcileWatchPredicate_iff assms(4) at)
    with True show ?thesis by simp
  next
    case False
    then have "run_state (deliver object_watch event) t = ([], t)"
      using assms(3) by (simp add: delivery_contract_def filters_events_def reconcileWatchPredicate_iff)
    with False show ?thesis by simp
  qed
  have "{w \<in> set watches. \<forall>x \<in> set (event_objects event). follows (wt_Source w) x} =
      {object_watch, map_watch BindingSource (mapBindingToPeers r')}"
    unfolding follows_binding [OF assms(4) objects] SetupWithManager_Inr(5) [OF assms(1)] by auto
  then show ?thesis
    using deliver_mapped [OF assms(3,4), of "mapBindingToPeers r'", OF peers] own
    by (simp add: woken_def del: set_empty set_empty2)
qed

section \<open>A concrete cache\<close>

definition granting_manager :: manager where
  "granting_manager = \<lparr>m_Register = (\<lambda>_. AlreadyRegistered), m_IndexField = (\<lambda>_. None),
     m_RESTMapping = (\<lambda>_. None), m_Complete = (\<lambda>_. None)\<rparr>"

definition sample_indexes :: "field_index list" where
  "sample_indexes =
     [(fieldIndexPoolRefName, bindingPoolRefNameIndexValue),
      (fieldIndexManagedClusterSPIFFEIDName, bindingClusterSPIFFEIDNameIndexValues)]"

definition cached_api :: "binding list \<Rightarrow> api" where
  "cached_api bindings = empty_api\<lparr>list_bindings :=
     (\<lambda>_ opts. Inr (filter (\<lambda>b. list_all (selected sample_indexes b) opts) bindings))\<rparr>"

lemma cached_api_contract: "cache_contract (cached_api bindings) sample_indexes (set bindings)"
  by (simp add: cache_contract_def cached_api_def)

lemma granting_manager_indexes: "setupFieldIndexes (m_IndexField granting_manager) = Inr sample_indexes"
  by (simp add: setupFieldIndexes_def granting_manager_def sample_indexes_def)

text \<open>A delivery as documented.\<close>

fun map_requests :: "(client_object \<Rightarrow> (NamespacedName list) run) \<Rightarrow> client_object list \<Rightarrow> (NamespacedName list) run" where
  "map_requests f [] = State_Monad.return []"
| "map_requests f (x # xs) = do {
     requests \<leftarrow> f x;
     more \<leftarrow> map_requests f xs;
     State_Monad.return (requests @ more)
   }"

definition ref_deliver :: delivery where
  "ref_deliver w event =
     (if \<not> wt_Predicate w event then State_Monad.return []
      else (case wt_Handler w of
          EnqueueRequestForObject \<Rightarrow>
            State_Monad.return (map (\<lambda>x. NamespacedName (GetNamespace x) (GetName x)) (event_objects event))
        | EnqueueRequestsFromMapFunc f \<Rightarrow> map_requests f (event_objects event)))"

lemma map_requests_set:
  assumes "\<And>x t. x \<in> set xs \<Longrightarrow> set (fst (run_state (f x) t)) = answer x"
  shows "set (fst (run_state (map_requests f xs) t)) = \<Union> (answer ` set xs)"
  using assms
proof (induction xs arbitrary: t)
  case (Cons x xs)
  obtain requests t1 where run: "run_state (f x) t = (requests, t1)" by fastforce
  then have "set requests = answer x" using Cons.prems [of x t] by simp
  moreover have "set (fst (run_state (map_requests f xs) t1)) = \<Union> (answer ` set xs)" using Cons by simp
  ultimately show ?case using run by (auto split: prod.splits)
qed simp

lemma ref_deliver_contract: "delivery_contract ref_deliver"
proof -
  have "filters_events ref_deliver" by (simp add: filters_events_def ref_deliver_def)
  moreover have "enqueues_object ref_deliver"
    unfolding enqueues_object_def
  proof (intro allI impI)
    fix w :: watch and event namespace name t
    assume "wt_Predicate w event" "wt_Handler w = EnqueueRequestForObject" "event_objects event \<noteq> []"
      "\<forall>x \<in> set (event_objects event). GetNamespace x = namespace \<and> GetName x = name"
    then show "set (fst (run_state (ref_deliver w event) t)) = {NamespacedName namespace name}"
      by (cases "event_objects event") (auto simp: ref_deliver_def)
  qed
  moreover have "enqueues_mapped ref_deliver" by (simp add: enqueues_mapped_def ref_deliver_def map_requests_set)
  ultimately show ?thesis by (simp add: delivery_contract_def)
qed

definition waiting_binding :: binding where
  "waiting_binding = sample_binding\<lparr>b_Status := (b_Status sample_binding)
     \<lparr>st_PendingClusterSPIFFEID := Some \<lparr>pend_Name = ''live'', pend_ClaimID = ''c''\<rparr>\<rparr>\<rparr>"

definition cached_reconciler :: reconciler where
  "cached_reconciler = \<lparr>r_Client = cached_api [waiting_binding], r_Ext = ref_ext,
     r_Config = \<lparr>oc_TrustDomain = ''td'', oc_ClusterSPIFFEIDClassName = []\<rparr>,
     r_Recorder = True, r_MetricsRecorder = True, r_availablePoolGVKs = inferencePoolGVKs\<rparr>"


definition cached_watches :: "watch list" where
  "cached_watches =
     [object_watch, map_watch BindingSource (mapBindingToPeers cached_reconciler),
      map_watch (UnstructuredSource (hd inferencePoolGVKs)) (mapPoolToBindings cached_reconciler),
      map_watch (UnstructuredSource clusterSPIFFEIDGVK) (mapClusterSPIFFEIDToBindings cached_reconciler)]"

lemma cached_setup: "SetupWithManager granting_manager cached_reconciler = Inr (cached_reconciler, cached_watches)"
proof -
  have "Validate (r_Config cached_reconciler) = None"
    by (simp add: cached_reconciler_def Validate_None config_valid_def trimmed_plain_ends plain_byte_def)
  moreover have "register granting_manager = None" "m_RESTMapping granting_manager gvk = None"
    "m_Complete granting_manager ws = None" for gvk ws
    by (simp_all add: register_def registerMetricsCollector_def granting_manager_def)
  moreover have "cached_reconciler\<lparr>r_Recorder := True, r_MetricsRecorder := True,
      r_availablePoolGVKs := [GroupVersionKind ''inference.networking.k8s.io'' ''v1'' ''InferencePool'']\<rparr> = cached_reconciler"
    by (simp add: cached_reconciler_def inferencePoolGVKs_def)
  ultimately show ?thesis
    by (simp add: SetupWithManager_def granting_manager_indexes inferencePoolGVKs_def cached_watches_def)
qed



lemma waiting_cache: "cache_contract (r_Client cached_reconciler) sample_indexes {waiting_binding}"
  using cached_api_contract [of "[waiting_binding]"] by (simp add: cached_reconciler_def)

lemma waiting_binding_facts:
  "binding_ref waiting_binding = NamespacedName ''ns'' ''b''" "b_Namespace waiting_binding = ''ns''"
  "pending waiting_binding = Some \<lparr>pend_Name = ''live'', pend_ClaimID = ''c''\<rparr>"
  by (simp_all add: binding_ref_def waiting_binding_def sample_binding_def)


theorem output_change_wakes_witness:
  "woken ref_deliver cached_watches (DeleteEvent (UnstructuredObject (bare_object\<lparr>u_GVK := clusterSPIFFEIDGVK\<rparr>))) [] =
     {NamespacedName ''ns'' ''b''}"
proof -
  have "m_RESTMapping granting_manager clusterSPIFFEIDGVK = None" by (simp add: granting_manager_def)
  moreover have "u_Name bare_object = ''live''" "TrimSpace ''live'' = ''live''"
    by (simp_all add: bare_object_def TrimSpace_plain plain_byte_def)
  moreover have "{b \<in> {waiting_binding}. (\<exists>p. pending b = Some p \<and> TrimSpace (pend_Name p) = ''live'') \<or>
      (\<exists>own. owned b = Some own \<and> TrimSpace (own_Name own) = ''live'')} = {waiting_binding}"
    using calculation(3) by (auto simp: waiting_binding_facts)
  ultimately show ?thesis
    using output_change_wakes [OF cached_setup granting_manager_indexes waiting_cache ref_deliver_contract,
        of "DeleteEvent (UnstructuredObject (bare_object\<lparr>u_GVK := clusterSPIFFEIDGVK\<rparr>))" "''live''" "[]"]
    by (simp add: waiting_binding_facts)
qed

end
