(* ===== verification/Inspection.thy ===== *)
theory Inspection
  imports Watch
begin

text \<open>
  Package \<^verbatim>\<open>internal/inspection\<close>, files \<^verbatim>\<open>report.go\<close> (the report types) and
  \<^verbatim>\<open>inspection.go\<close>: the read-only inspection of one binding by the command line tool. It
  renders the identity again, from the same packages the controller uses, evaluates the
  rendered selectors against the live pods, and collects findings. Building the Kubernetes
  client from a kubeconfig is left out; the client, the REST mapper and the clock are
  fields of the inspector.
\<close>

section \<open>Report types (report.go)\<close>

text \<open>A Go slice is nil or holds a list; appending to nil starts one.\<close>

type_synonym 'a slice = "'a list option"

definition elems :: "'a slice \<Rightarrow> 'a list" where
  "elems s = (case s of None \<Rightarrow> [] | Some xs \<Rightarrow> xs)"

definition append_one :: "'a slice \<Rightarrow> 'a \<Rightarrow> 'a slice" where
  "append_one s x = Some (elems s @ [x])"

definition BindingInspectionReportSchemaVersion :: string where
  "BindingInspectionReportSchemaVersion = ''v1alpha1''"
definition BindingInspectionReportKind :: string where
  "BindingInspectionReportKind = ''BindingInspectionReport''"

definition SeverityInfo :: string where [insp_defs]: "SeverityInfo = ''info''"
definition SeverityWarning :: string where [insp_defs]: "SeverityWarning = ''warning''"
definition SeverityError :: string where [insp_defs]: "SeverityError = ''error''"

definition CapabilityFull :: string where [insp_defs]: "CapabilityFull = ''full''"
definition CapabilityPartial :: string where [insp_defs]: "CapabilityPartial = ''partial''"
definition CapabilitySkipped :: string where [insp_defs]: "CapabilitySkipped = ''skipped''"
definition CapabilityUnknown :: string where [insp_defs]: "CapabilityUnknown = ''unknown''"

record BindingInspectionIdentityConfig =
  ic_TrustDomain :: string
  ic_TrustDomainSource :: string
  ic_ClusterSPIFFEIDClassName :: string
  ic_ClusterSPIFFEIDClassNameSource :: string

record BindingInspectionTargetRef =
  tr_Name :: string
  tr_Namespace :: string
  tr_Group :: string
  tr_Version :: string
  tr_Kind :: string

record BindingInspectionBindingRef =
  br_Namespace :: string
  br_Name :: string
  br_Generation :: int
  br_PoolRef :: "BindingInspectionTargetRef option"
  br_Conditions :: "Condition list"

record BindingInspectionGVK =
  ig_Group :: string
  ig_Version :: string
  ig_Kind :: string

record BindingInspectionSelectorProvenance =
  sp_PoolDerivedSelectors :: "string list"
  sp_SafetySelectors :: "string list"

record BindingInspectionResolvedInput =
  ri_PoolRef :: "BindingInspectionTargetRef option"
  ri_ServedGVKs :: "BindingInspectionGVK list"
  ri_PoolSelector :: "json gomap"
  ri_SelectorProvenance :: "BindingInspectionSelectorProvenance option"

record BindingInspectionRenderedIdentity =
  id_SPIFFEID :: string
  id_PodSelector :: "json gomap"
  id_WorkloadSelectors :: "string list"
  id_SelectorProvenance :: "BindingInspectionSelectorProvenance option"

record BindingInspectionRenderedClusterSPIFFEID =
  rd_Name :: string
  rd_SPIFFEID :: string
  rd_PodSelector :: "json gomap"
  rd_WorkloadSelectors :: "string list"
  rd_Hint :: string
  rd_ClassName :: string
  rd_Fallback :: "bool option"

record BindingInspectionMatchedPod =
  mp_Namespace :: string
  mp_Pod :: string
  mp_Container :: string

record BindingInspectionFinding =
  fd_ID :: string
  fd_Severity :: string
  fd_Reason :: string
  fd_Message :: string
  fd_AffectedRefs :: "BindingInspectionTargetRef slice"

record BindingInspectionCapabilities =
  cap_Binding :: string
  cap_GAIEResources :: string
  cap_ClusterSPIFFEIDs :: string
  cap_PeerBindings :: string
  cap_Pods :: string

record BindingInspectionReport =
  rp_SchemaVersion :: string
  rp_Kind :: string
  rp_GeneratedAt :: string
  rp_IdentityConfig :: BindingInspectionIdentityConfig
  rp_BindingRef :: BindingInspectionBindingRef
  rp_Resolved :: BindingInspectionResolvedInput
  rp_RenderedIdentity :: BindingInspectionRenderedIdentity
  rp_RenderedClusterSPIFFEID :: BindingInspectionRenderedClusterSPIFFEID
  rp_MatchedPods :: "BindingInspectionMatchedPod slice"
  rp_Findings :: "BindingInspectionFinding slice"
  rp_Capabilities :: BindingInspectionCapabilities
  rp_ExitCode :: "int option"

text \<open>The zero value \<^verbatim>\<open>BindingInspectionReport{}\<close>.\<close>

definition zero_report :: BindingInspectionReport where
  "zero_report =
     \<lparr>rp_SchemaVersion = [], rp_Kind = [], rp_GeneratedAt = [],
      rp_IdentityConfig = \<lparr>ic_TrustDomain = [], ic_TrustDomainSource = [],
        ic_ClusterSPIFFEIDClassName = [], ic_ClusterSPIFFEIDClassNameSource = []\<rparr>,
      rp_BindingRef = \<lparr>br_Namespace = [], br_Name = [], br_Generation = 0, br_PoolRef = None,
        br_Conditions = []\<rparr>,
      rp_Resolved = \<lparr>ri_PoolRef = None, ri_ServedGVKs = [], ri_PoolSelector = [],
        ri_SelectorProvenance = None\<rparr>,
      rp_RenderedIdentity = \<lparr>id_SPIFFEID = [], id_PodSelector = [], id_WorkloadSelectors = [],
        id_SelectorProvenance = None\<rparr>,
      rp_RenderedClusterSPIFFEID = \<lparr>rd_Name = [], rd_SPIFFEID = [], rd_PodSelector = [],
        rd_WorkloadSelectors = [], rd_Hint = [], rd_ClassName = [], rd_Fallback = None\<rparr>,
      rp_MatchedPods = None, rp_Findings = None,
      rp_Capabilities = \<lparr>cap_Binding = [], cap_GAIEResources = [], cap_ClusterSPIFFEIDs = [],
        cap_PeerBindings = [], cap_Pods = []\<rparr>,
      rp_ExitCode = None\<rparr>"

definition normalize_finding :: "BindingInspectionFinding \<Rightarrow> BindingInspectionFinding" where
  "normalize_finding finding = finding\<lparr>fd_AffectedRefs := Some (elems (fd_AffectedRefs finding))\<rparr>"

definition normalizeBindingInspectionReport :: "BindingInspectionReport \<Rightarrow> BindingInspectionReport" where
  "normalizeBindingInspectionReport report =
     (let report = (if rp_SchemaVersion report = []
            then report\<lparr>rp_SchemaVersion := BindingInspectionReportSchemaVersion\<rparr> else report);
          report = (if rp_Kind report = []
            then report\<lparr>rp_Kind := BindingInspectionReportKind\<rparr> else report);
          report = report\<lparr>rp_MatchedPods := Some (elems (rp_MatchedPods report))\<rparr>
      in report\<lparr>rp_Findings := Some (map normalize_finding (elems (rp_Findings report)))\<rparr>)"

definition NewBindingInspectionReport :: BindingInspectionReport where
  "NewBindingInspectionReport = normalizeBindingInspectionReport zero_report"

section \<open>Constants and configuration (inspection.go)\<close>

definition findingBindingNotFound :: string where [insp_defs]: "findingBindingNotFound = ''binding-not-found''"
definition findingInvalidRef :: string where [insp_defs]: "findingInvalidRef = ''invalid-ref''"
definition findingDependencyMissing :: string where
  [insp_defs]: "findingDependencyMissing = ''dependency-missing''"
definition findingUnsafeSelector :: string where [insp_defs]: "findingUnsafeSelector = ''unsafe-selector''"
definition findingRenderFailure :: string where [insp_defs]: "findingRenderFailure = ''render-failure''"
definition findingZeroMatchedPods :: string where [insp_defs]: "findingZeroMatchedPods = ''zero-matched-pods''"
definition findingUnsupportedSelector :: string where
  [insp_defs]: "findingUnsupportedSelector = ''unsupported-selector''"
definition findingRBACLimited :: string where [insp_defs]: "findingRBACLimited = ''rbac-limited''"
definition findingIdentityConfigMissing :: string where
  [insp_defs]: "findingIdentityConfigMissing = ''identity-config-undiscovered''"
definition reasonZeroMatchedPods :: string where [insp_defs]: "reasonZeroMatchedPods = ''ZeroMatchedPods''"
definition reasonUnsupportedSelector :: string where
  [insp_defs]: "reasonUnsupportedSelector = ''UnsupportedSelector''"
definition reasonRBACLimited :: string where [insp_defs]: "reasonRBACLimited = ''Forbidden''"
definition reasonIdentityConfigMissing :: string where
  [insp_defs]: "reasonIdentityConfigMissing = ''IdentityConfigUndiscovered''"
definition podResourceName :: string where [insp_defs]: "podResourceName = ''pods''"

definition identityConfigSourceBindingStatus :: string where
  [insp_defs]: "identityConfigSourceBindingStatus = ''bindingStatus''"
definition identityConfigSourceDefault :: string where
  [insp_defs]: "identityConfigSourceDefault = ''default''"
definition identityConfigSourceFlag :: string where [insp_defs]: "identityConfigSourceFlag = ''flag''"

text \<open>
  The two sentinel errors, and every other error with its text.
\<close>

datatype inspection_error =
    ErrBindingInspectionNotFound
  | ErrBindingInspectionErrorFindings
  | InspectionFailed go_error

record Config =
  cf_Context :: string
  cf_Kubeconfig :: string
  cf_Timeout :: int
  cf_TrustDomain :: string
  cf_TrustDomainOverride :: bool
  cf_ClusterSPIFFEIDClassName :: string
  cf_ClusterSPIFFEIDClassNameOverride :: bool

record inspectionIdentityConfig =
  ii_trustDomain :: string
  ii_trustDomainOverride :: bool
  ii_clusterSPIFFEIDClassName :: string
  ii_clusterSPIFFEIDClassNameOverride :: bool

record resolvedIdentityConfig =
  rv_trustDomain :: string
  rv_trustDomainSource :: string
  rv_clusterSPIFFEIDClassName :: string
  rv_clusterSPIFFEIDClassNameSource :: string
  rv_discovered :: bool

type_synonym rest_mapper = "GroupVersionKind \<Rightarrow> go_error option"

record bindingInspector =
  i_client :: api
  i_ext :: ext
  i_mapper :: rest_mapper
  i_now :: string
  i_identityConfig :: inspectionIdentityConfig

definition ValidateOperatorIdentityConfig :: "string \<Rightarrow> string \<Rightarrow> go_error option" where
  "ValidateOperatorIdentityConfig trustDomain className =
     (if TrimSpace trustDomain = [] then
        Some (PlainError ''trustDomain must be configured before Kleym can render SPIFFE IDs'')
      else if trustDomain \<noteq> TrimSpace trustDomain then
        Some (PlainError ''trustDomain must not include leading or trailing whitespace'')
      else if HasPrefix trustDomain ''spiffe://'' then
        Some (PlainError ''trustDomain must not include spiffe://'')
      else if Contains trustDomain ''/'' then
        Some (PlainError ''trustDomain must not contain /'')
      else if className \<noteq> TrimSpace className then
        Some (PlainError ''clusterspiffeidClassName must not include leading or trailing whitespace'')
      else None)"

definition normalizedInspectionIdentityConfig :: "Config \<Rightarrow> inspectionIdentityConfig result" where
  "normalizedInspectionIdentityConfig config =
     (let trustDomain = (if cf_TrustDomain config = [] then DefaultTrustDomain else cf_TrustDomain config);
          identityConfig = \<lparr>ii_trustDomain = trustDomain,
            ii_trustDomainOverride = cf_TrustDomainOverride config,
            ii_clusterSPIFFEIDClassName = cf_ClusterSPIFFEIDClassName config,
            ii_clusterSPIFFEIDClassNameOverride = cf_ClusterSPIFFEIDClassNameOverride config\<rparr>
      in (case ValidateOperatorIdentityConfig (ii_trustDomain identityConfig)
                 (ii_clusterSPIFFEIDClassName identityConfig) of
            Some err \<Rightarrow> Inl err
          | None \<Rightarrow> Inr identityConfig))"

text \<open>
  Construction of the inspector, given the outcome of loading the client, the REST mapper
  and the clock for a configuration.
\<close>

definition NewKubernetesBindingInspector ::
    "(Config \<Rightarrow> (api \<times> ext \<times> rest_mapper \<times> string) result) \<Rightarrow> Config \<Rightarrow> bindingInspector result" where
  "NewKubernetesBindingInspector connect config =
     (case normalizedInspectionIdentityConfig config of
        Inl err \<Rightarrow> Inl err
      | Inr identityConfig \<Rightarrow>
        (case connect config of
           Inl err \<Rightarrow> Inl err
         | Inr (client, X, mapper, now) \<Rightarrow> Inr
             \<lparr>i_client = client, i_ext = X, i_mapper = mapper, i_now = now,
              i_identityConfig = identityConfig\<rparr>))"

section \<open>References and findings\<close>

definition firstNonEmpty :: "string list \<Rightarrow> string" where
  "firstNonEmpty values = (case filter (\<lambda>v. v \<noteq> []) values of [] \<Rightarrow> [] | v # _ \<Rightarrow> v)"

definition bindingInspectionBindingTargetRef :: "binding \<Rightarrow> BindingInspectionTargetRef" where
  "bindingInspectionBindingTargetRef binding =
     \<lparr>tr_Name = b_Name binding, tr_Namespace = b_Namespace binding, tr_Group = fst GroupVersion,
      tr_Version = snd GroupVersion, tr_Kind = ''InferenceIdentityBinding''\<rparr>"

definition bindingInspectionBindingRef :: "binding \<Rightarrow> BindingInspectionBindingRef" where
  "bindingInspectionBindingRef binding =
     \<lparr>br_Namespace = b_Namespace binding, br_Name = b_Name binding,
      br_Generation = b_Generation binding,
      br_PoolRef = Some \<lparr>tr_Name = pr_Name (s_PoolRef (b_Spec binding)),
        tr_Namespace = b_Namespace binding, tr_Group = pr_Group (s_PoolRef (b_Spec binding)),
        tr_Version = [], tr_Kind = ''InferencePool''\<rparr>,
      br_Conditions = st_Conditions (b_Status binding)\<rparr>"

definition poolRefToReportRef :: "PoolRef \<Rightarrow> GroupVersionKind \<Rightarrow> BindingInspectionTargetRef" where
  "poolRefToReportRef ref gvk =
     \<lparr>tr_Name = ref_Name ref, tr_Namespace = ref_Namespace ref,
      tr_Group = firstNonEmpty [gvk_Group gvk, ref_Group ref], tr_Version = gvk_Version gvk,
      tr_Kind = firstNonEmpty [gvk_Kind gvk, ''InferencePool'']\<rparr>"

definition podResourceTargetRef :: "string \<Rightarrow> BindingInspectionTargetRef" where
  "podResourceTargetRef namespace =
     \<lparr>tr_Name = podResourceName, tr_Namespace = namespace, tr_Group = [], tr_Version = ''v1'',
      tr_Kind = ''Pod''\<rparr>"

definition bindingInspectionGVKs :: "GroupVersionKind list \<Rightarrow> BindingInspectionGVK list" where
  "bindingInspectionGVKs gvks =
     map (\<lambda>gvk. \<lparr>ig_Group = gvk_Group gvk, ig_Version = gvk_Version gvk, ig_Kind = gvk_Kind gvk\<rparr>) gvks"

definition HasErrorSeverityFinding :: "BindingInspectionFinding slice \<Rightarrow> bool" where
  "HasErrorSeverityFinding findings = list_ex (\<lambda>f. fd_Severity f = SeverityError) (elems findings)"

definition HasWarningSeverityFinding :: "BindingInspectionFinding slice \<Rightarrow> bool" where
  "HasWarningSeverityFinding findings = list_ex (\<lambda>f. fd_Severity f = SeverityWarning) (elems findings)"

definition add_finding ::
    "BindingInspectionReport \<Rightarrow> BindingInspectionFinding \<Rightarrow> BindingInspectionReport" where
  "add_finding report finding = report\<lparr>rp_Findings := append_one (rp_Findings report) finding\<rparr>"

definition findingIDForStateError :: "reconcileStateError \<Rightarrow> string \<Rightarrow> string" where
  "findingIDForStateError err fallbackID =
     (if HasSuffix (se_reason err) ''CRDMissing'' then findingDependencyMissing
      else if se_conditionType err = ConditionTypeUnsafeSelector then findingUnsafeSelector
      else if se_conditionType err = ConditionTypeRenderFailure then findingRenderFailure
      else if fallbackID \<noteq> [] then fallbackID
      else findingDependencyMissing)"

definition findingIDForGAIEStateError :: "reconcileStateError \<Rightarrow> string \<Rightarrow> string" where
  "findingIDForGAIEStateError err fallbackID =
     (if HasSuffix (se_reason err) ''CRDMissing'' then findingDependencyMissing
      else if se_conditionType err = ConditionTypeInvalidRef then findingInvalidRef
      else if fallbackID \<noteq> [] then fallbackID
      else findingDependencyMissing)"

definition findingForError ::
    "go_error \<Rightarrow> BindingInspectionTargetRef \<Rightarrow> string \<Rightarrow> BindingInspectionFinding" where
  "findingForError err ref fallbackID =
     (case errors_As as_identity_error err of
        Some stateErr \<Rightarrow>
          \<lparr>fd_ID = findingIDForStateError stateErr fallbackID, fd_Severity = SeverityError,
           fd_Reason = se_reason stateErr, fd_Message = se_message stateErr, fd_AffectedRefs = Some [ref]\<rparr>
      | None \<Rightarrow>
        (case errors_As as_gaie_error err of
           Some gaieErr \<Rightarrow>
             \<lparr>fd_ID = findingIDForGAIEStateError gaieErr fallbackID, fd_Severity = SeverityError,
              fd_Reason = se_reason gaieErr, fd_Message = se_message gaieErr, fd_AffectedRefs = Some [ref]\<rparr>
         | None \<Rightarrow>
             if IsForbidden err then
               \<lparr>fd_ID = findingRBACLimited, fd_Severity = SeverityError, fd_Reason = reasonRBACLimited,
                fd_Message = error_text err, fd_AffectedRefs = Some [ref]\<rparr>
             else
               \<lparr>fd_ID = (if fallbackID = [] then findingDependencyMissing else fallbackID),
                fd_Severity = SeverityError, fd_Reason = ''InspectionFailed'',
                fd_Message = error_text err, fd_AffectedRefs = Some [ref]\<rparr>))"

definition addFindingForError ::
    "BindingInspectionReport \<Rightarrow> go_error \<Rightarrow> BindingInspectionTargetRef \<Rightarrow> string \<Rightarrow> BindingInspectionReport" where
  "addFindingForError report err ref fallbackID = add_finding report (findingForError err ref fallbackID)"

definition zeroMatchedPodsFinding :: "binding \<Rightarrow> BindingInspectionFinding" where
  "zeroMatchedPodsFinding binding =
     \<lparr>fd_ID = findingZeroMatchedPods, fd_Severity = SeverityInfo, fd_Reason = reasonZeroMatchedPods,
      fd_Message = ''no currently readable pods match the rendered identity selectors'',
      fd_AffectedRefs = Some [bindingInspectionBindingTargetRef binding]\<rparr>"

definition unsupportedSelectorFinding :: "binding \<Rightarrow> string list \<Rightarrow> BindingInspectionFinding" where
  "unsupportedSelectorFinding binding selectors =
     \<lparr>fd_ID = findingUnsupportedSelector, fd_Severity = SeverityWarning,
      fd_Reason = reasonUnsupportedSelector,
      fd_Message = ''matched pods cannot be fully evaluated because rendered selectors are unsupported by CLI pod inspection: ''
        @ Join selectors '', '',
      fd_AffectedRefs = Some [bindingInspectionBindingTargetRef binding]\<rparr>"

definition identityConfigUndiscoveredFinding ::
    "binding \<Rightarrow> resolvedIdentityConfig \<Rightarrow> BindingInspectionFinding" where
  "identityConfigUndiscoveredFinding binding config =
     (let sourceSummary = ''CLI defaults'';
          sourceSummary = (if rv_trustDomainSource config = identityConfigSourceFlag \<or>
                rv_clusterSPIFFEIDClassNameSource config = identityConfigSourceFlag
              then ''CLI flags and defaults'' else sourceSummary);
          sourceSummary = (if rv_trustDomainSource config = identityConfigSourceFlag \<and>
                rv_clusterSPIFFEIDClassNameSource config = identityConfigSourceFlag
              then ''CLI flags'' else sourceSummary)
      in \<lparr>fd_ID = findingIdentityConfigMissing, fd_Severity = SeverityWarning,
          fd_Reason = reasonIdentityConfigMissing,
          fd_Message = ''operator config was not discovered from InferenceIdentityBinding status; using ''
            @ sourceSummary,
          fd_AffectedRefs = Some [bindingInspectionBindingTargetRef binding]\<rparr>)"

section \<open>Selectors and pods\<close>

record workloadSelection =
  ws_Namespace :: string
  ws_ServiceAccount :: string
  ws_PodLabels :: "string gomap"
  ws_ContainerSelectorType :: string
  ws_ContainerValue :: string
  ws_UnsupportedSelectors :: "string list"

definition no_selection :: workloadSelection where
  "no_selection = \<lparr>ws_Namespace = [], ws_ServiceAccount = [], ws_PodLabels = [],
     ws_ContainerSelectorType = [], ws_ContainerValue = [], ws_UnsupportedSelectors = []\<rparr>"

definition select_one :: "workloadSelection \<Rightarrow> string \<Rightarrow> workloadSelection" where
  "select_one selection selector =
     (if HasPrefix selector ''k8s:ns:'' then
        selection\<lparr>ws_Namespace := TrimPrefix selector ''k8s:ns:''\<rparr>
      else if HasPrefix selector ''k8s:sa:'' then
        selection\<lparr>ws_ServiceAccount := TrimPrefix selector ''k8s:sa:''\<rparr>
      else if HasPrefix selector ''k8s:container-name:'' then
        selection\<lparr>ws_ContainerSelectorType := ''name'',
          ws_ContainerValue := TrimPrefix selector ''k8s:container-name:''\<rparr>
      else if HasPrefix selector ''k8s:pod-label:'' then
        (case Cut (TrimPrefix selector ''k8s:pod-label:'') '':'' of (key, value, ok) \<Rightarrow>
           if ok \<and> key \<noteq> [] then selection\<lparr>ws_PodLabels := map_put (ws_PodLabels selection) key value\<rparr>
           else selection\<lparr>ws_UnsupportedSelectors := ws_UnsupportedSelectors selection @ [selector]\<rparr>)
      else selection\<lparr>ws_UnsupportedSelectors := ws_UnsupportedSelectors selection @ [selector]\<rparr>)"

definition workloadSelectionFromSelectors :: "string list \<Rightarrow> workloadSelection" where
  "workloadSelectionFromSelectors selectors = foldl select_one no_selection selectors"

definition podMatchesSelection :: "Pod \<Rightarrow> workloadSelection \<Rightarrow> bool" where
  "podMatchesSelection pod selection =
     (if ws_Namespace selection \<noteq> [] \<and> pod_Namespace pod \<noteq> ws_Namespace selection then False
      else if ws_ServiceAccount selection \<noteq> [] \<and>
        pod_ServiceAccountName pod \<noteq> ws_ServiceAccount selection then False
      else list_all (\<lambda>(key, value). map_index (pod_Labels pod) key = value) (ws_PodLabels selection))"

definition matchingPodContainers :: "Pod \<Rightarrow> workloadSelection \<Rightarrow> Container list" where
  "matchingPodContainers pod selection =
     (if ws_ContainerSelectorType selection = [] then []
      else filter (\<lambda>container. ws_ContainerSelectorType selection = ''name'' \<and>
             ctr_Name container = ws_ContainerValue selection) (pod_Containers pod))"

text \<open>The loop over the match labels; the first value that is not a string ends it.\<close>

fun label_strings :: "ext \<Rightarrow> json gomap \<Rightarrow> (string gomap) result" where
  "label_strings X [] = Inr []"
| "label_strings X ((key, value) # rest) =
     (case value of
        JString text \<Rightarrow>
          (case label_strings X rest of Inl err \<Rightarrow> Inl err | Inr labels \<Rightarrow> Inr ((key, text) # labels))
      | _ \<Rightarrow> Inl (PlainError (''rendered pod selector matchLabels['' @ Quote X key
               @ ''] must be a string'')))"

definition podSelectorMatchLabels :: "ext \<Rightarrow> json gomap \<Rightarrow> (string gomap) result" where
  "podSelectorMatchLabels X selector =
     (let rawMatchLabels = (case map_get selector ''matchLabels'' of
            Some raw \<Rightarrow> raw | None \<Rightarrow> JObject selector)
      in (case rawMatchLabels of
            JObject matchLabels \<Rightarrow> label_strings X matchLabels
          | _ \<Rightarrow> Inl (PlainError ''rendered pod selector matchLabels must be an object'')))"

definition matched_workloads :: "workloadSelection \<Rightarrow> Pod \<Rightarrow> BindingInspectionMatchedPod list" where
  "matched_workloads selection pod =
     (if \<not> podMatchesSelection pod selection then []
      else if ws_ContainerSelectorType selection = [] then
        [\<lparr>mp_Namespace = pod_Namespace pod, mp_Pod = pod_Name pod, mp_Container = []\<rparr>]
      else map (\<lambda>container. \<lparr>mp_Namespace = pod_Namespace pod, mp_Pod = pod_Name pod,
             mp_Container = ctr_Name container\<rparr>) (matchingPodContainers pod selection))"

definition matchedPodsFromPods ::
    "Pod list \<Rightarrow> workloadSelection \<Rightarrow> BindingInspectionMatchedPod list" where
  "matchedPodsFromPods pods selection = concat (map (matched_workloads selection) pods)"

definition matchedPodSortKey :: "BindingInspectionMatchedPod \<Rightarrow> string" where
  "matchedPodSortKey workload = mp_Namespace workload @ ''/'' @ mp_Pod workload @ ''/'' @ mp_Container workload"

definition compareMatchedPods :: "BindingInspectionMatchedPod \<Rightarrow> BindingInspectionMatchedPod \<Rightarrow> int" where
  "compareMatchedPods left right = Compare (matchedPodSortKey left) (matchedPodSortKey right)"

definition selectorProvenance :: "Plan \<Rightarrow> string list \<Rightarrow> BindingInspectionSelectorProvenance" where
  "selectorProvenance rendered poolDerivedSelectors =
     (let safetySelectors = filter (\<lambda>selector. selector \<notin> set poolDerivedSelectors \<and>
            (HasPrefix selector ''k8s:ns:'' \<or> HasPrefix selector ''k8s:sa:'')) (p_Selectors rendered)
      in \<lparr>sp_PoolDerivedSelectors = SortStrings poolDerivedSelectors,
          sp_SafetySelectors = SortStrings safetySelectors\<rparr>)"

section \<open>Inspection of a binding\<close>

definition resolveIdentityConfig ::
    "bindingInspector \<Rightarrow> binding \<Rightarrow> BindingInspectionReport
      \<Rightarrow> BindingInspectionReport \<times> resolvedIdentityConfig" where
  "resolveIdentityConfig i binding report =
     (let flags = i_identityConfig i;
          config = \<lparr>rv_trustDomain = ii_trustDomain flags,
            rv_trustDomainSource = identityConfigSourceDefault,
            rv_clusterSPIFFEIDClassName = ii_clusterSPIFFEIDClassName flags,
            rv_clusterSPIFFEIDClassNameSource = identityConfigSourceDefault, rv_discovered = False\<rparr>;
          config = (if st_TrustDomain (b_Status binding) \<noteq> []
            then config\<lparr>rv_discovered := True, rv_trustDomain := st_TrustDomain (b_Status binding),
              rv_trustDomainSource := identityConfigSourceBindingStatus,
              rv_clusterSPIFFEIDClassName := st_ClusterSPIFFEIDClassName (b_Status binding),
              rv_clusterSPIFFEIDClassNameSource := identityConfigSourceBindingStatus\<rparr>
            else config);
          config = (if ii_trustDomainOverride flags
            then config\<lparr>rv_trustDomain := ii_trustDomain flags,
              rv_trustDomainSource := identityConfigSourceFlag\<rparr>
            else config);
          config = (if ii_clusterSPIFFEIDClassNameOverride flags
            then config\<lparr>rv_clusterSPIFFEIDClassName := ii_clusterSPIFFEIDClassName flags,
              rv_clusterSPIFFEIDClassNameSource := identityConfigSourceFlag\<rparr>
            else config);
          report = report\<lparr>rp_IdentityConfig :=
            \<lparr>ic_TrustDomain = rv_trustDomain config,
             ic_TrustDomainSource = rv_trustDomainSource config,
             ic_ClusterSPIFFEIDClassName = rv_clusterSPIFFEIDClassName config,
             ic_ClusterSPIFFEIDClassNameSource = rv_clusterSPIFFEIDClassNameSource config\<rparr>\<rparr>
      in (if \<not> rv_discovered config
          then add_finding report (identityConfigUndiscoveredFinding binding config) else report,
          config))"

fun filterAvailableInspectionGVKs ::
    "ext \<Rightarrow> rest_mapper \<Rightarrow> GroupVersionKind list \<Rightarrow> (GroupVersionKind list) result" where
  "filterAvailableInspectionGVKs X mapper [] = Inr []"
| "filterAvailableInspectionGVKs X mapper (gvk # candidates) =
     (case mapper gvk of
        Some err \<Rightarrow>
          if IsNoMatchError err then filterAvailableInspectionGVKs X mapper candidates
          else Inl (WrapError (''resolve REST mapping for '' @ GVK_String X gvk @ '': '') err)
      | None \<Rightarrow>
          (case filterAvailableInspectionGVKs X mapper candidates of
             Inl err \<Rightarrow> Inl err
           | Inr available \<Rightarrow> Inr (gvk # available)))"

definition discoverGAIEGVKs :: "bindingInspector \<Rightarrow> (GroupVersionKind list) result" where
  "discoverGAIEGVKs i = filterAvailableInspectionGVKs (i_ext i) (i_mapper i) InferencePoolGVKs"

definition set_gaie_capability :: "string \<Rightarrow> BindingInspectionReport \<Rightarrow> BindingInspectionReport" where
  "set_gaie_capability c report =
     report\<lparr>rp_Capabilities := (rp_Capabilities report)\<lparr>cap_GAIEResources := c\<rparr>\<rparr>"

definition set_pods_capability :: "string \<Rightarrow> BindingInspectionReport \<Rightarrow> BindingInspectionReport" where
  "set_pods_capability c report = report\<lparr>rp_Capabilities := (rp_Capabilities report)\<lparr>cap_Pods := c\<rparr>\<rparr>"

definition set_pool_ref :: "BindingInspectionTargetRef \<Rightarrow> BindingInspectionReport \<Rightarrow> BindingInspectionReport" where
  "set_pool_ref ref report = report\<lparr>rp_Resolved := (rp_Resolved report)\<lparr>ri_PoolRef := Some ref\<rparr>\<rparr>"

text \<open>What a successful rendering adds to the report.\<close>

definition report_rendered ::
    "binding \<Rightarrow> resolvedIdentityConfig \<Rightarrow> ResolvedInferenceTarget \<Rightarrow> Plan
      \<Rightarrow> BindingInspectionReport \<Rightarrow> BindingInspectionReport" where
  "report_rendered binding identityConfig target rendered report =
     (let provenance = selectorProvenance rendered (t_DerivedSelectors target);
          report = report\<lparr>rp_Resolved := (rp_Resolved report)\<lparr>ri_PoolSelector := t_PodSelector target,
            ri_SelectorProvenance := Some provenance\<rparr>\<rparr>;
          report = report\<lparr>rp_RenderedIdentity := \<lparr>id_SPIFFEID = p_SpiffeID rendered,
            id_PodSelector = p_PodSelector rendered, id_WorkloadSelectors = p_Selectors rendered,
            id_SelectorProvenance = Some provenance\<rparr>\<rparr>;
          report = report\<lparr>rp_RenderedClusterSPIFFEID :=
            \<lparr>rd_Name = BuildClusterSPIFFEIDName (b_Namespace binding) (b_Name binding)
               (a_Kind (p_IdentityAnchor rendered)) (p_SpiffeID rendered),
             rd_SPIFFEID = p_SpiffeID rendered, rd_PodSelector = p_PodSelector rendered,
             rd_WorkloadSelectors = p_Selectors rendered, rd_Hint = BuildClusterSPIFFEIDHint binding,
             rd_ClassName = rv_clusterSPIFFEIDClassName identityConfig,
             rd_Fallback = Some RenderFallback\<rparr>\<rparr>
      in set_gaie_capability CapabilityFull report)"

definition inspectRenderedIdentity ::
    "bindingInspector \<Rightarrow> binding \<Rightarrow> GroupVersionKind list \<Rightarrow> resolvedIdentityConfig
      \<Rightarrow> BindingInspectionReport \<Rightarrow> (BindingInspectionReport \<times> Plan option) run" where
  "inspectRenderedIdentity i binding availablePoolGVKs identityConfig report =
     (case BindingPoolRef (i_ext i) binding of
        Inl err \<Rightarrow> State_Monad.return
          (addFindingForError (set_gaie_capability CapabilityPartial report) err
             (bindingInspectionBindingTargetRef binding) findingInvalidRef, None)
      | Inr poolRef \<Rightarrow> do {
          let ref = poolRefToReportRef poolRef (GroupVersionKind [] [] ''InferencePool'');
          let report = set_pool_ref ref report;
          resolved \<leftarrow> ResolveInferencePool (i_client i) (i_ext i) availablePoolGVKs poolRef;
          State_Monad.return (case resolved of
             Inl err \<Rightarrow>
               (addFindingForError (set_gaie_capability CapabilityPartial report) err ref [], None)
           | Inr pool \<Rightarrow>
               let ref = poolRefToReportRef poolRef (u_GVK pool);
                   report = set_pool_ref ref report in
               (case ResolveInferenceTarget (i_ext i) pool of
                  Inl err \<Rightarrow>
                    (addFindingForError (set_gaie_capability CapabilityFull report)
                      (IdentityStateError ConditionTypeUnsafeSelector ReasonInvalidPoolSelector
                        (error_text err)) ref [], None)
                | Inr target \<Rightarrow>
                    (case PlanIdentity (i_ext i)
                        \<lparr>in_Namespace = b_Namespace binding,
                         in_ServiceAccountName = binding_service_account binding,
                         in_TrustDomain = rv_trustDomain identityConfig,
                         in_Variant = binding_variant binding, in_Target = target\<rparr> of
                       Inl err \<Rightarrow>
                         (addFindingForError (set_gaie_capability CapabilityFull report) err
                           (bindingInspectionBindingTargetRef binding) [], None)
                     | Inr rendered \<Rightarrow>
                         (report_rendered binding identityConfig target rendered report, Some rendered))))
        })"

definition listMatchingPods :: "bindingInspector \<Rightarrow> binding \<Rightarrow> Plan \<Rightarrow> ((Pod list) result) run" where
  "listMatchingPods i binding rendered =
     (case podSelectorMatchLabels (i_ext i) (p_PodSelector rendered) of
        Inl err \<Rightarrow> State_Monad.return (Inl err)
      | Inr matchLabels \<Rightarrow> ListPods (i_client i) (b_Namespace binding) matchLabels)"

definition inspectMatchedPods ::
    "bindingInspector \<Rightarrow> binding \<Rightarrow> Plan option \<Rightarrow> BindingInspectionReport \<Rightarrow> BindingInspectionReport run" where
  "inspectMatchedPods i binding rendered report =
     (case rendered of
        None \<Rightarrow> State_Monad.return report
      | Some plan \<Rightarrow>
          let selection = workloadSelectionFromSelectors (p_Selectors plan) in
          if length (ws_UnsupportedSelectors selection) > 0 then
            State_Monad.return (add_finding (set_pods_capability CapabilityPartial report)
              (unsupportedSelectorFinding binding (ws_UnsupportedSelectors selection)))
          else do {
            listed \<leftarrow> listMatchingPods i binding plan;
            State_Monad.return (case listed of
               Inl err \<Rightarrow>
                 if IsForbidden err then
                   add_finding (set_pods_capability CapabilityPartial report)
                     \<lparr>fd_ID = findingRBACLimited, fd_Severity = SeverityWarning,
                      fd_Reason = reasonRBACLimited, fd_Message = ''pods are not readable'',
                      fd_AffectedRefs = Some [podResourceTargetRef (b_Namespace binding)]\<rparr>
                 else
                   add_finding (set_pods_capability CapabilityUnknown report)
                     \<lparr>fd_ID = findingDependencyMissing, fd_Severity = SeverityWarning,
                      fd_Reason = ''PodListFailed'', fd_Message = error_text err,
                      fd_AffectedRefs = Some [podResourceTargetRef (b_Namespace binding)]\<rparr>
             | Inr pods \<Rightarrow>
                 let matched = SortFunc compareMatchedPods (matchedPodsFromPods pods selection);
                     report = (set_pods_capability CapabilityFull report)\<lparr>rp_MatchedPods := Some matched\<rparr>
                 in if length matched = 0 then add_finding report (zeroMatchedPodsFinding binding)
                    else report)
          })"

definition bindingNotFoundFinding :: "ext \<Rightarrow> string \<Rightarrow> string \<Rightarrow> BindingInspectionFinding" where
  "bindingNotFoundFinding X namespace name =
     \<lparr>fd_ID = findingBindingNotFound, fd_Severity = SeverityError, fd_Reason = ''NotFound'',
      fd_Message = ''InferenceIdentityBinding '' @ Quote X (NamespacedBindingKey X namespace name)
        @ '' was not found'',
      fd_AffectedRefs = Some [\<lparr>tr_Name = name, tr_Namespace = namespace, tr_Group = fst GroupVersion,
        tr_Version = snd GroupVersion, tr_Kind = ''InferenceIdentityBinding''\<rparr>]\<rparr>"

text \<open>The report before anything is read.\<close>

definition start_report :: "bindingInspector \<Rightarrow> string \<Rightarrow> string \<Rightarrow> BindingInspectionReport" where
  "start_report i namespace name =
     set_pods_capability CapabilitySkipped (NewBindingInspectionReport
       \<lparr>rp_GeneratedAt := i_now i,
        rp_BindingRef := \<lparr>br_Namespace = namespace, br_Name = name, br_Generation = 0,
          br_PoolRef = None, br_Conditions = []\<rparr>\<rparr>)"

definition InspectBinding ::
    "bindingInspector \<Rightarrow> string \<Rightarrow> string \<Rightarrow> (BindingInspectionReport \<times> inspection_error option) run" where
  "InspectBinding i namespace name = (
     let report = start_report i namespace name in
     case discoverGAIEGVKs i of
       Inl err \<Rightarrow> State_Monad.return
         (report, Some (InspectionFailed (WrapError ''discover served GAIE resources: '' err)))
     | Inr availablePoolGVKs \<Rightarrow> do {
         let report = report\<lparr>rp_Resolved := (rp_Resolved report)
           \<lparr>ri_ServedGVKs := bindingInspectionGVKs availablePoolGVKs\<rparr>\<rparr>;
         got \<leftarrow> GetBinding (i_client i) (NamespacedName namespace name);
         (case got of
            Inl err \<Rightarrow>
              if IsNotFound err then
                State_Monad.return
                  (normalizeBindingInspectionReport (add_finding
                     (report\<lparr>rp_Capabilities := (rp_Capabilities report)\<lparr>cap_Binding := CapabilityFull\<rparr>\<rparr>)
                     (bindingNotFoundFinding (i_ext i) namespace name)),
                   Some ErrBindingInspectionNotFound)
              else State_Monad.return
                (report, Some (InspectionFailed (WrapError (''read InferenceIdentityBinding ''
                   @ Quote (i_ext i) (NamespacedBindingKey (i_ext i) namespace name) @ '': '') err)))
          | Inr binding \<Rightarrow> do {
              let report = report\<lparr>rp_Capabilities := (rp_Capabilities report)
                \<lparr>cap_Binding := CapabilityFull, cap_PeerBindings := CapabilityPartial\<rparr>,
                rp_BindingRef := bindingInspectionBindingRef binding\<rparr>;
              let (report, identityConfig) = resolveIdentityConfig i binding report;
              (report, rendered) \<leftarrow> inspectRenderedIdentity i binding availablePoolGVKs identityConfig report;
              report \<leftarrow> inspectMatchedPods i binding rendered report;
              let report = normalizeBindingInspectionReport report;
              State_Monad.return
                (report, if HasErrorSeverityFinding (rp_Findings report)
                         then Some ErrBindingInspectionErrorFindings else None)
            })
       })"

section \<open>Agreement of the two validators\<close>

text \<open>
  The command line tool accepts exactly the identity settings the operator would start
  with, and rejects the others with the operator's words.
\<close>
theorem ValidateOperatorIdentityConfig_agrees:
  "ValidateOperatorIdentityConfig trustDomain className =
     Validate \<lparr>oc_TrustDomain = trustDomain, oc_ClusterSPIFFEIDClassName = className\<rparr>"
  by (simp add: ValidateOperatorIdentityConfig_def Validate_def trustDomainRequiredMessage_def)

end
