(* ===== verification/Agreement.thy ===== *)
theory Agreement
  imports Sample_Runs Inspection
begin

text \<open>
  The command line tool against the controller: both render the same identity from the same
  view of the cluster.
\<close>

section \<open>Agreement with the controller\<close>

lemma ResolvePoolGVKs_idem [simp]: "ResolvePoolGVKs (ResolvePoolGVKs gvks) = ResolvePoolGVKs gvks"
  by (simp add: ResolvePoolGVKs_def InferencePoolGVKs_def inferencePoolGVKs_def)

text \<open>An inspector and a reconciler that see the same cluster with the same settings.\<close>

definition same_view ::
    "bindingInspector \<Rightarrow> GroupVersionKind list \<Rightarrow> resolvedIdentityConfig \<Rightarrow> reconciler \<Rightarrow> bool" where
  "same_view i gvks config r =
     (i_client i = r_Client r \<and> i_ext i = r_Ext r \<and> gvks = r_availablePoolGVKs r \<and>
      rv_trustDomain config = oc_TrustDomain (r_Config r) \<and>
      rv_clusterSPIFFEIDClassName config = oc_ClusterSPIFFEIDClassName (r_Config r))"

text \<open>The ClusterSPIFFEID specification that the reported fields describe.\<close>

definition reported_spec :: "BindingInspectionRenderedClusterSPIFFEID \<Rightarrow> json gomap" where
  "reported_spec c =
     [(''spiffeIDTemplate'', JString (rd_SPIFFEID c)), (''podSelector'', JObject (rd_PodSelector c)),
      (''workloadSelectorTemplates'', JArray (map JString (rd_WorkloadSelectors c))),
      (''fallback'', JBool (rd_Fallback c = Some True)), (''hint'', JString (rd_Hint c))]
     @ (if rd_ClassName c \<noteq> [] then [(''className'', JString (rd_ClassName c))] else [])"

lemma report_rendered_spec:
  "rp_RenderedClusterSPIFFEID (report_rendered b config target plan report) = c \<Longrightarrow>
   rd_Name c = u_Name (DesiredClusterSPIFFEID b plan (rv_clusterSPIFFEIDClassName config)) \<and>
   JObject (reported_spec c) =
     the (map_of (u_Object (DesiredClusterSPIFFEID b plan (rv_clusterSPIFFEIDClassName config))) ''spec'')"
  by (auto simp: report_rendered_def reported_spec_def DesiredClusterSPIFFEID_def desired_spec_def
      set_gaie_capability_def RenderFallback_def Let_def)

lemma findingForError_state:
  "errors_As as_reconcile_error err = None \<Longrightarrow> errorsAsStateError err = Some se \<Longrightarrow>
   fd_Reason (findingForError err ref fallback) = se_reason se \<and>
   fd_Message (findingForError err ref fallback) = se_message se"
  by (auto simp: findingForError_def errorsAsStateError_def split: option.splits)

lemma addFindingForError_findings:
  "elems (rp_Findings (addFindingForError report err ref fallback)) =
     elems (rp_Findings report) @ [findingForError err ref fallback]"
  by (simp add: addFindingForError_def add_finding_def append_one_def elems_def)

lemma capability_keeps [simp]:
  "rp_Findings (set_gaie_capability c report) = rp_Findings report"
  "rp_Findings (set_pool_ref ref report) = rp_Findings report"
  "rp_Findings (set_pods_capability c report) = rp_Findings report"
  by (simp_all add: set_gaie_capability_def set_pool_ref_def set_pods_capability_def)

lemma inspectRenderedIdentity_run:
  assumes "same_view i gvks config r"
    and "run_state (renderIdentityForBinding r b) t = (outcome, t')"
  shows "(\<exists>plan target report'. outcome = Inr plan \<and>
      run_state (inspectRenderedIdentity i b gvks config report) t =
        ((report_rendered b config target plan report', Some plan), t') \<and>
      rp_Findings report' = rp_Findings report) \<or>
    (\<exists>err ref fallback report'. outcome = Inl err \<and>
      run_state (inspectRenderedIdentity i b gvks config report) t =
        ((addFindingForError report' err ref fallback, None), t') \<and>
      rp_Findings report' = rp_Findings report)"
proof (cases "BindingPoolRef (r_Ext r) b")
  case (Inl err)
  with assms show ?thesis
    by (force simp: same_view_def renderIdentityForBinding_def inspectRenderedIdentity_def)
next
  case (Inr ref)
  obtain resolved t1 where run: "run_state (ResolveInferencePool (r_Client r) (r_Ext r)
      (r_availablePoolGVKs r) ref) t = (resolved, t1)" by fastforce
  then have run': "run_state (resolveInferencePool r ref) t = (resolved, t1)"
    by (simp add: resolveInferencePool_def resolvePoolGVKs_def ResolveInferencePool_def)
  show ?thesis
  proof (cases resolved)
    case (Inl err)
    with assms run run' \<open>BindingPoolRef (r_Ext r) b = Inr ref\<close> show ?thesis
      by (force simp: same_view_def renderIdentityForBinding_def inspectRenderedIdentity_def Let_def)
  next
    case pool: (Inr pool)
    note facts = assms run run' \<open>BindingPoolRef (r_Ext r) b = Inr ref\<close> pool
    show ?thesis
    proof (cases "ResolveInferenceTarget (r_Ext r) pool")
      case (Inl err)
      with facts show ?thesis
        by (force simp: same_view_def renderIdentityForBinding_def inspectRenderedIdentity_def
            renderIdentity_def Let_def)
    next
      case target: (Inr target)
      show ?thesis
      proof (cases "renderIdentity r b pool")
        case (Inl err)
        with facts target show ?thesis
          by (force simp: same_view_def renderIdentityForBinding_def inspectRenderedIdentity_def
              renderIdentity_def Let_def)
      next
        case (Inr plan)
        with facts target show ?thesis
          by (force simp: same_view_def renderIdentityForBinding_def inspectRenderedIdentity_def
              renderIdentity_def Let_def)
      qed
    qed
  qed
qed

text \<open>
  C9: What the command line tool shows is what the controller would apply. With the same
  view of the cluster, rendering for inspection makes the same calls as the controller's
  rendering; when the controller gets a plan, the tool has that plan, and the reported
  ClusterSPIFFEID has the name and the specification of the object the controller wants;
  when the controller fails, the tool adds exactly one finding, an error, with the reason
  and message of the controller's state error.
\<close>
theorem inspection_agrees_with_controller:
  assumes "same_view i gvks config r"
    and "run_state (renderIdentityForBinding r b) t = (outcome, t')"
  shows "\<exists>report' rendered. run_state (inspectRenderedIdentity i b gvks config report) t = ((report', rendered), t') \<and>
    (case outcome of
       Inr plan \<Rightarrow> rendered = Some plan \<and> rp_Findings report' = rp_Findings report \<and>
         (let desired = DesiredClusterSPIFFEID b plan (oc_ClusterSPIFFEIDClassName (r_Config r));
              c = rp_RenderedClusterSPIFFEID report' in
          rd_Name c = u_Name desired \<and> map_of (u_Object desired) ''spec'' = Some (JObject (reported_spec c)))
     | Inl err \<Rightarrow> rendered = None \<and>
         (\<exists>f. elems (rp_Findings report') = elems (rp_Findings report) @ [f] \<and> fd_Severity f = SeverityError \<and>
            (\<forall>se. errors_As as_reconcile_error err = None \<longrightarrow> errorsAsStateError err = Some se \<longrightarrow>
               fd_Reason f = se_reason se \<and> fd_Message f = se_message se)))"
  using inspectRenderedIdentity_run [OF assms, of report]
proof (elim disjE exE conjE)
  fix plan target report'
  assume *: "outcome = Inr plan" "rp_Findings report' = rp_Findings report"
    "run_state (inspectRenderedIdentity i b gvks config report) t =
       ((report_rendered b config target plan report', Some plan), t')"
  have "rp_Findings (report_rendered b config target plan report') = rp_Findings report"
    using *(2) by (simp add: report_rendered_def Let_def)
  moreover have "rv_clusterSPIFFEIDClassName config = oc_ClusterSPIFFEIDClassName (r_Config r)"
    using assms(1) by (simp add: same_view_def)
  ultimately show ?thesis
    using * report_rendered_spec [OF refl, of b config target plan report']
    by (simp add: Let_def DesiredClusterSPIFFEID_def)
next
  fix err ref fallback report'
  assume *: "outcome = Inl err" "rp_Findings report' = rp_Findings report"
    "run_state (inspectRenderedIdentity i b gvks config report) t =
       ((addFindingForError report' err ref fallback, None), t')"
  have "fd_Severity (findingForError err ref fallback) = SeverityError"
    by (simp add: findingForError_def split: option.split)
  with * show ?thesis
    by (auto simp: addFindingForError_findings findingForError_state)
qed

definition sample_inspector :: "api \<Rightarrow> bindingInspector" where
  "sample_inspector A = \<lparr>i_client = A, i_ext = ref_ext, i_mapper = (\<lambda>_. None), i_now = ''now'',
     i_identityConfig = \<lparr>ii_trustDomain = ''td'', ii_trustDomainOverride = True,
       ii_clusterSPIFFEIDClassName = [], ii_clusterSPIFFEIDClassNameOverride = False\<rparr>\<rparr>"

definition sample_config :: resolvedIdentityConfig where
  "sample_config = \<lparr>rv_trustDomain = ''td'', rv_trustDomainSource = identityConfigSourceFlag,
     rv_clusterSPIFFEIDClassName = [], rv_clusterSPIFFEIDClassNameSource = identityConfigSourceDefault,
     rv_discovered = False\<rparr>"

lemma sample_controller_render:
  "run_state (renderIdentityForBinding (sample_reconciler (world sample_binding None)) sample_binding) [] =
     (Inr (sample_plan ''a''), [GetObjectEv pool_gvk (NamespacedName ''ns'' ''p'') (Inr sample_pool)])"
proof -
  have "BindingPoolRef ref_ext sample_binding = Inr \<lparr>ref_Name = ''p'', ref_Group = [], ref_Namespace = ''ns''\<rparr>"
    by (simp add: BindingPoolRef_def sample_binding_def TrimSpace_plain plain_byte_def)
  moreover have "renderIdentity (sample_reconciler (world sample_binding None)) sample_binding sample_pool =
      Inr (sample_plan ''a'')" by (rule sample_rendered) (simp_all add: sample_binding_def)
  moreover have "CandidatePoolGVKs (ResolvePoolGVKs []) [] = [pool_gvk]" using pool_candidates by simp
  ultimately show ?thesis
    by (simp add: renderIdentityForBinding_def resolveInferencePool_def resolvePoolGVKs_def
        ResolveInferencePool_def GetObject_def)
qed

theorem inspection_agrees_with_controller_witness:
  "\<exists>report' rendered. run_state (inspectRenderedIdentity (sample_inspector (world sample_binding None)) sample_binding []
       sample_config zero_report) [] =
     ((report', rendered), [GetObjectEv pool_gvk (NamespacedName ''ns'' ''p'') (Inr sample_pool)]) \<and>
     rendered = Some (sample_plan ''a'')"
proof -
  have "same_view (sample_inspector (world sample_binding None)) [] sample_config
      (sample_reconciler (world sample_binding None))"
    by (simp add: same_view_def sample_inspector_def sample_config_def sample_reconciler_def)
  from inspection_agrees_with_controller [OF this sample_controller_render, of zero_report]
  show ?thesis by auto
qed

end
