(* ===== verification/Attestation.thy ===== *)
theory Attestation
  imports Sample_Runs Inspection
begin

text \<open>
  What rendered selectors mean for pods. The abstract side is the workload attestation of
  SPIRE; against it stand the conflict check (no pod can hold the identities of two bindings
  that do not conflict) and the tool's evaluation of selectors (the pods it reports are
  exactly the pods that would get the identity).
\<close>

section \<open>What a workload attests to\<close>

text \<open>
  The Kubernetes workload attestor of SPIRE gives a workload a selector for its namespace,
  its service account and each of its labels, and a registration entry applies when all its
  selectors are among them. A pod's labels are a map, and a label key has no colon.
\<close>

definition workload_selectors :: "Pod \<Rightarrow> string set" where
  "workload_selectors pod =
     {nsPrefix @ pod_Namespace pod, saPrefix @ pod_ServiceAccountName pod} \<union>
     (\<lambda>(key, value). podLabelPrefix @ key @ '':'' @ value) ` set (pod_Labels pod)"

definition attests :: "Pod \<Rightarrow> Plan \<Rightarrow> bool" where
  "attests pod plan = (set (p_Selectors plan) \<subseteq> workload_selectors pod)"

definition pod_ok :: "Pod \<Rightarrow> bool" where
  "pod_ok pod = (distinct (map fst (pod_Labels pod)) \<and>
     list_all (\<lambda>kv. CHR '':'' \<notin> set (fst kv)) (pod_Labels pod))"

lemma ns_attested: "nsPrefix @ ns \<in> workload_selectors pod \<longleftrightarrow> ns = pod_Namespace pod"
  by (auto simp: workload_selectors_def nsPrefix_def saPrefix_def podLabelPrefix_def)

lemma sa_attested: "saPrefix @ sa \<in> workload_selectors pod \<longleftrightarrow> sa = pod_ServiceAccountName pod"
  by (auto simp: workload_selectors_def nsPrefix_def saPrefix_def podLabelPrefix_def)

lemma label_attested:
  assumes "pod_ok pod" "CHR '':'' \<notin> set key"
  shows "podLabelPrefix @ key @ '':'' @ value \<in> workload_selectors pod \<longleftrightarrow> (key, value) \<in> set (pod_Labels pod)"
proof -
  have "podLabelPrefix @ key @ '':'' @ value = podLabelPrefix @ k @ '':'' @ v \<longleftrightarrow> key = k \<and> value = v"
    if "(k, v) \<in> set (pod_Labels pod)" for k v
    using that assms by (auto simp: pod_ok_def list_all_iff append_sep_eq)
  moreover have "podLabelPrefix @ key @ '':'' @ value \<noteq> nsPrefix @ n"
    "podLabelPrefix @ key @ '':'' @ value \<noteq> saPrefix @ n" for n
    by (simp_all add: nsPrefix_def saPrefix_def podLabelPrefix_def)
  ultimately show ?thesis by (auto simp: workload_selectors_def)
qed

lemma VariantLabelKey_no_colon: "CHR '':'' \<notin> set VariantLabelKey"
  by (simp add: VariantLabelKey_def)

lemma attested_plan:
  assumes "PlanIdentity X i = Inr p" "attests pod p" "pod_ok pod"
  shows "in_Namespace i = pod_Namespace pod" "in_ServiceAccountName i = pod_ServiceAccountName pod"
    "map_of (pod_Labels pod) VariantLabelKey = Some (p_Variant p)"
proof -
  from assms(1) have sel: "p_Selectors p = plan_selectors i" "p_Variant p = in_Variant i"
    and safe: "safe_selectors (in_Namespace i) (in_ServiceAccountName i) (in_Variant i) (plan_selectors i)"
    by (auto simp: PlanIdentity_Inr plan_input_valid_def)
  then have "nsPrefix @ in_Namespace i \<in> workload_selectors pod"
    "saPrefix @ in_ServiceAccountName i \<in> workload_selectors pod"
    using assms(2) by (auto simp: attests_def safe_selectors_def ns_selector_def sa_selector_def)
  then show "in_Namespace i = pod_Namespace pod" "in_ServiceAccountName i = pod_ServiceAccountName pod"
    by (simp_all add: ns_attested sa_attested)
  obtain s where "s \<in> set (plan_selectors i)" "HasPrefix s variantSelectorPrefix"
    using safe unfolding safe_selectors_def by (metis filter_empty_conv length_0_conv zero_neq_one)
  then have "variant_selector (in_Variant i) \<in> set (plan_selectors i)"
    using safe unfolding safe_selectors_def by auto
  then have "podLabelPrefix @ VariantLabelKey @ '':'' @ in_Variant i \<in> workload_selectors pod"
    using assms(2) sel by (auto simp: attests_def variant_selector_def variantSelectorPrefix_def)
  then show "map_of (pod_Labels pod) VariantLabelKey = Some (p_Variant p)"
    using label_attested [OF assms(3) VariantLabelKey_no_colon] assms(3) sel
    by (auto simp: pod_ok_def)
qed

section \<open>No pod holds two identities\<close>

text \<open>
  C5: Structural exclusivity. When the conflict check of a namespace reports nothing, no pod
  attests to the identities of two of the bindings it looked at: the selectors rendered for
  them cannot all apply to the same pod.
\<close>
theorem no_conflict_no_shared_pod:
  assumes "EvaluateVariantConflicts records = []"
    and "m < length records" "n < length records" "m \<noteq> n"
    and "records ! m = variantRecord b p" "renderIdentity r b pool = Inr p"
    and "records ! n = variantRecord c q" "renderIdentity r c pool' = Inr q"
    and "pod_ok pod"
  shows "\<not> (attests pod p \<and> attests pod q)"
proof
  assume both: "attests pod p \<and> attests pod q"
  obtain i where i: "PlanIdentity (r_Ext r) i = Inr p" "in_Namespace i = b_Namespace b"
    "in_ServiceAccountName i = binding_service_account b"
    using assms(6) by (force simp: renderIdentity_def split: sum.splits)
  obtain j where j: "PlanIdentity (r_Ext r) j = Inr q" "in_Namespace j = b_Namespace c"
    "in_ServiceAccountName j = binding_service_account c"
    using assms(8) by (force simp: renderIdentity_def split: sum.splits)
  have "b_Namespace b = b_Namespace c" "binding_service_account b = binding_service_account c"
    "p_Variant p = p_Variant q"
    using attested_plan [OF i(1) _ assms(9)] attested_plan [OF j(1) _ assms(9)] both i(2,3) j(2,3) by auto
  then have "snd (evaluateVariantPair (records ! m) (records ! n))"
    using assms(5,7) by (simp add: evaluateVariantPair_conflict variantRecord_def binding_ref_def)
  then have "directed_conflict (records ! m) (records ! n) \<in> set (collect_conflicts records)"
    unfolding set_collect_conflicts using assms(2,3,4) by blast
  with assms(1) show False by (metis EvaluateVariantConflicts_def empty_iff empty_set set_SortFunc)
qed

section \<open>The tool's evaluation of selectors\<close>

text \<open>The label a pod-label selector asks for.\<close>

definition asks_label :: "string \<Rightarrow> string \<Rightarrow> string \<Rightarrow> bool" where
  "asks_label s key value = (s = podLabelPrefix @ key @ '':'' @ value \<and> CHR '':'' \<notin> set key \<and> key \<noteq> [])"

lemma select_one_cases:
  "select_one sel (nsPrefix @ n) = sel\<lparr>ws_Namespace := n\<rparr>"
  "select_one sel (saPrefix @ n) = sel\<lparr>ws_ServiceAccount := n\<rparr>"
  "asks_label s key value \<Longrightarrow> select_one sel s = sel\<lparr>ws_PodLabels := map_put (ws_PodLabels sel) key value\<rparr>"
proof -
  show "select_one sel (nsPrefix @ n) = sel\<lparr>ws_Namespace := n\<rparr>"
    using TrimPrefix_append [of "''k8s:ns:''" n] by (simp add: select_one_def nsPrefix_def)
  show "select_one sel (saPrefix @ n) = sel\<lparr>ws_ServiceAccount := n\<rparr>"
    using TrimPrefix_append [of "''k8s:sa:''" n] by (simp add: select_one_def saPrefix_def)
  show "asks_label s key value \<Longrightarrow> select_one sel s = sel\<lparr>ws_PodLabels := map_put (ws_PodLabels sel) key value\<rparr>"
    using TrimPrefix_append [of "''k8s:pod-label:''" "key @ '':'' @ value"] Cut_byte_append [of "CHR '':''" key "value"]
    by (simp add: select_one_def asks_label_def podLabelPrefix_def)
qed

text \<open>
  A list of selectors in which everything is a namespace, service-account or label selector,
  with one value per kind and key, is read without loss.
\<close>

definition readable :: "string \<Rightarrow> string \<Rightarrow> string list \<Rightarrow> bool" where
  "readable ns sa ss = ((\<forall>s \<in> set ss. s = nsPrefix @ ns \<or> s = saPrefix @ sa \<or> (\<exists>k v. asks_label s k v)) \<and>
     (\<forall>s \<in> set ss. \<forall>s' \<in> set ss. \<forall>k v v'. asks_label s k v \<and> asks_label s' k v' \<longrightarrow> v = v'))"

lemma asks_label_not_safety:
  "\<not> asks_label (nsPrefix @ n) k v" "\<not> asks_label (saPrefix @ n) k v"
  by (simp_all add: asks_label_def nsPrefix_def saPrefix_def podLabelPrefix_def)

lemma asks_label_unique: "asks_label s k v \<Longrightarrow> asks_label s k' v' \<Longrightarrow> k = k' \<and> v = v'"
  by (auto simp: asks_label_def append_sep_eq)

lemma safety_selectors_differ: "nsPrefix @ n \<noteq> saPrefix @ m" "saPrefix @ m \<noteq> nsPrefix @ n"
  by (simp_all add: nsPrefix_def saPrefix_def)

lemma readable_selection:
  assumes "readable ns sa ss"
  defines "sel \<equiv> workloadSelectionFromSelectors ss"
  shows "ws_Namespace sel = (if nsPrefix @ ns \<in> set ss then ns else [])"
    "ws_ServiceAccount sel = (if saPrefix @ sa \<in> set ss then sa else [])"
    "map_of (ws_PodLabels sel) k = Some v \<longleftrightarrow> (\<exists>s \<in> set ss. asks_label s k v)"
    "distinct (map fst (ws_PodLabels sel))"
    "ws_UnsupportedSelectors sel = []" "ws_ContainerSelectorType sel = []"
proof -
  have "ws_Namespace sel = (if nsPrefix @ ns \<in> set ss then ns else []) \<and>
    ws_ServiceAccount sel = (if saPrefix @ sa \<in> set ss then sa else []) \<and>
    (\<forall>k v. map_of (ws_PodLabels sel) k = Some v \<longleftrightarrow> (\<exists>s \<in> set ss. asks_label s k v)) \<and>
    distinct (map fst (ws_PodLabels sel)) \<and> ws_UnsupportedSelectors sel = [] \<and> ws_ContainerSelectorType sel = []"
    using assms(1) unfolding sel_def
  proof (induction ss rule: rev_induct)
    case Nil
    then show ?case by (simp add: workloadSelectionFromSelectors_def no_selection_def)
  next
    case (snoc s ss)
    let ?sel = "workloadSelectionFromSelectors ss"
    have step: "workloadSelectionFromSelectors (ss @ [s]) = select_one ?sel s"
      by (simp add: workloadSelectionFromSelectors_def)
    have "readable ns sa ss" using snoc.prems unfolding readable_def by auto
    note IH = snoc.IH [OF this]
    from snoc.prems consider "s = nsPrefix @ ns" | "s = saPrefix @ sa" | k v where "asks_label s k v"
      unfolding readable_def by auto
    then show ?case
    proof cases
      case 1
      then show ?thesis using IH step safety_selectors_differ by (auto simp: select_one_cases asks_label_not_safety)
    next
      case 2
      then show ?thesis using IH step safety_selectors_differ
        by (auto simp: select_one_cases asks_label_not_safety)
    next
      case 3
      have other: "s \<noteq> nsPrefix @ ns" "s \<noteq> saPrefix @ sa" using 3 asks_label_not_safety by metis+
      have same: "v' = v" if "t \<in> set ss" "asks_label t k v'" for t v'
        using that 3 snoc.prems unfolding readable_def by (metis UnCI list.set_intros(1) set_append)
      have labels: "map_of (map_put (ws_PodLabels ?sel) k v) k' = Some v' \<longleftrightarrow>
          (\<exists>t \<in> set (ss @ [s]). asks_label t k' v')" for k' v'
      proof (cases "k' = k")
        case True
        have "(\<exists>t \<in> set (ss @ [s]). asks_label t k v') \<longleftrightarrow> v' = v"
        proof
          assume "\<exists>t \<in> set (ss @ [s]). asks_label t k v'"
          then obtain t where "t \<in> set ss \<or> t = s" "asks_label t k v'" by auto
          then show "v' = v" using same asks_label_unique [OF 3] by blast
        qed (use 3 in auto)
        with True show ?thesis by auto
      next
        case False
        then show ?thesis using IH asks_label_unique [OF 3] by auto
      qed
      have run: "select_one ?sel s = ?sel\<lparr>ws_PodLabels := map_put (ws_PodLabels ?sel) k v\<rparr>"
        by (rule select_one_cases(3) [OF 3])
      from IH have d: "distinct (map fst (ws_PodLabels ?sel))" by blast
      show ?thesis unfolding step run using IH other labels distinct_map_put [OF d] by simp
    qed
  qed
  then show "ws_Namespace sel = (if nsPrefix @ ns \<in> set ss then ns else [])"
    "ws_ServiceAccount sel = (if saPrefix @ sa \<in> set ss then sa else [])"
    "map_of (ws_PodLabels sel) k = Some v \<longleftrightarrow> (\<exists>s \<in> set ss. asks_label s k v)"
    "distinct (map fst (ws_PodLabels sel))"
    "ws_UnsupportedSelectors sel = []" "ws_ContainerSelectorType sel = []" by blast+
qed

lemma readable_match:
  assumes read: "readable ns sa ss" and ne: "ns \<noteq> []" "sa \<noteq> []"
    and vals: "\<And>s k v. s \<in> set ss \<Longrightarrow> asks_label s k v \<Longrightarrow> v \<noteq> []"
    and pod: "pod_ok pod"
  shows "podMatchesSelection pod (workloadSelectionFromSelectors ss) \<longleftrightarrow> set ss \<subseteq> workload_selectors pod"
proof -
  let ?sel = "workloadSelectionFromSelectors ss"
  note sel = readable_selection [OF read]
  have has: "map_index (pod_Labels pod) k = v \<longleftrightarrow> s \<in> workload_selectors pod"
    if "asks_label s k v" "v \<noteq> []" for s k v
  proof -
    have "s \<in> workload_selectors pod \<longleftrightarrow> (k, v) \<in> set (pod_Labels pod)"
      using that(1) label_attested [OF pod, of k v] by (auto simp: asks_label_def)
    also have "\<dots> \<longleftrightarrow> map_of (pod_Labels pod) k = Some v" using pod by (simp add: pod_ok_def)
    finally show ?thesis using that(2) by (auto simp: map_index_def split: option.split)
  qed
  have "list_all (\<lambda>(k, v). map_index (pod_Labels pod) k = v) (ws_PodLabels ?sel) \<longleftrightarrow>
      (\<forall>k v. map_of (ws_PodLabels ?sel) k = Some v \<longrightarrow> map_index (pod_Labels pod) k = v)"
    using sel(4) by (auto simp: list_all_iff)
  also have "\<dots> \<longleftrightarrow> (\<forall>s \<in> set ss. \<forall>k v. asks_label s k v \<longrightarrow> s \<in> workload_selectors pod)"
    unfolding sel(3) using has vals by blast
  finally have labels: "list_all (\<lambda>(k, v). map_index (pod_Labels pod) k = v) (ws_PodLabels ?sel) \<longleftrightarrow>
      (\<forall>s \<in> set ss. \<forall>k v. asks_label s k v \<longrightarrow> s \<in> workload_selectors pod)" .
  have "(\<forall>s \<in> set ss. s = nsPrefix @ ns \<longrightarrow> s \<in> workload_selectors pod) \<longleftrightarrow>
      \<not> (ws_Namespace ?sel \<noteq> [] \<and> pod_Namespace pod \<noteq> ws_Namespace ?sel)"
    using sel(1) ne(1) by (auto simp: ns_attested)
  moreover have "(\<forall>s \<in> set ss. s = saPrefix @ sa \<longrightarrow> s \<in> workload_selectors pod) \<longleftrightarrow>
      \<not> (ws_ServiceAccount ?sel \<noteq> [] \<and> pod_ServiceAccountName pod \<noteq> ws_ServiceAccount ?sel)"
    using sel(2) ne(2) by (auto simp: sa_attested)
  ultimately show ?thesis
    unfolding podMatchesSelection_def labels using read unfolding readable_def by (auto simp: subset_iff)
qed


text \<open>The selectors of a plan for a pool.\<close>

lemma label_ok_asks:
  assumes "label_value_contract X" "qualified_name_contract X" "label_ok X (k, j)"
  shows "asks_label (podLabelPrefix @ k @ '':'' @ label_text j) k (label_text j)"
    "TrimSpace (podLabelPrefix @ k @ '':'' @ label_text j) = podLabelPrefix @ k @ '':'' @ label_text j"
    "label_text j \<noteq> []"
proof -
  from assms(3) obtain v where v: "j = JString v" "k \<noteq> []" "v \<noteq> []" "IsQualifiedName X k = []"
    "IsValidLabelValue X v = []" by (auto simp: label_ok_def)
  have "qualified_name_shape k" "label_value_shape v"
    using assms(1,2) v(4,5) by (simp_all add: label_value_contract_def qualified_name_contract_def)
  then have "CHR '':'' \<notin> set k" "alphanumeric (last v)"
    using v(3) by (auto simp: qualified_name_shape_def label_value_shape_def list_all_iff)
  then show "asks_label (podLabelPrefix @ k @ '':'' @ label_text j) k (label_text j)" "label_text j \<noteq> []"
    "TrimSpace (podLabelPrefix @ k @ '':'' @ label_text j) = podLabelPrefix @ k @ '':'' @ label_text j"
    using v alphanumeric_plain [of "last v"]
    by (auto simp: asks_label_def intro!: TrimSpace_plain) (auto simp: podLabelPrefix_def plain_byte_def)
qed

lemma variant_asks:
  assumes "label_value_contract X" "variant_valid X v"
  shows "asks_label (variant_selector v) VariantLabelKey v"
    "TrimSpace (variant_selector v) = variant_selector v" "v \<noteq> []"
  using assms variant_valid_trimmed_selector [OF assms]
  by (auto simp: asks_label_def variant_selector_def variantSelectorPrefix_def VariantLabelKey_def variant_valid_def)

lemma select_match_labels_distinct:
  assumes "wf_json (JObject m)" "select_match_labels m = Inr (labels, reported)"
  shows "distinct (map fst labels)"
proof (cases "map_get m ''matchLabels''")
  case None
  then show ?thesis using assms by (auto simp: select_match_labels_def split: if_splits)
next
  case (Some raw)
  then have "raw = JObject labels" using assms(2)
    by (auto simp: select_match_labels_def split: option.splits json.splits)
  moreover have "(''matchLabels'', raw) \<in> set m" using Some by (simp add: map_get_def map_of_SomeD)
  ultimately show ?thesis using assms(1) by (auto simp: list_all_iff)
qed

lemma pool_target_labels:
  assumes "NestedMap X (u_Object pool) [''spec'', ''selector''] = Inr (Some m)" "wf_json (JObject m)"
    and "ResolveInferenceTarget X pool = Inr target"
  obtains labels where "distinct (map fst labels)" "\<forall>kv \<in> set labels. label_ok X kv"
    "t_DerivedSelectors target = map (\<lambda>kv. podLabelPrefix @ fst kv @ '':'' @ label_text (snd kv)) labels"
proof -
  obtain podSelector where derive: "DeriveSelectorsFromPool X pool = Inr (podSelector, t_DerivedSelectors target)"
    using assms(3) by (force simp: ResolveInferenceTarget_def split: sum.splits prod.splits
        dest: arg_cong [of _ _ t_DerivedSelectors])
  obtain m' labels where m': "NestedMap X (u_Object pool) [''spec'', ''selector''] = Inr (Some m')"
    "m' \<noteq> []" "select_match_labels m' = Inr (labels, podSelector)"
    "derive_selectors X labels = Inr (t_DerivedSelectors target)"
    by (rule DeriveSelectorsFromPool_Inr [OF derive])
  show ?thesis
    using that [of labels] select_match_labels_distinct m' assms(1,2) by (auto simp: derive_selectors_Inr)
qed

lemma pool_plan_kinds:
  assumes X: "label_value_contract X" "qualified_name_contract X" and labels: "\<forall>kv \<in> set labels. label_ok X kv"
    and derived: "t_DerivedSelectors (in_Target i) =
      map (\<lambda>kv. podLabelPrefix @ fst kv @ '':'' @ label_text (snd kv)) labels"
    and plan: "ResolveInferenceTarget X pool = Inr (in_Target i)" "PlanIdentity X i = Inr p"
    and s: "s \<in> set (p_Selectors p)"
  shows "s = nsPrefix @ in_Namespace i \<or> s = saPrefix @ in_ServiceAccountName i \<or>
    s = variant_selector (in_Variant i) \<or>
    (\<exists>k j. (k, j) \<in> set labels \<and> s = podLabelPrefix @ k @ '':'' @ label_text j)"
proof -
  have valid: "variant_valid X (in_Variant i)" and sel: "p_Selectors p = plan_selectors i"
    using plan(2) by (auto simp: PlanIdentity_Inr plan_input_valid_def)
  from s have kind: "s = nsPrefix @ in_Namespace i \<or> s = saPrefix @ in_ServiceAccountName i \<or>
      HasPrefix s podLabelPrefix"
    using gaie.planned_selector_kinds [OF plan, of s] by (simp add: ns_selector_def sa_selector_def)
  from s obtain w where w: "s = TrimSpace w"
    "w \<in> {ns_selector (in_Namespace i), sa_selector (in_ServiceAccountName i), variant_selector (in_Variant i)} \<union>
      set (t_DerivedSelectors (in_Target i))"
    unfolding sel plan_selectors_def set_UniqueAndSorted canonical_values_def by auto
  from w(2) consider "w = ns_selector (in_Namespace i) \<or> w = sa_selector (in_ServiceAccountName i)"
    | "w = variant_selector (in_Variant i)"
    | k j where "(k, j) \<in> set labels" "w = podLabelPrefix @ k @ '':'' @ label_text j"
    unfolding derived by auto
  then show ?thesis
  proof cases
    case 1
    then have "\<not> HasPrefix (TrimSpace w) podLabelPrefix"
      using TrimSpace_keeps_prefix ns_selector_prefix sa_selector_prefix pod_label_prefix_exclusive
        selector_prefix_plain by metis
    with kind w(1) show ?thesis by blast
  next
    case 2
    with w(1) variant_asks(2) [OF X(1) valid] show ?thesis by simp
  next
    case 3
    then have "s = w" using w(1) labels label_ok_asks(2) [OF X] by blast
    with 3 show ?thesis by blast
  qed
qed

lemma pool_plan_readable:
  assumes X: "label_value_contract X" "qualified_name_contract X"
    and m: "NestedMap X (u_Object pool) [''spec'', ''selector''] = Inr (Some m)" "wf_json (JObject m)"
    and plan: "ResolveInferenceTarget X pool = Inr (in_Target i)" "PlanIdentity X i = Inr p"
  shows "readable (in_Namespace i) (in_ServiceAccountName i) (p_Selectors p)"
    and "s \<in> set (p_Selectors p) \<Longrightarrow> asks_label s k v \<Longrightarrow> v \<noteq> []"
proof -
  obtain labels where dist: "distinct (map fst labels)" and labels: "\<forall>kv \<in> set labels. label_ok X kv"
    and derived: "t_DerivedSelectors (in_Target i) =
      map (\<lambda>kv. podLabelPrefix @ fst kv @ '':'' @ label_text (snd kv)) labels"
    by (rule pool_target_labels [OF m plan(1)])
  have valid: "variant_valid X (in_Variant i)"
    and safe: "safe_selectors (in_Namespace i) (in_ServiceAccountName i) (in_Variant i) (plan_selectors i)"
    and sel: "p_Selectors p = plan_selectors i"
    using plan(2) by (auto simp: PlanIdentity_Inr plan_input_valid_def)
  note variant = variant_asks [OF X(1) valid]
  note kinds = pool_plan_kinds [OF X labels derived plan, unfolded sel]
  have asked: "s = podLabelPrefix @ k @ '':'' @ v \<and>
      (k = VariantLabelKey \<and> v = in_Variant i \<or> (\<exists>j. (k, j) \<in> set labels \<and> v = label_text j))"
    if "s \<in> set (plan_selectors i)" "asks_label s k v" for s k v
  proof -
    have "s \<noteq> nsPrefix @ in_Namespace i" "s \<noteq> saPrefix @ in_ServiceAccountName i"
      using that(2) asks_label_not_safety by metis+
    with kinds [OF that(1)] consider "s = variant_selector (in_Variant i)"
      | k' j where "(k', j) \<in> set labels" "s = podLabelPrefix @ k' @ '':'' @ label_text j"
      by blast
    then show ?thesis
    proof cases
      case 1
      then show ?thesis using that(2) variant(1) asks_label_unique by (metis asks_label_def)
    next
      case 2
      then show ?thesis using that(2) label_ok_asks(1) [OF X] labels asks_label_unique by (metis asks_label_def)
    qed
  qed
  have one: "v = v'" if "s \<in> set (plan_selectors i)" "s' \<in> set (plan_selectors i)"
    "asks_label s k v" "asks_label s' k v'" for s s' k v v'
  proof (cases "k = VariantLabelKey")
    case True
    then have "HasPrefix s variantSelectorPrefix" "HasPrefix s' variantSelectorPrefix"
      using that(3,4) HasPrefix_append [of variantSelectorPrefix]
      by (auto simp: asks_label_def variantSelectorPrefix_def)
    then have "s = s'" using safe that(1,2) unfolding safe_selectors_def by metis
    then show ?thesis using that(3,4) asks_label_unique by blast
  next
    case False
    then show ?thesis using asked [OF that(1,3)] asked [OF that(2,4)] dist eq_key_imp_eq_value by metis
  qed
  have "\<exists>k v. asks_label s k v" if "s \<in> set (plan_selectors i)" "s \<noteq> nsPrefix @ in_Namespace i"
    "s \<noteq> saPrefix @ in_ServiceAccountName i" for s
    using kinds [OF that(1)] that(2,3)
  proof (elim disjE exE conjE)
    fix k j
    assume "(k, j) \<in> set labels" "s = podLabelPrefix @ k @ '':'' @ label_text j"
    then show ?thesis using label_ok_asks(1) [OF X, of k j] labels by auto
  qed (use variant(1) in auto)
  then show "readable (in_Namespace i) (in_ServiceAccountName i) (p_Selectors p)"
    unfolding readable_def sel using one by blast
  assume "s \<in> set (p_Selectors p)" "asks_label s k v"
  with asked sel have "v = in_Variant i \<or> (\<exists>j. (k, j) \<in> set labels \<and> v = label_text j)" by auto
  then show "v \<noteq> []" using variant(3) labels label_ok_asks(3) [OF X, of k] by metis
qed

text \<open>
  C11: The pods the tool reports are the pods that would get the identity. For a plan made
  for a pool every selector can be evaluated, and the matched pods are, one entry each,
  exactly the listed pods that attest to all selectors of the plan.
\<close>
theorem matched_pods_exact:
  assumes "label_value_contract X" "qualified_name_contract X"
    and "NestedMap X (u_Object pool) [''spec'', ''selector''] = Inr (Some m)" "wf_json (JObject m)"
    and "ResolveInferenceTarget X pool = Inr (in_Target i)" "PlanIdentity X i = Inr plan"
    and "in_Namespace i \<noteq> []" and "\<forall>pod \<in> set pods. pod_ok pod"
  shows "ws_UnsupportedSelectors (workloadSelectionFromSelectors (p_Selectors plan)) = [] \<and>
    matchedPodsFromPods pods (workloadSelectionFromSelectors (p_Selectors plan)) =
      map (\<lambda>pod. \<lparr>mp_Namespace = pod_Namespace pod, mp_Pod = pod_Name pod, mp_Container = []\<rparr>)
        (filter (\<lambda>pod. attests pod plan) pods)"
proof
  note read = pool_plan_readable [OF assms(1-6)]
  note sel = readable_selection [OF read(1)]
  show "ws_UnsupportedSelectors (workloadSelectionFromSelectors (p_Selectors plan)) = []" by (rule sel(5))
  have "in_ServiceAccountName i \<noteq> []"
    using assms(6) by (auto simp: PlanIdentity_Inr plan_input_valid_def service_account_valid_def)
  then have "podMatchesSelection pod (workloadSelectionFromSelectors (p_Selectors plan)) = attests pod plan"
    if "pod \<in> set pods" for pod
    unfolding attests_def using assms(8) that read(2) by (intro readable_match [OF read(1) assms(7)]) blast+
  then show "matchedPodsFromPods pods (workloadSelectionFromSelectors (p_Selectors plan)) =
      map (\<lambda>pod. \<lparr>mp_Namespace = pod_Namespace pod, mp_Pod = pod_Name pod, mp_Container = []\<rparr>)
        (filter (\<lambda>pod. attests pod plan) pods)"
    unfolding matchedPodsFromPods_def
    by (induction pods) (simp_all add: matched_workloads_def sel(6))
qed

section \<open>Concrete pods\<close>

definition sample_pod :: "string \<Rightarrow> Pod" where
  "sample_pod variant = \<lparr>pod_Namespace = ''ns'', pod_Name = ''w'',
     pod_Labels = [(''app'', ''m''), (VariantLabelKey, variant)], pod_ServiceAccountName = ''sa'', pod_Containers = []\<rparr>"

lemma sample_pod_ok: "pod_ok (sample_pod v)"
  by (simp add: pod_ok_def sample_pod_def VariantLabelKey_def)

lemma sample_pod_attests:
  "attests (sample_pod v) (sample_plan v)" "v \<noteq> w \<Longrightarrow> \<not> attests (sample_pod v) (sample_plan w)"
  by (auto simp: attests_def sample_pod_def sample_plan_def workload_selectors_def nsPrefix_def saPrefix_def
      podLabelPrefix_def VariantLabelKey_def)

theorem matched_pods_exact_witness:
  "matchedPodsFromPods [sample_pod ''a'', sample_pod ''b'']
     (workloadSelectionFromSelectors (p_Selectors (sample_plan ''a''))) =
   [\<lparr>mp_Namespace = ''ns'', mp_Pod = ''w'', mp_Container = []\<rparr>]"
proof -
  have "NestedMap ref_ext (u_Object sample_pool) [''spec'', ''selector''] =
      Inr (Some [(''matchLabels'', JObject [(''app'', JString ''m'')])])"
    by (simp add: ref_ext_def sample_pool_def)
  from matched_pods_exact [OF ref_ext_label_value ref_ext_qualified_name this, of "sample_input ''a''" "sample_plan ''a''"
      "[sample_pod ''a'', sample_pod ''b'']"]
  show ?thesis using sample_pool_target sample_planned(1) sample_pod_ok sample_pod_attests(1) [of "''a''"]
      sample_pod_attests(2) [of "''b''" "''a''"]
    by (simp add: sample_input_def sample_pod_def)
qed

theorem no_conflict_no_shared_pod_witness:
  "\<not> (attests (sample_pod ''a'') (sample_plan ''a'') \<and> attests (sample_pod ''a'') (sample_plan ''b''))"
proof -
  let ?c = "sample_binding\<lparr>b_Name := ''c'', b_Spec := (b_Spec sample_binding)\<lparr>s_IdentityBoundary := \<lparr>ib_Variant = ''b''\<rparr>\<rparr>\<rparr>"
  let ?records = "[variantRecord sample_binding (sample_plan ''a''), variantRecord ?c (sample_plan ''b'')]"
  have "EvaluateVariantConflicts ?records = []"
    by (simp add: EvaluateVariantConflicts_def evaluateVariantPair_def variantRecord_def sample_plan_def)
  moreover have "renderIdentity (sample_reconciler empty_api) sample_binding sample_pool = Inr (sample_plan ''a'')"
    by (rule sample_rendered) (simp_all add: sample_binding_def)
  moreover have "renderIdentity (sample_reconciler empty_api) ?c sample_pool = Inr (sample_plan ''b'')"
    using sample_planned(2) by (simp add: renderIdentity_def sample_pool_target sample_input_def sample_binding_def)
  ultimately show ?thesis
    by (intro no_conflict_no_shared_pod [where records = ?records and m = 0 and n = 1]) (simp_all add: sample_pod_ok)
qed

end
