(* ===== verification/Reconcile_Cost.thy ===== *)
theory Reconcile_Cost
  imports Sample_Runs
begin

text \<open>
  How much a reconcile asks of the API server. Every loop of a reconcile is a loop over
  listed bindings, over candidate types or over retries, so a run ends after a number of
  calls that is linear in what was listed. The proof is an amortized one: every event costs
  one unit, and a list reply pays for a fixed number of calls per listed binding.
\<close>

section \<open>Cost of a run\<close>

fun listed_in :: "event \<Rightarrow> nat" where
  "listed_in (ListBindingsEv _ (Inr items)) = length items"
| "listed_in _ = 0"

definition listed :: "trace \<Rightarrow> nat" where
  "listed t = sum_list (map listed_in t)"

definition spent :: "nat \<Rightarrow> trace \<Rightarrow> int" where
  "spent d t = int (length t) - int d * int (listed t)"

definition costs :: "nat \<Rightarrow> 'a run \<Rightarrow> ('a \<Rightarrow> int) \<Rightarrow> bool" where
  "costs d m c = (\<forall>t. wp m (\<lambda>x t'. suffix t t' \<and> spent d t' \<le> spent d t + c x) t)"

named_theorems costs_intro \<open>costs of the operations\<close>

lemma costs_return: "0 \<le> c x \<Longrightarrow> costs d (State_Monad.return x) c"
  by (simp add: costs_def)

lemma costs_bind:
  assumes "costs d m c1" "\<And>x. costs d (f x) (\<lambda>y. c y - c1 x)"
  shows "costs d (m \<bind> f) c"
  unfolding costs_def wp_bind
proof
  fix t
  have "wp (f x) (\<lambda>y t2. suffix t t2 \<and> spent d t2 \<le> spent d t + c y) t1"
    if "suffix t t1 \<and> spent d t1 \<le> spent d t + c1 x" for x t1
    by (rule wp_mono [OF assms(2) [unfolded costs_def, THEN spec]]) (use that in \<open>auto intro: suffix_order.trans\<close>)
  then show "wp m (\<lambda>x. wp (f x) (\<lambda>y t2. suffix t t2 \<and> spent d t2 \<le> spent d t + c y)) t"
    by (rule wp_mono [OF assms(1) [unfolded costs_def, THEN spec]])
qed

lemma costs_mono: "costs d m c \<Longrightarrow> (\<And>x. c x \<le> c' x) \<Longrightarrow> costs d m c'"
  unfolding costs_def by (auto simp: wp_def split: prod.splits) (metis add_left_mono order_trans)

lemma spent_Cons: "spent d (e # t) = spent d t + 1 - int d * int (listed_in e)"
  by (simp add: spent_def listed_def algebra_simps)

lemma costs_call: "(\<And>r. 1 - int d * int (listed_in (ev r)) \<le> c r) \<Longrightarrow> costs d (call reply ev) c"
  by (auto simp: costs_def spent_Cons suffix_def algebra_simps)

lemma costs_emit: "listed_in e = 0 \<Longrightarrow> 1 \<le> c () \<Longrightarrow> costs d (emit e) c"
  by (auto simp: costs_def spent_Cons suffix_def)

text \<open>
  A step of known cost, followed by a rest that keeps within what is left. Each operation
  gets its rule for both positions, as a step and at the end.
\<close>

lemma costs_step:
  "costs d m (\<lambda>_. k) \<Longrightarrow> (\<And>x. costs d (f x) (\<lambda>y. c y - k)) \<Longrightarrow> costs d (m \<bind> f) c"
  by (rule costs_bind)

lemma costs_calls:
  "costs d (GetBinding A key) (\<lambda>_. 1)" "costs d (UpdateBinding A b) (\<lambda>_. 1)"
  "costs d (PatchStatus A b b') (\<lambda>_. 1)" "costs d (GetObject A gvk key) (\<lambda>_. 1)"
  "costs d (CreateObject A u) (\<lambda>_. 1)" "costs d (UpdateObject A u) (\<lambda>_. 1)"
  "costs d (DeleteObject A u uid) (\<lambda>_. 1)" "costs d (NewUUID A) (\<lambda>_. 1)"
  by (simp_all add: api_calls costs_call)

lemmas [costs_intro] = costs_return costs_calls [THEN costs_step] costs_calls [THEN costs_mono]

lemma costs_ListBindings:
  "costs d (ListBindings A opts) (\<lambda>r. 1 - (case r of Inr items \<Rightarrow> int d * int (length items) | Inl _ \<Rightarrow> 0))"
  unfolding ListBindings_def by (rule costs_call) (simp split: sum.split)

section \<open>Ownership and output\<close>

lemma costs_observe: "costs d (observeManagedClusterSPIFFEID r b n) (\<lambda>_. 1)"
  unfolding observeManagedClusterSPIFFEID_def Let_def by (auto intro!: costs_intro split: sum.split)

lemma costs_patchOwnership: "costs d (patchOwnershipStatus r b b') (\<lambda>_. 1)"
  unfolding patchOwnershipStatus_def by (auto intro!: costs_intro)

lemmas [costs_intro] = costs_observe [THEN costs_step] costs_observe [THEN costs_mono]
  costs_patchOwnership [THEN costs_step] costs_patchOwnership [THEN costs_mono]

lemma costs_confirm: "costs d (confirmClusterSPIFFEIDOwnership r b n u) (\<lambda>_. 1)"
  unfolding confirmClusterSPIFFEIDOwnership_def by (auto intro!: costs_intro)

lemma costs_clear: "costs d (clearClusterSPIFFEIDOwnership r b) (\<lambda>_. 1)"
  unfolding clearClusterSPIFFEIDOwnership_def by (auto intro!: costs_intro)

lemma costs_reserve: "costs d (reserveClusterSPIFFEIDClaim r b n) (\<lambda>_. 2)"
  unfolding reserveClusterSPIFFEIDClaim_def Let_def by (auto intro!: costs_intro split: sum.split)

lemmas [costs_intro] = costs_confirm [THEN costs_step] costs_clear [THEN costs_step] costs_clear [THEN costs_mono]
  costs_reserve [THEN costs_step]

lemma costs_authorize: "costs d (authorizeManagedOutputApply r b u obs) (\<lambda>_. 1)"
  unfolding authorizeManagedOutputApply_def Let_def
  by (auto intro!: costs_intro split: managedOutputObservationKind.split option.split)

lemma costs_create: "costs d (create_with_claim r b p u claim) (\<lambda>_. 2)"
  unfolding create_with_claim_def Let_def by (auto intro!: costs_intro split: sum.split)

lemmas [costs_intro] = costs_authorize [THEN costs_step] costs_create [THEN costs_mono]

lemma costs_createManaged: "costs d (createManagedClusterSPIFFEID r b p u obs) (\<lambda>_. 4)"
  unfolding createManagedClusterSPIFFEID_def by (auto intro!: costs_intro split: sum.split)

lemma costs_updateManaged: "costs d (updateManagedClusterSPIFFEID r p u u') (\<lambda>_. 1)"
  unfolding updateManagedClusterSPIFFEID_def by (auto intro!: costs_intro)

lemmas [costs_intro] = costs_createManaged [THEN costs_mono] costs_updateManaged [THEN costs_step]

lemma costs_reconcileOne: "costs d (reconcileClusterSPIFFEID r b p u) (\<lambda>_. 6)"
  unfolding reconcileClusterSPIFFEID_def by (auto intro!: costs_intro split: sum.split option.split)

lemma costs_reconcileAll: "costs d (reconcileClusterSPIFFEIDs r b ps) (\<lambda>_. 6 * int (length ps))"
proof (induction ps arbitrary: b)
  case (Cons p ps)
  note [costs_intro] = costs_reconcileOne [THEN costs_step] Cons.IH [THEN costs_step]
  show ?case by (auto intro!: costs_intro split: sum.split)
qed (simp add: costs_return)

section \<open>Withdrawal\<close>

text \<open>What is listed as left of a binding's output is at most one object.\<close>

lemma costs_listManaged: "costs d (listManagedClusterSPIFFEIDs r b)
    (\<lambda>x. 3 - (case snd x of Inr objects \<Rightarrow> int (length objects) | Inl _ \<Rightarrow> 0))"
  unfolding listManagedClusterSPIFFEIDs_def list_observed_def
  by (auto intro!: costs_intro split: sum.split option.split managedOutputObservationKind.split)

lemma costs_delete: "costs d (delete_objects r us) (\<lambda>_. int (length us))"
proof (induction us)
  case (Cons u us)
  note [costs_intro] = Cons.IH [THEN costs_mono]
  show ?case by (auto intro!: costs_intro split: sum.split)
qed (simp add: costs_return)

lemma costs_cleanup: "costs d (cleanupManagedClusterSPIFFEIDs r b) (\<lambda>_. 3)"
  unfolding cleanupManagedClusterSPIFFEIDs_def
  by (rule costs_bind [OF costs_listManaged])
     (auto intro!: costs_intro costs_delete [THEN costs_step] split: sum.split)

lemma costs_list: "costs d (listManagedClusterSPIFFEIDs r b) (\<lambda>_. 2)"
  unfolding listManagedClusterSPIFFEIDs_def list_observed_def
  by (auto intro!: costs_intro split: sum.split option.split managedOutputObservationKind.split)

lemmas [costs_intro] = costs_cleanup [THEN costs_step] costs_list [THEN costs_step]

lemma costs_cleanupChanged: "costs d (cleanupChangedClusterSPIFFEIDName r b n) (\<lambda>_. 6)"
  unfolding cleanupChangedClusterSPIFFEIDName_def Let_def
  by (auto intro!: costs_intro split: sum.split option.split)

section \<open>Reporting\<close>

lemma costs_patch_attempt: "costs d (patch_attempt r b) (\<lambda>_. 2)"
  unfolding patch_attempt_def Let_def by (auto intro!: costs_intro split: sum.split)

lemma costs_patch_attempts: "costs d (patch_attempts r b n) (\<lambda>_. 2 + 2 * int n)"
proof (induction n)
  case 0
  show ?case by (simp add: costs_patch_attempt)
next
  case (Suc n)
  note [costs_intro] = costs_patch_attempt [THEN costs_step] Suc.IH [THEN costs_mono]
  show ?case by (auto intro!: costs_intro split: option.split)
qed

text \<open>The number of retries a status patch is granted.\<close>

definition retries_within :: "reconciler \<Rightarrow> nat \<Rightarrow> bool" where
  "retries_within r n = (\<forall>t. conflict_retries (r_Client r) t \<le> n)"

lemma costs_patchStatus:
  assumes "retries_within r n"
  shows "costs d (patchStatus r b) (\<lambda>_. 2 + 2 * int n)"
  unfolding costs_def patchStatus_def wp_bind wp_history
proof
  fix t
  have "costs d (patch_attempts r b (conflict_retries (r_Client r) t)) (\<lambda>_. 2 + 2 * int n)"
    by (rule costs_patch_attempts [THEN costs_mono]) (use assms in \<open>simp add: retries_within_def\<close>)
  then show "wp (patch_attempts r b (conflict_retries (r_Client r) t))
      (\<lambda>x t'. suffix t t' \<and> spent d t' \<le> spent d t + (2 + 2 * int n)) t"
    by (simp add: costs_def)
qed

lemma costs_outcome: "costs d (recordTerminalOutcome r b) (\<lambda>_. 1)"
  unfolding recordTerminalOutcome_def RecordTerminalOutcome_def
  by (auto intro!: costs_intro costs_emit split: option.split)

lemma costs_event: "costs d (recordEventf r b ty reason message) (\<lambda>_. 1)"
  unfolding recordEventf_def by (auto intro!: costs_intro costs_emit)

lemmas [costs_intro] = costs_outcome [THEN costs_step] costs_event [THEN costs_step]

lemma costs_fail_apply:
  assumes "retries_within r n"
  shows "costs d (fail_apply r b err) (\<lambda>_. 4 + 2 * int n)"
  unfolding fail_apply_def patchManagedOutputApplyFailureStatus_def Let_def State_Monad.bind_assoc
  by (auto intro!: costs_intro costs_patchStatus [OF assms, THEN costs_step] split: option.split prod.split)

lemma costs_applyStateError: "costs d (applyStateError r b se) (\<lambda>_. 6)"
  unfolding applyStateError_def by (auto intro!: costs_intro costs_bind split: sum.split option.split)

section \<open>Pool lookup\<close>

definition pool_types :: "reconciler \<Rightarrow> nat" where
  "pool_types r = length (resolvePoolGVKs r)"

lemma candidate_count: "length (CandidatePoolGVKs (ResolvePoolGVKs (resolvePoolGVKs r)) g) \<le> pool_types r"
proof -
  have "length (supportedPoolGVKsForGroup g) \<le> length inferencePoolGVKs"
    by (simp add: supportedPoolGVKsForGroup_def)
  moreover have "length inferencePoolGVKs = 1" by (simp add: inferencePoolGVKs_def)
  moreover have "1 \<le> pool_types r" and "ResolvePoolGVKs (resolvePoolGVKs r) = resolvePoolGVKs r"
    by (auto simp: pool_types_def resolvePoolGVKs_def ResolvePoolGVKs_def InferencePoolGVKs_def inferencePoolGVKs_def
        Suc_le_eq)
  ultimately show ?thesis by (auto simp: CandidatePoolGVKs_def Let_def pool_types_def)
qed

lemma costs_candidates: "costs d (resolveByCandidates A key gvks missing) (\<lambda>_. int (length gvks))"
proof (induction gvks arbitrary: missing)
  case (Cons gvk gvks)
  note [costs_intro] = Cons.IH [THEN costs_mono]
  show ?case by (auto intro!: costs_intro split: sum.split)
qed (simp add: costs_return)

lemma costs_pool: "costs d (resolveInferencePool r ref) (\<lambda>_. int (pool_types r))"
  unfolding resolveInferencePool_def ResolveInferencePool_def
  by (rule costs_candidates [THEN costs_step]) (simp add: costs_return candidate_count)

lemma costs_render: "costs d (renderIdentityForBinding r b) (\<lambda>_. int (pool_types r))"
  unfolding renderIdentityForBinding_def by (auto intro!: costs_intro costs_pool [THEN costs_step] split: sum.split)

section \<open>The conflict check\<close>

lemma costs_render_peer: "costs d (render_peer r b p peer) (\<lambda>_. int (pool_types r) + 2)"
  unfolding render_peer_def
  by (auto intro!: costs_intro costs_render [THEN costs_step] split: sum.split option.split)

lemma costs_peer: "costs d (identityForConflictEvaluation r b p peer) (\<lambda>_. int (pool_types r) + 4)"
  unfolding identityForConflictEvaluation_def
  by (auto intro!: costs_intro costs_render_peer [THEN costs_mono] split: sum.split)

text \<open>
  The number of bindings that may have to withdraw output is bounded by the bindings looked
  at: each contributes one plan or one obstacle.
\<close>

definition held :: "(VariantRecord list \<times> (NamespacedName \<times> binding) list \<times> binding list) result \<Rightarrow> int" where
  "held x = (case x of Inl _ \<Rightarrow> 0 | Inr (_, byRef, blocked) \<Rightarrow> int (length byRef + length blocked))"

lemma ref_put_length [simp]: "5 * int (length (ref_put m k v)) \<le> 5 + int (length m) * 5"
  by (induction m k v rule: ref_put.induct) auto

lemma costs_peers:
  "costs d (evaluate_peers r b p items acc)
     (\<lambda>x. (int (pool_types r) + 4 + 5) * int (length items) + 5 * held (Inr acc) - 5 * held x)"
proof (induction items arbitrary: acc)
  case Nil
  show ?case by (simp add: costs_return)
next
  case (Cons item items)
  obtain records byRef blocked where acc: "acc = (records, byRef, blocked)" by (cases acc)
  note [costs_intro] = costs_peer [THEN costs_step] Cons.IH [THEN costs_mono]
  show ?case unfolding acc
    by (auto intro!: costs_intro simp: held_def algebra_simps split: sum.split peer_identity.split prod.split)
qed

lemma append_member_set:
  "set (appendConflictMember b ms new) \<subseteq> set ms \<union> set_option new"
  "distinct ms \<Longrightarrow> distinct (appendConflictMember b ms new)"
  by (auto simp: appendConflictMember_def same_key_def split: option.split)

lemma append_members_set:
  "set (fold (\<lambda>x ms. appendConflictMember b ms (f x)) xs ms) \<subseteq> set ms \<union> (\<Union>x \<in> set xs. set_option (f x))"
  "distinct ms \<Longrightarrow> distinct (fold (\<lambda>x ms. appendConflictMember b ms (f x)) xs ms)"
proof (induction xs arbitrary: ms)
  case (Cons x xs)
  {
    case 1
    then show ?case using Cons.IH(1) [of "appendConflictMember b ms (f x)"] append_member_set(1) [of b ms "f x"]
      by auto
  next
    case 2
    then show ?case using Cons.IH(2) append_member_set(2) by simp
  }
qed simp_all

lemma current_members:
  "distinct (bc_members (currentBindingConflictState b records byRef)) \<and>
   set (bc_members (currentBindingConflictState b records byRef)) \<subseteq> (Peer \<circ> snd) ` set byRef"
proof -
  let ?member = "\<lambda>ref. map_option Peer (map_of byRef ref)"
  have known: "set_option (?member ref) \<subseteq> (Peer \<circ> snd) ` set byRef" for ref
    by (force dest: map_of_SomeD split: option.splits)
  let ?first = "appendConflictMember b [] (?member (binding_ref b))"
  have "distinct ?first" using append_member_set(2) [of "[]"] by simp
  moreover have "set ?first \<subseteq> (Peer \<circ> snd) ` set byRef"
    using append_member_set(1) [of b "[]" "?member (binding_ref b)"] known [of "binding_ref b"] by auto
  ultimately have members: "distinct ?first" "set ?first \<subseteq> (Peer \<circ> snd) ` set byRef" by auto
  let ?f = "\<lambda>c :: VariantConflict. ?member (k_PeerBindingRef c)"
  have "distinct (fold (\<lambda>c ms. appendConflictMember b ms (?f c)) cs ?first)" for cs
    by (rule append_members_set(2) [OF members(1)])
  moreover have "set (fold (\<lambda>c ms. appendConflictMember b ms (?f c)) cs ?first) \<subseteq> (Peer \<circ> snd) ` set byRef" for cs
    using append_members_set(1) [of b ?f cs ?first] members(2) known by blast
  ultimately show ?thesis unfolding currentBindingConflictState_def Let_def by simp
qed

lemma card_member_bound:
  assumes "distinct ms" "set ms \<subseteq> (Peer \<circ> snd) ` set byRef \<union> {Current} \<union> Peer ` set blocked"
  shows "length ms \<le> length byRef + length blocked + 1"
proof -
  let ?all = "map (Peer \<circ> snd) byRef @ Current # map Peer blocked"
  have "length ms = card (set ms)" using assms(1) by (simp add: distinct_card)
  also have "\<dots> \<le> card (set ?all)" by (rule card_mono) (use assms(2) in auto)
  also have "\<dots> \<le> length ?all" by (rule card_length)
  finally show ?thesis by simp
qed

lemma evaluated_members:
  assumes "st = currentBindingConflictState b records byRef"
  shows "length (bc_members st) \<le> length byRef + length blocked + 1"
    "length (fold (\<lambda>peer ms. appendConflictMember b ms (Some (Peer peer))) blocked
       (appendConflictMember b (bc_members st) (Some Current))) \<le> length byRef + length blocked + 1"
proof -
  have st: "distinct (bc_members st)" "set (bc_members st) \<subseteq> (Peer \<circ> snd) ` set byRef"
    using current_members assms by auto
  then show "length (bc_members st) \<le> length byRef + length blocked + 1"
    by (intro card_member_bound) auto
  let ?ms = "appendConflictMember b (bc_members st) (Some Current)"
  have "distinct ?ms" "set ?ms \<subseteq> set (bc_members st) \<union> {Current}"
    using append_member_set(2) [OF st(1)] append_member_set(1) [of b "bc_members st" "Some Current"] by auto
  then show "length (fold (\<lambda>peer ms. appendConflictMember b ms (Some (Peer peer))) blocked ?ms)
      \<le> length byRef + length blocked + 1"
    using append_members_set(2) [of ?ms b "\<lambda>peer. Some (Peer peer)" blocked]
      append_members_set(1) [of b "\<lambda>peer. Some (Peer peer)" blocked ?ms] st(2)
    by (intro card_member_bound) auto
qed

text \<open>What is left of the listed bindings' credit pays for the withdrawal.\<close>

lemma costs_evaluate:
  assumes "d = pool_types r + 9"
  shows "costs d (evaluateBindingConflicts r b p)
    (\<lambda>x. 6 - (case x of Inl _ \<Rightarrow> 0 | Inr st \<Rightarrow> 5 * int (length (bc_members st))))"
  unfolding evaluateBindingConflicts_def
proof (rule costs_bind [OF costs_ListBindings])
  fix listed :: "(binding list) result"
  show "costs d (case listed of Inl err \<Rightarrow> State_Monad.return (Inl err) | Inr items \<Rightarrow>
      evaluate_peers r b p items ([], [], []) \<bind> (\<lambda>evaluated. State_Monad.return (case evaluated of
         Inl err \<Rightarrow> Inl err
       | Inr (records, bindingsByRef, blockedMembers) \<Rightarrow>
           let state = currentBindingConflictState b records bindingsByRef in
           Inr (if length blockedMembers > 0
                then state\<lparr>bc_blocked := True, bc_members :=
                  fold (\<lambda>peer members. appendConflictMember b members (Some (Peer peer))) blockedMembers
                    (appendConflictMember b (bc_members state) (Some Current))\<rparr>
                else state))))
    (\<lambda>x. 6 - (case x of Inl _ \<Rightarrow> 0 | Inr st \<Rightarrow> 5 * int (length (bc_members st)))
       - (1 - (case listed of Inl _ \<Rightarrow> 0 | Inr items \<Rightarrow> int d * int (length items))))"
  proof (cases listed)
    case (Inr items)
    show ?thesis unfolding Inr sum.case
    proof (rule costs_bind [OF costs_peers], rule costs_return, goal_cases)
      case (1 evaluated)
      show ?case
      proof (cases evaluated)
        case (Inr x)
        obtain records byRef blocked where "x = (records, byRef, blocked)" by (cases x)
        with Inr evaluated_members [OF refl, where b = b and records = records and byRef = byRef and blocked = blocked]
        show ?thesis using assms by (auto simp: held_def Let_def algebra_simps)
      qed (simp add: held_def assms algebra_simps)
    qed
  qed (simp add: costs_return)
qed

lemma costs_cleanup_members: "costs d (cleanup_members r b ms)
    (\<lambda>x. 3 * int (length ms) + 2 * int (length ms) - (case snd x of Inl _ \<Rightarrow> 0 | Inr ms' \<Rightarrow> 2 * int (length ms')))"
proof (induction ms arbitrary: b)
  case (Cons m ms)
  note [costs_intro] = Cons.IH [THEN costs_bind]
  show ?case by (auto intro!: costs_intro simp: Let_def split: sum.split option.split)
qed (simp add: costs_return)

lemma costs_members_absent: "costs d (members_absent r b ms) (\<lambda>_. 2 * int (length ms))"
proof (induction ms arbitrary: b)
  case (Cons m ms)
  note [costs_intro] = Cons.IH [THEN costs_mono]
  show ?case by (auto intro!: costs_intro simp: Let_def split: sum.split)
qed (simp add: costs_return)

lemma costs_withdraw: "costs d (withdrawConflictOutputs r b ms) (\<lambda>_. 5 * int (length ms))"
  unfolding withdrawConflictOutputs_def
  by (rule costs_bind [OF costs_cleanup_members])
     (auto intro!: costs_intro costs_members_absent [THEN costs_mono] split: sum.split prod.split)

lemma costs_conflict:
  assumes "d = pool_types r + 9" "retries_within r n"
  shows "costs d (reconcileConflictState r b p) (\<lambda>x. if fst (snd x) then 10 + 2 * int n else 6)"
  unfolding reconcileConflictState_def
  by (rule costs_bind [OF costs_evaluate [OF assms(1)]])
     (auto intro!: costs_intro costs_withdraw [THEN costs_step] costs_fail_apply [OF assms(2), THEN costs_step]
        costs_patchStatus [OF assms(2), THEN costs_step] simp: Let_def split: sum.split prod.split option.split)

section \<open>The whole reconcile\<close>

lemma costs_delete_binding:
  assumes "retries_within r n"
  shows "costs d (reconcileDelete r b) (\<lambda>_. 9 + 2 * int n)"
  unfolding reconcileDelete_def
  by (auto intro!: costs_intro costs_bind costs_fail_apply [OF assms, THEN costs_step] split: sum.split prod.split option.split)

lemma costs_finalizer: "costs d (ensure_finalizer r b) (\<lambda>_. 1)"
  unfolding ensure_finalizer_def by (auto intro!: costs_intro)

lemma costs_compute: "costs d (computeDesiredState r b)
    (\<lambda>x. int (pool_types r) + 6 - (case x of Inl _ \<Rightarrow> 0 | Inr ps \<Rightarrow> 6 * int (length ps)))"
  unfolding computeDesiredState_def
  by (auto intro!: costs_intro costs_pool [THEN costs_step] split: sum.split)

lemma costs_state_error:
  assumes "retries_within r n"
  shows "costs d (publish_state_error r b se) (\<lambda>_. 10 + 2 * int n)"
  unfolding publish_state_error_def
  by (auto intro!: costs_intro costs_applyStateError [THEN costs_step] costs_fail_apply [OF assms, THEN costs_step]
      costs_patchStatus [OF assms, THEN costs_step] split: prod.split option.split)

lemma costs_apply_output:
  assumes "retries_within r n"
  shows "costs d (apply_output r b ps name) (\<lambda>_. 6 * int (length ps) + 10 + 2 * int n)"
  unfolding apply_output_def
  by (auto intro!: costs_intro costs_reconcileAll [THEN costs_step] costs_state_error [OF assms, THEN costs_mono]
      costs_fail_apply [OF assms, THEN costs_step] costs_patchStatus [OF assms, THEN costs_step]
      simp: Let_def split: sum.split prod.split option.split)

lemma costs_rendered:
  assumes "d = pool_types r + 9" "retries_within r n"
  shows "costs d (reconcile_rendered r b ps p) (\<lambda>_. 6 * int (length ps) + 22 + 2 * int n)"
  unfolding reconcile_rendered_def
  by (rule costs_bind [OF costs_conflict [OF assms]])
     (auto intro!: costs_intro costs_cleanupChanged [THEN costs_step] costs_apply_output [OF assms(2), THEN costs_mono]
      costs_fail_apply [OF assms(2), THEN costs_step] costs_patchStatus [OF assms(2), THEN costs_step]
      simp: Let_def split: sum.split prod.split option.split bool.split)

lemma costs_Reconcile:
  assumes "d = pool_types r + 9" "retries_within r n"
  shows "costs d (Reconcile r req) (\<lambda>_. int (pool_types r) + 30 + 2 * int n)"
  unfolding Reconcile_def
  by (auto intro!: costs_intro costs_finalizer [THEN costs_step] costs_compute [THEN costs_bind]
      costs_delete_binding [OF assms(2), THEN costs_mono] costs_state_error [OF assms(2), THEN costs_mono]
      costs_rendered [OF assms, THEN costs_mono] simp: Let_def split: sum.split option.split)

text \<open>
  C14: A reconcile always ends, and the number of calls and events it makes is linear in the
  number of bindings it was shown: with \<open>n\<close> retries granted to a status patch and \<open>p\<close>
  pool types to try, at most \<open>p + 2 * n + 30\<close> and \<open>p + 9\<close> more for every listed binding,
  whatever the API server answers.
\<close>
theorem Reconcile_linear:
  assumes "\<forall>t. conflict_retries (r_Client r) t \<le> n"
  shows "\<exists>new. snd (run_state (Reconcile r req) t) = new @ t \<and>
    length new \<le> length (resolvePoolGVKs r) + 2 * n + 30
      + (length (resolvePoolGVKs r) + 9) * sum_list (map listed_in new)"
proof -
  obtain x t' where run: "run_state (Reconcile r req) t = (x, t')" by fastforce
  let ?d = "pool_types r + 9"
  have "wp (Reconcile r req) (\<lambda>x t'. suffix t t' \<and> spent ?d t' \<le> spent ?d t + (int (pool_types r) + 30 + 2 * int n)) t"
    using costs_Reconcile [OF refl, of r n req] assms by (simp add: costs_def retries_within_def)
  then have "suffix t t'" and spent: "spent ?d t' \<le> spent ?d t + (int (pool_types r) + 30 + 2 * int n)"
    using run by (auto simp: wp_def)
  then obtain new where new: "t' = new @ t" by (auto simp: suffix_def)
  have "int (length new) \<le> int (pool_types r + 2 * n + 30 + ?d * sum_list (map listed_in new))"
    using spent by (simp add: new spent_def listed_def algebra_simps)
  then show ?thesis using run new by (auto simp: pool_types_def simp del: of_nat_add of_nat_mult of_nat_Suc of_nat_numeral)
qed

theorem Reconcile_linear_witness:
  "\<exists>new. snd (run_state (Reconcile (sample_reconciler (world deleting_binding (Some bare_object))) (NamespacedName ''ns'' ''b'')) [])
     = new @ [] \<and> length new \<le> 39 + 10 * sum_list (map listed_in new)"
  using Reconcile_linear [of "sample_reconciler (world deleting_binding (Some bare_object))" 4 "NamespacedName ''ns'' ''b''" "[]"]
  by (simp add: resolvePoolGVKs_def ResolvePoolGVKs_def InferencePoolGVKs_def inferencePoolGVKs_def)

end
