(* ===== verification/Quiescence.thy ===== *)
theory Quiescence
  imports Sample_Runs
begin

text \<open>
  Rest: once the output is in place and success is published, a further reconcile changes
  nothing. The first half shows that publishing success again yields the very same status,
  the second follows a reconcile of a settled binding.
\<close>

section \<open>Publishing success twice\<close>

text \<open>
  Setting a condition that is there already, with the same content, leaves the list as it
  is: the transition time moves only with the condition's status.
\<close>

definition stable_conditions_contract :: "ext \<Rightarrow> bool" where
  "stable_conditions_contract X =
     (\<forall>cs c d. FindStatusCondition X cs (c_Type c) = Some d \<and> same_condition c d \<longrightarrow>
        SetStatusCondition X cs c = cs)"

lemma setCondition_same:
  assumes "conditions_contract X" "stable_conditions_contract X" "cond X st t = Some (s, r, m, g)"
  shows "setCondition X g t s r m st = st"
proof -
  obtain d where d: "FindStatusCondition X (st_Conditions st) t = Some d"
    "c_Status d = s" "c_Reason d = r" "c_Message d = m" "c_ObservedGeneration d = g"
    using assms(3) by (auto simp: cond_def)
  moreover have "c_Type d = t" using assms(1) d(1) by (auto simp: conditions_contract_def)
  ultimately have "SetStatusCondition X (st_Conditions st) \<lparr>c_Type = t, c_Status = s, c_ObservedGeneration = g,
      c_LastTransitionTime = [], c_Reason = r, c_Message = m\<rparr> = st_Conditions st"
    using assms(2) unfolding stable_conditions_contract_def by (auto simp: same_condition_def)
  then show ?thesis by (simp add: setCondition_def)
qed

text \<open>The conditions of success, as they are read back.\<close>

definition success_conditions :: "(string \<times> string \<times> string \<times> string) list" where
  "success_conditions =
     [(conditionTypeReady, ConditionTrue, conditionReasonReconciled, ''Binding reconciled''),
      (conditionTypeInvalidRef, ConditionFalse, conditionReasonResolved, ''References are valid''),
      (conditionTypeUnsafeSelector, ConditionFalse, conditionReasonResolved, ''Selectors are safe''),
      (conditionTypeConflict, ConditionFalse, conditionReasonResolved, ''Variant is exclusive''),
      (conditionTypeRenderFailure, ConditionFalse, conditionReasonResolved, ''Rendering is healthy'')]"

definition successful :: "ext \<Rightarrow> int \<Rightarrow> status \<Rightarrow> bool" where
  "successful X g st = list_all (\<lambda>(t, s, r, m). cond X st t = Some (s, r, m, g)) success_conditions"

lemma applySuccessStatus_successful:
  "conditions_contract X \<Longrightarrow> successful X g (applySuccessStatus X st g ps ms)"
  by (simp add: successful_def success_conditions_def applySuccessStatus_def Let_def cond_setCondition ctrl_defs api_defs)

lemma initialize_condition_successful:
  assumes "conditions_contract X" "stable_conditions_contract X" "successful X g st" "entry \<in> set canonical_conditions"
  shows "initialize_condition X g entry st = st"
proof -
  from assms(3,4) obtain s r m where entry: "cond X st (fst entry) = Some (s, r, m, g)" and "TrimSpace r \<noteq> []" "TrimSpace m \<noteq> []"
    by (auto simp: successful_def success_conditions_def canonical_conditions_def ctrl_defs api_defs
        TrimSpace_plain plain_byte_def)
  moreover from entry obtain d where "FindStatusCondition X (st_Conditions st) (fst entry) = Some d"
    "c_Status d = s" "c_Reason d = r" "c_Message d = m" by (auto simp: cond_def)
  ultimately show ?thesis
    using setCondition_same [OF assms(1,2) entry] by (simp add: initialize_condition_def)
qed

lemma initializeConditions_successful:
  assumes "conditions_contract X" "stable_conditions_contract X" "successful X g st"
  shows "initializeConditions X st g = st"
proof -
  have "fold (initialize_condition X g) es st = st" if "set es \<subseteq> set canonical_conditions" for es
    using that initialize_condition_successful [OF assms] by (induction es) auto
  then show ?thesis by (simp add: initializeConditions_def)
qed

lemma applySuccessStatus_again:
  assumes "conditions_contract X" "stable_conditions_contract X" "st = applySuccessStatus X st0 g ps ms"
  shows "applySuccessStatus X st g ps ms = st"
proof -
  have conds: "successful X g st" using applySuccessStatus_successful assms(1,3) by simp
  have "st\<lparr>st_ComputedSpiffeIDs := map (\<lambda>p. \<lparr>cs_SpiffeID = p_SpiffeID p\<rparr>) ps,
      st_RenderedSelectors := map (\<lambda>p. \<lparr>rs_SpiffeID = p_SpiffeID p, rs_Selectors = p_Selectors p\<rparr>) ps,
      st_Conflicts := [], st_RenderedClusterSPIFFEID := (if length ms > 0 then Some (ms ! 0) else None)\<rparr> = st"
    unfolding assms(3) by (simp add: applySuccessStatus_def Let_def setCondition_def)
  then show ?thesis using conds
    by (simp add: applySuccessStatus_def Let_def successful_def success_conditions_def setCondition_same [OF assms(1,2)])
qed

section \<open>A settled binding\<close>

text \<open>
  The status of a settled binding is one that success publishes, under the operator's
  settings, with a confirmed record of the live output.
\<close>

definition settled :: "reconciler \<Rightarrow> binding \<Rightarrow> Plan \<Rightarrow> Unstructured \<Rightarrow> bool" where
  "settled r b plan live =
     (timestamp_is_zero (b_DeletionTimestamp b) \<and>
      ContainsFinalizer (r_Ext r) (b_Finalizers b) inferenceIdentityBindingFinalizer \<and>
      pending b = None \<and> owned b = Some \<lparr>own_Name = u_Name live, own_UID = u_UID live\<rparr> \<and>
      TrimSpace (u_Name live) \<noteq> [] \<and> u_UID live \<noteq> [] \<and>
      st_TrustDomain (b_Status b) = oc_TrustDomain (r_Config r) \<and>
      st_ClusterSPIFFEIDClassName (b_Status b) = oc_ClusterSPIFFEIDClassName (r_Config r) \<and>
      (\<exists>st. b_Status b = applySuccessStatus (r_Ext r) st (b_Generation b) [plan]
         [renderedClusterSPIFFEIDStatus plan live]))"

text \<open>Up to the rendered identity a settled binding is worked on as it was read.\<close>

lemma settled_start:
  assumes "conditions_contract (r_Ext r)" "stable_conditions_contract (r_Ext r)" "settled r b plan live"
  shows "b\<lparr>b_Status := applyOperatorConfig (initializeConditions (r_Ext r) (b_Status b) (b_Generation b)) (r_Config r)\<rparr> = b"
    "applySuccessStatus (r_Ext r) (b_Status b) (b_Generation b) [plan] [renderedClusterSPIFFEIDStatus plan live] = b_Status b"
proof -
  from assms(3) obtain st where st: "b_Status b = applySuccessStatus (r_Ext r) st (b_Generation b) [plan]
      [renderedClusterSPIFFEIDStatus plan live]" by (auto simp: settled_def)
  then have "successful (r_Ext r) (b_Generation b) (b_Status b)"
    using applySuccessStatus_successful [OF assms(1)] by simp
  then have "initializeConditions (r_Ext r) (b_Status b) (b_Generation b) = b_Status b"
    by (rule initializeConditions_successful [OF assms(1,2)])
  then show "b\<lparr>b_Status := applyOperatorConfig (initializeConditions (r_Ext r) (b_Status b) (b_Generation b)) (r_Config r)\<rparr> = b"
    using assms(3) by (simp add: settled_def applyOperatorConfig_def)
  show "applySuccessStatus (r_Ext r) (b_Status b) (b_Generation b) [plan] [renderedClusterSPIFFEIDStatus plan live] = b_Status b"
    by (rule applySuccessStatus_again [OF assms(1,2) st])
qed

lemma patchStatus_settled:
  assumes "\<And>t. get_binding (r_Client r) t (binding_ref b) = Inr b"
  shows "run_state (patchStatus r b) t = ((b, None), GetBindingEv (binding_ref b) (Inr b) # t)"
proof -
  have "run_state (patch_attempt r b) t = ((b, None), GetBindingEv (binding_ref b) (Inr b) # t)"
    using assms by (simp add: patch_attempt_def GetBinding_def Let_def)
  then show ?thesis by (cases "conflict_retries (r_Client r) t") (simp_all add: patchStatus_def)
qed

lemma reconcileClusterSPIFFEIDs_settled:
  assumes "settled r b plan live" "ClusterSPIFFEIDInSync (r_Ext r) live
      (DesiredClusterSPIFFEID b plan (oc_ClusterSPIFFEIDClassName (r_Config r)))"
    and "\<And>t. get_object (r_Client r) t clusterSPIFFEIDGVK (NamespacedName [] (u_Name live)) = Inr live"
  shows "run_state (reconcileClusterSPIFFEIDs r b [plan]) t =
    ((b, Inr [renderedClusterSPIFFEIDStatus plan live]),
     GetObjectEv clusterSPIFFEIDGVK (NamespacedName [] (u_Name live)) (Inr live) # t)"
proof -
  have "u_Name live \<noteq> []" using assms(1) by (auto simp: settled_def)
  then show ?thesis using assms
    by (simp add: settled_def reconcileClusterSPIFFEID_def observeManagedClusterSPIFFEID_def
        managedOutputRecordFromStatus_def GetObject_def Let_def classifyManagedClusterSPIFFEID_def
        classifyConfirmedOutput_def authorizeManagedOutputApply_def updateManagedClusterSPIFFEID_def)
qed

fun is_write :: "event \<Rightarrow> bool" where
  "is_write (UpdateBindingEv _ _) = True"
| "is_write (PatchStatusEv _ _ _) = True"
| "is_write (CreateEv _ _) = True"
| "is_write (UpdateEv _ _) = True"
| "is_write (DeleteEv _ _ _) = True"
| "is_write _ = False"

lemma quiet_report:
  "\<exists>new. run_state (recordTerminalOutcome r b) t = ((), new @ t) \<and> list_all (\<lambda>e. \<not> is_write e) new"
  "\<exists>new. run_state (recordEventf r b ty reason message) t = ((), new @ t) \<and> list_all (\<lambda>e. \<not> is_write e) new"
  by (auto simp: recordTerminalOutcome_def RecordTerminalOutcome_def recordEventf_def split: option.split)

lemma apply_output_settled:
  assumes "conditions_contract (r_Ext r)" "stable_conditions_contract (r_Ext r)" "settled r b plan live"
    and "ClusterSPIFFEIDInSync (r_Ext r) live (DesiredClusterSPIFFEID b plan (oc_ClusterSPIFFEIDClassName (r_Config r)))"
    and "\<And>t. get_object (r_Client r) t clusterSPIFFEIDGVK (NamespacedName [] (u_Name live)) = Inr live"
    and "\<And>t. get_binding (r_Client r) t (binding_ref b) = Inr b"
  shows "\<exists>new. run_state (apply_output r b [plan] name) t = ((0, None), new @ t) \<and> list_all (\<lambda>e. \<not> is_write e) new"
proof -
  let ?t1 = "GetBindingEv (binding_ref b) (Inr b) # GetObjectEv clusterSPIFFEIDGVK (NamespacedName [] (u_Name live)) (Inr live) # t"
  obtain n1 where n1: "run_state (recordTerminalOutcome r b) ?t1 = ((), n1 @ ?t1)" "list_all (\<lambda>e. \<not> is_write e) n1"
    using quiet_report(1) by blast
  obtain n2 where n2: "run_state (recordEventf r b EventTypeNormal conditionReasonReconciled
        (''reconciled ClusterSPIFFEID '' @ Quote (r_Ext r) name)) (n1 @ ?t1) = ((), n2 @ n1 @ ?t1)"
      "list_all (\<lambda>e. \<not> is_write e) n2"
    using quiet_report(2) by blast
  have "run_state (apply_output r b [plan] name) t = ((0, None), n2 @ n1 @ ?t1)"
    using n1(1) n2(1)
    by (simp add: apply_output_def reconcileClusterSPIFFEIDs_settled [OF assms(3-5)] settled_start(2) [OF assms(1-3)]
        patchStatus_settled [OF assms(6)] del: reconcileClusterSPIFFEIDs.simps)
  then show ?thesis using n1(2) n2(2)
    by (intro exI [of _ "n2 @ n1 @ take 2 ?t1"]) simp
qed

text \<open>
  C13: A settled binding is left alone. When the status already says what success publishes,
  the recorded output is live and in sync under the wanted name, and the conflict check
  reports nothing, the reconcile succeeds without a requeue and, after the conflict check,
  neither writes an object nor patches a status.
\<close>
theorem Reconcile_quiescent:
  assumes "conditions_contract (r_Ext r)" "stable_conditions_contract (r_Ext r)" "settled r b plan live"
    and "ClusterSPIFFEIDInSync (r_Ext r) live (DesiredClusterSPIFFEID b plan (oc_ClusterSPIFFEIDClassName (r_Config r)))"
    and "u_Name live = u_Name (DesiredClusterSPIFFEID b plan (oc_ClusterSPIFFEIDClassName (r_Config r)))"
    and "\<forall>t. get_object (r_Client r) t clusterSPIFFEIDGVK (NamespacedName [] (u_Name live)) = Inr live"
    and "\<forall>t. get_binding (r_Client r) t (binding_ref b) = Inr b"
    and "bindingIdentityVariant (r_Ext r) b = None"
    and "run_state (computeDesiredState r b) (GetBindingEv (binding_ref b) (Inr b) # t) = (Inr [plan], t1)"
    and "run_state (evaluateBindingConflicts r b plan) t1 = (Inr state, t2)"
    and "bc_conflicts state = []" "\<not> bc_blocked state"
  shows "\<exists>new. run_state (Reconcile r (binding_ref b)) t = ((0, None), new @ t2) \<and>
    list_all (\<lambda>e. \<not> is_write e) new"
proof -
  note start = settled_start(1) [OF assms(1-3)]
  let ?name = "u_Name (DesiredClusterSPIFFEID b plan (oc_ClusterSPIFFEIDClassName (r_Config r)))"
  have "run_state (reconcileConflictState r b plan) t1 = ((b, False, 0, None), t2)"
    using assms(10-12) by (simp add: reconcileConflictState_def)
  moreover have "cleanupChangedClusterSPIFFEIDName r b ?name = State_Monad.return (b, Inr False)"
    using assms(3,5) by (simp add: settled_def cleanupChangedClusterSPIFFEIDName_def recordedClusterSPIFFEIDName_def)
  ultimately have "run_state (reconcile_rendered r b [plan] plan) t1 = run_state (apply_output r b [plan] ?name) t2"
    by (simp add: reconcile_rendered_def)
  then have "run_state (Reconcile r (binding_ref b)) t = run_state (apply_output r b [plan] ?name) t2"
    using assms(3,7-9) start
    by (simp add: Reconcile_def GetBinding_def settled_def ensure_finalizer_def Let_def)
  moreover obtain new where "run_state (apply_output r b [plan] ?name) t2 = ((0, None), new @ t2)"
      "list_all (\<lambda>e. \<not> is_write e) new"
    using apply_output_settled [OF assms(1-4), of ?name t2] assms(6,7) by auto
  ultimately show ?thesis by auto
qed

definition settled_object :: Unstructured where
  "settled_object = (DesiredClusterSPIFFEID sample_binding (sample_plan ''a'') [])\<lparr>u_UID := ''u1'', u_Generation := 1\<rparr>"

definition settled_binding :: binding where
  "settled_binding = (working_binding sample_owned)\<lparr>b_Status := applySuccessStatus ref_ext
     (b_Status (working_binding sample_owned)) 1 [sample_plan ''a''] [renderedClusterSPIFFEIDStatus (sample_plan ''a'') settled_object]\<rparr>"

lemma ref_ext_stable: "stable_conditions_contract ref_ext"
proof -
  have "ref_find_condition cs (c_Type c) = Some d \<Longrightarrow> same_condition c d \<Longrightarrow> ref_set_condition cs c = cs" for cs c d
    by (induction cs) (auto simp: same_condition_def intro: Condition.equality)
  then show ?thesis by (auto simp: stable_conditions_contract_def ref_ext_def)
qed

lemma settled_binding_simps [simp]:
  "pending settled_binding = None" "owned settled_binding = sample_owned"
  "b_DeletionTimestamp settled_binding = None" "b_Generation settled_binding = 1"
  "b_Finalizers settled_binding = [inferenceIdentityBindingFinalizer]"
  "b_Namespace settled_binding = ''ns''" "b_Name settled_binding = ''b''"
  "b_Spec settled_binding = b_Spec sample_binding" "binding_ref settled_binding = NamespacedName ''ns'' ''b''"
  by (simp_all add: settled_binding_def binding_ref_def applySuccessStatus_def Let_def)
     (simp add: working_binding_def)

lemma settled_object_simps [simp]: "u_Name settled_object = sample_name" "u_UID settled_object = ''u1''"
  by (simp_all add: settled_object_def sample_binding_def)

text \<open>A server at rest: its answers do not depend on the history.\<close>

definition still_world :: api where
  "still_world = (world settled_binding (Some settled_object))\<lparr>get_object :=
     (\<lambda>_ gvk _. if gvk = clusterSPIFFEIDGVK then Inr settled_object else Inr sample_pool)\<rparr>"

lemma still_world_simps [simp]:
  "get_object still_world t gvk key = (if gvk = clusterSPIFFEIDGVK then Inr settled_object else Inr sample_pool)"
  "get_binding still_world t key = Inr settled_binding" "list_bindings still_world t options = Inr [settled_binding]"
  by (simp_all add: still_world_def)

lemma settled_sample: "settled (sample_reconciler still_world) settled_binding
    (sample_plan ''a'') settled_object"
proof -
  have "\<exists>st. b_Status settled_binding = applySuccessStatus ref_ext st 1 [sample_plan ''a'']
      [renderedClusterSPIFFEIDStatus (sample_plan ''a'') settled_object]"
    by (intro exI [of _ "b_Status (working_binding sample_owned)"]) (simp add: settled_binding_def)
  moreover have "st_TrustDomain (b_Status settled_binding) = ''td''" "st_ClusterSPIFFEIDClassName (b_Status settled_binding) = []"
    by (simp_all add: settled_binding_def applySuccessStatus_def Let_def working_binding_def applyOperatorConfig_def)
  ultimately show ?thesis by (simp add: settled_def timestamp_is_zero_def)
qed

lemma in_sync_sample:
  "ClusterSPIFFEIDInSync ref_ext settled_object (DesiredClusterSPIFFEID settled_binding (sample_plan ''a'') [])"
proof -
  have same: "DesiredClusterSPIFFEID settled_binding (sample_plan ''a'') [] = DesiredClusterSPIFFEID sample_binding (sample_plan ''a'') []"
    by (simp add: DesiredClusterSPIFFEID_def desired_spec_def ManagedClusterSPIFFEIDLabels_def sample_binding_def
        BuildClusterSPIFFEIDHint_def)
  have "DeepEqual (JObject (desired_spec sample_binding (sample_plan ''a'') [])) (JObject (desired_spec sample_binding (sample_plan ''a'') []))"
    by (rule DeepEqual_refl [OF desired_spec_wf]) (simp add: sample_plan_def)
  then show ?thesis unfolding same
    by (simp add: ClusterSPIFFEIDInSync_def settled_object_def nested_map_desired spec_equal_def
        del: DeepEqual.simps) (simp add: DesiredClusterSPIFFEID_def ManagedClusterSPIFFEIDLabels_def map_index_def
        ManagedByLabelKey_def BindingNameLabelKey_def BindingNamespaceLabelKey_def)
qed

theorem Reconcile_quiescent_witness:
  "\<exists>new. run_state (Reconcile (sample_reconciler still_world) (NamespacedName ''ns'' ''b'')) []
     = ((0, None), new @ [ListBindingsEv [InNamespace ''ns''] (Inr [settled_binding]),
     GetObjectEv pool_gvk (NamespacedName ''ns'' ''p'') (Inr sample_pool),
     GetBindingEv (NamespacedName ''ns'' ''b'') (Inr settled_binding)]) \<and> list_all (\<lambda>e. \<not> is_write e) new"
proof -
  let ?r = "sample_reconciler still_world"
  let ?t = "[GetObjectEv pool_gvk (NamespacedName ''ns'' ''p'') (Inr sample_pool),
     GetBindingEv (NamespacedName ''ns'' ''b'') (Inr settled_binding)]"
  have "run_state (computeDesiredState ?r settled_binding) [GetBindingEv (NamespacedName ''ns'' ''b'') (Inr settled_binding)]
      = (Inr [sample_plan ''a''], ?t)"
    by (simp add: computeDesiredState_def api_calls sample_pool_ref resolveInferencePool_def ResolveInferencePool_def
        resolvePoolGVKs_def pool_candidates sample_rendered)
  moreover have "run_state (evaluateBindingConflicts ?r settled_binding (sample_plan ''a'')) ?t
      = (Inr \<lparr>bc_conflicts = [], bc_members = [], bc_blocked = False\<rparr>,
         ListBindingsEv [InNamespace ''ns''] (Inr [settled_binding]) # ?t)"
    by (simp add: evaluateBindingConflicts_def api_calls identityForConflictEvaluation_def timestamp_is_zero_def
        render_peer_def same_key_def currentBindingConflictState_def EvaluateVariantConflicts_def Let_def)
  ultimately show ?thesis
    using Reconcile_quiescent [OF _ _ settled_sample, of "[]" ?t "\<lparr>bc_conflicts = [], bc_members = [], bc_blocked = False\<rparr>"]
      in_sync_sample by (simp add: ref_ext_stable sample_variant_ok)
qed

end
