(* ===== verification/Provenance.thy ===== *)
theory Provenance
  imports Sample_Runs
begin

text \<open>
  What the operator touches over its whole life. A history of the operator is made of any
  number of reconciles, one after the other, each starting from the history so far; what
  other clients do in between shows in the replies. When ownership records are written by
  the operator alone, every object it deletes or updates can be traced back to a creation
  of its own.
\<close>

section \<open>Histories of the operator\<close>

inductive operator_run :: "reconciler \<Rightarrow> trace \<Rightarrow> bool" for r :: reconciler where
  start: "operator_run r []"
| reconcile: "operator_run r t \<Longrightarrow> run_state (Reconcile r req) t = (res, t') \<Longrightarrow> operator_run r t'"

inductive_cases operator_runE: "operator_run r t"

lemma operator_run_authorized:
  assumes "finalizer_contract (r_Ext r)" "operator_run r t"
  shows "safe_extension [] t"
  using assms(2)
proof (induction rule: operator_run.induct)
  case (reconcile t req res t')
  have "wp (Reconcile r req) (\<lambda>x t'. safe_extension t t') t"
    by (rule Reconcile_wp [OF assms(1)])
  from wp_run [OF this reconcile.hyps(2)] reconcile.IH show ?case by (blast intro: extends_trans)
qed simp

section \<open>What the environment is trusted with\<close>

text \<open>
  Ownership records are written by the operator alone: whatever record a reply shows was
  put there by a patch of the history, be it one whose reply was an error, or is empty.
\<close>

definition stored :: "trace \<Rightarrow> ownership \<Rightarrow> bool" where
  "stored t s = (s = (None, None) \<or>
     (\<exists>base target reply. PatchStatusEv base target reply \<in> set t \<and> ownership_of target = s))"

definition statuses_kept :: "trace \<Rightarrow> bool" where
  "statuses_kept t = (\<forall>later e earlier. t = later @ e # earlier \<longrightarrow>
     (\<forall>b \<in> set (shown_bindings e). stored (e # earlier) (ownership_of b)))"

text \<open>
  Claims cannot be guessed: an object that carries an identifier the operator generated was
  created with it by the operator, be it in a call whose reply was an error.
\<close>

definition claims_unforged :: "trace \<Rightarrow> bool" where
  "claims_unforged t = (\<forall>later gvk key u earlier. t = later @ GetObjectEv gvk key (Inr u) # earlier \<longrightarrow>
     NewUUIDEv (ClusterSPIFFEIDOwnershipClaim u) \<in> set earlier \<longrightarrow>
     (\<exists>d reply. CreateEv d reply \<in> set earlier \<and>
        ClusterSPIFFEIDOwnershipClaim d = ClusterSPIFFEIDOwnershipClaim u))"

section \<open>Origins\<close>

text \<open>
  The origin of a record: a pending claim was generated, and an owned object was created by
  the operator under such a claim, its UID being the one the creation returned or that of
  the object read back with the claim.
\<close>

fun origin :: "trace \<Rightarrow> ownership \<Rightarrow> bool" where
  "origin t (Some p, None) = (NewUUIDEv (pend_ClaimID p) \<in> set t)"
| "origin t (None, Some own) = (\<exists>claim d reply u. NewUUIDEv claim \<in> set t \<and> CreateEv d reply \<in> set t \<and>
     ClusterSPIFFEIDOwnershipClaim d = claim \<and> u_Name u = own_Name own \<and> u_UID u = own_UID own \<and>
     (reply = Inr u \<or> (\<exists>gvk key. GetObjectEv gvk key (Inr u) \<in> set t \<and> ClusterSPIFFEIDOwnershipClaim u = claim)))"
| "origin t (None, None) = True"
| "origin t (Some p, Some own) = False"

lemma origin_mono: "origin t s \<Longrightarrow> set t \<subseteq> set t' \<Longrightarrow> origin t' s"
  by (induction t s rule: origin.induct) (simp_all, blast+)

lemma ownership_step_origin:
  assumes "ownership_step past s s'" "origin past s" "claims_unforged past"
  shows "origin past s'"
  using assms
proof (induction rule: ownership_step.induct)
  case (confirm_live u p key past)
  then have "NewUUIDEv (pend_ClaimID p) \<in> set past" by simp
  with confirm_live(2,5) obtain d reply where "CreateEv d reply \<in> set past"
    "ClusterSPIFFEIDOwnershipClaim d = ClusterSPIFFEIDOwnershipClaim u"
    unfolding claims_unforged_def by (metis append_Nil)
  with confirm_live show ?case by fastforce
qed auto

lemma recorded_origin:
  assumes "safe_extension [] t" "statuses_kept t" "claims_unforged t"
  shows "t = later @ earlier \<Longrightarrow> recorded earlier s \<Longrightarrow> origin earlier s"
proof (induction "length earlier" arbitrary: later earlier s rule: less_induct)
  case less
  from less.prems(2) obtain e b where e: "e \<in> set earlier" "b \<in> set (shown_bindings e)" "ownership_of b = s"
    by (auto simp: recorded_def)
  then obtain l1 p1 where p1: "earlier = l1 @ e # p1" by (meson split_list)
  with less.prems(1) e assms(2) have "stored (e # p1) s" unfolding statuses_kept_def by (metis append_assoc)
  show ?case
  proof (cases "s = (None, None)")
    case False
    with \<open>stored (e # p1) s\<close> obtain base target reply where
      patch: "PatchStatusEv base target reply \<in> set (e # p1)" "ownership_of target = s"
      by (auto simp: stored_def)
    then obtain l2 p2 where p2: "e # p1 = l2 @ PatchStatusEv base target reply # p2" by (meson split_list)
    have t: "t = (later @ l1 @ l2) @ PatchStatusEv base target reply # p2"
      using less.prems(1) p1 p2 by simp
    then have "authorized (PatchStatusEv base target reply) p2"
      using extends_event [OF assms(1), of "later @ l1 @ l2" _ p2] by simp
    then have step: "ownership_step p2 (ownership_of base) s" and base: "recorded p2 (ownership_of base)"
      using patch(2) by auto
    have shorter: "length p2 < length earlier"
      using arg_cong [OF p1, of length] arg_cong [OF p2, of length] by simp
    have "t = (later @ l1 @ l2 @ [PatchStatusEv base target reply]) @ p2" using t by simp
    from less.hyps [OF shorter this base] have "origin p2 (ownership_of base)" .
    moreover have "claims_unforged p2" using assms(3) unfolding claims_unforged_def t
      by (metis append.assoc append_Cons)
    ultimately have "origin p2 s" by (rule ownership_step_origin [OF step])
    moreover have "set p2 \<subseteq> set earlier" using p1 p2 by (metis Un_upper2 set_append set_subset_Cons subset_trans)
    ultimately show ?thesis by (rule origin_mono)
  qed simp
qed

text \<open>
  C6: The operator touches only what it created. In any history of the operator, with
  ownership records written by the operator alone and claims that cannot be guessed, an
  object is deleted or updated only if an earlier call of the operator created it: under a
  claim generated for it, and with the UID and name that this creation returned or that
  the object had when it was read back with the claim.
\<close>
theorem only_own_output_touched:
  assumes "finalizer_contract (r_Ext r)" "operator_run r t" "statuses_kept t" "claims_unforged t"
    and "t = later @ e # earlier" "e = DeleteEv object uid reply \<or> e = UpdateEv object reply'"
  shows "\<exists>claim d answer u. NewUUIDEv claim \<in> set earlier \<and> CreateEv d answer \<in> set earlier \<and>
    ClusterSPIFFEIDOwnershipClaim d = claim \<and> u_Name u = u_Name object \<and> u_UID u = u_UID object \<and>
    (answer = Inr u \<or> (\<exists>gvk key. GetObjectEv gvk key (Inr u) \<in> set earlier \<and> ClusterSPIFFEIDOwnershipClaim u = claim))"
proof -
  note safe = operator_run_authorized [OF assms(1,2)]
  have "authorized e earlier" using extends_event [OF safe, of later e earlier] assms(5) by simp
  then have "recorded earlier (None, Some \<lparr>own_Name = u_Name object, own_UID = u_UID object\<rparr>)"
    using assms(6) by auto
  from recorded_origin [OF safe assms(3,4) _ this, of "later @ [e]"] assms(5) show ?thesis by simp
qed

section \<open>A life cycle\<close>

text \<open>
  A server on which a binding is created, served, and marked for deletion once the operator
  has reported success, and a history of two reconciles on it.
\<close>

fun is_create :: "event \<Rightarrow> bool" where
  "is_create (CreateEv _ _) = True"
| "is_create _ = False"

fun is_report :: "event \<Rightarrow> bool" where
  "is_report (RecordedEv _ _ _ _) = True"
| "is_report _ = False"

abbreviation life_owned :: "OwnedClusterSPIFFEIDStatus option" where
  "life_owned \<equiv> Some \<lparr>own_Name = sample_name, own_UID = ''uid''\<rparr>"

definition leaving_binding :: binding where
  "leaving_binding = (ready_binding life_owned)\<lparr>b_DeletionTimestamp := Some 1\<rparr>"

definition life_binding :: "trace \<Rightarrow> binding" where
  "life_binding t = (if list_ex is_report t then leaving_binding
     else if list_ex is_create t then ready_binding life_owned else ready_binding None)"

definition life_object :: Unstructured where
  "life_object = claimed_object\<lparr>u_UID := ''uid'', u_Generation := 1\<rparr>"

definition life :: api where
  "life = (world sample_binding None)\<lparr>
     get_binding := (\<lambda>t _. Inr (life_binding t)), list_bindings := (\<lambda>t _. Inr [life_binding t]),
     get_object := (\<lambda>t gvk _. if gvk \<noteq> clusterSPIFFEIDGVK then Inr sample_pool
       else if list_ex is_delete t \<or> \<not> list_ex is_create t then Inl (ApiError NotFound ''absent'')
       else Inr life_object)\<rparr>"

lemma life_simps [simp]:
  "get_binding life t key = Inr (life_binding t)" "list_bindings life t opts = Inr [life_binding t]"
  "get_object life t gvk key = (if gvk \<noteq> clusterSPIFFEIDGVK then Inr sample_pool
       else if list_ex is_delete t \<or> \<not> list_ex is_create t then Inl (ApiError NotFound ''absent'')
       else Inr life_object)"
  "create_object life t u = Inr (u\<lparr>u_UID := ''uid'', u_Generation := 1\<rparr>)"
  "patch_status life t base target = Inr target" "update_binding life t b = Inr b"
  "delete_object life t u uid = Inr ()" "new_uuid life t = ''claim''" "conflict_retries life t = 0"
  by (simp_all add: life_def)

definition confirmed_binding :: binding where
  "confirmed_binding = claimed_binding\<lparr>b_Status := claimed_status\<lparr>st_PendingClusterSPIFFEID := None,
     st_OwnedClusterSPIFFEID := life_owned\<rparr>\<rparr>"

lemma life_to_rendered:
  "run_state (Reconcile (sample_reconciler life) (NamespacedName ''ns'' ''b'')) [] =
    run_state (reconcile_rendered (sample_reconciler life) (working_binding None) [sample_plan ''a''] (sample_plan ''a''))
      (tl (resolved_prefix None))"
  by (rule Reconcile_to_rendered_at) (simp_all add: life_binding_def)

lemma life_no_conflict:
  "run_state (reconcileConflictState (sample_reconciler life) (working_binding None) (sample_plan ''a'')) (tl (resolved_prefix None))
    = ((working_binding None, False, 0, None), resolved_prefix None)"
  by (rule no_conflict_run_at) (simp add: life_binding_def resolved_prefix_def)

lemma claim_keeps_name [simp]: "u_Name (SetClusterSPIFFEIDOwnershipClaim u c) = u_Name u"
  by (simp add: SetClusterSPIFFEIDOwnershipClaim_def)

lemma life_create:
  "run_state (reconcileClusterSPIFFEIDs (sample_reconciler life) (working_binding None) [sample_plan ''a'']) (resolved_prefix None) =
    ((confirmed_binding, Inr [renderedClusterSPIFFEIDStatus (sample_plan ''a'') life_object]),
     [PatchStatusEv claimed_binding confirmed_binding (Inr confirmed_binding), CreateEv claimed_object (Inr life_object)] @ claimed_prefix)"
  by (simp add: run_defs apply_run_defs confirmClusterSPIFFEIDOwnership_def resolved_prefix_def)
   (simp add: claimed_prefix_def claimed_binding_def claimed_status_def claimed_object_def resolved_prefix_def
    confirmed_binding_def life_object_def)

definition served_binding :: binding where
  "served_binding = (ready_binding life_owned)\<lparr>b_Status := applySuccessStatus ref_ext (b_Status confirmed_binding) 1
     [sample_plan ''a''] [renderedClusterSPIFFEIDStatus (sample_plan ''a'') life_object]\<rparr>"

lemma confirmed_binding_simps [simp]:
  "pending confirmed_binding = None" "owned confirmed_binding = life_owned" "b_Generation confirmed_binding = 1"
  "binding_ref confirmed_binding = NamespacedName ''ns'' ''b''"
  by (simp_all add: confirmed_binding_def claimed_binding_def binding_ref_def)

lemma served_binding_simps [simp]: "pending served_binding = None" "owned served_binding = life_owned"
  by (simp_all add: served_binding_def applySuccessStatus_def Let_def)

lemma served_status: "st_ComputedSpiffeIDs (b_Status served_binding) \<noteq> st_ComputedSpiffeIDs (b_Status (ready_binding own))"
  by (simp add: served_binding_def applySuccessStatus_def Let_def ready_binding_def sample_binding_def)

lemma life_patch:
  assumes "life_binding t = ready_binding life_owned"
  shows "\<exists>b. run_state (patchStatus (sample_reconciler life) (confirmed_binding\<lparr>b_Status := b_Status served_binding\<rparr>)) t =
   ((b, None), [PatchStatusEv (ready_binding life_owned) served_binding (Inr served_binding),
     GetBindingEv (NamespacedName ''ns'' ''b'') (Inr (ready_binding life_owned))] @ t)"
proof -
  have "(ready_binding life_owned)\<lparr>b_Status := (b_Status served_binding)\<lparr>st_PendingClusterSPIFFEID := None,
      st_OwnedClusterSPIFFEID := life_owned\<rparr>\<rparr> = served_binding"
    by (cases "b_Status served_binding") (use served_binding_simps in \<open>simp add: served_binding_def\<close>)
  moreover have "b_Status (ready_binding life_owned) \<noteq> b_Status served_binding"
    using served_status [of life_owned] by metis
  ultimately show ?thesis using assms
    by (auto simp: patchStatus_def patch_attempt_def GetBinding_def PatchStatus_def Let_def binding_ref_def
        confirmed_binding_def claimed_binding_def)
qed

definition served_prefix :: trace where
  "served_prefix = [PatchStatusEv (ready_binding life_owned) served_binding (Inr served_binding),
     GetBindingEv (NamespacedName ''ns'' ''b'') (Inr (ready_binding life_owned)),
     PatchStatusEv claimed_binding confirmed_binding (Inr confirmed_binding), CreateEv claimed_object (Inr life_object)]
     @ claimed_prefix"

fun is_note :: "event \<Rightarrow> bool" where
  "is_note (OutcomeEv _ _) = True"
| "is_note (RecordedEv _ _ _ _) = True"
| "is_note _ = False"

lemma outcome_report: "\<exists>new. run_state (recordTerminalOutcome r b) t = ((), new @ t) \<and> list_all is_note new"
  by (auto simp: recordTerminalOutcome_def RecordTerminalOutcome_def split: option.split)

lemma life_first:
  "\<exists>report. run_state (Reconcile (sample_reconciler life) (NamespacedName ''ns'' ''b'')) [] =
     ((0, None), report @ served_prefix) \<and> list_ex is_report report \<and> list_all is_note report"
proof -
  let ?r = "sample_reconciler life"
  let ?t = "[PatchStatusEv claimed_binding confirmed_binding (Inr confirmed_binding), CreateEv claimed_object (Inr life_object)] @ claimed_prefix"
  have "life_binding ?t = ready_binding life_owned"
    by (simp add: life_binding_def claimed_prefix_def resolved_prefix_def)
  from life_patch [OF this] obtain b where
    b: "run_state (patchStatus ?r (confirmed_binding\<lparr>b_Status := b_Status served_binding\<rparr>)) ?t = ((b, None), served_prefix)"
    by (auto simp: served_prefix_def)
  obtain new where new: "run_state (recordTerminalOutcome ?r b) served_prefix = ((), new @ served_prefix)"
    "list_all is_note new" using outcome_report by blast
  have status: "applySuccessStatus ref_ext (b_Status confirmed_binding) 1 [sample_plan ''a'']
      [renderedClusterSPIFFEIDStatus (sample_plan ''a'') life_object] = b_Status served_binding"
    by (simp add: served_binding_def)
  have "\<exists>report. run_state (apply_output ?r (working_binding None) [sample_plan ''a''] sample_name) (resolved_prefix None) =
      ((0, None), report # new @ served_prefix) \<and> is_report report \<and> is_note report"
    unfolding apply_output_def run_bind life_create prod.case sum.case Let_def
    using b new(1) by (simp add: status recordEventf_def)
  then obtain report where "run_state (apply_output ?r (working_binding None) [sample_plan ''a''] sample_name) (resolved_prefix None) =
      ((0, None), report # new @ served_prefix)" "is_report report" "is_note report" by blast
  with new(2) show ?thesis unfolding life_to_rendered reconcile_rendered_def
    by (intro exI [of _ "report # new"])
       (simp add: life_no_conflict cleanupChangedClusterSPIFFEIDName_def recordedClusterSPIFFEIDName_def)
qed

lemma leaving_binding_simps [simp]:
  "pending leaving_binding = None" "owned leaving_binding = life_owned" "b_DeletionTimestamp leaving_binding = Some 1"
  "b_Finalizers leaving_binding = [inferenceIdentityBindingFinalizer]"
  by (simp_all add: leaving_binding_def)

definition left_binding :: binding where
  "left_binding = leaving_binding\<lparr>b_Status := (b_Status leaving_binding)\<lparr>st_PendingClusterSPIFFEID := None, st_OwnedClusterSPIFFEID := None\<rparr>\<rparr>"

definition life_events :: trace where
  "life_events = [PatchStatusEv leaving_binding left_binding (Inr left_binding),
     GetObjectEv clusterSPIFFEIDGVK (csid_key sample_name) (Inl (ApiError NotFound ''absent'')),
     DeleteEv life_object ''uid'' (Inr ()), GetObjectEv clusterSPIFFEIDGVK (csid_key sample_name) (Inr life_object),
     GetBindingEv (NamespacedName ''ns'' ''b'') (Inr leaving_binding)]"

lemma life_second:
  assumes "list_ex is_report t" "list_ex is_create t" "\<not> list_ex is_delete t"
  shows "\<exists>b. run_state (Reconcile (sample_reconciler life) (NamespacedName ''ns'' ''b'')) t =
     ((0, None), UpdateBindingEv b (Inr b) # life_events @ t) \<and> ownership_of b = (None, None)"
  using assms
  by (simp add: Reconcile_def reconcileDelete_def run_defs life_binding_def life_object_def claimed_object_def
      life_events_def left_binding_def ownership_of_def)

text \<open>Both contracts, event by event.\<close>

lemma statuses_kept_Nil [simp]: "statuses_kept []"
  by (simp add: statuses_kept_def)

lemma statuses_kept_Cons [simp]:
  "statuses_kept (e # t) = ((\<forall>b \<in> set (shown_bindings e). stored (e # t) (ownership_of b)) \<and> statuses_kept t)"
  unfolding statuses_kept_def by (auto simp: Cons_eq_append_conv)

lemma claims_unforged_Nil [simp]: "claims_unforged []"
  by (simp add: claims_unforged_def)

lemma claims_unforged_Cons [simp]:
  "claims_unforged (e # t) = ((case e of
      GetObjectEv gvk key (Inr u) \<Rightarrow> NewUUIDEv (ClusterSPIFFEIDOwnershipClaim u) \<in> set t \<longrightarrow>
        (\<exists>d reply. CreateEv d reply \<in> set t \<and> ClusterSPIFFEIDOwnershipClaim d = ClusterSPIFFEIDOwnershipClaim u)
    | _ \<Rightarrow> True) \<and> claims_unforged t)"
  unfolding claims_unforged_def by (auto simp: Cons_eq_append_conv split: event.split sum.split)

lemma stored_Nil [simp]: "stored [] s = (s = (None, None))"
  by (simp add: stored_def)

lemma stored_Cons [simp]:
  "stored (e # t) s = ((case e of PatchStatusEv base target reply \<Rightarrow> ownership_of target = s | _ \<Rightarrow> False) \<or> stored t s)"
  by (auto simp: stored_def split: event.split)

lemma contracts_notes:
  assumes "list_all is_note new"
  shows "statuses_kept (new @ t) = statuses_kept t" "claims_unforged (new @ t) = claims_unforged t"
    "list_ex is_create (new @ t) = list_ex is_create t" "list_ex is_delete (new @ t) = list_ex is_delete t"
    "stored (new @ t) s = stored t s"
  using assms by (induction new) (auto elim!: is_note.elims)

definition life_history :: "binding \<Rightarrow> trace \<Rightarrow> trace" where
  "life_history b report = UpdateBindingEv b (Inr b) # life_events @ report @ served_prefix"

lemma life_ownership [simp]:
  "ownership_of (ready_binding own) = (None, own)" "ownership_of leaving_binding = (None, life_owned)"
  "ownership_of left_binding = (None, None)" "ownership_of served_binding = (None, life_owned)"
  "ownership_of confirmed_binding = (None, life_owned)"
  "ownership_of claimed_binding = (Some \<lparr>pend_Name = sample_name, pend_ClaimID = ''claim''\<rparr>, None)"
  by (simp_all add: ownership_of_def left_binding_def claimed_binding_def claimed_status_def)

lemma life_claims [simp]: "ClusterSPIFFEIDOwnershipClaim claimed_object = ClusterSPIFFEIDOwnershipClaim life_object"
  by (simp add: life_object_def ClusterSPIFFEIDOwnershipClaim_def)

lemma life_lives:
  "\<exists>b report. operator_run (sample_reconciler life) (life_history b report) \<and>
     statuses_kept (life_history b report) \<and> claims_unforged (life_history b report)"
proof -
  let ?r = "sample_reconciler life"
  obtain report where first: "run_state (Reconcile ?r (NamespacedName ''ns'' ''b'')) [] = ((0, None), report @ served_prefix)"
    "list_ex is_report report" "list_all is_note report" using life_first by blast
  note quiet = contracts_notes [OF first(3)]
  have "list_ex is_create (report @ served_prefix)" "\<not> list_ex is_delete (report @ served_prefix)"
    unfolding quiet(3,4) by (simp_all add: served_prefix_def claimed_prefix_def resolved_prefix_def)
  with life_second [of "report @ served_prefix"] first(2) obtain b where
    b: "run_state (Reconcile ?r (NamespacedName ''ns'' ''b'')) (report @ served_prefix) = ((0, None), life_history b report)"
    "ownership_of b = (None, None)"
    by (auto simp: life_history_def)
  have "operator_run ?r (life_history b report)"
    by (rule operator_run.reconcile [OF operator_run.reconcile [OF operator_run.start first(1)] b(1)])
  moreover have "statuses_kept (life_history b report)"
    unfolding life_history_def life_events_def served_prefix_def claimed_prefix_def resolved_prefix_def append_Cons append_Nil
    by (simp add: contracts_notes [OF first(3)] b(2))
  moreover have "claims_unforged (life_history b report)"
    unfolding life_history_def life_events_def served_prefix_def claimed_prefix_def resolved_prefix_def append_Cons append_Nil
    by (auto simp: contracts_notes [OF first(3)] intro!: exI [of _ claimed_object])
  ultimately show ?thesis by blast
qed

theorem only_own_output_touched_witness:
  "\<exists>b report claim d answer u. let earlier = GetObjectEv clusterSPIFFEIDGVK (csid_key sample_name) (Inr life_object)
       # GetBindingEv (NamespacedName ''ns'' ''b'') (Inr leaving_binding) # report @ served_prefix in
     operator_run (sample_reconciler life) (life_history b report) \<and>
     NewUUIDEv claim \<in> set earlier \<and> CreateEv d answer \<in> set earlier \<and>
     ClusterSPIFFEIDOwnershipClaim d = claim \<and> u_Name u = u_Name life_object \<and> u_UID u = u_UID life_object \<and>
     (answer = Inr u \<or> (\<exists>gvk key. GetObjectEv gvk key (Inr u) \<in> set earlier \<and> ClusterSPIFFEIDOwnershipClaim u = claim))"
proof -
  obtain b report where run: "operator_run (sample_reconciler life) (life_history b report)"
    "statuses_kept (life_history b report)" "claims_unforged (life_history b report)" using life_lives by blast
  have "life_history b report = (UpdateBindingEv b (Inr b) # take 2 life_events) @ DeleteEv life_object ''uid'' (Inr ()) #
      GetObjectEv clusterSPIFFEIDGVK (csid_key sample_name) (Inr life_object)
       # GetBindingEv (NamespacedName ''ns'' ''b'') (Inr leaving_binding) # report @ served_prefix"
    by (simp add: life_history_def life_events_def)
  from only_own_output_touched [OF _ run this disjI1 [OF refl]] run(1) show ?thesis
    by (simp add: Let_def) blast
qed

end
