(* ===== verification/Status_Truth.thy ===== *)
theory Status_Truth
  imports Provenance
begin

text \<open>
  What a published status may claim. A reconcile turns a binding ready only after the API
  server has shown the output of the published identity to be in place.
\<close>

section \<open>Rules for status patches\<close>

definition ready :: "ext \<Rightarrow> status \<Rightarrow> bool" where
  "ready X st = (\<exists>r m g. cond X st conditionTypeReady = Some (ConditionTrue, r, m, g))"

fun is_patch :: "event \<Rightarrow> bool" where
  "is_patch (PatchStatusEv _ _ _) = True"
| "is_patch _ = False"

lemma ready_updates [simp]:
  "ready X (st\<lparr>st_PendingClusterSPIFFEID := p\<rparr>) = ready X st" "ready X (st\<lparr>st_OwnedClusterSPIFFEID := q\<rparr>) = ready X st"
  by (simp_all add: ready_def cond_def)

lemma unready_writers:
  assumes "conditions_contract X"
  shows "\<not> ready X (applyPendingManagedOutputStatus X st g)" "\<not> ready X (applyPendingConflictStatus X st g)"
    "\<not> ready X (applyPendingManagedOutputReplacementStatus X st g)" "\<not> ready X (applyConflictStatus X st g cs)"
    "se_conditionType se \<noteq> conditionTypeReady \<Longrightarrow> \<not> ready X (applyFailureStatus X st g se)"
  using assms by (simp_all add: ready_def writer_defs cond_setCondition ctrl_defs api_defs)

lemma unready_failures:
  "conditions_contract X \<Longrightarrow> \<not> ready X (applyFailureStatus X st g (newManagedOutputApplyFailedStateError err))"
  "conditions_contract X \<Longrightarrow> \<not> ready X (applyFailureStatus X st g newClusterSPIFFEIDCRDMissingStateError)"
  by (rule unready_writers(5); simp add: newManagedOutputApplyFailedStateError_def
      newClusterSPIFFEIDCRDMissingStateError_def newStateError_def ctrl_defs api_defs)+

text \<open>
  The rules that leave all calls to the API server free but some status patches: a patch
  that keeps the conditions is free, and so is one to a fine status; the status that
  announces pending output is fine, and fineness does not depend on the ownership record.
\<close>

locale call_rule =
  fixes ok :: "event \<Rightarrow> trace \<Rightarrow> bool" and X :: ext and fine :: "status \<Rightarrow> bool"
  assumes other_ok: "\<not> is_patch e \<Longrightarrow> \<not> is_note e \<Longrightarrow> ok e past"
    and same_ok: "st_Conditions (b_Status target) = st_Conditions (b_Status base) \<Longrightarrow>
      ok (PatchStatusEv base target reply) past"
    and fine_ok: "fine (b_Status target) \<Longrightarrow> ok (PatchStatusEv base target reply) past"
    and fine_pending: "fine (applyPendingManagedOutputStatus X st g)"
    and fine_ownership: "fine (st\<lparr>st_PendingClusterSPIFFEID := p, st_OwnedClusterSPIFFEID := q\<rparr>) = fine st"
      "fine (st\<lparr>st_PendingClusterSPIFFEID := p\<rparr>) = fine st"
begin

lemma keeps_others:
  "keeps ok (UpdateBinding A b)" "keeps ok (CreateObject A u)" "keeps ok (UpdateObject A u)"
  "keeps ok (DeleteObject A u uid)" "keeps ok (NewUUID A)"
  by (simp_all add: api_calls keeps_call keeps_emit other_ok)

lemma keeps_patch:
  "st_Conditions (b_Status target) = st_Conditions (b_Status base) \<or> fine (b_Status target) \<Longrightarrow>
   keeps ok (PatchStatus A base target)"
  unfolding PatchStatus_def by (rule keeps_call) (auto intro: same_ok fine_ok)

end

sublocale call_rule \<subseteq> free_reads ok
proof
  fix e past
  assume "is_read e"
  then show "ok e past" by (intro other_ok) (cases e; simp)+
qed

text \<open>The rules under which reports are free as well, and a status that claims no readiness is fine.\<close>

locale patch_rule = call_rule ok X "\<lambda>st. \<not> ready X st" for ok X +
  assumes note_ok: "is_note e \<Longrightarrow> ok e past" and conditions: "conditions_contract X"

section \<open>The operations\<close>

context call_rule
begin

lemma keeps_observe: "keeps ok (observeManagedClusterSPIFFEID r b n)"
  unfolding observeManagedClusterSPIFFEID_def Let_def
  by (auto intro!: keeps_intro keeps_reads split: sum.split)

lemma keeps_patchOwnership:
  "st_Conditions (b_Status b') = st_Conditions (b_Status b) \<or> fine (b_Status b') \<Longrightarrow> keeps ok (patchOwnershipStatus r b b')"
  unfolding patchOwnershipStatus_def by (intro keeps_intro keeps_patch) simp

lemma keeps_confirm: "keeps ok (confirmClusterSPIFFEIDOwnership r b n u)"
  unfolding confirmClusterSPIFFEIDOwnership_def by (auto intro!: keeps_intro keeps_patchOwnership)

lemma keeps_clear: "keeps ok (clearClusterSPIFFEIDOwnership r b)"
  unfolding clearClusterSPIFFEIDOwnership_def by (auto intro!: keeps_intro keeps_patchOwnership)

lemma keeps_reserve:
  assumes "r_Ext r = X"
  shows "keeps ok (reserveClusterSPIFFEIDClaim r b n)"
  unfolding reserveClusterSPIFFEIDClaim_def Let_def assms
  by (auto intro!: keeps_intro keeps_others keeps_patchOwnership simp: fine_pending fine_ownership split: sum.split)

lemma keeps_authorize: "keeps ok (authorizeManagedOutputApply r b u obs)"
  unfolding authorizeManagedOutputApply_def Let_def
  by (auto intro!: keeps_intro keeps_confirm keeps_clear split: managedOutputObservationKind.split option.split)

lemma keeps_createManaged:
  assumes "r_Ext r = X"
  shows "keeps ok (createManagedClusterSPIFFEID r b p u obs)"
  unfolding createManagedClusterSPIFFEID_def create_with_claim_def Let_def assms
  by (auto intro!: keeps_intro keeps_others keeps_reserve [OF assms] keeps_confirm split: sum.split)

lemma keeps_reconcileOne:
  assumes "r_Ext r = X"
  shows "keeps ok (reconcileClusterSPIFFEID r b p u)"
  unfolding reconcileClusterSPIFFEID_def updateManagedClusterSPIFFEID_def assms
  by (auto intro!: keeps_intro keeps_others keeps_observe keeps_authorize keeps_createManaged [OF assms] split: sum.split option.split)

lemma keeps_reconcileAll: "r_Ext r = X \<Longrightarrow> keeps ok (reconcileClusterSPIFFEIDs r b ps)"
  by (induction ps arbitrary: b) (auto intro!: keeps_intro keeps_reconcileOne split: sum.split)

lemma keeps_listManaged: "keeps ok (listManagedClusterSPIFFEIDs r b)"
  unfolding listManagedClusterSPIFFEIDs_def list_observed_def
  by (auto intro!: keeps_intro keeps_observe keeps_confirm keeps_clear
      split: sum.split option.split managedOutputObservationKind.split)

lemma keeps_delete: "keeps ok (delete_objects r us)"
  by (induction us) (auto intro!: keeps_intro keeps_others split: sum.split)

lemma keeps_cleanup: "keeps ok (cleanupManagedClusterSPIFFEIDs r b)"
  unfolding cleanupManagedClusterSPIFFEIDs_def
  by (auto intro!: keeps_intro keeps_listManaged keeps_delete split: sum.split)

lemma keeps_cleanupChanged: "keeps ok (cleanupChangedClusterSPIFFEIDName r b n)"
  unfolding cleanupChangedClusterSPIFFEIDName_def Let_def
  by (auto intro!: keeps_intro keeps_cleanup keeps_listManaged keeps_clear split: sum.split option.split)

lemma keeps_patchStatus: "fine (b_Status b) \<Longrightarrow> keeps ok (patchStatus r b)"
proof -
  assume fine: "fine (b_Status b)"
  have attempt: "keeps ok (patch_attempt r b)" unfolding patch_attempt_def Let_def
    by (auto intro!: keeps_intro keeps_reads keeps_patch simp: fine fine_ownership split: sum.split)
  have "keeps ok (patch_attempts r b n)" for n
    by (induction n) (auto intro!: keeps_intro attempt split: option.split)
  then show ?thesis by (simp add: patchStatus_def keeps_def)
qed

lemma keeps_applyStateError: "keeps ok (applyStateError r b se)"
  unfolding applyStateError_def
  by (auto intro!: keeps_intro keeps_cleanup keeps_listManaged keeps_clear split: sum.split option.split)

lemma keeps_render: "keeps ok (renderIdentityForBinding r b)"
  unfolding renderIdentityForBinding_def resolveInferencePool_def by (auto intro!: keeps_intro keeps_pool split: sum.split)

lemma keeps_peer: "keeps ok (identityForConflictEvaluation r b p peer)"
  unfolding identityForConflictEvaluation_def render_peer_def
  by (auto intro!: keeps_intro keeps_render keeps_listManaged split: sum.split option.split)

lemma keeps_peers: "keeps ok (evaluate_peers r b p items acc)"
  by (induction items arbitrary: acc)
     (auto intro!: keeps_intro keeps_peer split: sum.split peer_identity.split prod.split)

lemma keeps_evaluate: "keeps ok (evaluateBindingConflicts r b p)"
  unfolding evaluateBindingConflicts_def by (auto intro!: keeps_intro keeps_reads keeps_peers split: sum.split)

lemma keeps_withdraw: "keeps ok (withdrawConflictOutputs r b ms)"
proof -
  have "keeps ok (cleanup_members r b ms)" for b ms
    by (induction ms arbitrary: b) (auto intro!: keeps_intro keeps_cleanup simp: Let_def split: option.split)
  moreover have "keeps ok (members_absent r b ms)" for b ms
    by (induction ms arbitrary: b) (auto intro!: keeps_intro keeps_listManaged simp: Let_def split: sum.split)
  ultimately show ?thesis unfolding withdrawConflictOutputs_def by (auto intro!: keeps_intro split: sum.split)
qed

lemma keeps_finalizer: "keeps ok (ensure_finalizer r b)"
  unfolding ensure_finalizer_def by (auto intro!: keeps_intro keeps_others)

lemma keeps_compute: "keeps ok (computeDesiredState r b)"
  unfolding computeDesiredState_def resolveInferencePool_def by (auto intro!: keeps_intro keeps_pool split: sum.split)

end

context patch_rule
begin

lemma keeps_notes: "is_note e \<Longrightarrow> keeps ok (emit e)"
  by (simp add: keeps_emit note_ok)

lemma keeps_outcome: "keeps ok (recordTerminalOutcome r b)"
  unfolding recordTerminalOutcome_def RecordTerminalOutcome_def
  by (auto intro!: keeps_intro keeps_notes split: option.split)

lemma keeps_event: "keeps ok (recordEventf r b ty reason message)"
  unfolding recordEventf_def by (auto intro!: keeps_intro keeps_notes)

lemma keeps_fail_apply:
  assumes "r_Ext r = X"
  shows "keeps ok (fail_apply r b err)"
  unfolding fail_apply_def patchManagedOutputApplyFailureStatus_def Let_def assms
  by (auto intro!: keeps_intro keeps_patchStatus keeps_outcome keeps_event simp: unready_failures [OF conditions]
      split: option.split)

lemma keeps_publish:
  assumes "r_Ext r = X" "se_conditionType se \<noteq> conditionTypeReady"
  shows "keeps ok (publish_state_error r b se)"
proof -
  have status: "\<not> ready X (b_Status b')" if "run_state (applyStateError r b se) t = ((b', None), t')" for t b' t'
    using that unready_writers(5) [OF conditions assms(2)]
    by (auto simp: applyStateError_def assms(1) split: prod.splits option.splits)
  show ?thesis unfolding publish_state_error_def
    by (rule keeps_bind_result [OF keeps_applyStateError])
       (auto intro!: keeps_intro keeps_fail_apply [OF assms(1)] keeps_patchStatus keeps_outcome keeps_event
        dest: status split: option.split)
qed

lemma keeps_conflict:
  assumes "r_Ext r = X"
  shows "keeps ok (reconcileConflictState r b p)"
  unfolding reconcileConflictState_def assms
  by (auto intro!: keeps_intro keeps_evaluate keeps_withdraw keeps_fail_apply [OF assms] keeps_patchStatus keeps_outcome
      simp: Let_def unready_writers [OF conditions] split: sum.split option.split)

lemma keeps_deletion:
  assumes "r_Ext r = X"
  shows "keeps ok (reconcileDelete r b)"
  unfolding reconcileDelete_def
  by (auto intro!: keeps_intro keeps_others keeps_cleanup keeps_listManaged keeps_clear keeps_fail_apply [OF assms]
      split: sum.split option.split)

end

text \<open>The rule that allows everything: every operation only adds to the history.\<close>

interpretation any_run: patch_rule "\<lambda>_ _. True" ref_ext
  by unfold_locales (simp_all add: unready_writers)

section \<open>Output in place\<close>

text \<open>
  The API server shows the wanted output in place: by an object read that is in sync, or by
  its reply to the creation of the wanted object or to an update with the wanted content.
\<close>

definition in_place :: "ext \<Rightarrow> trace \<Rightarrow> Unstructured \<Rightarrow> Unstructured \<Rightarrow> bool" where
  "in_place X new desired live =
     ((\<exists>key. GetObjectEv clusterSPIFFEIDGVK key (Inr live) \<in> set new \<and> ClusterSPIFFEIDInSync X live desired) \<or>
      (\<exists>claim. CreateEv (SetClusterSPIFFEIDOwnershipClaim desired claim) (Inr live) \<in> set new) \<or>
      (\<exists>current. UpdateEv (MergeDesiredClusterSPIFFEID X current desired) (Inr live) \<in> set new))"

definition output_shown :: "reconciler \<Rightarrow> trace \<Rightarrow> status \<Rightarrow> bool" where
  "output_shown r new st = (\<exists>b plan live.
     st_ComputedSpiffeIDs st = [\<lparr>cs_SpiffeID = p_SpiffeID plan\<rparr>] \<and>
     st_RenderedClusterSPIFFEID st = Some (renderedClusterSPIFFEIDStatus plan live) \<and>
     in_place (r_Ext r) new (DesiredClusterSPIFFEID b plan (oc_ClusterSPIFFEIDClassName (r_Config r))) live)"

lemma output_shown_mono: "output_shown r new st \<Longrightarrow> set new \<subseteq> set new' \<Longrightarrow> output_shown r new' st"
  unfolding output_shown_def in_place_def by blast

lemma observed_live:
  assumes "run_state (observeManagedClusterSPIFFEID r b n) t = (Inr obs, t')" "mo_object obs = Some u"
  shows "\<exists>key. t' = GetObjectEv clusterSPIFFEIDGVK key (Inr u) # t"
  using assms by (auto simp: observeManagedClusterSPIFFEID_def GetObject_def classifyManagedClusterSPIFFEID_def Let_def
      split: sum.splits if_splits)

lemma authorized_current:
  assumes "run_state (authorizeManagedOutputApply r b desired obs) t = ((b', Inr (Some u)), t')"
  shows "mo_object obs = Some u"
  using assms by (auto simp: authorizeManagedOutputApply_def Let_def
      split: managedOutputObservationKind.splits option.splits prod.splits)

lemma created_shown:
  assumes "run_state (createManagedClusterSPIFFEID r b plan desired obs) t = ((b', Inr st), t')"
  shows "\<exists>new live claim. t' = new @ t \<and> st = renderedClusterSPIFFEIDStatus plan live \<and>
    CreateEv (SetClusterSPIFFEIDOwnershipClaim desired claim) (Inr live) \<in> set new"
proof -
  have create: "\<exists>e live. st = renderedClusterSPIFFEIDStatus plan live \<and>
      t' = e # CreateEv (SetClusterSPIFFEIDOwnershipClaim desired claim) (Inr live) # t1"
    if "run_state (create_with_claim r c plan desired claim) t1 = ((b', Inr st), t')" for claim c t1
    using that by (auto simp: create_with_claim_def CreateObject_def confirmClusterSPIFFEIDOwnership_def
        patchOwnershipStatus_def PatchStatus_def Let_def split: sum.splits if_splits option.splits prod.splits)
  have reserve: "\<exists>e e'. t1 = e # e' # t" if "run_state (reserveClusterSPIFFEIDClaim r b n) t = ((c, Inr claim), t1)" for n c claim t1
    using that by (auto simp: reserveClusterSPIFFEIDClaim_def NewUUID_def patchOwnershipStatus_def PatchStatus_def Let_def
        split: sum.splits if_splits option.splits prod.splits)
  from assms consider
      claim where "run_state (create_with_claim r b plan desired claim) t = ((b', Inr st), t')"
    | c claim t1 where "run_state (reserveClusterSPIFFEIDClaim r b (u_Name desired)) t = ((c, Inr claim), t1)"
        "run_state (create_with_claim r c plan desired claim) t1 = ((b', Inr st), t')"
    by (auto simp: createManagedClusterSPIFFEID_def split: if_splits prod.splits sum.splits)
  then show ?thesis
  proof cases
    case 1
    from create [OF this] obtain e live where "st = renderedClusterSPIFFEIDStatus plan live"
      "t' = [e, CreateEv (SetClusterSPIFFEIDOwnershipClaim desired claim) (Inr live)] @ t" by auto
    then show ?thesis by (metis list.set_intros)
  next
    case 2
    from create [OF 2(2)] reserve [OF 2(1)] obtain e live f f' where "st = renderedClusterSPIFFEIDStatus plan live"
      "t' = [e, CreateEv (SetClusterSPIFFEIDOwnershipClaim desired claim) (Inr live), f, f'] @ t" by auto
    then show ?thesis by (metis list.set_intros)
  qed
qed

lemma reconcile_shown:
  assumes "run_state (reconcileClusterSPIFFEIDs r b [plan]) t = ((b', Inr sts), t')"
  shows "\<exists>new live. t' = new @ t \<and> sts = [renderedClusterSPIFFEIDStatus plan live] \<and>
    in_place (r_Ext r) new (DesiredClusterSPIFFEID b plan (oc_ClusterSPIFFEIDClassName (r_Config r))) live"
proof -
  let ?d = "DesiredClusterSPIFFEID b plan (oc_ClusterSPIFFEIDClassName (r_Config r))"
  from assms obtain st where one: "run_state (reconcileClusterSPIFFEID r b plan ?d) t = ((b', Inr st), t')" "sts = [st]"
    by (auto split: prod.splits sum.splits)
  then obtain obs t1 c auth t2 where obs: "run_state (observeManagedClusterSPIFFEID r b (u_Name ?d)) t = (Inr obs, t1)"
    and auth: "run_state (authorizeManagedOutputApply r b ?d obs) t1 = ((c, Inr auth), t2)"
    and rest: "case auth of None \<Rightarrow> run_state (createManagedClusterSPIFFEID r c plan ?d obs) t2 = ((b', Inr st), t')
      | Some u \<Rightarrow> b' = c \<and> run_state (updateManagedClusterSPIFFEID r plan u ?d) t2 = (Inr st, t')"
    by (auto simp: reconcileClusterSPIFFEID_def split: prod.splits sum.splits option.splits)
  have "keeps (\<lambda>_ _. True) (observeManagedClusterSPIFFEID r b (u_Name ?d))"
    "keeps (\<lambda>_ _. True) (authorizeManagedOutputApply r b ?d obs)"
    by (rule any_run.keeps_observe, rule any_run.keeps_authorize)
  with obs auth obtain n1 n2 where new: "t1 = n1 @ t" "t2 = n2 @ t1"
    by (metis extends_def keeps_def snd_conv)
  show ?thesis
  proof (cases auth)
    case None
    with rest obtain n3 live claim where "t' = n3 @ t2" "st = renderedClusterSPIFFEIDStatus plan live"
      "CreateEv (SetClusterSPIFFEIDOwnershipClaim ?d claim) (Inr live) \<in> set n3" using created_shown by fastforce
    then show ?thesis using one(2) new by (intro exI [of _ "n3 @ n2 @ n1"] exI [of _ live]) (auto simp: in_place_def)
  next
    case (Some u)
    from auth Some have "mo_object obs = Some u" by (auto dest: authorized_current)
    with observed_live [OF obs] obtain key where "t1 = GetObjectEv clusterSPIFFEIDGVK key (Inr u) # t" by blast
    then have get: "GetObjectEv clusterSPIFFEIDGVK key (Inr u) \<in> set n1" using new(1) by (cases n1) auto
    from rest Some have upd: "run_state (updateManagedClusterSPIFFEID r plan u ?d) t2 = (Inr st, t')" by simp
    show ?thesis
    proof (cases "ClusterSPIFFEIDInSync (r_Ext r) u ?d")
      case True
      with upd have "t' = (n2 @ n1) @ t" "st = renderedClusterSPIFFEIDStatus plan u"
        using new by (simp_all add: updateManagedClusterSPIFFEID_def)
      moreover have "in_place (r_Ext r) (n2 @ n1) ?d u" using get True by (auto simp: in_place_def)
      ultimately show ?thesis using one(2) by blast
    next
      case False
      with upd obtain live where "t' = (UpdateEv (MergeDesiredClusterSPIFFEID (r_Ext r) u ?d) (Inr live) # n2 @ n1) @ t"
        "st = renderedClusterSPIFFEIDStatus plan live"
        using new by (auto simp: updateManagedClusterSPIFFEID_def UpdateObject_def split: sum.splits)
      moreover have "in_place (r_Ext r) (UpdateEv (MergeDesiredClusterSPIFFEID (r_Ext r) u ?d) (Inr live) # n2 @ n1) ?d live"
        by (auto simp: in_place_def)
      ultimately show ?thesis using one(2) by blast
    qed
  qed
qed

section \<open>The rule for readiness\<close>

text \<open>
  A patch that turns a binding ready comes after the output was shown in place, in the same
  reconcile, which started from the history \<open>t0\<close>.
\<close>

fun truthful :: "reconciler \<Rightarrow> trace \<Rightarrow> event \<Rightarrow> trace \<Rightarrow> bool" where
  "truthful r t0 (PatchStatusEv base target reply) past =
     (ready (r_Ext r) (b_Status target) \<and> \<not> ready (r_Ext r) (b_Status base) \<longrightarrow>
      (\<exists>new. past = new @ t0 \<and> output_shown r new (b_Status target)))"
| "truthful r t0 _ past = True"

lemma truthful_rule:
  assumes "conditions_contract (r_Ext r)"
  shows "patch_rule (truthful r t0) (r_Ext r)"
proof
  show "truthful r t0 e past" if "\<not> is_patch e" "\<not> is_note e" for e past using that by (cases e) simp_all
  show "truthful r t0 e past" if "is_note e" for e past using that by (cases e) simp_all
qed (auto simp: assms ready_def [of _ "b_Status _"] cond_def unready_writers(1) [OF assms])

lemmas truthful_calls = patch_rule.axioms(1) [OF truthful_rule]

definition upholds :: "reconciler \<Rightarrow> trace \<Rightarrow> 'a run \<Rightarrow> bool" where
  "upholds r t0 m = (\<forall>t. suffix t0 t \<longrightarrow> extends (truthful r t0) t (snd (run_state m t)))"

lemma upholds_keeps: "keeps (truthful r t0) m \<Longrightarrow> upholds r t0 m"
  by (simp add: upholds_def keeps_def)

lemma upholdsD: "upholds r t0 m \<Longrightarrow> suffix t0 t \<Longrightarrow> extends (truthful r t0) t (snd (run_state m t))"
  by (simp add: upholds_def)

lemma upholds_bind_result:
  assumes "upholds r t0 m" "\<And>t x t'. suffix t0 t \<Longrightarrow> run_state m t = (x, t') \<Longrightarrow>
    suffix t0 t' \<Longrightarrow> extends (truthful r t0) t' (snd (run_state (f x) t'))"
  shows "upholds r t0 (m \<bind> f)"
  unfolding upholds_def
proof (intro allI impI)
  fix t
  assume t: "suffix t0 t"
  show "extends (truthful r t0) t (snd (run_state (m \<bind> f) t))"
  proof (rule extends_bind [OF upholdsD [OF assms(1) t]])
    fix x t'
    assume run: "run_state m t = (x, t')"
    with upholdsD [OF assms(1) t] have "suffix t t'" by (metis extends_suffix snd_conv)
    with t have "suffix t0 t'" by (rule suffix_order.trans)
    from assms(2) [OF t run this] show "extends (truthful r t0) t' (snd (run_state (f x) t'))" .
  qed
qed

lemma upholds_bind: "upholds r t0 m \<Longrightarrow> (\<And>x. upholds r t0 (f x)) \<Longrightarrow> upholds r t0 (m \<bind> f)"
  by (rule upholds_bind_result) (auto simp: upholds_def)

lemma success_patch:
  assumes "conditions_contract (r_Ext r)" "t = new @ t0" "output_shown r new (b_Status b)"
  shows "extends (truthful r t0) t (snd (run_state (patchStatus r b) t))"
proof -
  have attempt: "extends (truthful r t0) t (snd (run_state (patch_attempt r b) t))"
    if "t = new @ t0" "output_shown r new (b_Status b)" for t new
  proof -
    let ?got = "get_binding (r_Client r) t (binding_ref b)"
    let ?g = "GetBindingEv (binding_ref b) ?got"
    have get: "extends (truthful r t0) t (?g # t)" by (rule extends_Cons) simp_all
    have "truthful r t0 (PatchStatusEv latest (latest\<lparr>b_Status := (b_Status b)\<lparr>st_PendingClusterSPIFFEID := p,
        st_OwnedClusterSPIFFEID := q\<rparr>\<rparr>) reply) (?g # t)" for latest p q reply
      using that output_shown_mono [of r new "b_Status b" "?g # new"]
      by (auto simp: output_shown_def intro!: exI [of _ "?g # new"])
    then show ?thesis using get
      by (auto simp: patch_attempt_def GetBinding_def PatchStatus_def Let_def split: sum.split intro!: extends_Cons
          simp del: truthful.simps(1))
  qed
  have "extends (truthful r t0) t (snd (run_state (patch_attempts r b n) t))"
    if "t = new @ t0" "output_shown r new (b_Status b)" for t new n
    using that
  proof (induction n arbitrary: t new)
    case 0
    then show ?case using attempt by simp
  next
    case (Suc n)
    obtain x t1 where run: "run_state (patch_attempt r b) t = (x, t1)" by fastforce
    have ext: "extends (truthful r t0) t t1" using attempt [OF Suc.prems] run by (metis snd_conv)
    then obtain more where "t1 = (more @ new) @ t0" using Suc.prems(1) by (auto simp: extends_def)
    moreover have "output_shown r (more @ new) (b_Status b)"
      using Suc.prems(2) by (rule output_shown_mono) auto
    ultimately have "extends (truthful r t0) t1 (snd (run_state (patch_attempts r b n) t1))" by (rule Suc.IH)
    then show ?case using run ext by (auto split: prod.split option.split intro: extends_trans)
  qed
  from this [OF assms(2,3)] show ?thesis by (simp add: patchStatus_def)
qed


section \<open>State errors\<close>

text \<open>
  The errors of the API server are no state errors; those of the operator name a condition
  other than readiness.
\<close>

definition plain_replies :: "api \<Rightarrow> bool" where
  "plain_replies A = (\<forall>t gvk key err. get_object A t gvk key = Inl err \<longrightarrow> errorsAsStateError err = None)"

definition never_ready :: "go_error \<Rightarrow> bool" where
  "never_ready err = (\<forall>se. errorsAsStateError err = Some se \<longrightarrow> se_conditionType se \<noteq> conditionTypeReady)"

lemma never_ready_intro:
  "errorsAsStateError err = None \<Longrightarrow> never_ready err"
  "c \<noteq> conditionTypeReady \<Longrightarrow> never_ready (ReconcileStateError c reason m)"
  "c \<noteq> conditionTypeReady \<Longrightarrow> never_ready (IdentityStateError c reason m)"
  "c \<noteq> conditionTypeReady \<Longrightarrow> never_ready (GaieStateError c reason m)"
  by (auto simp: never_ready_def errorsAsStateError_def errors_As_def List.map_filter_simps)

lemma not_ready_types:
  "ConditionTypeUnsafeSelector \<noteq> conditionTypeReady" "ConditionTypeRenderFailure \<noteq> conditionTypeReady"
  "ConditionTypeInvalidRef \<noteq> conditionTypeReady" "conditionTypeInvalidRef \<noteq> conditionTypeReady"
  "conditionTypeRenderFailure \<noteq> conditionTypeReady"
  by (simp_all add: ctrl_defs api_defs ConditionTypeUnsafeSelector_def ConditionTypeRenderFailure_def
      ConditionTypeInvalidRef_def)

lemma variant_error: "ValidateVariant X v = Some err \<Longrightarrow> never_ready err"
  by (auto simp: ValidateVariant_def Let_def not_ready_types intro!: never_ready_intro(3) split: if_splits)

lemma plan_error: "PlanIdentity X i = Inl err \<Longrightarrow> never_ready err"
  by (auto simp: PlanIdentity_def Let_def not_ready_types dest: variant_error intro!: never_ready_intro(3)
      split: if_splits sum.splits option.splits prod.splits)

lemma lookup_error:
  assumes "plain_replies A" "run_state (resolveByCandidates A key gvks missing) t = (Inl err, t')"
  shows "never_ready err"
  using assms(2)
proof (induction gvks arbitrary: missing t)
  case (Cons gvk gvks)
  then show ?case using assms(1)
    by (auto simp: GetObject_def plain_replies_def intro: never_ready_intro(1) split: sum.splits if_splits)
qed simp

lemma pool_error:
  assumes "plain_replies (r_Client r)" "run_state (resolveInferencePool r ref) t = (Inl err, t')"
  shows "never_ready err"
  using assms(2) unfolding resolveInferencePool_def ResolveInferencePool_def
  by (auto simp: not_ready_types dest: lookup_error [OF assms(1)] intro!: never_ready_intro(4)
      split: sum.splits option.splits prod.splits if_splits)

lemma desired_error:
  assumes "plain_replies (r_Client r)" "run_state (computeDesiredState r b) t = (Inl err, t')"
  shows "never_ready err"
  using assms(2) unfolding computeDesiredState_def renderIdentity_def
  by (auto simp: not_ready_types dest: pool_error [OF assms(1)] plan_error intro!: never_ready_intro(2,3)
      split: sum.splits prod.splits)

lemma desired_single:
  "run_state (computeDesiredState r b) t = (Inr identities, t') \<Longrightarrow> \<exists>plan. identities = [plan]"
  unfolding computeDesiredState_def by (auto split: sum.splits prod.splits)

section \<open>Reconcile\<close>

lemma success_shown:
  assumes "in_place (r_Ext r) new (DesiredClusterSPIFFEID b plan (oc_ClusterSPIFFEIDClassName (r_Config r))) live"
  shows "output_shown r new (applySuccessStatus (r_Ext r) st g [plan] [renderedClusterSPIFFEIDStatus plan live])"
  using assms unfolding output_shown_def
  by (intro exI [of _ b] exI [of _ plan] exI [of _ live])
     (simp add: applySuccessStatus_def setCondition_def Let_def)

lemma apply_upholds:
  assumes "conditions_contract (r_Ext r)"
  shows "upholds r t0 (apply_output r b [plan] name)"
  unfolding apply_output_def
proof (rule upholds_bind_result)
  note rule = truthful_rule [OF assms]
  note calls = truthful_calls [OF assms]
  note free = patch_rule.keeps_fail_apply [OF rule refl] patch_rule.keeps_publish [OF rule refl]
    patch_rule.keeps_outcome [OF rule] patch_rule.keeps_event [OF rule]
  show "upholds r t0 (reconcileClusterSPIFFEIDs r b [plan])"
    by (rule upholds_keeps, rule call_rule.keeps_reconcileAll [OF calls refl])
  fix t x t'
  assume t: "suffix t0 t" "suffix t0 t'" and run: "run_state (reconcileClusterSPIFFEIDs r b [plan]) t = (x, t')"
  obtain c out where x: "x = (c, out)" by (cases x)
  show "extends (truthful r t0) t' (snd (run_state (case x of
      (binding, Inl err) \<Rightarrow> if IsNoMatchError err then publish_state_error r binding newClusterSPIFFEIDCRDMissingStateError
          else do { failed \<leftarrow> fail_apply r binding err; State_Monad.return (snd failed) }
      | (binding, Inr managedStatuses) \<Rightarrow> do {
          let binding = binding\<lparr>b_Status := applySuccessStatus (r_Ext r) (b_Status binding)
            (b_Generation binding) [plan] managedStatuses\<rparr>;
          patched \<leftarrow> patchStatus r binding;
          (case patched of
             (binding, Some err) \<Rightarrow> State_Monad.return (0, Some err)
           | (binding, None) \<Rightarrow> do {
               recordTerminalOutcome r binding;
               recordEventf r binding EventTypeNormal conditionReasonReconciled
                 (''reconciled ClusterSPIFFEID '' @ Quote (r_Ext r) name);
               State_Monad.return (0, None)
             })
        }) t'))"
  proof (cases out)
    case (Inl err)
    have "se_conditionType newClusterSPIFFEIDCRDMissingStateError \<noteq> conditionTypeReady"
      by (simp add: newClusterSPIFFEIDCRDMissingStateError_def newStateError_def not_ready_types)
    then show ?thesis unfolding x Inl prod.case sum.case
      by (intro keepsD) (auto intro!: keeps_intro free)
  next
    case (Inr sts)
    from reconcile_shown [OF run [unfolded x Inr]] obtain new live where new: "t' = new @ t"
      "sts = [renderedClusterSPIFFEIDStatus plan live]"
      "in_place (r_Ext r) new (DesiredClusterSPIFFEID b plan (oc_ClusterSPIFFEIDClassName (r_Config r))) live" by blast
    from t(1) obtain old where "t = old @ t0" by (auto simp: suffix_def)
    with new(1) have t': "t' = (new @ old) @ t0" by simp
    have "in_place (r_Ext r) (new @ old) (DesiredClusterSPIFFEID b plan (oc_ClusterSPIFFEIDClassName (r_Config r))) live"
      using new(3) unfolding in_place_def by auto
    then have shown: "output_shown r (new @ old) (b_Status (c\<lparr>b_Status := applySuccessStatus (r_Ext r) (b_Status c)
        (b_Generation c) [plan] sts\<rparr>))" unfolding new(2) by (simp add: success_shown)
    show ?thesis unfolding x Inr Let_def prod.case sum.case
      by (rule extends_bind [OF success_patch [OF assms t' shown]])
         (auto intro!: keepsD keeps_intro free split: option.split)
  qed
qed

lemma rendered_upholds:
  assumes "conditions_contract (r_Ext r)"
  shows "upholds r t0 (reconcile_rendered r b [plan] plan)"
proof -
  note rule = truthful_rule [OF assms]
  note calls = truthful_calls [OF assms]
  note free = patch_rule.keeps_conflict [OF rule refl] call_rule.keeps_cleanupChanged [OF calls]
    patch_rule.keeps_fail_apply [OF rule refl] call_rule.keeps_patchStatus [OF calls] keeps_return
  show ?thesis unfolding reconcile_rendered_def Let_def
    by (auto intro!: upholds_bind apply_upholds [OF assms] free [THEN upholds_keeps] simp: unready_writers [OF assms]
      split: prod.split sum.split bool.split)
qed

lemma desired_upholds:
  assumes "conditions_contract (r_Ext r)" "plain_replies (r_Client r)"
  shows "upholds r t0 (do { computed \<leftarrow> (case bindingIdentityVariant (r_Ext r) b of
        Some err \<Rightarrow> State_Monad.return (Inl err) | None \<Rightarrow> computeDesiredState r b);
     (case computed of
        Inl err \<Rightarrow> (case errorsAsStateError err of
             None \<Rightarrow> State_Monad.return (0, Some err)
           | Some stateErr \<Rightarrow> publish_state_error r b stateErr)
      | Inr identities \<Rightarrow> reconcile_rendered r b identities (identities ! 0)) })"
proof (rule upholds_bind_result, goal_cases)
  note rule = truthful_rule [OF assms(1)]
  note calls = truthful_calls [OF assms(1)]
  case 1
  show ?case using call_rule.keeps_compute [OF calls] keeps_return
    by (auto intro!: upholds_keeps split: option.split)
next
  note rule = truthful_rule [OF assms(1)]
  note calls = truthful_calls [OF assms(1)]
  case (2 t x t')
  show ?case
  proof (cases x)
    case (Inl err)
    with 2(2) have "never_ready err"
      by (auto simp: bindingIdentityVariant_def dest: variant_error desired_error [OF assms(2)] split: option.splits)
    with Inl show ?thesis
      by (auto simp: never_ready_def intro!: keepsD keeps_return patch_rule.keeps_publish [OF rule refl] split: option.split)
  next
    case (Inr identities)
    with 2(2) obtain plan where "identities = [plan]" by (auto dest: desired_single split: option.splits)
    with Inr show ?thesis using rendered_upholds [OF assms(1)] 2(3) by (auto intro: upholdsD)
  qed
qed

lemma Reconcile_upholds:
  assumes "conditions_contract (r_Ext r)" "plain_replies (r_Client r)"
  shows "upholds r t0 (Reconcile r req)"
proof -
  note rule = truthful_rule [OF assms(1)]
  note calls = truthful_calls [OF assms(1)]
  note free = patch_rule.keeps_deletion [OF rule refl] call_rule.keeps_finalizer [OF calls] keeps_return
  have "upholds r t0 (GetBinding (r_Client r) req)"
    by (rule upholds_keeps) (simp add: api_calls keeps_call)
  then show ?thesis unfolding Reconcile_def Let_def
    by (auto intro!: upholds_bind [of _ _ "GetBinding _ _"] upholds_bind [of _ _ "ensure_finalizer _ _"] desired_upholds [OF assms]
        free [THEN upholds_keeps] split: sum.split)
qed

text \<open>
  C2: A binding turns ready only when its output is in place. A status patch of a reconcile
  that sets the ready condition of a binding that was not ready publishes exactly one SPIFFE
  ID and one rendered output, those of a plan, and comes after the API server has, in the
  same reconcile, shown the ClusterSPIFFEID of that plan: as a read object in sync with it,
  or as the reply to its creation or to an update with its content.
\<close>
theorem Reconcile_ready_truthful:
  assumes "conditions_contract (r_Ext r)" "plain_replies (r_Client r)"
    and "run_state (Reconcile r req) t = (res, later @ PatchStatusEv base target reply # earlier @ t)"
    and "ready (r_Ext r) (b_Status target)" "\<not> ready (r_Ext r) (b_Status base)"
  shows "output_shown r earlier (b_Status target)"
proof -
  have "extends (truthful r t) t (later @ PatchStatusEv base target reply # earlier @ t)"
    using upholdsD [OF Reconcile_upholds [OF assms(1,2)], of t t] assms(3) by (metis snd_conv suffix_order.refl)
  from extends_event [OF this refl] have "truthful r t (PatchStatusEv base target reply) (earlier @ t)" by simp
  with assms(4,5) show ?thesis by auto
qed

lemma plain_life: "plain_replies life"
  by (simp add: plain_replies_def errorsAsStateError_def errors_As_def List.map_filter_simps)

theorem Reconcile_ready_truthful_witness:
  "ready ref_ext (b_Status served_binding) \<and> \<not> ready ref_ext (b_Status (ready_binding life_owned)) \<and>
   output_shown (sample_reconciler life) (tl served_prefix) (b_Status served_binding)"
proof -
  have ready: "ready ref_ext (b_Status served_binding)" "\<not> ready ref_ext (b_Status (ready_binding life_owned))"
    by (simp add: ready_def served_binding_def applySuccessStatus_def cond_setCondition [OF ref_ext_conditions] Let_def
        ctrl_defs api_defs, simp add: ready_def cond_def ready_binding_def sample_binding_def ref_ext_def)
  obtain report where "run_state (Reconcile (sample_reconciler life) (NamespacedName ''ns'' ''b'')) [] =
      ((0, None), report @ served_prefix)" using life_first by blast
  then have run: "run_state (Reconcile (sample_reconciler life) (NamespacedName ''ns'' ''b'')) [] =
      ((0, None), report @ PatchStatusEv (ready_binding life_owned) served_binding (Inr served_binding) # tl served_prefix @ [])"
    by (simp add: served_prefix_def)
  show ?thesis using Reconcile_ready_truthful [OF _ _ run] ready plain_life by simp
qed

end
