(* ===== verification/Metrics.thy ===== *)
theory Metrics
  imports Watch Status_Truth
begin

text \<open>
  The metrics of \<^verbatim>\<open>inferenceidentitybinding_metrics.go\<close> as objects: the outcome counter, the
  gauge collector with its list function, and their registration. The values of the counter
  are the outcomes of a history. The mutex that guards the list function is not modelled:
  each access is one step.
\<close>

section \<open>Collectors (metrics.go)\<close>

definition metricLabelCondition :: string where "metricLabelCondition = ''condition''"
definition metricLabelReason :: string where "metricLabelReason = ''reason''"

record metric_desc =
  md_Name :: string
  md_Help :: string
  md_Labels :: "string list"

type_synonym bindingsListFunc = "((binding list) result) run"

record prometheusBindingOutcomeRecorder =
  or_counter :: metric_desc

record identityBindingGaugeCollector =
  gc_desc :: metric_desc
  gc_listFunc :: "bindingsListFunc option"

record inferenceIdentityBindingMetrics =
  bm_outcomeRecorder :: prometheusBindingOutcomeRecorder
  bm_gaugeCollector :: identityBindingGaugeCollector

definition newIdentityBindingGaugeCollector :: identityBindingGaugeCollector where
  "newIdentityBindingGaugeCollector =
     \<lparr>gc_desc = \<lparr>md_Name = metricNameIdentityBindings,
        md_Help = ''Current InferenceIdentityBinding outcomes aggregated from object status.'',
        md_Labels = [metricLabelCondition, metricLabelReason]\<rparr>,
      gc_listFunc = None\<rparr>"

definition newInferenceIdentityBindingMetrics :: inferenceIdentityBindingMetrics where
  "newInferenceIdentityBindingMetrics =
     \<lparr>bm_outcomeRecorder = \<lparr>or_counter = \<lparr>md_Name = metricNameIdentityBindingOutcomes,
        md_Help = ''Terminal reconcile outcomes for InferenceIdentityBinding resources.'',
        md_Labels = [metricLabelCondition, metricLabelReason]\<rparr>\<rparr>,
      bm_gaugeCollector = newIdentityBindingGaugeCollector\<rparr>"

definition defaultBindingMetrics :: inferenceIdentityBindingMetrics where
  "defaultBindingMetrics = newInferenceIdentityBindingMetrics"

definition setListFunc :: "bindingsListFunc option \<Rightarrow> identityBindingGaugeCollector \<Rightarrow> identityBindingGaugeCollector" where
  "setListFunc listFunc c = c\<lparr>gc_listFunc := listFunc\<rparr>"

definition currentListFunc :: "identityBindingGaugeCollector \<Rightarrow> bindingsListFunc option" where
  "currentListFunc c = gc_listFunc c"

definition Describe :: "identityBindingGaugeCollector \<Rightarrow> metric_desc list" where
  "Describe c = [gc_desc c]"

text \<open>
  Registration points the gauge at the client, whatever the registry then says of the two
  collectors.
\<close>

definition register_metrics ::
    "manager \<Rightarrow> api \<Rightarrow> inferenceIdentityBindingMetrics \<Rightarrow> inferenceIdentityBindingMetrics \<times> go_error option" where
  "register_metrics mgr k8sClient m =
     (m\<lparr>bm_gaugeCollector := setListFunc (Some (ListBindings k8sClient [])) (bm_gaugeCollector m)\<rparr>, register mgr)"

text \<open>A scrape: the samples of the gauge, one for each pair of labels.\<close>

definition Collect_run :: "ext \<Rightarrow> identityBindingGaugeCollector \<Rightarrow> (((string \<times> string) \<times> nat) list) run" where
  "Collect_run X c =
     (case currentListFunc c of
        None \<Rightarrow> State_Monad.return []
      | Some listFunc \<Rightarrow> do {
          listed \<leftarrow> listFunc;
          State_Monad.return (Collect X (Some listed))
        })"

section \<open>Outcomes of a history\<close>

fun is_outcome :: "event \<Rightarrow> bool" where
  "is_outcome (OutcomeEv _ _) = True"
| "is_outcome _ = False"

text \<open>The number of outcomes that a run adds to a history.\<close>

definition adds :: "nat \<Rightarrow> trace \<Rightarrow> trace \<Rightarrow> bool" where
  "adds n t t' = (\<exists>new. t' = new @ t \<and> length (filter is_outcome new) \<le> n)"

lemma adds_trans: "adds m t t1 \<Longrightarrow> adds n t1 t2 \<Longrightarrow> adds (m + n) t t2"
proof -
  assume "adds m t t1" "adds n t1 t2"
  then obtain new1 new2 where "t2 = (new2 @ new1) @ t" "length (filter is_outcome new1) \<le> m" "length (filter is_outcome new2) \<le> n"
    by (auto simp: adds_def)
  then show ?thesis unfolding adds_def by (intro exI [of _ "new2 @ new1"]) simp
qed

lemma adds_mono: "adds m t t' \<Longrightarrow> m \<le> n \<Longrightarrow> adds n t t'"
  unfolding adds_def using le_trans by blast

definition once :: "'a run \<Rightarrow> bool" where
  "once m = (\<forall>t. adds 1 t (snd (run_state m t)))"

abbreviation silent :: "'a run \<Rightarrow> bool" where
  "silent m \<equiv> keeps (\<lambda>e _. \<not> is_outcome e) m"

interpretation silent_calls: call_rule "\<lambda>e _. \<not> is_outcome e" X "\<lambda>_. True" for X
  by unfold_locales (auto elim: is_outcome.elims)

lemma silent_adds: "silent m \<Longrightarrow> adds 0 t (snd (run_state m t))"
proof -
  assume "silent m"
  from extends_all [OF keepsD [OF this]] obtain new where
    "snd (run_state m t) = new @ t" "list_all (\<lambda>e. \<not> is_outcome e) new" by blast
  then show ?thesis by (auto simp: adds_def list_all_iff filter_empty_conv)
qed

lemma onceD: "once m \<Longrightarrow> adds 1 t (snd (run_state m t))"
  by (simp add: once_def)

lemma once_silent: "silent m \<Longrightarrow> once m"
  using silent_adds adds_mono unfolding once_def by blast

lemma adds_bind:
  assumes "run_state m t = (x, t1)" "adds k t t1" "adds l t1 (snd (run_state (f x) t1))"
  shows "adds (k + l) t (snd (run_state (m \<bind> f) t))"
  using adds_trans [OF assms(2,3)] assms(1) by simp

lemma once_after:
  assumes "silent m" "\<And>x. once (f x)"
  shows "once (m \<bind> f)"
  unfolding once_def
proof
  fix t
  obtain x t1 where run: "run_state m t = (x, t1)" by fastforce
  have "adds 0 t t1" using silent_adds [OF assms(1), of t] run by simp
  from adds_bind [OF run this, of 1 f] assms(2) [of x]
  show "adds 1 t (snd (run_state (m \<bind> f) t))" by (simp add: once_def)
qed

lemma once_before:
  assumes "once m" "\<And>x. silent (f x)"
  shows "once (m \<bind> f)"
  unfolding once_def
proof
  fix t
  obtain x t1 where run: "run_state m t = (x, t1)" by fastforce
  have "adds 1 t t1" using assms(1) run unfolding once_def by (metis snd_conv)
  from adds_bind [OF run this silent_adds [OF assms(2)]]
  show "adds 1 t (snd (run_state (m \<bind> f) t))" by simp
qed

lemma silent_event: "silent (recordEventf r b ty reason m)"
  unfolding recordEventf_def by (simp add: keeps_return keeps_emit)

lemma once_outcome: "once (recordTerminalOutcome r b)"
  unfolding recordTerminalOutcome_def RecordTerminalOutcome_def once_def adds_def
  by (auto split: option.split)

lemmas silent_intro = keeps_return silent_event silent_calls.keeps_patchStatus [OF TrueI]

lemma once_fail_apply: "once (fail_apply r b err)"
  unfolding fail_apply_def patchManagedOutputApplyFailureStatus_def Let_def
  by (rule once_before, rule once_after [OF silent_calls.keeps_patchStatus [OF TrueI]])
     (auto intro!: once_before [OF once_outcome] once_silent [OF keeps_return] keeps_intro silent_intro split: option.split)

lemma once_publish: "once (publish_state_error r b se)"
  unfolding publish_state_error_def
  by (rule once_after [OF silent_calls.keeps_applyStateError])
     (auto intro!: once_before [OF once_fail_apply] once_after [OF silent_calls.keeps_patchStatus [OF TrueI]]
       once_before [OF once_outcome] once_silent [OF keeps_return] keeps_intro silent_intro split: option.split)

text \<open>The conflict check records an outcome only when it ends the reconcile.\<close>

lemma conflict_outcomes:
  assumes "run_state (reconcileConflictState r b plan) t = ((c, handled, requeue, err), t')"
  shows "adds (if handled then 1 else 0) t t'"
proof -
  obtain x t1 where run: "run_state (evaluateBindingConflicts r b plan) t = (x, t1)" by fastforce
  with silent_adds [OF silent_calls.keeps_evaluate, of t r b plan] have first: "adds 0 t t1" by simp
  show ?thesis
  proof (cases "\<exists>s. x = Inr s \<and> length (bc_conflicts s) = 0 \<and> \<not> bc_blocked s")
    case True
    with run assms first show ?thesis by (auto simp: reconcileConflictState_def)
  next
    case False
    have "once (reconcileConflictState r b plan)" unfolding reconcileConflictState_def Let_def
      by (auto intro!: once_after [OF silent_calls.keeps_evaluate] once_after [OF silent_calls.keeps_withdraw]
          once_before [OF once_fail_apply] once_after [OF silent_calls.keeps_patchStatus [OF TrueI]]
          once_before [OF once_outcome] once_silent [OF keeps_return] keeps_intro silent_intro split: sum.split option.split)
    then have "adds 1 t t'" using assms unfolding once_def by (metis snd_conv)
    moreover have handled using False run assms
      by (auto simp: reconcileConflictState_def Let_def split: sum.splits prod.splits if_splits option.splits)
    ultimately show ?thesis by simp
  qed
qed

lemma once_apply: "once (apply_output r b ps name)"
  unfolding apply_output_def Let_def
  by (rule once_after [OF silent_calls.keeps_reconcileAll [OF refl]])
     (auto intro!: once_publish once_before [OF once_fail_apply] once_after [OF silent_calls.keeps_patchStatus [OF TrueI]]
       once_before [OF once_outcome] once_silent [OF keeps_return] keeps_intro silent_intro split: sum.split option.split)

lemma once_rendered: "once (reconcile_rendered r b ps plan)"
  unfolding once_def
proof
  fix t
  obtain c handled requeue err t1 where run: "run_state (reconcileConflictState r b plan) t = ((c, handled, requeue, err), t1)"
    by (metis prod.exhaust)
  note first = conflict_outcomes [OF run]
  show "adds 1 t (snd (run_state (reconcile_rendered r b ps plan) t))"
  proof (cases "handled \<or> err \<noteq> None")
    case True
    with run first show ?thesis by (auto simp: reconcile_rendered_def intro: adds_mono)
  next
    case False
    then have quiet: "adds 0 t t1" using first by simp
    show ?thesis unfolding reconcile_rendered_def Let_def
    proof (rule adds_bind [OF run quiet, of 1, unfolded add_0], unfold prod.case if_not_P [OF False], rule onceD)
    qed (auto intro!: once_after [OF silent_calls.keeps_cleanupChanged] once_apply once_before [OF once_fail_apply]
          once_silent [OF keeps_bind] keeps_intro silent_intro split: sum.split bool.split option.split)
  qed
qed

lemma once_deletion: "once (reconcileDelete r b)"
  unfolding reconcileDelete_def
  by (auto intro!: once_after [OF silent_calls.keeps_cleanup] once_after [OF silent_calls.keeps_listManaged]
      once_after [OF silent_calls.keeps_clear] once_after [OF silent_calls.keeps_others(1)]
      once_before [OF once_fail_apply] once_silent [OF keeps_return] silent_intro split: sum.split option.split)

lemma once_reconcile: "once (Reconcile r req)"
  unfolding Reconcile_def Let_def
  by (auto intro!: once_after [OF silent_calls.keeps_reads(1)] once_after [OF silent_calls.keeps_finalizer]
      once_after [OF silent_calls.keeps_compute] once_deletion once_publish once_rendered once_silent [OF keeps_return]
      split: sum.split option.split)

text \<open>
  C15: No outcome is counted twice. Whatever the API server answers, a reconcile adds at most one
  outcome to the counter.
\<close>
theorem Reconcile_counts_once:
  "\<exists>new. snd (run_state (Reconcile r req) t) = new @ t \<and> length (filter is_outcome new) \<le> 1"
  using onceD [OF once_reconcile] by (simp add: adds_def)

section \<open>The gauge\<close>

text \<open>
  C29: The gauge shows the bindings there are. Before registration a scrape makes no call and
  yields nothing. After registration, whatever the registry answered, a scrape makes one
  call, which lists the bindings of all namespaces; when it succeeds there is one sample
  for each pair of labels, and its value is the number of listed bindings with them.
\<close>
theorem gauge_shows_bindings:
  "run_state (Collect_run X (bm_gaugeCollector defaultBindingMetrics)) t = ([], t) \<and>
   (let gauge = bm_gaugeCollector (fst (register_metrics mgr A m)); reply = list_bindings A t [] in
    \<exists>samples. run_state (Collect_run X gauge) t = (samples, ListBindingsEv [] reply # t) \<and> distinct (map fst samples) \<and>
      (case reply of Inl err \<Rightarrow> samples = []
       | Inr bs \<Rightarrow> \<forall>labels. map_of samples labels =
           (let n = length (filter (\<lambda>b. deriveBindingOutcomeLabels X (b_Status b) True = Some labels) bs)
            in if n = 0 then None else Some n)))"
proof -
  have "distinct (map fst (Collect X (Some (Inr bs)))) \<and> map_of (Collect X (Some (Inr bs))) labels =
      (if outcome_count X bs labels = 0 then None else Some (outcome_count X bs labels))" for bs labels
    by (rule Collect_counts)
  then show ?thesis
    by (auto simp: Collect_run_def currentListFunc_def defaultBindingMetrics_def newInferenceIdentityBindingMetrics_def
        newIdentityBindingGaugeCollector_def register_metrics_def setListFunc_def ListBindings_def Let_def outcome_count_def
        split: sum.split) (simp_all add: Collect_def)
qed

end
