(* ===== verification/Cluster_Status.thy ===== *)
theory Cluster_Status
  imports Inspection
begin

text \<open>
  Package \<^verbatim>\<open>internal/inspection\<close>, files \<^verbatim>\<open>status.go\<close> and the report types of
  \<^verbatim>\<open>status_report.go\<close>: the cluster overview of the command line tool. It looks for the
  resource types, the operator's deployment and the bindings, and aggregates what it finds.
\<close>

section \<open>Report types (status_report.go)\<close>

definition StatusReportSchemaVersion :: string where "StatusReportSchemaVersion = ''v1alpha1''"
definition StatusReportKind :: string where "StatusReportKind = ''KleymStatusReport''"

definition StatusResultOK :: string where [insp_defs]: "StatusResultOK = ''OK''"
definition StatusResultWarning :: string where [insp_defs]: "StatusResultWarning = ''WARNING''"
definition StatusResultError :: string where [insp_defs]: "StatusResultError = ''ERROR''"
definition StatusResultUnknown :: string where [insp_defs]: "StatusResultUnknown = ''unknown''"

record ComponentStatus =
  co_Status :: string
  co_Message :: string

record OperatorStatus =
  op_Status :: string
  op_Message :: string
  op_Deployment :: string
  op_ReadyReplicas :: int
  op_Replicas :: int
  op_Version :: string

record KleymAPIStatus =
  ka_Status :: string
  ka_Message :: string
  ka_InferenceIdentityBinding :: string

record SPIRECRDStatus =
  sc_Status :: string
  sc_Message :: string
  sc_ClusterSPIFFEID :: string

record GAIEStatus =
  gs_Status :: string
  gs_Message :: string
  gs_InferencePool :: string

record StatusComponents =
  sm_Kleym :: ComponentStatus
  sm_Operator :: OperatorStatus
  sm_KleymCRDs :: KleymAPIStatus
  sm_SPIRECRDs :: SPIRECRDStatus
  sm_GAIECRDs :: GAIEStatus

record StatusConfig =
  sf_TrustDomain :: string
  sf_ClusterSPIFFEIDClassName :: string
  sf_ClusterSPIFFEIDClassNameKnown :: bool

record BindingConditionSummary =
  cs_Ready :: int
  cs_InvalidRef :: int
  cs_UnsafeSelector :: int
  cs_RenderFailure :: int

record BindingStatusSummary =
  bs_OK :: int
  bs_Warning :: int
  bs_Error :: int
  bs_Total :: int
  bs_Conditions :: BindingConditionSummary

text \<open>The summary has the binding counts as its only field.\<close>

record StatusReport =
  sr_SchemaVersion :: string
  sr_Kind :: string
  sr_GeneratedAt :: string
  sr_Status :: string
  sr_CLIVersion :: string
  sr_Components :: StatusComponents
  sr_Config :: StatusConfig
  sr_Summary :: BindingStatusSummary
  sr_Findings :: "BindingInspectionFinding slice"
  sr_ExitCode :: "int option"

definition zero_status_report :: StatusReport where
  "zero_status_report =
     \<lparr>sr_SchemaVersion = [], sr_Kind = [], sr_GeneratedAt = [], sr_Status = [], sr_CLIVersion = [],
      sr_Components = \<lparr>sm_Kleym = \<lparr>co_Status = [], co_Message = []\<rparr>,
        sm_Operator = \<lparr>op_Status = [], op_Message = [], op_Deployment = [], op_ReadyReplicas = 0,
          op_Replicas = 0, op_Version = []\<rparr>,
        sm_KleymCRDs = \<lparr>ka_Status = [], ka_Message = [], ka_InferenceIdentityBinding = []\<rparr>,
        sm_SPIRECRDs = \<lparr>sc_Status = [], sc_Message = [], sc_ClusterSPIFFEID = []\<rparr>,
        sm_GAIECRDs = \<lparr>gs_Status = [], gs_Message = [], gs_InferencePool = []\<rparr>\<rparr>,
      sr_Config = \<lparr>sf_TrustDomain = [], sf_ClusterSPIFFEIDClassName = [],
        sf_ClusterSPIFFEIDClassNameKnown = False\<rparr>,
      sr_Summary = \<lparr>bs_OK = 0, bs_Warning = 0, bs_Error = 0, bs_Total = 0,
        bs_Conditions = \<lparr>cs_Ready = 0, cs_InvalidRef = 0, cs_UnsafeSelector = 0, cs_RenderFailure = 0\<rparr>\<rparr>,
      sr_Findings = None, sr_ExitCode = None\<rparr>"

definition normalizeStatusReport :: "StatusReport \<Rightarrow> StatusReport" where
  "normalizeStatusReport report =
     (let report = (if sr_SchemaVersion report = []
            then report\<lparr>sr_SchemaVersion := StatusReportSchemaVersion\<rparr> else report);
          report = (if sr_Kind report = [] then report\<lparr>sr_Kind := StatusReportKind\<rparr> else report);
          report = (if sr_Status report = [] then report\<lparr>sr_Status := StatusResultUnknown\<rparr> else report)
      in report\<lparr>sr_Findings := Some (map normalize_finding (elems (sr_Findings report)))\<rparr>)"

definition NewStatusReport :: StatusReport where
  "NewStatusReport = normalizeStatusReport zero_status_report"

section \<open>Constants (status.go)\<close>

definition findingOperatorUnavailable :: string where
  [insp_defs]: "findingOperatorUnavailable = ''operator-unavailable''"
definition findingCRDMissing :: string where [insp_defs]: "findingCRDMissing = ''crd-missing''"
definition findingBindingUnhealthy :: string where
  [insp_defs]: "findingBindingUnhealthy = ''binding-unhealthy''"
definition reasonOperatorNotFound :: string where [insp_defs]: "reasonOperatorNotFound = ''OperatorNotFound''"
definition reasonOperatorUnavailable :: string where
  [insp_defs]: "reasonOperatorUnavailable = ''OperatorUnavailable''"
definition reasonKleymCRDMissing :: string where
  [insp_defs]: "reasonKleymCRDMissing = ''InferenceIdentityBindingCRDMissing''"
definition reasonGAIECRDMissing :: string where [insp_defs]: "reasonGAIECRDMissing = ''GAIECRDMissing''"
definition operatorLabelName :: string where [insp_defs]: "operatorLabelName = ''kleym''"
definition operatorLabelComponent :: string where [insp_defs]: "operatorLabelComponent = ''operator''"
definition statusConditionTypeReady :: string where [insp_defs]: "statusConditionTypeReady = ''Ready''"
definition statusConditionTypeInvalidRef :: string where
  [insp_defs]: "statusConditionTypeInvalidRef = ''InvalidRef''"
definition statusConditionTypeUnsafeSelector :: string where
  [insp_defs]: "statusConditionTypeUnsafeSelector = ''UnsafeSelector''"
definition statusConditionTypeRenderFailure :: string where
  [insp_defs]: "statusConditionTypeRenderFailure = ''RenderFailure''"

datatype status_error = ErrStatusReportErrorFindings | StatusFailed go_error

record statusInspector =
  si_client :: api
  si_ext :: ext
  si_mapper :: rest_mapper
  si_now :: string

text \<open>Construction, given the outcome of loading the client, the REST mapper and the clock.\<close>

definition NewKubernetesStatusInspector ::
    "(Config \<Rightarrow> (api \<times> ext \<times> rest_mapper \<times> string) result) \<Rightarrow> Config \<Rightarrow> statusInspector result" where
  "NewKubernetesStatusInspector connect config =
     (case connect config of
        Inl err \<Rightarrow> Inl err
      | Inr (client, X, mapper, now) \<Rightarrow> Inr
          \<lparr>si_client = client, si_ext = X, si_mapper = mapper, si_now = now\<rparr>)"

definition add_status_finding :: "StatusReport \<Rightarrow> BindingInspectionFinding \<Rightarrow> StatusReport" where
  "add_status_finding report finding = report\<lparr>sr_Findings := append_one (sr_Findings report) finding\<rparr>"

definition set_components :: "(StatusComponents \<Rightarrow> StatusComponents) \<Rightarrow> StatusReport \<Rightarrow> StatusReport" where
  "set_components f report = report\<lparr>sr_Components := f (sr_Components report)\<rparr>"

section \<open>Resource types\<close>

definition crdMissingFinding :: "string \<Rightarrow> string \<Rightarrow> BindingInspectionFinding" where
  "crdMissingFinding reason message =
     \<lparr>fd_ID = findingCRDMissing, fd_Severity = SeverityError, fd_Reason = reason, fd_Message = message,
      fd_AffectedRefs = None\<rparr>"

definition crdAvailable :: "statusInspector \<Rightarrow> GroupVersionKind \<Rightarrow> bool result" where
  "crdAvailable i gvk =
     (case si_mapper i gvk of
        None \<Rightarrow> Inr True
      | Some err \<Rightarrow>
          if IsNoMatchError err then Inr False
          else Inl (WrapError (''resolve REST mapping for '' @ GVK_String (si_ext i) gvk @ '': '') err))"

fun availableVersions :: "statusInspector \<Rightarrow> GroupVersionKind list \<Rightarrow> (string list) result" where
  "availableVersions i [] = Inr []"
| "availableVersions i (gvk # gvks) =
     (case crdAvailable i gvk of
        Inl err \<Rightarrow> Inl err
      | Inr available \<Rightarrow>
          (case availableVersions i gvks of
             Inl err \<Rightarrow> Inl err
           | Inr versions \<Rightarrow> Inr (if available then gvk_Version gvk # versions else versions)))"

definition kleymGVK :: GroupVersionKind where
  "kleymGVK = GroupVersionKind (fst GroupVersion) (snd GroupVersion) ''InferenceIdentityBinding''"

definition report_kleym_crd :: "bool \<Rightarrow> StatusReport \<Rightarrow> StatusReport" where
  "report_kleym_crd available report =
     (if available then set_components (\<lambda>c. c\<lparr>sm_KleymCRDs := \<lparr>ka_Status = StatusResultOK,
        ka_Message = [], ka_InferenceIdentityBinding = snd GroupVersion\<rparr>\<rparr>) report
      else add_status_finding (set_components (\<lambda>c. c\<lparr>sm_KleymCRDs := \<lparr>ka_Status = StatusResultError,
          ka_Message = ''missing InferenceIdentityBinding'', ka_InferenceIdentityBinding = []\<rparr>\<rparr>) report)
        (crdMissingFinding reasonKleymCRDMissing ''InferenceIdentityBinding CRD is not installed''))"

definition report_spire_crd :: "bool \<Rightarrow> StatusReport \<Rightarrow> StatusReport" where
  "report_spire_crd available report =
     (if available then set_components (\<lambda>c. c\<lparr>sm_SPIRECRDs := \<lparr>sc_Status = StatusResultOK,
        sc_Message = [], sc_ClusterSPIFFEID = gvk_Version ClusterSPIFFEIDGVK\<rparr>\<rparr>) report
      else add_status_finding (set_components (\<lambda>c. c\<lparr>sm_SPIRECRDs := \<lparr>sc_Status = StatusResultError,
          sc_Message = ''missing ClusterSPIFFEID'', sc_ClusterSPIFFEID = []\<rparr>\<rparr>) report)
        (crdMissingFinding ''ClusterSPIFFEIDCRDMissing'' ''ClusterSPIFFEID CRD is not installed''))"

definition report_gaie_crd :: "string list \<Rightarrow> StatusReport \<Rightarrow> StatusReport" where
  "report_gaie_crd poolVersions report =
     (if length poolVersions > 0 then set_components (\<lambda>c. c\<lparr>sm_GAIECRDs := \<lparr>gs_Status = StatusResultOK,
        gs_Message = [], gs_InferencePool = Join poolVersions '',''\<rparr>\<rparr>) report
      else add_status_finding (set_components (\<lambda>c. c\<lparr>sm_GAIECRDs := \<lparr>gs_Status = StatusResultError,
          gs_Message = ''missing InferencePool'', gs_InferencePool = ''unavailable''\<rparr>\<rparr>) report)
        (crdMissingFinding reasonGAIECRDMissing ''InferencePool CRD is not installed''))"

text \<open>The report is changed in place, so an error returns it as far as it was filled.\<close>

definition inspectCRDs :: "statusInspector \<Rightarrow> StatusReport \<Rightarrow> StatusReport \<times> go_error option" where
  "inspectCRDs i report =
     (case crdAvailable i kleymGVK of
        Inl err \<Rightarrow> (report, Some err)
      | Inr kleymCRDAvailable \<Rightarrow>
          let report = report_kleym_crd kleymCRDAvailable report in
          (case crdAvailable i ClusterSPIFFEIDGVK of
             Inl err \<Rightarrow> (report, Some err)
           | Inr spireCRDAvailable \<Rightarrow>
               let report = report_spire_crd spireCRDAvailable report in
               (case availableVersions i InferencePoolGVKs of
                  Inl err \<Rightarrow> (report, Some err)
                | Inr poolVersions \<Rightarrow> (report_gaie_crd poolVersions report, None))))"

section \<open>The operator's deployment\<close>

definition imageTag :: "string \<Rightarrow> string" where
  "imageTag ref =
     (if ref = [] then []
      else let digestIndex = LastIndex ref ''@'' in
        if digestIndex \<ge> 0 then drop (nat (digestIndex + 1)) ref
        else let slashIndex = LastIndex ref ''/''; colonIndex = LastIndex ref '':'' in
          if colonIndex > slashIndex then drop (nat (colonIndex + 1)) ref else [])"

text \<open>
  The container called operator, else the first one.
\<close>

definition operator_container :: "Deployment \<Rightarrow> Container option" where
  "operator_container deployment =
     (case find (\<lambda>container. ctr_Name container = operatorLabelComponent) (dep_Containers deployment) of
        Some container \<Rightarrow> Some container
      | None \<Rightarrow> if length (dep_Containers deployment) = 0 then None else Some (dep_Containers deployment ! 0))"

definition operatorVersion :: "Deployment \<Rightarrow> string" where
  "operatorVersion deployment =
     (case operator_container deployment of
        None \<Rightarrow> [] | Some container \<Rightarrow> imageTag (ctr_Image container))"

definition operatorStatusFromDeployment :: "Deployment \<Rightarrow> string \<Rightarrow> string \<Rightarrow> OperatorStatus" where
  "operatorStatusFromDeployment deployment status message =
     (let replicas = (case dep_Replicas deployment of None \<Rightarrow> 1 | Some n \<Rightarrow> n);
          replicas = (if dep_ReadyReplicas deployment > replicas then dep_ReadyReplicas deployment else replicas)
      in \<lparr>op_Status = status, op_Message = message,
          op_Deployment = dep_Namespace deployment @ ''/'' @ dep_Name deployment,
          op_ReadyReplicas = dep_ReadyReplicas deployment, op_Replicas = replicas,
          op_Version = operatorVersion deployment\<rparr>)"

text \<open>
  The loop over the arguments: the report's trust domain, whether one was found, the class
  name and whether one was found. The first trust domain wins, and the last class name.
\<close>

fun scan_args :: "string list \<Rightarrow> string \<times> bool \<times> string \<times> bool \<Rightarrow> string \<times> bool \<times> string \<times> bool" where
  "scan_args [] acc = acc"
| "scan_args (arg # args) (trustDomain, trustDomainFound, className, classNameFound) =
     (case CutPrefix arg ''--trust-domain='' of (value, ok) \<Rightarrow>
        if ok \<and> trustDomain = [] then scan_args args (value, True, className, classNameFound)
        else (case CutPrefix arg ''--clusterspiffeid-class-name='' of (value, ok) \<Rightarrow>
          if ok then scan_args args (trustDomain, trustDomainFound, value, True)
          else scan_args args (trustDomain, trustDomainFound, className, classNameFound)))"

definition fillConfigFromArgs :: "string list \<Rightarrow> StatusReport \<Rightarrow> StatusReport" where
  "fillConfigFromArgs args report =
     (case scan_args args (sf_TrustDomain (sr_Config report), False, [], False) of
        (trustDomain, trustDomainFound, className, classNameFound) \<Rightarrow>
          let report = report\<lparr>sr_Config := (sr_Config report)\<lparr>sf_TrustDomain := trustDomain\<rparr>\<rparr> in
          if \<not> sf_ClusterSPIFFEIDClassNameKnown (sr_Config report) \<and> (trustDomainFound \<or> classNameFound)
          then report\<lparr>sr_Config := (sr_Config report)\<lparr>sf_ClusterSPIFFEIDClassName := className,
            sf_ClusterSPIFFEIDClassNameKnown := True\<rparr>\<rparr>
          else report)"

definition fillConfigFromDeployment :: "Deployment \<Rightarrow> StatusReport \<Rightarrow> StatusReport" where
  "fillConfigFromDeployment deployment report =
     (case operator_container deployment of
        None \<Rightarrow> report | Some container \<Rightarrow> fillConfigFromArgs (ctr_Args container) report)"

definition operatorFinding :: "string \<Rightarrow> string \<Rightarrow> BindingInspectionFinding" where
  "operatorFinding reason message =
     \<lparr>fd_ID = findingOperatorUnavailable, fd_Severity = SeverityError, fd_Reason = reason,
      fd_Message = message, fd_AffectedRefs = None\<rparr>"

definition operator_labels :: "string gomap" where
  "operator_labels = [(''app.kubernetes.io/name'', operatorLabelName),
     (''app.kubernetes.io/component'', operatorLabelComponent)]"

definition report_deployments :: "Deployment list \<Rightarrow> StatusReport \<Rightarrow> StatusReport" where
  "report_deployments deployments report =
     (if length deployments = 0 then
        add_status_finding (set_components (\<lambda>c. c\<lparr>sm_Operator := \<lparr>op_Status = StatusResultError,
            op_Message = ''not found'', op_Deployment = [], op_ReadyReplicas = 0, op_Replicas = 0,
            op_Version = []\<rparr>\<rparr>) report)
          (operatorFinding reasonOperatorNotFound ''Kleym operator Deployment was not found'')
      else
        let report = set_components (\<lambda>c. c\<lparr>sm_Operator := operatorStatusFromDeployment (deployments ! 0)
              StatusResultError ''no ready replicas''\<rparr>) report in
        (case find (\<lambda>d. dep_ReadyReplicas d > 0) deployments of
           Some deployment \<Rightarrow> fillConfigFromDeployment deployment
             (set_components (\<lambda>c. c\<lparr>sm_Operator :=
               operatorStatusFromDeployment deployment StatusResultOK []\<rparr>) report)
         | None \<Rightarrow> add_status_finding report
             (operatorFinding reasonOperatorUnavailable ''Kleym operator Deployment has no ready replicas'')))"

definition inspectOperator :: "statusInspector \<Rightarrow> StatusReport \<Rightarrow> (StatusReport \<times> go_error option) run" where
  "inspectOperator i report = do {
     listed \<leftarrow> ListDeployments (si_client i) operator_labels;
     State_Monad.return (case listed of
        Inl err \<Rightarrow> (report, Some (WrapError ''list Kleym operator deployments: '' err))
      | Inr deployments \<Rightarrow> (report_deployments deployments report, None))
   }"

section \<open>Bindings\<close>

text \<open>The observed values, as the keys of two maps.\<close>

record statusConfigObservations =
  ob_trustDomains :: "unit gomap"
  ob_classNames :: "unit gomap"

definition newStatusConfigObservations :: statusConfigObservations where
  "newStatusConfigObservations = \<lparr>ob_trustDomains = [], ob_classNames = []\<rparr>"

definition addBinding :: "binding \<Rightarrow> statusConfigObservations \<Rightarrow> statusConfigObservations" where
  "addBinding binding o' =
     (if st_TrustDomain (b_Status binding) = [] then o'
      else \<lparr>ob_trustDomains = map_put (ob_trustDomains o') (st_TrustDomain (b_Status binding)) (),
            ob_classNames = map_put (ob_classNames o') (st_ClusterSPIFFEIDClassName (b_Status binding)) ()\<rparr>)"

definition observedConfigValue :: "unit gomap \<Rightarrow> string option" where
  "observedConfigValue values =
     (case values of
        [] \<Rightarrow> None
      | [(value, _)] \<Rightarrow> Some value
      | _ \<Rightarrow> Some ''mixed'')"

definition fillConfigFromBindingObservations ::
    "statusConfigObservations \<Rightarrow> StatusReport \<Rightarrow> StatusReport" where
  "fillConfigFromBindingObservations observations report =
     (let report =
        (if sf_TrustDomain (sr_Config report) = [] then
           (case observedConfigValue (ob_trustDomains observations) of
              Some value \<Rightarrow> report\<lparr>sr_Config := (sr_Config report)\<lparr>sf_TrustDomain := value\<rparr>\<rparr>
            | None \<Rightarrow> report)
         else report)
      in if \<not> sf_ClusterSPIFFEIDClassNameKnown (sr_Config report) then
           (case observedConfigValue (ob_classNames observations) of
              Some value \<Rightarrow> report\<lparr>sr_Config := (sr_Config report)\<lparr>sf_ClusterSPIFFEIDClassName := value,
                sf_ClusterSPIFFEIDClassNameKnown := True\<rparr>\<rparr>
            | None \<Rightarrow> report)
         else report)"

definition conditionIsTrue :: "ext \<Rightarrow> binding \<Rightarrow> string \<Rightarrow> bool" where
  "conditionIsTrue X binding conditionType =
     (case FindStatusCondition X (st_Conditions (b_Status binding)) conditionType of
        None \<Rightarrow> False | Some condition \<Rightarrow> c_Status condition = ConditionTrue)"

definition addBindingConditionCounts ::
    "ext \<Rightarrow> binding \<Rightarrow> BindingConditionSummary \<Rightarrow> BindingConditionSummary" where
  "addBindingConditionCounts X binding summary =
     (let summary = (if conditionIsTrue X binding statusConditionTypeReady
            then summary\<lparr>cs_Ready := cs_Ready summary + 1\<rparr> else summary);
          summary = (if conditionIsTrue X binding statusConditionTypeInvalidRef
            then summary\<lparr>cs_InvalidRef := cs_InvalidRef summary + 1\<rparr> else summary);
          summary = (if conditionIsTrue X binding statusConditionTypeUnsafeSelector
            then summary\<lparr>cs_UnsafeSelector := cs_UnsafeSelector summary + 1\<rparr> else summary)
      in (if conditionIsTrue X binding statusConditionTypeRenderFailure
            then summary\<lparr>cs_RenderFailure := cs_RenderFailure summary + 1\<rparr> else summary))"

definition bindingResult :: "ext \<Rightarrow> binding \<Rightarrow> string" where
  "bindingResult X binding =
     (case FindStatusCondition X (st_Conditions (b_Status binding)) statusConditionTypeReady of
        None \<Rightarrow> StatusResultWarning
      | Some ready \<Rightarrow>
          if c_Status ready = ConditionUnknown then StatusResultWarning
          else if c_Status ready = ConditionTrue then StatusResultOK
          else StatusResultError)"

definition bindingUnhealthyFinding :: "ext \<Rightarrow> binding \<Rightarrow> BindingInspectionFinding" where
  "bindingUnhealthyFinding X binding =
     (case (case FindStatusCondition X (st_Conditions (b_Status binding)) statusConditionTypeReady of
              None \<Rightarrow> (''BindingNotReady'', ''binding is not ready'')
            | Some condition \<Rightarrow> (c_Reason condition, c_Message condition)) of
        (reason, message) \<Rightarrow>
          \<lparr>fd_ID = findingBindingUnhealthy, fd_Severity = SeverityError, fd_Reason = reason,
           fd_Message = message, fd_AffectedRefs = Some [bindingInspectionBindingTargetRef binding]\<rparr>)"

definition count_result :: "ext \<Rightarrow> binding \<Rightarrow> StatusReport \<Rightarrow> StatusReport" where
  "count_result X binding report =
     (let result = bindingResult X binding; summary = sr_Summary report in
      if result = StatusResultOK then report\<lparr>sr_Summary := summary\<lparr>bs_OK := bs_OK summary + 1\<rparr>\<rparr>
      else if result = StatusResultWarning then
        report\<lparr>sr_Summary := summary\<lparr>bs_Warning := bs_Warning summary + 1\<rparr>\<rparr>
      else add_status_finding (report\<lparr>sr_Summary := summary\<lparr>bs_Error := bs_Error summary + 1\<rparr>\<rparr>)
        (bindingUnhealthyFinding X binding))"

text \<open>One turn of the loop over the bindings, and the loop.\<close>

definition inspect_one :: "ext \<Rightarrow> binding \<Rightarrow> StatusReport \<Rightarrow> StatusReport" where
  "inspect_one X binding report =
     (let summary = sr_Summary report;
          summary = summary\<lparr>bs_Total := bs_Total summary + 1,
            bs_Conditions := addBindingConditionCounts X binding (bs_Conditions summary)\<rparr>
      in count_result X binding (report\<lparr>sr_Summary := summary\<rparr>))"

fun inspect_all ::
    "ext \<Rightarrow> binding list \<Rightarrow> statusConfigObservations \<Rightarrow> StatusReport \<Rightarrow> statusConfigObservations \<times> StatusReport" where
  "inspect_all X [] observations report = (observations, report)"
| "inspect_all X (binding # bindings) observations report =
     inspect_all X bindings (addBinding binding observations) (inspect_one X binding report)"

definition inspectBindings :: "ext \<Rightarrow> binding list \<Rightarrow> StatusReport \<Rightarrow> StatusReport" where
  "inspectBindings X bindings report =
     (case inspect_all X bindings newStatusConfigObservations report of
        (observations, report) \<Rightarrow> fillConfigFromBindingObservations observations report)"

definition set_status :: "string \<Rightarrow> StatusReport \<Rightarrow> StatusReport" where
  "set_status result report = set_components
     (\<lambda>c. c\<lparr>sm_Kleym := \<lparr>co_Status = result, co_Message = []\<rparr>\<rparr>) (report\<lparr>sr_Status := result\<rparr>)"

definition finishStatusReport :: "StatusReport \<Rightarrow> StatusReport" where
  "finishStatusReport report =
     (if HasErrorSeverityFinding (sr_Findings report) then set_status StatusResultError report
      else if HasWarningSeverityFinding (sr_Findings report) \<or> bs_Warning (sr_Summary report) > 0
      then set_status StatusResultWarning report
      else set_status StatusResultOK report)"

section \<open>Status\<close>

definition Status :: "statusInspector \<Rightarrow> (StatusReport \<times> status_error option) run" where
  "Status i = (
     let report = NewStatusReport\<lparr>sr_GeneratedAt := si_now i\<rparr> in
     case inspectCRDs i report of
       (report, Some err) \<Rightarrow> State_Monad.return (report, Some (StatusFailed err))
     | (report, None) \<Rightarrow> do {
         operator \<leftarrow> inspectOperator i report;
         (case operator of
            (report, Some err) \<Rightarrow> State_Monad.return (report, Some (StatusFailed err))
          | (report, None) \<Rightarrow>
              if ka_Status (sm_KleymCRDs (sr_Components report)) = StatusResultError then
                State_Monad.return (finishStatusReport report, Some ErrStatusReportErrorFindings)
              else do {
                listed \<leftarrow> ListBindings (si_client i) [];
                State_Monad.return (case listed of
                   Inl err \<Rightarrow> (report, Some (StatusFailed (WrapError ''list InferenceIdentityBindings: '' err)))
                 | Inr bindings \<Rightarrow>
                     let report = finishStatusReport (inspectBindings (si_ext i) bindings report) in
                     (report, if HasErrorSeverityFinding (sr_Findings report)
                              then Some ErrStatusReportErrorFindings else None))
              })
       })"

section \<open>Image references\<close>

lemma LastIndex_absent: "c \<notin> set s \<Longrightarrow> LastIndex s [c] = -1"
proof -
  assume "c \<notin> set s"
  then have "\<not> HasPrefix (drop i s) [c]" for i
    using in_set_dropD [of c i s] by (auto simp: HasPrefix_iff)
  then show ?thesis by (simp add: LastIndex_def)
qed

lemma HasPrefix_drop_byte: "HasPrefix (drop i s) [c] \<longleftrightarrow> i < length s \<and> s ! i = c"
proof (cases "i < length s")
  case True
  then have "drop i s = s ! i # drop (Suc i) s" by (simp add: Cons_nth_drop_Suc)
  then show ?thesis using True by simp
next
  case False
  then show ?thesis by simp
qed

lemma LastIndex_last:
  assumes "c \<notin> set t"
  shows "LastIndex (p @ c # t) [c] = int (length p)"
proof -
  let ?s = "p @ c # t" and ?n = "length p"
  have none: "\<not> HasPrefix (drop i ?s) [c]" if "?n < i" for i
  proof
    assume "HasPrefix (drop i ?s) [c]"
    then have "i < length ?s" "?s ! i = c" unfolding HasPrefix_drop_byte by blast+
    with that have "t ! (i - Suc ?n) = c" "i - Suc ?n < length t" by (auto simp: nth_append nth_Cons')
    with assms show False by (metis nth_mem)
  qed
  have "[?n..<Suc (length ?s)] = ?n # [Suc ?n..<Suc (length ?s)]" by (rule upt_conv_Cons) simp
  moreover have "[0..<Suc (length ?s)] = [0..<?n] @ [?n..<Suc (length ?s)]"
    using upt_add_eq_append [of 0 ?n "Suc (length ?s) - ?n"] by (simp del: upt_Suc)
  ultimately have "rev [0..<Suc (length ?s)] = rev [Suc ?n..<Suc (length ?s)] @ ?n # rev [0..<?n]" by (simp del: upt_Suc)
  moreover have "filter (\<lambda>i. HasPrefix (drop i ?s) [c]) (rev [Suc ?n..<Suc (length ?s)]) = []"
  proof (rule filter_False, rule ballI, rule none)
    fix i
    assume "i \<in> set (rev [Suc ?n..<Suc (length ?s)])"
    then show "?n < i" unfolding set_rev set_upt by simp
  qed
  moreover have "HasPrefix (drop ?n ?s) [c]" by (simp add: HasPrefix_drop_byte)
  ultimately show ?thesis unfolding LastIndex_def by (simp del: upt_Suc drop_append)
qed

lemma LastIndex_append_absent:
  assumes "c \<notin> set t"
  shows "LastIndex (p @ t) [c] < int (length p)"
proof (cases "c \<in> set p")
  case True
  then obtain q r where "p = q @ c # r" "c \<notin> set r" by (meson split_list_last)
  with assms LastIndex_last [of c "r @ t" q] show ?thesis by simp
next
  case False
  with assms show ?thesis by (simp add: LastIndex_absent)
qed

text \<open>
  The version shown for the operator is read back from its image reference: the digest
  when there is one, else the tag, and nothing for an untagged reference, even when the
  registry has a port.
\<close>
theorem imageTag_roundtrip:
  "(CHR ''@'' \<notin> set digest \<longrightarrow> imageTag (repository @ ''@'' @ digest) = digest) \<and>
   (CHR ''@'' \<notin> set (repository @ tag) \<and> CHR ''/'' \<notin> set tag \<and> CHR '':'' \<notin> set tag \<longrightarrow>
      imageTag (repository @ '':'' @ tag) = tag) \<and>
   (CHR ''@'' \<notin> set (registry @ name) \<and> CHR '':'' \<notin> set name \<longrightarrow> imageTag (registry @ ''/'' @ name) = [])"
proof (intro conjI impI)
  assume "CHR ''@'' \<notin> set digest"
  then show "imageTag (repository @ ''@'' @ digest) = digest"
    using LastIndex_last [of "CHR ''@''" digest repository] by (simp add: imageTag_def nat_add_distrib)
next
  assume a: "CHR ''@'' \<notin> set (repository @ tag) \<and> CHR ''/'' \<notin> set tag \<and> CHR '':'' \<notin> set tag"
  then have "LastIndex (repository @ '':'' @ tag) ''@'' = -1"
    "LastIndex (repository @ '':'' @ tag) '':'' = int (length repository)"
    "LastIndex (repository @ '':'' @ tag) ''/'' < int (length repository)"
    using LastIndex_absent [of "CHR ''@''" "repository @ '':'' @ tag"] LastIndex_last [of "CHR '':''" tag repository]
      LastIndex_append_absent [of "CHR ''/''" "'':'' @ tag" repository] by simp_all
  then show "imageTag (repository @ '':'' @ tag) = tag"
    by (simp add: imageTag_def nat_add_distrib Let_def)
next
  assume a: "CHR ''@'' \<notin> set (registry @ name) \<and> CHR '':'' \<notin> set name"
  have "LastIndex (registry @ ''/'' @ name) ''@'' = -1" using a by (intro LastIndex_absent) simp
  moreover have "LastIndex (registry @ ''/'' @ name) '':'' < int (length registry)"
    using LastIndex_append_absent [of "CHR '':''" "''/'' @ name" registry] a by simp
  moreover have "int (length registry) \<le> LastIndex (registry @ ''/'' @ name) ''/''"
  proof (cases "CHR ''/'' \<in> set name")
    case True
    then obtain q r where "name = q @ CHR ''/'' # r" "CHR ''/'' \<notin> set r" by (meson split_list_last)
    then show ?thesis using LastIndex_last [of "CHR ''/''" r "registry @ ''/'' @ q"] by simp
  next
    case False
    then show ?thesis using LastIndex_last [of "CHR ''/''" name registry] by simp
  qed
  ultimately show "imageTag (registry @ ''/'' @ name) = []" by (simp add: imageTag_def Let_def)
qed

section \<open>Counts\<close>

lemma inspect_all_snd: "snd (inspect_all X bs obs report) = fold (inspect_one X) bs report"
  by (induction bs arbitrary: obs report) simp_all

definition result_count :: "ext \<Rightarrow> string \<Rightarrow> binding list \<Rightarrow> int" where
  "result_count X result bs = int (length (filter (\<lambda>b. bindingResult X b = result) bs))"

definition true_count :: "ext \<Rightarrow> string \<Rightarrow> binding list \<Rightarrow> int" where
  "true_count X t bs = int (length (filter (\<lambda>b. conditionIsTrue X b t) bs))"

lemma bindingResult_cases:
  "bindingResult X b = StatusResultOK \<or> bindingResult X b = StatusResultWarning \<or>
   bindingResult X b = StatusResultError"
  by (auto simp: bindingResult_def split: option.split)

definition counted :: "ext \<Rightarrow> binding list \<Rightarrow> BindingStatusSummary \<Rightarrow> BindingStatusSummary" where
  "counted X bs s = \<lparr>bs_OK = bs_OK s + result_count X StatusResultOK bs,
     bs_Warning = bs_Warning s + result_count X StatusResultWarning bs,
     bs_Error = bs_Error s + result_count X StatusResultError bs, bs_Total = bs_Total s + int (length bs),
     bs_Conditions = \<lparr>cs_Ready = cs_Ready (bs_Conditions s) + true_count X statusConditionTypeReady bs,
       cs_InvalidRef = cs_InvalidRef (bs_Conditions s) + true_count X statusConditionTypeInvalidRef bs,
       cs_UnsafeSelector = cs_UnsafeSelector (bs_Conditions s) + true_count X statusConditionTypeUnsafeSelector bs,
       cs_RenderFailure = cs_RenderFailure (bs_Conditions s) + true_count X statusConditionTypeRenderFailure bs\<rparr>\<rparr>"

lemma inspect_one_summary: "sr_Summary (inspect_one X b report) = counted X [b] (sr_Summary report)"
  using bindingResult_cases [of X b]
  by (auto simp: inspect_one_def count_result_def counted_def result_count_def true_count_def
      addBindingConditionCounts_def add_status_finding_def Let_def insp_defs)

lemma counted_append: "counted X bs' (counted X bs s) = counted X (bs @ bs') s"
  by (simp add: counted_def result_count_def true_count_def)

lemma inspect_one_findings:
  "elems (sr_Findings (inspect_one X b report)) = elems (sr_Findings report) @
     (if bindingResult X b = StatusResultError then [bindingUnhealthyFinding X b] else [])"
  using bindingResult_cases [of X b]
  by (auto simp: inspect_one_def count_result_def add_status_finding_def append_one_def elems_def Let_def insp_defs)

lemma inspect_fold:
  "sr_Summary (fold (inspect_one X) bs report) = counted X bs (sr_Summary report) \<and>
   elems (sr_Findings (fold (inspect_one X) bs report)) = elems (sr_Findings report) @
     map (bindingUnhealthyFinding X) (filter (\<lambda>b. bindingResult X b = StatusResultError) bs)"
proof (induction bs arbitrary: report)
  case Nil
  then show ?case by (simp add: counted_def result_count_def true_count_def)
next
  case (Cons b bs)
  show ?case using Cons.IH [of "inspect_one X b report"] counted_append [of X bs "[b]" "sr_Summary report"]
    by (simp add: inspect_one_summary inspect_one_findings)
qed

lemma fillConfigFromBindingObservations_keeps [simp]:
  "sr_Summary (fillConfigFromBindingObservations obs report) = sr_Summary report"
  "sr_Findings (fillConfigFromBindingObservations obs report) = sr_Findings report"
  by (simp_all add: fillConfigFromBindingObservations_def Let_def split: option.split)

lemma result_count_total:
  "result_count X StatusResultOK bs + result_count X StatusResultWarning bs
     + result_count X StatusResultError bs = int (length bs)"
proof (induction bs)
  case (Cons b bs)
  then show ?case using bindingResult_cases [of X b] by (auto simp: result_count_def insp_defs)
qed (simp add: result_count_def)

text \<open>
  C28: The summary counts every binding once: on a fresh report the three result counts are
  the numbers of bindings with that result and add up to the total, the condition counts
  are the numbers of bindings whose condition is true, and there is one error finding per
  unhealthy binding, in order.
\<close>
theorem inspectBindings_counts:
  "sr_Summary (inspectBindings X bs NewStatusReport) =
     \<lparr>bs_OK = result_count X StatusResultOK bs, bs_Warning = result_count X StatusResultWarning bs,
      bs_Error = result_count X StatusResultError bs, bs_Total = int (length bs),
      bs_Conditions = \<lparr>cs_Ready = true_count X statusConditionTypeReady bs,
        cs_InvalidRef = true_count X statusConditionTypeInvalidRef bs,
        cs_UnsafeSelector = true_count X statusConditionTypeUnsafeSelector bs,
        cs_RenderFailure = true_count X statusConditionTypeRenderFailure bs\<rparr>\<rparr> \<and>
   result_count X StatusResultOK bs + result_count X StatusResultWarning bs
     + result_count X StatusResultError bs = int (length bs) \<and>
   elems (sr_Findings (inspectBindings X bs NewStatusReport)) =
     map (bindingUnhealthyFinding X) (filter (\<lambda>b. bindingResult X b = StatusResultError) bs)"
proof -
  obtain obs report where all: "inspect_all X bs newStatusConfigObservations NewStatusReport = (obs, report)"
    by fastforce
  then have "report = fold (inspect_one X) bs NewStatusReport"
    using inspect_all_snd [of X bs newStatusConfigObservations NewStatusReport] by simp
  with inspect_fold [of X bs NewStatusReport]
  have "sr_Summary report = counted X bs (sr_Summary NewStatusReport)"
    "elems (sr_Findings report) = elems (sr_Findings NewStatusReport) @
      map (bindingUnhealthyFinding X) (filter (\<lambda>b. bindingResult X b = StatusResultError) bs)" by simp_all
  then show ?thesis using all result_count_total
    by (simp add: inspectBindings_def NewStatusReport_def normalizeStatusReport_def zero_status_report_def
        counted_def elems_def Let_def)
qed

theorem imageTag_roundtrip_witness:
  "imageTag ''ghcr.io/k@sha'' = ''sha'' \<and> imageTag ''r:5/k:v1'' = ''v1'' \<and> imageTag ''r:5/k'' = []"
  using imageTag_roundtrip [of "''sha''" "''ghcr.io/k''" "[]" "''r:5''" "''k''"]
    imageTag_roundtrip [of "[]" "''r:5/k''" "''v1''" "[]" "[]"] by simp

end
