(* ===== verification/Json.thy ===== *)
theory Json
  imports Api_Types Go_Hash
begin

text \<open>
  JSON texts. The first part models what the reports use of Go's \<^verbatim>\<open>encoding/json\<close>: an encoder
  without HTML escaping, which writes a value in compact form and ends it with a newline.
  The second part is a reader for the JSON grammar (RFC 8259), the specification the
  encoder is checked against.
\<close>

section \<open>UTF-8\<close>

definition byte :: "char \<Rightarrow> nat" where
  "byte c = of_char c"

definition cont :: "char \<Rightarrow> bool" where
  "cont c = (0x80 \<le> byte c \<and> byte c \<le> 0xBF)"

definition lead3 :: "char \<Rightarrow> char \<Rightarrow> bool" where
  "lead3 a b = (byte a = 0xE0 \<and> 0xA0 \<le> byte b \<and> byte b \<le> 0xBF \<or>
     byte a = 0xED \<and> 0x80 \<le> byte b \<and> byte b \<le> 0x9F \<or>
     0xE1 \<le> byte a \<and> byte a \<le> 0xEF \<and> byte a \<noteq> 0xED \<and> cont b)"

definition lead4 :: "char \<Rightarrow> char \<Rightarrow> bool" where
  "lead4 a b = (byte a = 0xF0 \<and> 0x90 \<le> byte b \<and> byte b \<le> 0xBF \<or>
     0xF1 \<le> byte a \<and> byte a \<le> 0xF3 \<and> cont b \<or> byte a = 0xF4 \<and> 0x80 \<le> byte b \<and> byte b \<le> 0x8F)"

text \<open>
  The size of the encoded rune at the start of a string, as \<^verbatim>\<open>utf8.DecodeRuneInString\<close> finds
  it; 0 where there is no valid encoding.
\<close>

definition rune_size :: "string \<Rightarrow> nat" where
  "rune_size s = (case s of [] \<Rightarrow> 0 | a # s1 \<Rightarrow>
     if byte a < 0x80 then 1
     else (case s1 of [] \<Rightarrow> 0 | b # s2 \<Rightarrow>
       if 0xC2 \<le> byte a \<and> byte a \<le> 0xDF \<and> cont b then 2
       else (case s2 of [] \<Rightarrow> 0 | c # s3 \<Rightarrow>
         if lead3 a b \<and> cont c then 3
         else (case s3 of [] \<Rightarrow> 0 | d # _ \<Rightarrow> if lead4 a b \<and> cont c \<and> cont d then 4 else 0))))"

section \<open>Encoding\<close>

definition escape_byte :: "char \<Rightarrow> string" where
  "escape_byte c =
     (if c = CHR 0x22 \<or> c = CHR 0x5C then [CHR 0x5C, c]
      else if c = CHR 0x08 then [CHR 0x5C, CHR ''b'']
      else if c = CHR 0x0C then [CHR 0x5C, CHR ''f'']
      else if c = CHR 0x0A then [CHR 0x5C, CHR ''n'']
      else if c = CHR 0x0D then [CHR 0x5C, CHR ''r'']
      else if c = CHR 0x09 then [CHR 0x5C, CHR ''t'']
      else if byte c < 0x20 then CHR 0x5C # ''u00'' @ [hex_digit (byte c div 16), hex_digit (byte c mod 16)]
      else [c])"

text \<open>The line separators U+2028 and U+2029, which are always escaped.\<close>

definition line_separator :: string where
  "line_separator = [CHR 0xE2, CHR 0x80, CHR 0xA8]"
definition paragraph_separator :: string where
  "paragraph_separator = [CHR 0xE2, CHR 0x80, CHR 0xA9]"

function escape_string :: "string \<Rightarrow> string" where
  "escape_string [] = []"
| "escape_string (c # s) =
     (if byte c < 0x80 then escape_byte c @ escape_string s
      else if rune_size (c # s) = 0 then CHR 0x5C # ''ufffd'' @ escape_string s
      else if take 3 (c # s) = line_separator then CHR 0x5C # ''u2028'' @ escape_string (drop 2 s)
      else if take 3 (c # s) = paragraph_separator then CHR 0x5C # ''u2029'' @ escape_string (drop 2 s)
      else take (rune_size (c # s)) (c # s) @ escape_string (drop (rune_size (c # s) - 1) s))"
  by pat_completeness auto
termination by (relation "measure length") auto

definition encode_string :: "string \<Rightarrow> string" where
  "encode_string s = CHR 0x22 # escape_string s @ [CHR 0x22]"

fun encode_json :: "json \<Rightarrow> string" where
  "encode_json JNull = ''null''"
| "encode_json (JBool b) = (if b then ''true'' else ''false'')"
| "encode_json (JInt n) = decimal n"
| "encode_json (JFloat literal) = literal"
| "encode_json (JString s) = encode_string s"
| "encode_json (JArray xs) = CHR 0x5B # Join (map encode_json xs) '','' @ [CHR 0x5D]"
| "encode_json (JObject m) = CHR 0x7B # Join (map (\<lambda>kv. encode_string (fst kv) @ CHR 0x3A # encode_json (snd kv)) m) '',''
     @ [CHR 0x7D]"

text \<open>\<^verbatim>\<open>Encoder.Encode\<close>.\<close>

definition Encode :: "json \<Rightarrow> string" where
  "Encode v = encode_json v @ [CHR 0x0A]"

text \<open>The keys of a \<^verbatim>\<open>map[string]any\<close> are written in order.\<close>

fun sort_maps :: "json \<Rightarrow> json" where
  "sort_maps (JObject m) = JObject (sort_key fst (map (\<lambda>kv. (fst kv, sort_maps (snd kv))) m))"
| "sort_maps (JArray xs) = JArray (map sort_maps xs)"
| "sort_maps v = v"

section \<open>Reading\<close>

definition is_space :: "char \<Rightarrow> bool" where
  "is_space c = (c = CHR 0x20 \<or> c = CHR 0x09 \<or> c = CHR 0x0A \<or> c = CHR 0x0D)"

definition skip_space :: "string \<Rightarrow> string" where
  "skip_space = dropWhile is_space"

definition hex_value :: "char \<Rightarrow> nat option" where
  "hex_value c =
     (if 48 \<le> byte c \<and> byte c \<le> 57 then Some (byte c - 48)
      else if 97 \<le> byte c \<and> byte c \<le> 102 then Some (byte c - 87)
      else if 65 \<le> byte c \<and> byte c \<le> 70 then Some (byte c - 55)
      else None)"

fun read_hex4 :: "string \<Rightarrow> (nat \<times> string) option" where
  "read_hex4 (a # b # c # d # s) =
     (case (hex_value a, hex_value b, hex_value c, hex_value d) of
        (Some w, Some x, Some y, Some z) \<Rightarrow> Some (4096 * w + 256 * x + 16 * y + z, s)
      | _ \<Rightarrow> None)"
| "read_hex4 _ = None"

definition utf8_encode :: "nat \<Rightarrow> string" where
  "utf8_encode n =
     (if n < 0x80 then [char_of n]
      else if n < 0x800 then [char_of (0xC0 + n div 64), char_of (0x80 + n mod 64)]
      else if n < 0x10000 then [char_of (0xE0 + n div 4096), char_of (0x80 + n div 64 mod 64), char_of (0x80 + n mod 64)]
      else [char_of (0xF0 + n div 262144), char_of (0x80 + n div 4096 mod 64), char_of (0x80 + n div 64 mod 64),
        char_of (0x80 + n mod 64)])"

text \<open>A \<^verbatim>\<open>u\<close> escape, with the second one a high surrogate needs.\<close>

definition read_unicode :: "string \<Rightarrow> (string \<times> string) option" where
  "read_unicode s =
     (case read_hex4 s of
        None \<Rightarrow> None
      | Some (n, rest) \<Rightarrow>
          if n < 0xD800 \<or> 0xE000 \<le> n then Some (utf8_encode n, rest)
          else if 0xDC00 \<le> n then None
          else (case rest of
              a # b # rest' \<Rightarrow>
                if a = CHR 0x5C \<and> b = CHR ''u'' then
                  (case read_hex4 rest' of
                     None \<Rightarrow> None
                   | Some (m, rest'') \<Rightarrow>
                       if 0xDC00 \<le> m \<and> m < 0xE000
                       then Some (utf8_encode (0x10000 + 1024 * (n - 0xD800) + (m - 0xDC00)), rest'') else None)
                else None
            | _ \<Rightarrow> None))"

definition simple_escape :: "char \<Rightarrow> char option" where
  "simple_escape c = map_of [(CHR 0x22, CHR 0x22), (CHR 0x5C, CHR 0x5C), (CHR ''/'', CHR ''/''), (CHR ''b'', CHR 0x08),
     (CHR ''f'', CHR 0x0C), (CHR ''n'', CHR 0x0A), (CHR ''r'', CHR 0x0D), (CHR ''t'', CHR 0x09)] c"

lemma read_hex4_shorter: "read_hex4 s = Some (n, t) \<Longrightarrow> length t < length s"
  by (induction s rule: read_hex4.induct) (auto split: option.splits)

lemma read_unicode_shorter: "read_unicode s = Some (u, t) \<Longrightarrow> length t < length s"
  by (auto simp: read_unicode_def dest!: read_hex4_shorter split: option.splits if_splits list.splits)

text \<open>The rest of a string, after its opening quote.\<close>

function read_chars :: "string \<Rightarrow> (string \<times> string) option" where
  "read_chars [] = None"
| "read_chars (c # s) =
     (if c = CHR 0x22 then Some ([], s)
      else if c = CHR 0x5C then
        (case s of
           [] \<Rightarrow> None
         | e # s' \<Rightarrow>
             if e = CHR ''u'' then
               (case read_unicode s' of
                  None \<Rightarrow> None
                | Some (u, rest) \<Rightarrow> map_option (\<lambda>(t, r). (u @ t, r)) (read_chars rest))
             else (case simple_escape e of
                  None \<Rightarrow> None
                | Some d \<Rightarrow> map_option (\<lambda>(t, r). (d # t, r)) (read_chars s')))
      else if byte c < 0x20 then None
      else map_option (\<lambda>(t, r). (c # t, r)) (read_chars s))"
  by pat_completeness auto
termination
  by (relation "measure length") (auto dest: read_unicode_shorter)

declare escape_string.simps(2) [simp del] read_chars.simps(2) [simp del]

definition digit :: "char \<Rightarrow> bool" where
  "digit c = (48 \<le> byte c \<and> byte c \<le> 57)"

definition number_char :: "char \<Rightarrow> bool" where
  "number_char c = (digit c \<or> c \<in> set ''+-.eE'')"

definition nat_literal :: "string \<Rightarrow> bool" where
  "nat_literal l = (l \<noteq> [] \<and> list_all digit l \<and> (hd l = CHR ''0'' \<longrightarrow> length l = 1))"

definition digits_value :: "string \<Rightarrow> nat" where
  "digits_value l = foldl (\<lambda>n c. 10 * n + (byte c - 48)) 0 l"

definition unsigned :: "string \<Rightarrow> string" where
  "unsigned l = (if HasPrefix l ''-'' then drop 1 l else l)"

definition int_value :: "string \<Rightarrow> int" where
  "int_value l = (if HasPrefix l ''-'' then - int (digits_value (drop 1 l)) else int (digits_value l))"

definition exponent :: "string \<Rightarrow> bool" where
  "exponent l = (case l of [] \<Rightarrow> True
     | e # r \<Rightarrow> (e = CHR ''e'' \<or> e = CHR ''E'') \<and>
         (let d = (if r \<noteq> [] \<and> (hd r = CHR ''+'' \<or> hd r = CHR ''-'') then tl r else r) in d \<noteq> [] \<and> list_all digit d))"

definition float_literal :: "string \<Rightarrow> bool" where
  "float_literal l =
     (let whole = takeWhile digit (unsigned l); rest = dropWhile digit (unsigned l) in
      nat_literal whole \<and> rest \<noteq> [] \<and> list_all number_char l \<and>
      (if hd rest = CHR ''.'' then takeWhile digit (tl rest) \<noteq> [] \<and> exponent (dropWhile digit (tl rest)) else exponent rest))"

definition read_number :: "string \<Rightarrow> (json \<times> string) option" where
  "read_number s =
     (let l = takeWhile number_char s; r = dropWhile number_char s in
      if nat_literal (unsigned l) then Some (JInt (int_value l), r)
      else if float_literal l then Some (JFloat l, r)
      else None)"

text \<open>Values, the items of an array and the members of an object; each step uses fuel.\<close>

fun read_value :: "nat \<Rightarrow> string \<Rightarrow> (json \<times> string) option"
  and read_items :: "nat \<Rightarrow> string \<Rightarrow> (json list \<times> string) option"
  and read_members :: "nat \<Rightarrow> string \<Rightarrow> ((string \<times> json) list \<times> string) option" where
  "read_value 0 s = None"
| "read_value (Suc n) s =
     (case skip_space s of
        [] \<Rightarrow> None
      | c # r \<Rightarrow>
          if c = CHR 0x22 then map_option (\<lambda>(t, q). (JString t, q)) (read_chars r)
          else if c = CHR 0x5B then
            (if HasPrefix (skip_space r) [CHR 0x5D] then Some (JArray [], tl (skip_space r))
             else map_option (\<lambda>(xs, q). (JArray xs, q)) (read_items n r))
          else if c = CHR 0x7B then
            (if HasPrefix (skip_space r) [CHR 0x7D] then Some (JObject [], tl (skip_space r))
             else map_option (\<lambda>(m, q). (JObject m, q)) (read_members n r))
          else if HasPrefix (c # r) ''null'' then Some (JNull, drop 3 r)
          else if HasPrefix (c # r) ''true'' then Some (JBool True, drop 3 r)
          else if HasPrefix (c # r) ''false'' then Some (JBool False, drop 4 r)
          else read_number (c # r))"
| "read_items 0 s = None"
| "read_items (Suc n) s =
     (case read_value n s of
        None \<Rightarrow> None
      | Some (x, r) \<Rightarrow>
          (case skip_space r of
             [] \<Rightarrow> None
           | c # q \<Rightarrow>
               if c = CHR 0x2C then map_option (\<lambda>(xs, p). (x # xs, p)) (read_items n q)
               else if c = CHR 0x5D then Some ([x], q)
               else None))"
| "read_members 0 s = None"
| "read_members (Suc n) s =
     (case skip_space s of
        [] \<Rightarrow> None
      | c # r \<Rightarrow>
          if c \<noteq> CHR 0x22 then None
          else (case read_chars r of
              None \<Rightarrow> None
            | Some (k, q) \<Rightarrow>
                if \<not> HasPrefix (skip_space q) [CHR 0x3A] then None
                else (case read_value n (tl (skip_space q)) of
                    None \<Rightarrow> None
                  | Some (x, p) \<Rightarrow>
                      (case skip_space p of
                         [] \<Rightarrow> None
                       | d # t \<Rightarrow>
                           if d = CHR 0x2C then map_option (\<lambda>(m, u). ((k, x) # m, u)) (read_members n t)
                           else if d = CHR 0x7D then Some ([(k, x)], t)
                           else None))))"

definition read_json :: "string \<Rightarrow> json option" where
  "read_json s =
     (case read_value (2 * length s + 2) s of
        None \<Rightarrow> None
      | Some (v, r) \<Rightarrow> if skip_space r = [] then Some v else None)"

section \<open>What a reader gets\<close>

text \<open>Bytes that are no valid UTF-8 are read as the replacement character.\<close>

function clean_string :: "string \<Rightarrow> string" where
  "clean_string [] = []"
| "clean_string (c # s) =
     (if rune_size (c # s) = 0 then [CHR 0xEF, CHR 0xBF, CHR 0xBD] @ clean_string s
      else take (rune_size (c # s)) (c # s) @ clean_string (drop (rune_size (c # s) - 1) s))"
  by pat_completeness auto
termination by (relation "measure length") auto

declare clean_string.simps(2) [simp del]

fun clean_json :: "json \<Rightarrow> json" where
  "clean_json (JString s) = JString (clean_string s)"
| "clean_json (JArray xs) = JArray (map clean_json xs)"
| "clean_json (JObject m) = JObject (map (\<lambda>kv. (clean_string (fst kv), clean_json (snd kv))) m)"
| "clean_json v = v"

fun floats_literal :: "json \<Rightarrow> bool" where
  "floats_literal (JFloat l) = float_literal l"
| "floats_literal (JArray xs) = list_all floats_literal xs"
| "floats_literal (JObject m) = list_all (\<lambda>kv. floats_literal (snd kv)) m"
| "floats_literal _ = True"

section \<open>Strings round trip\<close>

lemma byte_of [simp]: "n < 256 \<Longrightarrow> byte (char_of n) = n"
  by (simp add: byte_def)

lemma char_of_byte [simp]: "char_of (byte c) = c"
  by (simp add: byte_def)

lemma byte_eq: "byte c = byte d \<longleftrightarrow> c = d"
  by (simp add: byte_def)

lemma rune_size_ascii: "byte c < 0x80 \<Longrightarrow> rune_size (c # s) = 1"
  by (simp add: rune_size_def)

lemma lead_bytes:
  "cont c \<Longrightarrow> 0x80 \<le> byte c" "lead3 a b \<Longrightarrow> 0x80 \<le> byte b" "lead4 a b \<Longrightarrow> 0x80 \<le> byte b"
  by (auto simp: cont_def lead3_def lead4_def)

lemma rune_size_bytes:
  assumes "0x80 \<le> byte c" "0 < rune_size (c # s)"
  shows "list_all (\<lambda>d. 0x80 \<le> byte d) (take (rune_size (c # s)) (c # s))"
  using assms by (auto simp: rune_size_def dest: lead_bytes split: if_splits list.splits)

lemma hex_value_digit: "n < 16 \<Longrightarrow> hex_value (hex_digit n) = Some n"
proof -
  have "list_all (\<lambda>n. hex_value (hex_digit n) = Some n) [0..<16]" by code_simp
  then show "n < 16 \<Longrightarrow> ?thesis" by (simp add: list_all_iff)
qed

lemma read_chars_raw:
  "list_all (\<lambda>d. 0x80 \<le> byte d) u \<Longrightarrow> read_chars (u @ s) = map_option (\<lambda>(t, r). (u @ t, r)) (read_chars s)"
proof (induction u)
  case Nil
  show ?case by (cases "read_chars s") auto
next
  case (Cons d u)
  then have "d \<noteq> CHR 0x22" "d \<noteq> CHR 0x5C" "\<not> byte d < 0x20" by (auto simp: byte_def)
  with Cons show ?case by (cases "read_chars s") (auto simp: read_chars.simps(2))
qed

lemma read_unicode_escape:
  assumes "a < 16" "b < 16" "c < 16" "d < 16" "n = 4096 * a + 256 * b + 16 * c + d" "n < 0xD800 \<or> 0xE000 \<le> n"
  shows "read_unicode (hex_digit a # hex_digit b # hex_digit c # hex_digit d # s) = Some (utf8_encode n, s)"
  using assms by (simp add: read_unicode_def hex_value_digit)

lemma escape_byte_cases:
  assumes "byte c < 0x80"
  obtains (simple) e where "escape_byte c = [CHR 0x5C, e]" "e \<noteq> CHR ''u''" "simple_escape e = Some c"
  | (unicode) "escape_byte c = CHR 0x5C # CHR ''u'' # hex_digit 0 # hex_digit 0 # hex_digit (byte c div 16) # [hex_digit (byte c mod 16)]"
      "byte c < 0x20"
  | (raw) "escape_byte c = [c]" "c \<noteq> CHR 0x22" "c \<noteq> CHR 0x5C" "\<not> byte c < 0x20"
proof -
  have "hex_digit 0 = CHR ''0''" by (simp add: hex_digit_def)
  consider "c = CHR 0x22 \<or> c = CHR 0x5C" | "c \<in> {CHR 0x08, CHR 0x0C, CHR 0x0A, CHR 0x0D, CHR 0x09}"
    | "c \<noteq> CHR 0x22" "c \<noteq> CHR 0x5C" "c \<notin> {CHR 0x08, CHR 0x0C, CHR 0x0A, CHR 0x0D, CHR 0x09}" by blast
  then show thesis
  proof cases
    case 1
    then show thesis by (intro simple [of c]) (auto simp: escape_byte_def simple_escape_def)
  next
    case 2
    then show thesis by (auto simp: escape_byte_def simple_escape_def intro!: simple)
  next
    case 3
    show thesis
    proof (cases "byte c < 0x20")
      case True
      with 3 \<open>hex_digit 0 = CHR ''0''\<close> show thesis by (intro unicode) (auto simp: escape_byte_def)
    next
      case False
      with 3 show thesis by (intro raw) (auto simp: escape_byte_def)
    qed
  qed
qed

lemma read_chars_ascii:
  assumes "byte c < 0x80"
  shows "read_chars (escape_byte c @ s) = map_option (\<lambda>(t, r). (c # t, r)) (read_chars s)"
  using assms
proof (cases rule: escape_byte_cases)
  case (simple e)
  then show ?thesis by (simp add: read_chars.simps(2))
next
  case unicode
  have "read_unicode (hex_digit 0 # hex_digit 0 # hex_digit (byte c div 16) # hex_digit (byte c mod 16) # s)
      = Some (utf8_encode (byte c), s)"
    using unicode(2) by (intro read_unicode_escape) auto
  moreover have "utf8_encode (byte c) = [c]" using unicode(2) by (simp add: utf8_encode_def)
  ultimately show ?thesis using unicode(1) by (simp add: read_chars.simps(2))
next
  case raw
  then show ?thesis by (simp add: read_chars.simps(2))
qed

lemma read_chars_code:
  "read_chars (CHR 0x5C # ''ufffd'' @ s) = map_option (\<lambda>(t, r). ([CHR 0xEF, CHR 0xBF, CHR 0xBD] @ t, r)) (read_chars s)"
  "read_chars (CHR 0x5C # ''u2028'' @ s) = map_option (\<lambda>(t, r). (line_separator @ t, r)) (read_chars s)"
  "read_chars (CHR 0x5C # ''u2029'' @ s) = map_option (\<lambda>(t, r). (paragraph_separator @ t, r)) (read_chars s)"
  by (simp_all add: read_chars.simps(2) read_unicode_def hex_value_def byte_def utf8_encode_def line_separator_def
      paragraph_separator_def char_of_def bit_0)

lemma separator_size:
  "take 3 (c # s) = line_separator \<or> take 3 (c # s) = paragraph_separator \<Longrightarrow> rune_size (c # s) = 3"
proof -
  assume "take 3 (c # s) = line_separator \<or> take 3 (c # s) = paragraph_separator"
  then obtain x rest where "c # s = CHR 0xE2 # CHR 0x80 # x # rest" "x = CHR 0xA8 \<or> x = CHR 0xA9"
    unfolding line_separator_def paragraph_separator_def by (metis append_Cons append_Nil append_take_drop_id)
  then show ?thesis by (auto simp: rune_size_def byte_def cont_def lead3_def)
qed

lemma read_chars_escape: "read_chars (escape_string s @ CHR 0x22 # rest) = Some (clean_string s, rest)"
proof (induction s rule: escape_string.induct)
  case 1
  show ?case by (simp add: read_chars.simps(2))
next
  case (2 c s)
  let ?n = "rune_size (c # s)"
  consider "byte c < 0x80" | "\<not> byte c < 0x80" "?n = 0"
    | "\<not> byte c < 0x80" "?n \<noteq> 0" "take 3 (c # s) = line_separator"
    | "\<not> byte c < 0x80" "?n \<noteq> 0" "take 3 (c # s) = paragraph_separator" "take 3 (c # s) \<noteq> line_separator"
    | "\<not> byte c < 0x80" "?n \<noteq> 0" "take 3 (c # s) \<noteq> line_separator" "take 3 (c # s) \<noteq> paragraph_separator" by blast
  then show ?case
  proof cases
    case 1
    with 2(1) show ?thesis
      by (simp add: escape_string.simps(2) clean_string.simps(2) rune_size_ascii read_chars_ascii)
  next
    case 2
    with "2.IH"(2) show ?thesis
      by (simp add: escape_string.simps(2) clean_string.simps(2) read_chars_code(1) [simplified])
  next
    case 3
    with separator_size [of c s] "2.IH"(3) show ?thesis
      by (simp add: escape_string.simps(2) clean_string.simps(2) read_chars_code(2) [simplified])
  next
    case 4
    with separator_size [of c s] "2.IH"(4) show ?thesis
      by (simp add: escape_string.simps(2) clean_string.simps(2) read_chars_code(3) [simplified])
  next
    case 5
    then have "list_all (\<lambda>d. 0x80 \<le> byte d) (take ?n (c # s))" by (intro rune_size_bytes) auto
    with 5 "2.IH"(5) show ?thesis
      by (simp add: escape_string.simps(2) clean_string.simps(2) read_chars_raw)
  qed
qed

section \<open>Numbers round trip\<close>

lemma Itoa_snoc: "10 \<le> n \<Longrightarrow> Itoa n = Itoa (n div 10) @ [char_of (48 + n mod 10)]"
  by (subst Itoa.simps) simp

lemma Itoa_digit: "n < 10 \<Longrightarrow> Itoa n = [char_of (48 + n)]"
  by (subst Itoa.simps) simp

lemma Itoa_nonempty [simp]: "Itoa n \<noteq> []"
  by (subst Itoa.simps) simp

lemma zero_char: "char_of (48 :: nat) = CHR ''0''"
  by (simp add: char_of_def bit_0)

lemma Itoa_literal: "list_all digit (Itoa n)" "digits_value (Itoa n) = n" "hd (Itoa n) = CHR ''0'' \<longleftrightarrow> n = 0"
proof (induction n rule: less_induct)
  case (less n)
  show "list_all digit (Itoa n)"
    using Itoa_digits by (auto simp: list_all_iff digit_def byte_def)
  show "digits_value (Itoa n) = n"
    using less(2) [of "n div 10"] by (cases "n < 10") (auto simp: Itoa_digit Itoa_snoc digits_value_def)
  show "hd (Itoa n) = CHR ''0'' \<longleftrightarrow> n = 0"
  proof (cases "n < 10")
    case True
    have "char_of (48 + n) = CHR ''0'' \<longleftrightarrow> byte (char_of (48 + n)) = byte (char_of (48 :: nat))"
      unfolding byte_eq zero_char ..
    then show ?thesis using True by (simp add: Itoa_digit)
  next
    case False
    then show ?thesis using less(3) [of "n div 10"] by (simp add: Itoa_snoc)
  qed
qed

lemma nat_literal_Itoa: "nat_literal (Itoa n)"
  using Itoa_literal [of n] by (auto simp: nat_literal_def Itoa_digit)

lemma not_minus: "digit c \<Longrightarrow> c \<noteq> CHR ''-''"
  by (auto simp: digit_def byte_def)

lemma decimal_literal: "nat_literal (unsigned (decimal n))" "int_value (decimal n) = n" "list_all number_char (decimal n)"
proof -
  have "hd (Itoa k) \<noteq> CHR ''-''" for k using Itoa_literal(1) [of k] not_minus by (cases "Itoa k") auto
  then have plain: "\<not> HasPrefix (Itoa k) ''-''" for k by (metis HasPrefix_iff append_Cons list.sel(1))
  show "nat_literal (unsigned (decimal n))" "int_value (decimal n) = n"
    by (auto simp: decimal_def unsigned_def int_value_def plain nat_literal_Itoa Itoa_literal(2))
  show "list_all number_char (decimal n)"
    using Itoa_literal(1) by (auto simp: decimal_def number_char_def list_all_iff)
qed

definition boundary :: "string \<Rightarrow> bool" where
  "boundary rest = (rest = [] \<or> \<not> number_char (hd rest))"

lemma read_number_literal:
  assumes "list_all number_char l" "boundary rest"
  shows "takeWhile number_char (l @ rest) = l" "dropWhile number_char (l @ rest) = rest"
proof -
  have "takeWhile number_char rest = []" "dropWhile number_char rest = rest"
    using assms(2) by (cases rest; simp add: boundary_def)+
  then show "takeWhile number_char (l @ rest) = l" "dropWhile number_char (l @ rest) = rest"
    using assms(1) by (simp_all add: list_all_iff takeWhile_append2 dropWhile_append2)
qed

lemma float_not_int: "float_literal l \<Longrightarrow> \<not> nat_literal (unsigned l)"
  by (auto simp: float_literal_def nat_literal_def Let_def list_all_iff dropWhile_eq_Nil_conv)

lemma read_number_float: "float_literal l \<Longrightarrow> boundary rest \<Longrightarrow> read_number (l @ rest) = Some (JFloat l, rest)"
  using float_not_int [of l] by (simp add: read_number_def Let_def read_number_literal float_literal_def)

lemma read_number_int: "boundary rest \<Longrightarrow> read_number (decimal n @ rest) = Some (JInt n, rest)"
  by (simp add: read_number_def Let_def read_number_literal decimal_literal)

section \<open>Values round trip\<close>

text \<open>The first character of a value tells what it is.\<close>

definition number_start :: "char \<Rightarrow> bool" where
  "number_start c = (digit c \<or> c = CHR ''-'')"

lemma number_start_plain:
  assumes "number_start c"
  shows "\<not> is_space c" "c \<noteq> CHR 0x22" "c \<noteq> CHR 0x5B" "c \<noteq> CHR 0x7B" "c \<noteq> CHR ''n''" "c \<noteq> CHR ''t''" "c \<noteq> CHR ''f''"
    "c \<noteq> CHR 0x5D"
  using assms by (auto simp: number_start_def digit_def byte_def is_space_def)

lemma decimal_start: "\<exists>c l. decimal n = c # l \<and> number_start c"
proof (cases "n < 0")
  case False
  with Itoa_literal(1) [of "nat n"] show ?thesis
    by (cases "Itoa (nat n)") (auto simp: decimal_def number_start_def)
qed (auto simp: decimal_def number_start_def)

lemma float_start:
  assumes "float_literal l"
  shows "\<exists>c r. l = c # r \<and> number_start c"
proof (cases l)
  case Nil
  with assms show ?thesis by (simp add: float_literal_def unsigned_def Let_def nat_literal_def)
next
  case (Cons c r)
  show ?thesis
  proof (cases "c = CHR ''-''")
    case False
    then have "unsigned l = l" by (simp add: unsigned_def Cons)
    with assms have "takeWhile digit l \<noteq> []" by (simp add: float_literal_def Let_def nat_literal_def)
    then show ?thesis using Cons by (auto simp: number_start_def split: if_splits)
  qed (auto simp: Cons number_start_def)
qed

lemma read_value_number:
  "number_start c \<Longrightarrow> read_value (Suc n) (c # s) = read_number (c # s)"
  using number_start_plain [of c] by (simp add: skip_space_def)

lemma encode_start:
  assumes "floats_literal v"
  shows "\<exists>c s. encode_json v = c # s \<and> \<not> is_space c \<and> c \<noteq> CHR 0x5D"
proof (cases v)
  case (JInt n)
  with decimal_start [of n] number_start_plain show ?thesis by auto
next
  case (JFloat l)
  with assms float_start [of l] number_start_plain show ?thesis by auto
qed (simp_all add: encode_string_def is_space_def)

lemma skip_space_encode: "floats_literal v \<Longrightarrow> skip_space (encode_json v @ s) = encode_json v @ s"
  using encode_start [of v] by (auto simp: skip_space_def)

definition reads :: "json \<Rightarrow> bool" where
  "reads v = (\<forall>n rest. 2 * length (encode_json v) \<le> n \<longrightarrow> boundary rest \<longrightarrow>
     read_value (Suc n) (encode_json v @ rest) = Some (clean_json v, rest))"

lemma boundary_marks [simp]:
  "boundary (CHR 0x2C # s)" "boundary (CHR 0x5D # s)" "boundary (CHR 0x7D # s)" "boundary (CHR 0x0A # s)" "boundary []"
  by (simp_all add: boundary_def number_char_def digit_def byte_def)

lemma read_items_join:
  assumes "xs \<noteq> []" "\<forall>x \<in> set xs. reads x \<and> floats_literal x" "2 * length (Join (map encode_json xs) '','') + 1 \<le> n"
  shows "read_items (Suc n) (Join (map encode_json xs) '','' @ CHR 0x5D # rest) = Some (map clean_json xs, rest)"
  using assms
proof (induction xs arbitrary: n)
  case (Cons x xs)
  then obtain m where m: "n = Suc m" by (cases n) auto
  show ?case
  proof (cases xs)
    case Nil
    with Cons.prems m have "read_value n (encode_json x @ CHR 0x5D # rest) = Some (clean_json x, CHR 0x5D # rest)"
      by (auto simp: reads_def)
    then show ?thesis by (simp add: Nil skip_space_def is_space_def)
  next
    case (Cons y ys)
    let ?tail = "Join (map encode_json xs) '','' @ CHR 0x5D # rest"
    have "read_value n (encode_json x @ CHR 0x2C # ?tail) = Some (clean_json x, CHR 0x2C # ?tail)"
      using Cons.prems m local.Cons by (auto simp: reads_def)
    moreover have "read_items (Suc m) ?tail = Some (map clean_json xs, rest)"
      using Cons.prems m local.Cons by (intro Cons.IH) auto
    ultimately show ?thesis by (simp add: local.Cons m skip_space_def is_space_def)
  qed
qed simp

abbreviation encode_member :: "string \<times> json \<Rightarrow> string" where
  "encode_member kv \<equiv> encode_string (fst kv) @ CHR 0x3A # encode_json (snd kv)"

abbreviation clean_member :: "string \<times> json \<Rightarrow> string \<times> json" where
  "clean_member kv \<equiv> (clean_string (fst kv), clean_json (snd kv))"

lemma read_chars_encode: "read_chars (escape_string k @ [CHR 0x22] @ s) = Some (clean_string k, s)"
  using read_chars_escape by simp

lemma read_member:
  assumes "reads (snd kv)" "2 * length (encode_member kv) \<le> n" "c = CHR 0x2C \<or> c = CHR 0x7D"
  shows "\<exists>q. skip_space (encode_member kv @ c # s) = CHR 0x22 # q \<and>
    read_chars q = Some (clean_string (fst kv), CHR 0x3A # encode_json (snd kv) @ c # s) \<and>
    read_value n (encode_json (snd kv) @ c # s) = Some (clean_json (snd kv), c # s)"
proof -
  from assms(2) obtain m where m: "n = Suc m" by (cases n) (auto simp: encode_string_def)
  have "read_value n (encode_json (snd kv) @ c # s) = Some (clean_json (snd kv), c # s)"
    using assms m by (auto simp: reads_def encode_string_def)
  then show ?thesis using read_chars_escape
    by (auto simp: encode_string_def skip_space_def is_space_def)
qed

lemma read_members_join:
  assumes "m \<noteq> []" "\<forall>kv \<in> set m. reads (snd kv)" "2 * length (Join (map encode_member m) '','') + 1 \<le> n"
  shows "read_members (Suc n) (Join (map encode_member m) '','' @ CHR 0x7D # rest) = Some (map clean_member m, rest)"
  using assms
proof (induction m arbitrary: n)
  case (Cons kv m)
  show ?case
  proof (cases m)
    case Nil
    with Cons.prems obtain q where "skip_space (encode_member kv @ CHR 0x7D # rest) = CHR 0x22 # q"
      "read_chars q = Some (clean_string (fst kv), CHR 0x3A # encode_json (snd kv) @ CHR 0x7D # rest)"
      "read_value n (encode_json (snd kv) @ CHR 0x7D # rest) = Some (clean_json (snd kv), CHR 0x7D # rest)"
      using read_member [of kv n "CHR 0x7D" rest] by auto
    then show ?thesis by (simp add: Nil) (simp add: skip_space_def is_space_def)
  next
    case (Cons kv' m')
    let ?tail = "Join (map encode_member m) '','' @ CHR 0x7D # rest"
    from Cons.prems local.Cons obtain q where "skip_space (encode_member kv @ CHR 0x2C # ?tail) = CHR 0x22 # q"
      "read_chars q = Some (clean_string (fst kv), CHR 0x3A # encode_json (snd kv) @ CHR 0x2C # ?tail)"
      "read_value n (encode_json (snd kv) @ CHR 0x2C # ?tail) = Some (clean_json (snd kv), CHR 0x2C # ?tail)"
      using read_member [of kv n "CHR 0x2C" ?tail] by auto
    moreover from Cons.prems obtain k where "n = Suc k" by (cases n) auto
    moreover from this have "read_members (Suc k) ?tail = Some (map clean_member m, rest)"
      using Cons.prems local.Cons by (intro Cons.IH) auto
    ultimately show ?thesis by (simp add: local.Cons) (simp add: skip_space_def is_space_def)
  qed
qed simp

lemma encode_reads: "floats_literal v \<Longrightarrow> reads v"
proof (induction v)
  case JNull
  show ?case by (simp add: reads_def skip_space_def is_space_def)
next
  case (JBool b)
  show ?case by (simp add: reads_def skip_space_def is_space_def)
next
  case (JInt k)
  obtain c l where "decimal k = c # l" "number_start c" using decimal_start by blast
  with read_number_int [of _ k] show ?case unfolding reads_def by (simp add: read_value_number del: read_value.simps)
next
  case (JFloat l)
  then obtain c r where "l = c # r" "number_start c" by (auto dest: float_start)
  with read_number_float [of l] JFloat show ?case unfolding reads_def by (simp add: read_value_number del: read_value.simps)
next
  case (JString s)
  show ?case using read_chars_escape
    by (auto simp: reads_def encode_string_def skip_space_def is_space_def)
next
  case (JArray xs)
  show ?case unfolding reads_def
  proof (intro allI impI)
    fix n rest
    assume n: "2 * length (encode_json (JArray xs)) \<le> n" and "boundary rest"
    show "read_value (Suc n) (encode_json (JArray xs) @ rest) = Some (clean_json (JArray xs), rest)"
    proof (cases xs)
      case Nil
      then show ?thesis by (simp add: skip_space_def is_space_def)
    next
      case (Cons x ys)
      let ?body = "Join (map encode_json xs) '','' @ CHR 0x5D # rest"
      from n obtain m where m: "n = Suc m" by (cases n) auto
      have all: "\<forall>x \<in> set xs. reads x \<and> floats_literal x" using JArray by (auto simp: list_all_iff)
      have "read_items (Suc m) ?body = Some (map clean_json xs, rest)"
        using all n m by (intro read_items_join) (auto simp: Cons)
      moreover have "\<not> HasPrefix (skip_space ?body) [CHR 0x5D]"
      proof -
        obtain t where "?body = encode_json x @ t" by (cases ys) (auto simp: Cons)
        moreover have "floats_literal x" using all Cons by simp
        moreover from this obtain c s where "encode_json x = c # s" "c \<noteq> CHR 0x5D" using encode_start by blast
        ultimately show ?thesis using skip_space_encode [of x t] by simp
      qed
      ultimately show ?thesis unfolding m by (simp add: skip_space_def is_space_def)
    qed
  qed
next
  case (JObject m)
  show ?case unfolding reads_def
  proof (intro allI impI)
    fix n rest
    assume n: "2 * length (encode_json (JObject m)) \<le> n" and "boundary rest"
    show "read_value (Suc n) (encode_json (JObject m) @ rest) = Some (clean_json (JObject m), rest)"
    proof (cases m)
      case Nil
      then show ?thesis by (simp add: skip_space_def is_space_def)
    next
      case (Cons kv ms)
      let ?body = "Join (map encode_member m) '','' @ CHR 0x7D # rest"
      from n obtain k where k: "n = Suc k" by (cases n) auto
      have all: "\<forall>kv \<in> set m. reads (snd kv)" using JObject by (fastforce simp: list_all_iff)
      have "read_members (Suc k) ?body = Some (map clean_member m, rest)"
        using all n k by (intro read_members_join) (auto simp: Cons)
      moreover have "\<not> HasPrefix (skip_space ?body) [CHR 0x7D]"
        by (cases ms) (auto simp: Cons encode_string_def skip_space_def is_space_def)
      ultimately show ?thesis unfolding k by (simp add: skip_space_def is_space_def)
    qed
  qed
qed

text \<open>What is encoded is read back, with invalid UTF-8 replaced.\<close>

lemma read_Encode: "floats_literal v \<Longrightarrow> read_json (Encode v) = Some (clean_json v)"
proof -
  assume "floats_literal v"
  then have "reads v" by (rule encode_reads)
  then have "read_value (Suc (2 * length (Encode v) + 1)) (encode_json v @ [CHR 0x0A]) = Some (clean_json v, [CHR 0x0A])"
    unfolding reads_def by (simp add: Encode_def del: read_value.simps)
  then show ?thesis by (simp add: read_json_def Encode_def skip_space_def is_space_def del: read_value.simps)
qed

text \<open>Valid UTF-8 is read as it was.\<close>

function valid_utf8 :: "string \<Rightarrow> bool" where
  "valid_utf8 [] = True"
| "valid_utf8 (c # s) = (0 < rune_size (c # s) \<and> valid_utf8 (drop (rune_size (c # s) - 1) s))"
  by pat_completeness auto
termination by (relation "measure length") auto

declare valid_utf8.simps(2) [simp del]

lemma clean_valid: "valid_utf8 s \<Longrightarrow> clean_string s = s"
proof (induction s rule: valid_utf8.induct)
  case (2 c s)
  then have "0 < rune_size (c # s)" "clean_string (drop (rune_size (c # s) - 1) s) = drop (rune_size (c # s) - 1) s"
    by (simp_all add: valid_utf8.simps(2))
  then show ?case by (cases "rune_size (c # s)") (simp_all add: clean_string.simps(2))
qed simp

fun utf8_json :: "json \<Rightarrow> bool" where
  "utf8_json (JString s) = valid_utf8 s"
| "utf8_json (JArray xs) = list_all utf8_json xs"
| "utf8_json (JObject m) = list_all (\<lambda>kv. valid_utf8 (fst kv) \<and> utf8_json (snd kv)) m"
| "utf8_json _ = True"

lemma clean_utf8_json: "utf8_json v \<Longrightarrow> clean_json v = v"
proof (induction v)
  case (JArray xs)
  then show ?case by (auto simp: list_all_iff intro!: map_idI)
next
  case (JObject m)
  then show ?case by (fastforce simp: list_all_iff clean_valid intro!: map_idI)
qed (simp_all add: clean_valid)

section \<open>One line\<close>

lemma escape_byte_one_line:
  assumes "byte c < 0x80"
  shows "CHR 0x0A \<notin> set (escape_byte c)"
  using assms
proof (cases rule: escape_byte_cases)
  case (simple e)
  then show ?thesis by (auto simp: simple_escape_def split: if_splits)
next
  case unicode
  have "CHR 0x0A \<noteq> hex_digit k" for k using hex_digit_in [of k] by auto
  then show ?thesis using unicode by auto
next
  case raw
  then show ?thesis by (auto simp: byte_def)
qed

lemma escape_one_line: "CHR 0x0A \<notin> set (escape_string s)"
proof (induction s rule: escape_string.induct)
  case (2 c s)
  have ascii: "CHR 0x0A \<notin> set (escape_byte c)" if "byte c < 0x80" by (rule escape_byte_one_line [OF that])
  have raw: "CHR 0x0A \<notin> set (take (rune_size (c # s)) (c # s))" if "\<not> byte c < 0x80" "rune_size (c # s) \<noteq> 0"
    using rune_size_bytes [of c s] that by (auto simp: list_all_iff byte_def)
  show ?case using 2 ascii raw by (auto simp: escape_string.simps(2))
qed simp

lemma Join_one_line: "\<forall>x \<in> set xs. CHR 0x0A \<notin> set x \<Longrightarrow> CHR 0x0A \<notin> set (Join xs '','')"
  by (induction xs "'',''" rule: Join.induct) auto

lemma encode_one_line: "floats_literal v \<Longrightarrow> CHR 0x0A \<notin> set (encode_json v)"
proof (induction v)
  case (JInt n)
  have "\<not> number_char (CHR 0x0A)" by (simp add: number_char_def digit_def byte_def)
  then show ?case using decimal_literal(3) [of n] by (auto simp: list_all_iff)
next
  case (JFloat l)
  have "\<not> number_char (CHR 0x0A)" by (simp add: number_char_def digit_def byte_def)
  then show ?case using JFloat by (auto simp: float_literal_def Let_def list_all_iff)
next
  case (JArray xs)
  then show ?case using Join_one_line [of "map encode_json xs"] by (auto simp: list_all_iff)
next
  case (JObject m)
  have "CHR 0x0A \<notin> set (encode_member kv)" if "kv \<in> set m" for kv
  proof -
    have "floats_literal (snd kv)" using JObject.prems that by (auto simp: list_all_iff)
    with JObject.IH [OF that, of "snd kv"] have "CHR 0x0A \<notin> set (encode_json (snd kv))"
      by (cases kv) (simp add: snds.simps)
    then show ?thesis using escape_one_line [of "fst kv"] by (simp add: encode_string_def)
  qed
  then show ?case using Join_one_line [of "map encode_member m"] by auto
qed (simp_all add: encode_string_def escape_one_line)

end
