(* ===== verification/Report_Json.thy ===== *)
theory Report_Json
  imports Cluster_Status Json
begin

text \<open>
  The JSON form of the two reports: the field names and the omission of empty fields that the
  struct tags of \<^verbatim>\<open>report.go\<close> and \<^verbatim>\<open>status_report.go\<close> ask for, in the order of the fields. The
  form of a condition is the API machinery's own and a parameter.
\<close>

section \<open>Fields\<close>

type_synonym members = "(string \<times> json) list"

definition text_field :: "string \<Rightarrow> string \<Rightarrow> members" where
  "text_field name value = [(name, JString value)]"

text \<open>With \<^verbatim>\<open>omitempty\<close>: the empty string, zero, false, a nil pointer and an empty slice or map are left out.\<close>

definition text_omitempty :: "string \<Rightarrow> string \<Rightarrow> members" where
  "text_omitempty name value = (if value = [] then [] else [(name, JString value)])"

definition int_omitempty :: "string \<Rightarrow> int \<Rightarrow> members" where
  "int_omitempty name value = (if value = 0 then [] else [(name, JInt value)])"

definition bool_omitempty :: "string \<Rightarrow> bool \<Rightarrow> members" where
  "bool_omitempty name value = (if value then [(name, JBool True)] else [])"

definition ptr_omitempty :: "string \<Rightarrow> ('a \<Rightarrow> json) \<Rightarrow> 'a option \<Rightarrow> members" where
  "ptr_omitempty name f value = (case value of None \<Rightarrow> [] | Some x \<Rightarrow> [(name, f x)])"

definition list_omitempty :: "string \<Rightarrow> ('a \<Rightarrow> json) \<Rightarrow> 'a list \<Rightarrow> members" where
  "list_omitempty name f xs = (if xs = [] then [] else [(name, JArray (map f xs))])"

definition map_omitempty :: "string \<Rightarrow> json gomap \<Rightarrow> members" where
  "map_omitempty name m = (if m = [] then [] else [(name, sort_maps (JObject m))])"

text \<open>A slice without \<^verbatim>\<open>omitempty\<close>: nil is \<^verbatim>\<open>null\<close>.\<close>

definition slice_json :: "('a \<Rightarrow> json) \<Rightarrow> 'a slice \<Rightarrow> json" where
  "slice_json f s = (case s of None \<Rightarrow> JNull | Some xs \<Rightarrow> JArray (map f xs))"

section \<open>The binding report (report.go)\<close>

definition BindingInspectionIdentityConfig_json :: "BindingInspectionIdentityConfig \<Rightarrow> json" where
  "BindingInspectionIdentityConfig_json c = JObject
     (text_omitempty ''trustDomain'' (ic_TrustDomain c) @
      text_omitempty ''trustDomainSource'' (ic_TrustDomainSource c) @
      text_omitempty ''clusterSPIFFEIDClassName'' (ic_ClusterSPIFFEIDClassName c) @
      text_omitempty ''clusterSPIFFEIDClassNameSource'' (ic_ClusterSPIFFEIDClassNameSource c))"

definition BindingInspectionTargetRef_json :: "BindingInspectionTargetRef \<Rightarrow> json" where
  "BindingInspectionTargetRef_json r = JObject
     (text_omitempty ''name'' (tr_Name r) @ text_omitempty ''namespace'' (tr_Namespace r) @
      text_omitempty ''group'' (tr_Group r) @ text_omitempty ''version'' (tr_Version r) @
      text_omitempty ''kind'' (tr_Kind r))"

definition BindingInspectionBindingRef_json :: "(Condition \<Rightarrow> json) \<Rightarrow> BindingInspectionBindingRef \<Rightarrow> json" where
  "BindingInspectionBindingRef_json condition r = JObject
     (text_omitempty ''namespace'' (br_Namespace r) @ text_omitempty ''name'' (br_Name r) @
      int_omitempty ''generation'' (br_Generation r) @
      ptr_omitempty ''poolRef'' BindingInspectionTargetRef_json (br_PoolRef r) @
      list_omitempty ''conditions'' condition (br_Conditions r))"

definition BindingInspectionGVK_json :: "BindingInspectionGVK \<Rightarrow> json" where
  "BindingInspectionGVK_json g = JObject
     (text_omitempty ''group'' (ig_Group g) @ text_omitempty ''version'' (ig_Version g) @
      text_omitempty ''kind'' (ig_Kind g))"

definition BindingInspectionSelectorProvenance_json :: "BindingInspectionSelectorProvenance \<Rightarrow> json" where
  "BindingInspectionSelectorProvenance_json p = JObject
     (list_omitempty ''poolDerivedSelectors'' JString (sp_PoolDerivedSelectors p) @
      list_omitempty ''safetySelectors'' JString (sp_SafetySelectors p))"

definition BindingInspectionResolvedInput_json :: "BindingInspectionResolvedInput \<Rightarrow> json" where
  "BindingInspectionResolvedInput_json r = JObject
     (ptr_omitempty ''poolRef'' BindingInspectionTargetRef_json (ri_PoolRef r) @
      list_omitempty ''servedGVKs'' BindingInspectionGVK_json (ri_ServedGVKs r) @
      map_omitempty ''poolSelector'' (ri_PoolSelector r) @
      ptr_omitempty ''selectorProvenance'' BindingInspectionSelectorProvenance_json (ri_SelectorProvenance r))"

definition BindingInspectionRenderedIdentity_json :: "BindingInspectionRenderedIdentity \<Rightarrow> json" where
  "BindingInspectionRenderedIdentity_json r = JObject
     (text_omitempty ''spiffeID'' (id_SPIFFEID r) @
      map_omitempty ''podSelector'' (id_PodSelector r) @
      list_omitempty ''workloadSelectors'' JString (id_WorkloadSelectors r) @
      ptr_omitempty ''selectorProvenance'' BindingInspectionSelectorProvenance_json (id_SelectorProvenance r))"

definition BindingInspectionRenderedClusterSPIFFEID_json :: "BindingInspectionRenderedClusterSPIFFEID \<Rightarrow> json" where
  "BindingInspectionRenderedClusterSPIFFEID_json r = JObject
     (text_omitempty ''name'' (rd_Name r) @ text_omitempty ''spiffeID'' (rd_SPIFFEID r) @
      map_omitempty ''podSelector'' (rd_PodSelector r) @
      list_omitempty ''workloadSelectors'' JString (rd_WorkloadSelectors r) @
      text_omitempty ''hint'' (rd_Hint r) @ text_omitempty ''className'' (rd_ClassName r) @
      ptr_omitempty ''fallback'' JBool (rd_Fallback r))"

definition BindingInspectionMatchedPod_json :: "BindingInspectionMatchedPod \<Rightarrow> json" where
  "BindingInspectionMatchedPod_json p = JObject
     (text_omitempty ''namespace'' (mp_Namespace p) @ text_omitempty ''pod'' (mp_Pod p) @
      text_omitempty ''container'' (mp_Container p))"

definition BindingInspectionFinding_json :: "BindingInspectionFinding \<Rightarrow> json" where
  "BindingInspectionFinding_json f = JObject
     (text_field ''id'' (fd_ID f) @ text_field ''severity'' (fd_Severity f) @ text_field ''reason'' (fd_Reason f) @
      text_field ''message'' (fd_Message f) @
      [(''affectedRefs'', slice_json BindingInspectionTargetRef_json (fd_AffectedRefs f))])"

definition BindingInspectionReport_json :: "(Condition \<Rightarrow> json) \<Rightarrow> BindingInspectionReport \<Rightarrow> json" where
  "BindingInspectionReport_json condition r = JObject
     (text_field ''schemaVersion'' (rp_SchemaVersion r) @ text_field ''kind'' (rp_Kind r) @
      text_field ''generatedAt'' (rp_GeneratedAt r) @
      [(''identityConfig'', BindingInspectionIdentityConfig_json (rp_IdentityConfig r)),
       (''bindingRef'', BindingInspectionBindingRef_json condition (rp_BindingRef r)),
       (''resolvedInput'', BindingInspectionResolvedInput_json (rp_Resolved r)),
       (''renderedIdentity'', BindingInspectionRenderedIdentity_json (rp_RenderedIdentity r)),
       (''renderedClusterSPIFFEID'', BindingInspectionRenderedClusterSPIFFEID_json (rp_RenderedClusterSPIFFEID r)),
       (''matchedPods'', slice_json BindingInspectionMatchedPod_json (rp_MatchedPods r)),
       (''findings'', slice_json BindingInspectionFinding_json (rp_Findings r))])"

definition writeBindingInspectionReportJSON :: "(Condition \<Rightarrow> json) \<Rightarrow> BindingInspectionReport \<Rightarrow> string" where
  "writeBindingInspectionReportJSON condition report =
     Encode (BindingInspectionReport_json condition (normalizeBindingInspectionReport report))"

section \<open>The cluster report (status_report.go)\<close>

definition ComponentStatus_json :: "ComponentStatus \<Rightarrow> json" where
  "ComponentStatus_json c = JObject (text_field ''status'' (co_Status c) @ text_omitempty ''message'' (co_Message c))"

definition OperatorStatus_json :: "OperatorStatus \<Rightarrow> json" where
  "OperatorStatus_json s = JObject
     (text_field ''status'' (op_Status s) @ text_omitempty ''message'' (op_Message s) @
      text_omitempty ''deployment'' (op_Deployment s) @ int_omitempty ''readyReplicas'' (op_ReadyReplicas s) @
      int_omitempty ''replicas'' (op_Replicas s) @ text_omitempty ''version'' (op_Version s))"

definition KleymAPIStatus_json :: "KleymAPIStatus \<Rightarrow> json" where
  "KleymAPIStatus_json s = JObject
     (text_field ''status'' (ka_Status s) @ text_omitempty ''message'' (ka_Message s) @
      text_omitempty ''inferenceIdentityBinding'' (ka_InferenceIdentityBinding s))"

definition SPIRECRDStatus_json :: "SPIRECRDStatus \<Rightarrow> json" where
  "SPIRECRDStatus_json s = JObject
     (text_field ''status'' (sc_Status s) @ text_omitempty ''message'' (sc_Message s) @
      text_omitempty ''clusterSPIFFEID'' (sc_ClusterSPIFFEID s))"

definition GAIEStatus_json :: "GAIEStatus \<Rightarrow> json" where
  "GAIEStatus_json s = JObject
     (text_field ''status'' (gs_Status s) @ text_omitempty ''message'' (gs_Message s) @
      text_omitempty ''inferencePool'' (gs_InferencePool s))"

definition StatusComponents_json :: "StatusComponents \<Rightarrow> json" where
  "StatusComponents_json c = JObject
     [(''kleym'', ComponentStatus_json (sm_Kleym c)), (''operator'', OperatorStatus_json (sm_Operator c)),
      (''kleymCRDs'', KleymAPIStatus_json (sm_KleymCRDs c)), (''spireCRDs'', SPIRECRDStatus_json (sm_SPIRECRDs c)),
      (''gaieCRDs'', GAIEStatus_json (sm_GAIECRDs c))]"

definition StatusConfig_json :: "StatusConfig \<Rightarrow> json" where
  "StatusConfig_json c = JObject
     (text_omitempty ''trustDomain'' (sf_TrustDomain c) @
      text_omitempty ''clusterSPIFFEIDClassName'' (sf_ClusterSPIFFEIDClassName c) @
      bool_omitempty ''clusterSPIFFEIDClassNameKnown'' (sf_ClusterSPIFFEIDClassNameKnown c))"

definition BindingConditionSummary_json :: "BindingConditionSummary \<Rightarrow> json" where
  "BindingConditionSummary_json s = JObject
     [(''ready'', JInt (cs_Ready s)), (''invalidRef'', JInt (cs_InvalidRef s)),
      (''unsafeSelector'', JInt (cs_UnsafeSelector s)), (''renderFailure'', JInt (cs_RenderFailure s))]"

definition BindingStatusSummary_json :: "BindingStatusSummary \<Rightarrow> json" where
  "BindingStatusSummary_json s = JObject
     [(''ok'', JInt (bs_OK s)), (''warning'', JInt (bs_Warning s)), (''error'', JInt (bs_Error s)),
      (''total'', JInt (bs_Total s)), (''conditions'', BindingConditionSummary_json (bs_Conditions s))]"

text \<open>\<^verbatim>\<open>StatusSummary\<close> wraps the binding counts.\<close>

definition StatusSummary_json :: "BindingStatusSummary \<Rightarrow> json" where
  "StatusSummary_json s = JObject [(''bindings'', BindingStatusSummary_json s)]"

definition StatusReport_json :: "StatusReport \<Rightarrow> json" where
  "StatusReport_json r = JObject
     (text_field ''schemaVersion'' (sr_SchemaVersion r) @ text_field ''kind'' (sr_Kind r) @
      text_field ''generatedAt'' (sr_GeneratedAt r) @ text_field ''status'' (sr_Status r) @
      text_omitempty ''cliVersion'' (sr_CLIVersion r) @
      [(''components'', StatusComponents_json (sr_Components r)), (''config'', StatusConfig_json (sr_Config r)),
       (''summary'', StatusSummary_json (sr_Summary r)),
       (''findings'', slice_json BindingInspectionFinding_json (sr_Findings r))])"

definition writeStatusReportJSON :: "StatusReport \<Rightarrow> string" where
  "writeStatusReportJSON report = Encode (StatusReport_json (normalizeStatusReport report))"

section \<open>What the texts say\<close>

lemmas field_defs = text_field_def text_omitempty_def int_omitempty_def bool_omitempty_def ptr_omitempty_def
  list_omitempty_def map_omitempty_def slice_json_def

lemma floats_sort_maps: "floats_literal v \<Longrightarrow> floats_literal (sort_maps v)"
  by (induction v) (fastforce simp: list_all_iff)+

abbreviation floats_members :: "members \<Rightarrow> bool" where
  "floats_members m \<equiv> list_all (\<lambda>kv. floats_literal (snd kv)) m"

lemma floats_map: "floats_members m \<Longrightarrow> floats_members (map_omitempty n m)"
  using floats_sort_maps [of "JObject m"] by (simp add: map_omitempty_def del: sort_maps.simps)

lemma floats_fields [simp]:
  "floats_members (text_field n s)" "floats_members (text_omitempty n s)" "floats_members (int_omitempty n i)"
  "floats_members (bool_omitempty n b)" "(\<And>x. floats_literal (f x)) \<Longrightarrow> floats_members (ptr_omitempty n f p)"
  "list_all (\<lambda>x. floats_literal (g x)) xs \<Longrightarrow> floats_members (list_omitempty n g xs)"
  "(\<And>x. floats_literal (k x)) \<Longrightarrow> floats_literal (slice_json k ys)"
  by (auto simp: field_defs list_all_iff split: option.split)

text \<open>The maps of a report come from decoded objects: their numbers are JSON numbers.\<close>

definition report_numbers :: "(Condition \<Rightarrow> json) \<Rightarrow> BindingInspectionReport \<Rightarrow> bool" where
  "report_numbers condition r = (list_all (\<lambda>c. floats_literal (condition c)) (br_Conditions (rp_BindingRef r)) \<and>
     floats_literal (JObject (ri_PoolSelector (rp_Resolved r))) \<and>
     floats_literal (JObject (id_PodSelector (rp_RenderedIdentity r))) \<and>
     floats_literal (JObject (rd_PodSelector (rp_RenderedClusterSPIFFEID r))))"

lemma floats_target [simp]: "floats_literal (BindingInspectionTargetRef_json r)"
  by (simp add: BindingInspectionTargetRef_json_def)

lemma floats_finding [simp]: "floats_literal (BindingInspectionFinding_json f)"
  by (simp add: BindingInspectionFinding_json_def)

lemma floats_strings [simp]: "floats_members (list_omitempty n JString xs)"
  by (simp add: list_omitempty_def list_all_iff)

lemma floats_gvk [simp]: "floats_literal (BindingInspectionGVK_json g)"
  by (simp add: BindingInspectionGVK_json_def)

lemma floats_gvks [simp]: "floats_members (list_omitempty n BindingInspectionGVK_json gs)"
  by (rule floats_fields) (simp add: list_all_iff)

lemma floats_provenance [simp]: "floats_literal (BindingInspectionSelectorProvenance_json p)"
  "floats_literal (BindingInspectionMatchedPod_json q)"
  by (simp_all add: BindingInspectionSelectorProvenance_json_def BindingInspectionMatchedPod_json_def)

lemma floats_report: "report_numbers condition r \<Longrightarrow> floats_literal (BindingInspectionReport_json condition r)"
  by (simp add: report_numbers_def BindingInspectionReport_json_def BindingInspectionIdentityConfig_json_def
      BindingInspectionBindingRef_json_def BindingInspectionResolvedInput_json_def BindingInspectionRenderedIdentity_json_def
      BindingInspectionRenderedClusterSPIFFEID_json_def floats_map)

lemma floats_status: "floats_literal (StatusReport_json r)"
  by (simp add: StatusReport_json_def StatusComponents_json_def ComponentStatus_json_def OperatorStatus_json_def
      KleymAPIStatus_json_def SPIRECRDStatus_json_def GAIEStatus_json_def StatusConfig_json_def StatusSummary_json_def
      BindingStatusSummary_json_def BindingConditionSummary_json_def)

end
