(* ===== verification/Report_Text.thy ===== *)
theory Report_Text
  imports Report_Json
begin

text \<open>
  The human-readable reports of \<^verbatim>\<open>report.go\<close> and \<^verbatim>\<open>status_report.go\<close>. A function that
  appends to a \<^verbatim>\<open>strings.Builder\<close> is the text it appends; a line is a list of pieces,
  joined and ended by a newline, as the format strings of the source lay them out. The
  last definitions choose between this form and the JSON form.
\<close>

section \<open>Lines and small texts (report.go)\<close>

definition appendTextLine :: "string list \<Rightarrow> string" where
  "appendTextLine pieces = concat pieces @ [CHR 0x0A]"

definition textString :: "string \<Rightarrow> string" where
  "textString value = (if value = [] then ''(none)'' else value)"

definition textNamespacedName :: "string \<Rightarrow> string \<Rightarrow> string" where
  "textNamespacedName namespace name =
     (if namespace = [] then textString name
      else if name = [] then namespace @ ''/(none)''
      else namespace @ ''/'' @ name)"

definition textShortTargetRef :: "BindingInspectionTargetRef option \<Rightarrow> string \<Rightarrow> string" where
  "textShortTargetRef ref fallbackKind =
     (case ref of
        None \<Rightarrow> ''(missing)''
      | Some ref \<Rightarrow>
          let kind = (if tr_Kind ref = [] then fallbackKind else tr_Kind ref) in
          TrimSpace (kind @ '' '' @ textNamespacedName (tr_Namespace ref) (tr_Name ref)))"

fun firstTargetRef :: "BindingInspectionTargetRef option list \<Rightarrow> BindingInspectionTargetRef option" where
  "firstTargetRef [] = None"
| "firstTargetRef (ref # refs) = (case ref of Some r \<Rightarrow> Some r | None \<Rightarrow> firstTargetRef refs)"

fun leadingSpaces :: "string \<Rightarrow> nat" where
  "leadingSpaces [] = 0"
| "leadingSpaces (c # value) = (if c \<noteq> CHR '' '' then 0 else Suc (leadingSpaces value))"

definition textFindingSeverity :: "string \<Rightarrow> string" where
  "textFindingSeverity severity =
     (if severity = SeverityError then ''Error''
      else if severity = SeverityWarning then ''Warning''
      else if severity = SeverityInfo then ''Info''
      else textString severity)"

definition textConditionNeedsDetail :: "Condition \<Rightarrow> bool" where
  "textConditionNeedsDetail condition =
     (if c_Status condition = ConditionUnknown then True
      else if c_Type condition \<in> {''Ready'', ''Resolved'', ''Rendered''}
      then c_Status condition \<noteq> ConditionTrue
      else if c_Type condition \<in> {''InvalidRef'', ''UnsafeSelector'', ''RenderFailure''}
      then c_Status condition = ConditionTrue
      else c_Status condition \<noteq> ConditionTrue)"

definition textExitCode :: "BindingInspectionReport \<Rightarrow> int" where
  "textExitCode report =
     (case rp_ExitCode report of
        Some code \<Rightarrow> code
      | None \<Rightarrow> if HasErrorSeverityFinding (rp_Findings report) then 2 else 0)"

section \<open>Sections of the binding report\<close>

definition appendTextStringList :: "string \<Rightarrow> string list \<Rightarrow> string" where
  "appendTextStringList label values =
     (let itemIndent = replicate (leadingSpaces label + 2) CHR '' '' in
      appendTextLine [label, '':'']
      @ (if length values = 0 then appendTextLine [itemIndent, ''none'']
         else concat (map (\<lambda>value. appendTextLine [itemIndent, ''- '', value]) values)))"

definition appendTextPodLabels :: "string gomap \<Rightarrow> string" where
  "appendTextPodLabels labels =
     (if length labels = 0 then []
      else let keys = SortStrings (map fst labels);
               values = map (\<lambda>key. key @ ''='' @ map_index labels key) keys
        in appendTextLine [''    podLabels: '', Join values '', ''])"

definition appendTextSelectorSummary :: "string list \<Rightarrow> string" where
  "appendTextSelectorSummary selectors =
     (let selection = workloadSelectionFromSelectors selectors in
      appendTextLine [''  Selectors:'']
      @ (if ws_Namespace selection \<noteq> [] then appendTextLine [''    namespace: '', ws_Namespace selection] else [])
      @ (if ws_ServiceAccount selection \<noteq> []
         then appendTextLine [''    serviceAccount: '', ws_ServiceAccount selection] else [])
      @ appendTextPodLabels (ws_PodLabels selection)
      @ (if ws_ContainerSelectorType selection = ''name''
         then appendTextLine [''    container: '', ws_ContainerValue selection] else [])
      @ (if length (ws_UnsupportedSelectors selection) > 0
         then appendTextStringList ''    unsupported'' (ws_UnsupportedSelectors selection) else []))"

definition appendTextIdentity :: "BindingInspectionRenderedIdentity \<Rightarrow> string" where
  "appendTextIdentity identity =
     (if id_SPIFFEID identity = [] then appendTextLine [''  not rendered'']
      else appendTextLine [''  SPIFFE ID: '', id_SPIFFEID identity]
        @ appendTextSelectorSummary (id_WorkloadSelectors identity))"

definition appendTextClusterSPIFFEID :: "BindingInspectionRenderedClusterSPIFFEID \<Rightarrow> string" where
  "appendTextClusterSPIFFEID clusterspiffeid =
     (if rd_Name clusterspiffeid = [] then appendTextLine [''  not rendered'']
      else appendTextLine [''  Name: '', rd_Name clusterspiffeid]
        @ appendTextLine [''  ClassName: '', textString (rd_ClassName clusterspiffeid)]
        @ appendTextLine [''  Hint: '', textString (rd_Hint clusterspiffeid)]
        @ (if rd_Fallback clusterspiffeid = Some True then appendTextLine [''  Fallback: true''] else []))"

definition text_condition :: "string \<Rightarrow> Condition \<Rightarrow> string" where
  "text_condition indent condition =
     appendTextLine [indent, c_Type condition, ''='', c_Status condition]
     @ (if \<not> textConditionNeedsDetail condition then []
        else appendTextLine [indent, ''    Reason: '', textString (c_Reason condition)]
          @ appendTextLine [indent, ''    Message: '', textString (c_Message condition)])"

definition appendTextConditionList :: "string \<Rightarrow> Condition list \<Rightarrow> string" where
  "appendTextConditionList indent conditions =
     (if length conditions = 0 then appendTextLine [indent, ''none'']
      else concat (map (text_condition indent) conditions))"

definition text_matched_pod :: "BindingInspectionMatchedPod \<Rightarrow> string" where
  "text_matched_pod workload =
     appendTextLine [''  '', textNamespacedName (mp_Namespace workload) (mp_Pod workload)
       @ (if mp_Container workload \<noteq> [] then '' container='' @ mp_Container workload else [])]"

definition appendTextMatchedPods :: "BindingInspectionReport \<Rightarrow> string" where
  "appendTextMatchedPods report =
     (if id_SPIFFEID (rp_RenderedIdentity report) = [] then appendTextLine [''  skipped'']
      else if cap_Pods (rp_Capabilities report) = CapabilityPartial \<or>
        cap_Pods (rp_Capabilities report) = CapabilityUnknown then appendTextLine [''  unknown'']
      else if cap_Pods (rp_Capabilities report) = CapabilitySkipped then appendTextLine [''  skipped'']
      else if length (elems (rp_MatchedPods report)) = 0 then appendTextLine [''  none'']
      else concat (map text_matched_pod (elems (rp_MatchedPods report))))"

definition text_finding :: "BindingInspectionFinding \<Rightarrow> string" where
  "text_finding finding =
     appendTextLine [''  '', textFindingSeverity (fd_Severity finding), '' '', textString (fd_Reason finding)]
     @ (if fd_Message finding \<noteq> [] then appendTextLine [''    '', fd_Message finding] else [])"

definition appendTextFindings :: "BindingInspectionFinding list \<Rightarrow> string" where
  "appendTextFindings findings =
     (if length findings = 0 then appendTextLine [''Findings: none'']
      else appendTextLine [''Findings:''] @ concat (map text_finding findings))"

definition writeBindingInspectionReportText :: "BindingInspectionReport \<Rightarrow> string" where
  "writeBindingInspectionReportText report =
     (let report = normalizeBindingInspectionReport report in
      appendTextLine [''Binding: '', textNamespacedName (br_Namespace (rp_BindingRef report))
        (br_Name (rp_BindingRef report))]
      @ appendTextLine [''Source: '', textShortTargetRef
          (firstTargetRef [ri_PoolRef (rp_Resolved report), br_PoolRef (rp_BindingRef report)])
          ''InferencePool'']
      @ appendTextLine [] @ appendTextLine [''Identity:'']
      @ appendTextIdentity (rp_RenderedIdentity report)
      @ appendTextLine [] @ appendTextLine [''ClusterSPIFFEID:'']
      @ appendTextClusterSPIFFEID (rp_RenderedClusterSPIFFEID report)
      @ appendTextLine [] @ appendTextLine [''Conditions:'']
      @ appendTextConditionList ''  '' (br_Conditions (rp_BindingRef report))
      @ appendTextLine [] @ appendTextLine [''Matched pods:'']
      @ appendTextMatchedPods report
      @ appendTextLine [] @ appendTextFindings (elems (rp_Findings report))
      @ appendTextLine [''Exit code: '', decimal (textExitCode report)])"

text \<open>
  The output format is chosen here; the result is the text handed to the writer.
\<close>

definition outputText :: string where "outputText = ''text''"
definition outputJSON :: string where "outputJSON = ''json''"

definition WriteBindingInspectionReport ::
    "ext \<Rightarrow> (Condition \<Rightarrow> json) \<Rightarrow> string \<Rightarrow> BindingInspectionReport \<Rightarrow> string result" where
  "WriteBindingInspectionReport X condition format report =
     (if format = outputText then Inr (writeBindingInspectionReportText report)
      else if format = outputJSON then Inr (writeBindingInspectionReportJSON condition report)
      else Inl (PlainError (''invalid binding inspection output '' @ Quote X format)))"

section \<open>The cluster report (status_report.go)\<close>

definition availabilityStatus :: "string \<Rightarrow> string" where
  "availabilityStatus status =
     (if status = [] then ''unknown''
      else if status = StatusResultOK then ''Available''
      else if status = StatusResultWarning then ''Warning''
      else if status = StatusResultError then ''Unavailable''
      else status)"

definition textConfigValue :: "string \<Rightarrow> string" where
  "textConfigValue value = (if value = [] then ''unknown'' else value)"

definition textClassName :: "string \<Rightarrow> bool \<Rightarrow> string" where
  "textClassName className known =
     (if \<not> known then ''unknown'' else if className = [] then ''classless'' else className)"

definition text_kleym :: "StatusReport \<Rightarrow> string" where
  "text_kleym report =
     (let operator = sm_Operator (sr_Components report); config = sr_Config report in
      appendTextLine [''Kleym'']
      @ appendTextLine [''  CLI: '', textString (sr_CLIVersion report)]
      @ appendTextLine [''  Operator: '', availabilityStatus (op_Status operator)]
      @ appendTextLine [''    Deployment: '', textString (op_Deployment operator)]
      @ appendTextLine [''    Ready: '', decimal (op_ReadyReplicas operator), ''/'', decimal (op_Replicas operator)]
      @ appendTextLine [''    Version: '', textString (op_Version operator)]
      @ appendTextLine [''  Config:'']
      @ appendTextLine [''    trustDomain: '', textConfigValue (sf_TrustDomain config)]
      @ appendTextLine [''    clusterSPIFFEIDClass: '', textClassName (sf_ClusterSPIFFEIDClassName config)
          (sf_ClusterSPIFFEIDClassNameKnown config)]
      @ appendTextLine [''  API:'']
      @ appendTextLine [''    InferenceIdentityBinding: '',
          textString (ka_InferenceIdentityBinding (sm_KleymCRDs (sr_Components report)))])"

definition text_bindings :: "BindingStatusSummary \<Rightarrow> string" where
  "text_bindings bindings =
     appendTextLine [''Bindings'']
     @ appendTextLine [''  Total: '', decimal (bs_Total bindings)]
     @ appendTextLine [''  Conditions:'']
     @ appendTextLine [''    Ready: '', decimal (cs_Ready (bs_Conditions bindings))]
     @ appendTextLine [''    InvalidRef: '', decimal (cs_InvalidRef (bs_Conditions bindings))]
     @ appendTextLine [''    UnsafeSelector: '', decimal (cs_UnsafeSelector (bs_Conditions bindings))]
     @ appendTextLine [''    RenderFailure: '', decimal (cs_RenderFailure (bs_Conditions bindings))]"

definition text_dependencies :: "StatusComponents \<Rightarrow> string" where
  "text_dependencies components =
     appendTextLine [''Dependencies'']
     @ appendTextLine [''  GAIE: '', availabilityStatus (gs_Status (sm_GAIECRDs components))]
     @ appendTextLine [''    InferencePool: '', textString (gs_InferencePool (sm_GAIECRDs components))]
     @ appendTextLine [''  SPIRE: '', availabilityStatus (sc_Status (sm_SPIRECRDs components))]
     @ appendTextLine [''    ClusterSPIFFEID: '', textString (sc_ClusterSPIFFEID (sm_SPIRECRDs components))]"

definition writeStatusReportText :: "StatusReport \<Rightarrow> string" where
  "writeStatusReportText report =
     (let report = normalizeStatusReport report in
      text_kleym report
      @ appendTextLine [] @ text_bindings (sr_Summary report)
      @ appendTextLine [] @ text_dependencies (sr_Components report)
      @ (if length (elems (sr_Findings report)) > 0
         then appendTextLine [] @ appendTextFindings (elems (sr_Findings report)) else []))"

definition WriteStatusReport ::
    "ext \<Rightarrow> string \<Rightarrow> StatusReport \<Rightarrow> string result" where
  "WriteStatusReport X format report =
     (if format = outputText then Inr (writeStatusReportText report)
      else if format = outputJSON then Inr (writeStatusReportJSON report)
      else Inl (PlainError (''invalid status output '' @ Quote X format)))"

end
