(* ===== verification/Cli.thy ===== *)
theory Cli
  imports Report_Text
begin

text \<open>
  Package \<^verbatim>\<open>internal/cli\<close>: option validation, the two commands and the exit codes. The
  argument parser (cobra) is a parameter: it turns the command tree, which is data here, and
  the arguments into an invocation, with its own complaints as texts. A command returns its error, if any, and what it wrote to
  standard output.
\<close>

section \<open>Errors and exit codes (execute.go)\<close>

definition exitOK :: int where [insp_defs]: "exitOK = 0"
definition exitGeneric :: int where [insp_defs]: "exitGeneric = 1"
definition exitInspectionIssue :: int where [insp_defs]: "exitInspectionIssue = 2"
definition exitBindingNotFound :: int where [insp_defs]: "exitBindingNotFound = 3"
definition exitUsage :: int where [insp_defs]: "exitUsage = 4"
definition exitInternal :: int where [insp_defs]: "exitInternal = 5"

text \<open>An error of a command: one that carries its exit code, or one of the parser's own.\<close>

datatype cli_error = exitError int string | parserError string

fun cli_error_text :: "cli_error \<Rightarrow> string" where
  "cli_error_text (exitError code text) = text"
| "cli_error_text (parserError text) = text"

definition withExitCode :: "int \<Rightarrow> string option \<Rightarrow> cli_error option" where
  "withExitCode code err = (case err of None \<Rightarrow> None | Some text \<Rightarrow> Some (exitError code text))"

fun codeForError :: "cli_error \<Rightarrow> int" where
  "codeForError (exitError code text) = code"
| "codeForError (parserError text) =
     (if HasPrefix text ''unknown command '' then exitUsage else exitGeneric)"

section \<open>Options (root.go)\<close>

record Options =
  o_Namespace :: string
  o_Output :: string
  o_Strict :: bool
  o_Context :: string
  o_Kubeconfig :: string
  o_Timeout :: int
  o_TrustDomain :: string
  o_TrustDomainOverride :: bool
  o_ClusterSPIFFEIDClassName :: string
  o_ClusterSPIFFEIDClassNameOverride :: bool

definition defaultNamespace :: string where "defaultNamespace = ''default''"

definition validOutputFormats :: "string list" where
  "validOutputFormats = [outputText, outputJSON]"

text \<open>The options before any flag is read: the defaults the flags are declared with.\<close>

definition defaultOptions :: Options where
  "defaultOptions =
     \<lparr>o_Namespace = defaultNamespace, o_Output = outputText, o_Strict = False, o_Context = [],
      o_Kubeconfig = [], o_Timeout = 30 * Second, o_TrustDomain = DefaultTrustDomain,
      o_TrustDomainOverride = False, o_ClusterSPIFFEIDClassName = [],
      o_ClusterSPIFFEIDClassNameOverride = False\<rparr>"

text \<open>
  What the commands use of their environment: the connection, the version of the build, the
  textual form of a duration (\<^verbatim>\<open>time.Duration\<close>), the JSON form of a condition and the writer,
  which may refuse a text.
\<close>

record cli_env =
  e_ext :: ext
  e_connect :: "Config \<Rightarrow> (api \<times> ext \<times> rest_mapper \<times> string) result"
  e_version :: string
  e_duration :: "int \<Rightarrow> string"
  e_condition :: "Condition \<Rightarrow> json"
  e_stdout :: "string \<Rightarrow> go_error option"

definition isValidOutputFormat :: "string \<Rightarrow> bool" where
  "isValidOutputFormat format = list_ex (\<lambda>valid. format = valid) validOutputFormats"

text \<open>The flags that were given on the command line, as the parser marks them.\<close>

definition captureIdentityConfigFlagSources :: "bool option \<Rightarrow> bool option \<Rightarrow> Options \<Rightarrow> Options" where
  "captureIdentityConfigFlagSources trustDomainChanged classNameChanged opts =
     (let opts = (case trustDomainChanged of
            Some changed \<Rightarrow> opts\<lparr>o_TrustDomainOverride := changed\<rparr> | None \<Rightarrow> opts)
      in (case classNameChanged of
            Some changed \<Rightarrow> opts\<lparr>o_ClusterSPIFFEIDClassNameOverride := changed\<rparr> | None \<Rightarrow> opts))"

definition invalidOutputText :: "cli_env \<Rightarrow> Options \<Rightarrow> string" where
  "invalidOutputText E opts = ''invalid --output '' @ Quote (e_ext E) (o_Output opts)
     @ '': must be one of '' @ Join validOutputFormats ''|''"

definition invalidTimeoutText :: "cli_env \<Rightarrow> Options \<Rightarrow> string" where
  "invalidTimeoutText E opts = ''invalid --timeout '' @ e_duration E (o_Timeout opts)
     @ '': must be greater than 0''"

definition validateRunnableOptions :: "cli_env \<Rightarrow> Options \<Rightarrow> cli_error option" where
  "validateRunnableOptions E opts =
     (if \<not> isValidOutputFormat (o_Output opts) then withExitCode exitUsage (Some (invalidOutputText E opts))
      else if o_Timeout opts \<le> 0 then withExitCode exitUsage (Some (invalidTimeoutText E opts))
      else (case ValidateOperatorIdentityConfig (o_TrustDomain opts) (o_ClusterSPIFFEIDClassName opts) of
              Some err \<Rightarrow> withExitCode exitUsage (Some (error_text err))
            | None \<Rightarrow> None))"

definition validateStatusOptions :: "cli_env \<Rightarrow> Options \<Rightarrow> cli_error option" where
  "validateStatusOptions E opts =
     (if \<not> isValidOutputFormat (o_Output opts) then withExitCode exitUsage (Some (invalidOutputText E opts))
      else if o_Timeout opts \<le> 0 then withExitCode exitUsage (Some (invalidTimeoutText E opts))
      else None)"

section \<open>Writing a report\<close>

text \<open>
  The end of both commands: the report is written, unless the inspection itself failed;
  a failure to write is an internal error, and otherwise the inspection's error stands.
\<close>

definition finish_command ::
    "cli_env \<Rightarrow> bool \<Rightarrow> string result \<Rightarrow> int \<Rightarrow> string option \<Rightarrow> cli_error option \<times> string" where
  "finish_command E shouldWrite text code err =
     (if \<not> shouldWrite then (withExitCode code err, [])
      else (case text of
              Inl writeErr \<Rightarrow> (withExitCode exitInternal (Some (error_text writeErr)), [])
            | Inr written \<Rightarrow>
                (case e_stdout E written of
                   Some writeErr \<Rightarrow> (withExitCode exitInternal (Some (error_text writeErr)), [])
                 | None \<Rightarrow> (withExitCode code err, written))))"

section \<open>Inspect binding (inspect.go)\<close>

definition errInspectBindingHasErrorFindings :: string where
  "errInspectBindingHasErrorFindings = ''binding inspection completed with error findings''"
definition errInspectBindingHasWarningFindings :: string where
  "errInspectBindingHasWarningFindings =
     ''binding inspection completed with warning findings in strict mode''"

fun inspection_error_text :: "inspection_error \<Rightarrow> string" where
  "inspection_error_text ErrBindingInspectionNotFound = ''binding not found''"
| "inspection_error_text ErrBindingInspectionErrorFindings =
     ''binding inspection report contains error findings''"
| "inspection_error_text (InspectionFailed err) = error_text err"

definition newBindingInspectionRunner :: "cli_env \<Rightarrow> Options \<Rightarrow> bindingInspector result" where
  "newBindingInspectionRunner E opts =
     NewKubernetesBindingInspector (e_connect E)
       \<lparr>cf_Context = o_Context opts, cf_Kubeconfig = o_Kubeconfig opts, cf_Timeout = o_Timeout opts,
        cf_TrustDomain = o_TrustDomain opts, cf_TrustDomainOverride = o_TrustDomainOverride opts,
        cf_ClusterSPIFFEIDClassName = o_ClusterSPIFFEIDClassName opts,
        cf_ClusterSPIFFEIDClassNameOverride = o_ClusterSPIFFEIDClassNameOverride opts\<rparr>"

definition shouldWriteBindingInspectionReport :: "inspection_error option \<Rightarrow> bool" where
  "shouldWriteBindingInspectionReport inspectErr =
     (case inspectErr of None \<Rightarrow> True
      | Some err \<Rightarrow> err = ErrBindingInspectionNotFound \<or> err = ErrBindingInspectionErrorFindings)"

definition inspectionExitCode ::
    "BindingInspectionReport \<Rightarrow> inspection_error option \<Rightarrow> bool \<Rightarrow> int \<times> string option" where
  "inspectionExitCode report inspectErr strict =
     (case inspectErr of
        Some err \<Rightarrow>
          if err = ErrBindingInspectionNotFound then (exitBindingNotFound, Some (inspection_error_text err))
          else if err = ErrBindingInspectionErrorFindings
          then (exitInspectionIssue, Some errInspectBindingHasErrorFindings)
          else (exitUsage, Some (inspection_error_text err))
      | None \<Rightarrow>
          if HasErrorSeverityFinding (rp_Findings report)
          then (exitInspectionIssue, Some errInspectBindingHasErrorFindings)
          else if strict \<and> HasWarningSeverityFinding (rp_Findings report)
          then (exitInspectionIssue, Some errInspectBindingHasWarningFindings)
          else (exitOK, None))"

definition inspect_binding_run :: "cli_env \<Rightarrow> Options \<Rightarrow> string \<Rightarrow> (cli_error option \<times> string) run" where
  "inspect_binding_run E opts name =
     (case newBindingInspectionRunner E opts of
        Inl err \<Rightarrow> State_Monad.return (withExitCode exitUsage (Some (error_text err)), [])
      | Inr inspector \<Rightarrow> do {
          inspected \<leftarrow> InspectBinding inspector (o_Namespace opts) name;
          (case inspected of (report, inspectErr) \<Rightarrow>
             (case inspectionExitCode report inspectErr (o_Strict opts) of (code, err) \<Rightarrow>
                State_Monad.return (finish_command E (shouldWriteBindingInspectionReport inspectErr)
                  (WriteBindingInspectionReport (e_ext E) (e_condition E) (o_Output opts)
                    (report\<lparr>rp_ExitCode := Some code\<rparr>)) code err)))
        })"

section \<open>Status (status.go)\<close>

definition errStatusHasErrorFindings :: string where
  "errStatusHasErrorFindings = ''status completed with error findings''"

definition newStatusRunner :: "cli_env \<Rightarrow> Options \<Rightarrow> statusInspector result" where
  "newStatusRunner E opts =
     NewKubernetesStatusInspector (e_connect E)
       \<lparr>cf_Context = o_Context opts, cf_Kubeconfig = o_Kubeconfig opts, cf_Timeout = o_Timeout opts,
        cf_TrustDomain = [], cf_TrustDomainOverride = False, cf_ClusterSPIFFEIDClassName = [],
        cf_ClusterSPIFFEIDClassNameOverride = False\<rparr>"

definition shouldWriteStatusReport :: "status_error option \<Rightarrow> bool" where
  "shouldWriteStatusReport statusErr =
     (case statusErr of None \<Rightarrow> True | Some err \<Rightarrow> err = ErrStatusReportErrorFindings)"

definition statusExitCode :: "status_error option \<Rightarrow> int \<times> string option" where
  "statusExitCode statusErr =
     (case statusErr of
        None \<Rightarrow> (exitOK, None)
      | Some ErrStatusReportErrorFindings \<Rightarrow> (exitInspectionIssue, Some errStatusHasErrorFindings)
      | Some (StatusFailed err) \<Rightarrow> (exitUsage, Some (error_text err)))"

definition status_run :: "cli_env \<Rightarrow> Options \<Rightarrow> (cli_error option \<times> string) run" where
  "status_run E opts =
     (case newStatusRunner E opts of
        Inl err \<Rightarrow> State_Monad.return (withExitCode exitUsage (Some (error_text err)), [])
      | Inr runner \<Rightarrow> do {
          inspected \<leftarrow> Status runner;
          (case inspected of (report, statusErr) \<Rightarrow>
             (case statusExitCode statusErr of (code, err) \<Rightarrow>
                State_Monad.return (finish_command E (shouldWriteStatusReport statusErr)
                  (WriteStatusReport (e_ext E) (o_Output opts)
                    (report\<lparr>sr_CLIVersion := e_version E, sr_ExitCode := Some code\<rparr>)) code err)))
        })"

section \<open>The command tree (root.go, inspect.go, status.go)\<close>

text \<open>
  A flag is bound to a field of the options, with a shorthand where it has one, its default
  and its help text; a command has its flags, which its subcommands inherit, and the
  action it runs, if any. Errors of the flag parser get the usage code.
\<close>

datatype flag =
    StringVar (flag_name: string) (flag_shorthand: string) "string \<Rightarrow> Options \<Rightarrow> Options" string (flag_usage: string)
  | BoolVar (flag_name: string) (flag_shorthand: string) "bool \<Rightarrow> Options \<Rightarrow> Options" bool (flag_usage: string)
  | DurationVar (flag_name: string) (flag_shorthand: string) "int \<Rightarrow> Options \<Rightarrow> Options" int (flag_usage: string)

datatype action = RunStatus | RunInspectBinding

datatype command =
  Command (cmd_Use: string) (cmd_Short: string) (cmd_PersistentFlags: "flag list") (cmd_action: "action option")
    (cmd_commands: "command list")

definition newStatusCommand :: command where
  "newStatusCommand = Command ''status'' ''Show Kleym cluster status'' [] (Some RunStatus) []"

definition newInspectCommand :: command where
  "newInspectCommand = Command ''inspect'' ''Inspect Kleym resources''
     [StringVar ''namespace'' ''n'' (\<lambda>v opts. opts\<lparr>o_Namespace := v\<rparr>) defaultNamespace ''Namespace for binding lookup'',
      BoolVar ''strict'' [] (\<lambda>v opts. opts\<lparr>o_Strict := v\<rparr>) False ''Treat warning findings as errors'',
      StringVar ''trust-domain'' [] (\<lambda>v opts. opts\<lparr>o_TrustDomain := v\<rparr>) DefaultTrustDomain
        ''SPIRE Server trust domain used when rendering SPIFFE IDs'',
      StringVar ''clusterspiffeid-class-name'' [] (\<lambda>v opts. opts\<lparr>o_ClusterSPIFFEIDClassName := v\<rparr>) []
        ''Optional SPIRE Controller Manager ClusterSPIFFEID className expected on managed resources'']
     None
     [Command ''binding <name>'' ''Inspect one InferenceIdentityBinding'' [] (Some RunInspectBinding) []]"

record root_command =
  root_tree :: command
  root_Version :: string
  root_SilenceErrors :: bool
  root_SilenceUsage :: bool

definition NewRootCommand :: "string \<Rightarrow> root_command" where
  "NewRootCommand version =
     \<lparr>root_tree = Command ''kleym'' ''Read-only inspection CLI for Kleym bindings''
        [StringVar ''output'' ''o'' (\<lambda>v opts. opts\<lparr>o_Output := v\<rparr>) outputText
           (''Output format: '' @ Join validOutputFormats ''|''),
         StringVar ''context'' [] (\<lambda>v opts. opts\<lparr>o_Context := v\<rparr>) [] ''Name of the kubeconfig context to use'',
         StringVar ''kubeconfig'' [] (\<lambda>v opts. opts\<lparr>o_Kubeconfig := v\<rparr>) [] ''Path to the kubeconfig file'',
         DurationVar ''timeout'' [] (\<lambda>v opts. opts\<lparr>o_Timeout := v\<rparr>) (30 * Second) ''Command timeout'']
        None [newStatusCommand, newInspectCommand],
      root_Version = version, root_SilenceErrors = True, root_SilenceUsage = True\<rparr>"

text \<open>The flags a command accepts: those on the path to it. Declaring a flag sets its default.\<close>

fun flags_at :: "action \<Rightarrow> command \<Rightarrow> (flag list) option" where
  "flags_at a (Command use short flags act subs) =
     (if act = Some a then Some flags
      else (case filter (\<lambda>fs. fs \<noteq> None) (map (flags_at a) subs) of [] \<Rightarrow> None
         | fs # _ \<Rightarrow> map_option (append flags) fs))"

fun declare_flag :: "flag \<Rightarrow> Options \<Rightarrow> Options" where
  "declare_flag (StringVar n s put d u) opts = put d opts"
| "declare_flag (BoolVar n s put d u) opts = put d opts"
| "declare_flag (DurationVar n s put d u) opts = put d opts"

fun declare_flags :: "command \<Rightarrow> Options \<Rightarrow> Options" where
  "declare_flags (Command use short flags act subs) opts = fold declare_flags subs (fold declare_flag flags opts)"

definition zero_options :: Options where
  "zero_options = \<lparr>o_Namespace = [], o_Output = [], o_Strict = False, o_Context = [], o_Kubeconfig = [], o_Timeout = 0,
     o_TrustDomain = [], o_TrustDomainOverride = False, o_ClusterSPIFFEIDClassName = [],
     o_ClusterSPIFFEIDClassNameOverride = False\<rparr>"

section \<open>Execute\<close>

text \<open>
  What the parser makes of the arguments: a flag it rejects, another error of its own, a
  help or version text, or a command with its options and the complaint about its
  arguments, if any. For inspect binding the changed identity flags come along, each
  absent when the command has no such flag.
\<close>

datatype invocation =
    FlagError string
  | ParserError string
  | Informational string
  | StatusCommand Options "string option"
  | InspectBindingCommand Options "bool option" "bool option" "string option" string

definition run_invocation :: "cli_env \<Rightarrow> invocation \<Rightarrow> (cli_error option \<times> string) run" where
  "run_invocation E invocation =
     (case invocation of
        FlagError text \<Rightarrow> State_Monad.return (withExitCode exitUsage (Some text), [])
      | ParserError text \<Rightarrow> State_Monad.return (Some (parserError text), [])
      | Informational text \<Rightarrow> State_Monad.return (None, text)
      | StatusCommand opts argsErr \<Rightarrow>
          (case withExitCode exitUsage argsErr of
             Some err \<Rightarrow> State_Monad.return (Some err, [])
           | None \<Rightarrow>
               (case validateStatusOptions E opts of
                  Some err \<Rightarrow> State_Monad.return (Some err, [])
                | None \<Rightarrow> status_run E opts))
      | InspectBindingCommand opts trustDomainChanged classNameChanged argsErr name \<Rightarrow>
          (case withExitCode exitUsage argsErr of
             Some err \<Rightarrow> State_Monad.return (Some err, [])
           | None \<Rightarrow>
               let opts = captureIdentityConfigFlagSources trustDomainChanged classNameChanged opts in
               (case validateRunnableOptions E opts of
                  Some err \<Rightarrow> State_Monad.return (Some err, [])
                | None \<Rightarrow> inspect_binding_run E opts name)))"

text \<open>The exit code, what was written to standard output and to standard error.\<close>

definition Execute ::
    "cli_env \<Rightarrow> (root_command \<Rightarrow> string list \<Rightarrow> invocation) \<Rightarrow> string list \<Rightarrow> (int \<times> string \<times> string) run" where
  "Execute E parse args = do {
     finished \<leftarrow> run_invocation E (parse (NewRootCommand (e_version E)) args);
     State_Monad.return (case finished of
        (None, stdout) \<Rightarrow> (exitOK, stdout, [])
      | (Some err, stdout) \<Rightarrow>
          (codeForError err, stdout, ''Error: '' @ cli_error_text err @ [CHR 0x0A]))
   }"

section \<open>The program (cmd/kleym/main.go, version.go)\<close>

text \<open>The version of a build that is not linked with another one.\<close>

definition Version :: string where
  "Version = ''dev''"

text \<open>The exit status of the process and its output; the first argument is the program's name.\<close>

definition kleym_main ::
    "cli_env \<Rightarrow> (root_command \<Rightarrow> string list \<Rightarrow> invocation) \<Rightarrow> string list \<Rightarrow> (int \<times> string \<times> string) run" where
  "kleym_main E parse osArgs = Execute E parse (drop 1 osArgs)"

section \<open>Flags and defaults\<close>

lemma declared_defaults: "declare_flags (root_tree (NewRootCommand v)) zero_options = defaultOptions"
  by (simp add: NewRootCommand_def newStatusCommand_def newInspectCommand_def zero_options_def defaultOptions_def)

text \<open>
  The status command has the four global flags, and inspect binding the four of its own
  group besides.
\<close>

lemma status_flags:
  "map_option (map flag_name) (flags_at RunStatus (root_tree (NewRootCommand v))) =
     Some [''output'', ''context'', ''kubeconfig'', ''timeout'']"
  by (simp add: NewRootCommand_def newStatusCommand_def newInspectCommand_def)

lemma inspect_flags:
  "map_option (map flag_name) (flags_at RunInspectBinding (root_tree (NewRootCommand v))) =
     Some [''output'', ''context'', ''kubeconfig'', ''timeout'', ''namespace'', ''strict'', ''trust-domain'',
       ''clusterspiffeid-class-name'']"
  by (simp add: NewRootCommand_def newStatusCommand_def newInspectCommand_def)

end
