(* ===== verification/Cli_Correct.thy ===== *)
theory Cli_Correct
  imports Cli
begin

text \<open>
  The command line tool as a whole: it only reads, its exit code says what it found, and
  the reports it writes are complete.
\<close>

section \<open>Reading\<close>

context free_reads
begin

lemma keeps_rendered: "keeps ok (inspectRenderedIdentity i b gvks config report)"
  unfolding inspectRenderedIdentity_def Let_def by (auto intro!: keeps_intro keeps_pool split: sum.split)

lemma keeps_pods: "keeps ok (inspectMatchedPods i b rendered report)"
  unfolding inspectMatchedPods_def listMatchingPods_def Let_def
  by (auto intro!: keeps_intro keeps_reads split: option.split sum.split)

lemma keeps_InspectBinding: "keeps ok (InspectBinding i ns name)"
  unfolding InspectBinding_def Let_def
  by (auto intro!: keeps_intro keeps_reads keeps_rendered keeps_pods split: sum.split prod.split)

lemma keeps_Status: "keeps ok (Status i)"
  unfolding Status_def inspectOperator_def Let_def
  by (auto intro!: keeps_intro keeps_reads split: sum.split prod.split option.split)

lemma keeps_Execute: "keeps ok (Execute E parse args)"
  unfolding Execute_def run_invocation_def inspect_binding_run_def status_run_def Let_def
  by (auto intro!: keeps_intro keeps_InspectBinding keeps_Status
      split: invocation.split option.split sum.split prod.split)

end

text \<open>
  C22: The tool is read-only. Whatever the arguments and whatever the API server answers, a
  run of the command line tool adds only reads to the history of calls.
\<close>
theorem Execute_read_only:
  "\<exists>new. snd (run_state (Execute E parse args) t) = new @ t \<and> list_all is_read new"
  using reading.keeps_Execute [of E parse args] by (auto simp: keeps_def intro: extends_all)

section \<open>Complete reports\<close>

lemma elems_Some [simp]: "elems (Some xs) = xs" "elems None = []"
  by (simp_all add: elems_def)

lemma normalize_finding_idem [simp]: "normalize_finding (normalize_finding f) = normalize_finding f"
  by (simp add: normalize_finding_def)

lemma normalize_report_idem:
  "normalizeBindingInspectionReport (normalizeBindingInspectionReport report) =
     normalizeBindingInspectionReport report"
  by (simp add: normalizeBindingInspectionReport_def Let_def BindingInspectionReportSchemaVersion_def
      BindingInspectionReportKind_def)

lemma normalize_report_fields:
  "rp_Findings (normalizeBindingInspectionReport report) = Some (map normalize_finding (elems (rp_Findings report)))"
  "rp_MatchedPods (normalizeBindingInspectionReport report) = Some (elems (rp_MatchedPods report))"
  "rp_ExitCode (normalizeBindingInspectionReport report) = rp_ExitCode report"
  by (simp_all add: normalizeBindingInspectionReport_def Let_def)

lemma InspectBinding_result:
  assumes "run_state (InspectBinding i ns name) t = ((report, err), t')"
  shows "(\<exists>e. err = Some (InspectionFailed e)) \<or>
    (\<exists>report'. report = normalizeBindingInspectionReport report') \<and>
    (err = Some ErrBindingInspectionNotFound \<and> HasErrorSeverityFinding (rp_Findings report) \<or>
     err = (if HasErrorSeverityFinding (rp_Findings report) then Some ErrBindingInspectionErrorFindings else None))"
proof -
  have found: "HasErrorSeverityFinding (rp_Findings (normalizeBindingInspectionReport
      (add_finding report (bindingNotFoundFinding X ns name))))" for X report
    by (simp add: HasErrorSeverityFinding_def normalize_report_fields add_finding_def append_one_def
        bindingNotFoundFinding_def normalize_finding_def)
  show ?thesis
    using assms unfolding InspectBinding_def Let_def
    by (auto simp: found GetBinding_def split: sum.splits prod.splits if_splits)
qed

text \<open>
  C31: Reports are complete. Unless the inspection itself failed, the report it returns is
  normalized: schema version and kind are set, and neither the findings, nor the matched
  pods, nor the references of any finding is a nil slice, which JSON would show as null.
  The error says whether the report has an error finding.
\<close>
theorem InspectBinding_normalized:
  assumes "run_state (InspectBinding i ns name) t = ((report, err), t')"
    and "\<forall>e. err \<noteq> Some (InspectionFailed e)"
  shows "rp_SchemaVersion report \<noteq> [] \<and> rp_Kind report \<noteq> [] \<and> rp_MatchedPods report \<noteq> None \<and>
    (\<exists>fs. rp_Findings report = Some fs \<and> (\<forall>f \<in> set fs. fd_AffectedRefs f \<noteq> None)) \<and>
    (err = None \<longleftrightarrow> \<not> HasErrorSeverityFinding (rp_Findings report))"
proof -
  from InspectBinding_result [OF assms(1)] assms(2) obtain report' where
    report: "report = normalizeBindingInspectionReport report'"
    and err: "err = Some ErrBindingInspectionNotFound \<and> HasErrorSeverityFinding (rp_Findings report) \<or>
     err = (if HasErrorSeverityFinding (rp_Findings report) then Some ErrBindingInspectionErrorFindings else None)"
    by blast
  have "rp_SchemaVersion report \<noteq> [] \<and> rp_Kind report \<noteq> []"
    unfolding report by (simp add: normalizeBindingInspectionReport_def Let_def
        BindingInspectionReportSchemaVersion_def BindingInspectionReportKind_def)
  moreover have "\<forall>f \<in> set (map normalize_finding fs). fd_AffectedRefs f \<noteq> None" for fs
    by (auto simp: normalize_finding_def)
  ultimately show ?thesis using err unfolding report by (auto simp: normalize_report_fields)
qed

section \<open>Exit codes\<close>

definition inspect_code :: "bool \<Rightarrow> BindingInspectionReport \<Rightarrow> inspection_error option \<Rightarrow> int" where
  "inspect_code strict report err =
     (case err of
        None \<Rightarrow> if strict \<and> HasWarningSeverityFinding (rp_Findings report) then 2 else 0
      | Some ErrBindingInspectionNotFound \<Rightarrow> 3
      | Some ErrBindingInspectionErrorFindings \<Rightarrow> 2
      | Some (InspectionFailed _) \<Rightarrow> 4)"

lemma inspectionExitCode_code:
  assumes "err = None \<Longrightarrow> \<not> HasErrorSeverityFinding (rp_Findings report)"
  shows "fst (inspectionExitCode report err strict) = inspect_code strict report err"
    "(snd (inspectionExitCode report err strict) = None) = (inspect_code strict report err = 0)"
  using assms by (auto simp: inspectionExitCode_def inspect_code_def insp_defs split: option.split inspection_error.split)

lemma text_ends_with_code:
  assumes "rp_ExitCode report = Some code"
  shows "suffix (''Exit code: '' @ decimal code @ [CHR 0x0A]) (writeBindingInspectionReportText report)"
proof -
  have "textExitCode (normalizeBindingInspectionReport report) = code"
    using assms by (simp add: textExitCode_def normalize_report_fields)
  then have "appendTextLine [''Exit code: '', decimal (textExitCode (normalizeBindingInspectionReport report))] =
      ''Exit code: '' @ decimal code @ [CHR 0x0A]" by (simp add: appendTextLine_def)
  then show ?thesis unfolding writeBindingInspectionReportText_def Let_def
    by (intro suffix_appendI) simp
qed

text \<open>What the process does after an inspection, whatever the format of the report.\<close>

lemma inspect_execute:
  assumes "parse (NewRootCommand (e_version E)) args = InspectBindingCommand opts0 trustDomainChanged classNameChanged None name"
    and "opts = captureIdentityConfigFlagSources trustDomainChanged classNameChanged opts0"
    and "validateRunnableOptions E opts = None" "newBindingInspectionRunner E opts = Inr i"
    and "run_state (InspectBinding i (o_Namespace opts) name) t = ((report, err), t')"
    and "WriteBindingInspectionReport (e_ext E) (e_condition E) (o_Output opts)
      (report\<lparr>rp_ExitCode := Some (inspect_code (o_Strict opts) report err)\<rparr>) = Inr text" "e_stdout E text = None"
  shows "\<exists>stderr. run_state (Execute E parse args) t =
      ((inspect_code (o_Strict opts) report err, if \<exists>e. err = Some (InspectionFailed e) then [] else text, stderr), t') \<and>
    (stderr = [] \<longleftrightarrow> inspect_code (o_Strict opts) report err = 0)"
proof -
  have clean: "err = None \<Longrightarrow> \<not> HasErrorSeverityFinding (rp_Findings report)"
    using InspectBinding_result [OF assms(5)] by (auto split: if_splits)
  obtain code msg where code: "inspectionExitCode report err (o_Strict opts) = (code, msg)" by fastforce
  with inspectionExitCode_code [of err report "o_Strict opts"] clean
  have c: "code = inspect_code (o_Strict opts) report err" "msg = None \<longleftrightarrow> code = 0" by simp_all
  have "shouldWriteBindingInspectionReport err \<longleftrightarrow> \<not> (\<exists>e. err = Some (InspectionFailed e))"
    by (cases err; cases "the err") (auto simp: shouldWriteBindingInspectionReport_def)
  then have "run_state (inspect_binding_run E opts name) t =
      ((withExitCode code msg, if \<exists>e. err = Some (InspectionFailed e) then [] else text), t')"
    using assms(4-7) code c(1) by (simp add: inspect_binding_run_def finish_command_def)
  then have "run_state (Execute E parse args) t =
      ((code, if \<exists>e. err = Some (InspectionFailed e) then [] else text,
        case msg of None \<Rightarrow> [] | Some m \<Rightarrow> ''Error: '' @ m @ [CHR 0x0A]), t')"
    using assms(1-3) c(2)
    by (cases msg) (simp_all add: Execute_def run_invocation_def withExitCode_def Let_def exitOK_def)
  then show ?thesis using c by (cases msg) auto
qed

text \<open>
  C20: The exit code of inspect binding tells the outcome. For valid options, a connection, a
  writer that accepts and text output, the code is 0 when the binding was found and the
  report has no error finding (nor, in strict mode, a warning), 2 for such findings, 3 when
  the binding is absent, and 4 when the inspection could not be done; only then is no report
  written. Otherwise the last line of the report shows the very code the process ends with,
  and standard error is empty exactly for code 0.
\<close>
theorem inspect_exit_code:
  assumes "parse (NewRootCommand (e_version E)) args = InspectBindingCommand opts0 trustDomainChanged classNameChanged None name"
    and "opts = captureIdentityConfigFlagSources trustDomainChanged classNameChanged opts0"
    and "validateRunnableOptions E opts = None" "newBindingInspectionRunner E opts = Inr i"
    and "run_state (InspectBinding i (o_Namespace opts) name) t = ((report, err), t')"
    and "o_Output opts = outputText" "\<forall>text. e_stdout E text = None"
  shows "\<exists>stdout stderr. run_state (Execute E parse args) t =
      ((inspect_code (o_Strict opts) report err, stdout, stderr), t') \<and>
    (if \<exists>e. err = Some (InspectionFailed e) then stdout = []
     else suffix (''Exit code: '' @ decimal (inspect_code (o_Strict opts) report err) @ [CHR 0x0A]) stdout) \<and>
    (stderr = [] \<longleftrightarrow> inspect_code (o_Strict opts) report err = 0)"
proof -
  let ?text = "writeBindingInspectionReportText (report\<lparr>rp_ExitCode := Some (inspect_code (o_Strict opts) report err)\<rparr>)"
  have "WriteBindingInspectionReport (e_ext E) (e_condition E) (o_Output opts)
      (report\<lparr>rp_ExitCode := Some (inspect_code (o_Strict opts) report err)\<rparr>) = Inr ?text"
    using assms(6) by (simp add: WriteBindingInspectionReport_def)
  from inspect_execute [where parse = parse and E = E and args = args, OF assms(1-5) this spec [OF assms(7)]] obtain stderr where
    "run_state (Execute E parse args) t =
      ((inspect_code (o_Strict opts) report err, if \<exists>e. err = Some (InspectionFailed e) then [] else ?text, stderr), t')"
    "stderr = [] \<longleftrightarrow> inspect_code (o_Strict opts) report err = 0" by blast
  moreover have "suffix (''Exit code: '' @ decimal (inspect_code (o_Strict opts) report err) @ [CHR 0x0A]) ?text"
    by (rule text_ends_with_code) simp
  ultimately show ?thesis by auto
qed

section \<open>Status\<close>

definition only_errors :: "StatusReport \<Rightarrow> bool" where
  "only_errors report = list_all (\<lambda>f. fd_Severity f = SeverityError) (elems (sr_Findings report))"

lemma add_status_finding_elems [simp]:
  "elems (sr_Findings (add_status_finding report f)) = elems (sr_Findings report) @ [f]"
  "sr_Components (add_status_finding report f) = sr_Components report"
  by (simp_all add: add_status_finding_def append_one_def)

lemma set_components_simps [simp]:
  "sr_Findings (set_components g report) = sr_Findings report"
  "sr_Summary (set_components g report) = sr_Summary report"
  "sr_Components (set_components g report) = g (sr_Components report)"
  by (simp_all add: set_components_def)

lemma fillConfigFromDeployment_keeps [simp]:
  "sr_Findings (fillConfigFromDeployment d report) = sr_Findings report"
  "sr_Components (fillConfigFromDeployment d report) = sr_Components report"
  by (simp_all add: fillConfigFromDeployment_def fillConfigFromArgs_def Let_def split: option.split prod.split)

lemma severity_simps [simp]:
  "fd_Severity (crdMissingFinding a b) = SeverityError" "fd_Severity (operatorFinding a b) = SeverityError"
  "fd_Severity (bindingUnhealthyFinding X c) = SeverityError"
  by (simp_all add: crdMissingFinding_def operatorFinding_def bindingUnhealthyFinding_def split: prod.split)

text \<open>After the search for resource types and the operator.\<close>

definition examined :: "StatusReport \<Rightarrow> bool" where
  "examined report = (only_errors report \<and>
     (ka_Status (sm_KleymCRDs (sr_Components report)) = StatusResultError \<longrightarrow> elems (sr_Findings report) \<noteq> []))"

lemma inspectCRDs_examined:
  "elems (sr_Findings report) = [] \<Longrightarrow> inspectCRDs i report = (report', None) \<Longrightarrow> examined report'"
  by (auto simp: inspectCRDs_def report_kleym_crd_def report_spire_crd_def report_gaie_crd_def examined_def
      only_errors_def insp_defs Let_def split: sum.splits if_splits)

lemma inspectCRDs_missing:
  "si_mapper i kleymGVK = Some e \<Longrightarrow> IsNoMatchError e \<Longrightarrow> inspectCRDs i report = (report', None) \<Longrightarrow>
   ka_Status (sm_KleymCRDs (sr_Components report')) = StatusResultError"
  by (auto simp: inspectCRDs_def crdAvailable_def report_kleym_crd_def report_spire_crd_def report_gaie_crd_def
      Let_def split: sum.splits if_splits option.splits)

lemma report_deployments_kleym:
  "sm_KleymCRDs (sr_Components (report_deployments ds report)) = sm_KleymCRDs (sr_Components report)"
  by (simp add: report_deployments_def Let_def split: option.split)

lemma only_errors_HasError:
  "only_errors report \<Longrightarrow> HasErrorSeverityFinding (sr_Findings report) \<longleftrightarrow> elems (sr_Findings report) \<noteq> []"
  by (cases "elems (sr_Findings report)") (auto simp: only_errors_def HasErrorSeverityFinding_def)

lemma report_deployments_examined: "examined report \<Longrightarrow> examined (report_deployments ds report)"
  by (auto simp: report_deployments_def examined_def only_errors_def Let_def split: option.split)

lemma inspectBindings_errors: "only_errors report \<Longrightarrow> only_errors (inspectBindings X bs report)"
proof -
  assume "only_errors report"
  moreover obtain obs report' where "inspect_all X bs newStatusConfigObservations report = (obs, report')" by fastforce
  moreover from this have "report' = fold (inspect_one X) bs report"
    using inspect_all_snd [of X bs newStatusConfigObservations report] by simp
  ultimately show ?thesis using inspect_fold [of X bs report]
    by (auto simp: inspectBindings_def only_errors_def list_all_iff)
qed

lemma finishStatusReport_simps [simp]:
  "sr_Findings (finishStatusReport report) = sr_Findings report"
  "sr_Summary (finishStatusReport report) = sr_Summary report"
  by (simp_all add: finishStatusReport_def set_status_def)

lemma finishStatusReport_status:
  assumes "only_errors report"
  shows "sr_Status (finishStatusReport report) =
    (if elems (sr_Findings report) \<noteq> [] then StatusResultError
     else if bs_Warning (sr_Summary report) > 0 then StatusResultWarning else StatusResultOK)"
proof -
  have "\<not> HasWarningSeverityFinding (sr_Findings report)"
    using assms by (auto simp: only_errors_def HasWarningSeverityFinding_def list_all_iff list_ex_iff insp_defs)
  with only_errors_HasError [OF assms] show ?thesis
    by (simp add: finishStatusReport_def set_status_def set_components_def)
qed

text \<open>
  C30: The overall status is the worst thing found. When the evaluation completes, the error
  is returned exactly when there is a finding, and then the status is ERROR; without
  findings it is WARNING when some binding has not settled, and OK otherwise. An absent
  InferenceIdentityBinding type is always an error.
\<close>
theorem Status_outcome:
  assumes "run_state (Status i) t = ((report, err), t')" "\<forall>e. err \<noteq> Some (StatusFailed e)"
  shows "(err = Some ErrStatusReportErrorFindings \<longleftrightarrow> elems (sr_Findings report) \<noteq> []) \<and>
    sr_Status report = (if elems (sr_Findings report) \<noteq> [] then StatusResultError
      else if bs_Warning (sr_Summary report) > 0 then StatusResultWarning else StatusResultOK) \<and>
    (\<forall>e. si_mapper i kleymGVK = Some e \<and> IsNoMatchError e \<longrightarrow> err \<noteq> None)"
proof -
  have new: "elems (sr_Findings (NewStatusReport\<lparr>sr_GeneratedAt := si_now i\<rparr>)) = []"
    by (simp add: NewStatusReport_def normalizeStatusReport_def zero_status_report_def Let_def)
  from assms obtain r1 where crds: "inspectCRDs i (NewStatusReport\<lparr>sr_GeneratedAt := si_now i\<rparr>) = (r1, None)"
    by (auto simp: Status_def Let_def split: prod.splits option.splits)
  let ?reply = "list_deployments (si_client i) t operator_labels"
  from assms crds obtain ds where ds: "?reply = Inr ds"
    by (auto simp: Status_def inspectOperator_def ListDeployments_def Let_def split: sum.splits)
  define r2 where "r2 = report_deployments ds r1"
  have ok: "examined r2" unfolding r2_def
    by (intro report_deployments_examined inspectCRDs_examined [OF new crds])
  have missing: "ka_Status (sm_KleymCRDs (sr_Components r2)) = StatusResultError"
    if "si_mapper i kleymGVK = Some e" "IsNoMatchError e" for e
    using inspectCRDs_missing [OF that crds] by (simp add: r2_def report_deployments_kleym)
  show ?thesis
  proof (cases "ka_Status (sm_KleymCRDs (sr_Components r2)) = StatusResultError")
    case True
    then have "report = finishStatusReport r2" "err = Some ErrStatusReportErrorFindings"
      using assms(1) crds ds by (simp_all add: Status_def inspectOperator_def ListDeployments_def r2_def)
    moreover have "elems (sr_Findings r2) \<noteq> []" "only_errors r2" using ok True by (simp_all add: examined_def)
    ultimately show ?thesis by (simp add: finishStatusReport_status)
  next
    case False
    then obtain bs where bs: "report = finishStatusReport (inspectBindings (si_ext i) bs r2)"
      "err = (if HasErrorSeverityFinding (sr_Findings report) then Some ErrStatusReportErrorFindings else None)"
      using assms crds ds
      by (auto simp: Status_def inspectOperator_def ListDeployments_def ListBindings_def r2_def Let_def
          split: sum.splits)
    have "only_errors (inspectBindings (si_ext i) bs r2)"
      using ok by (intro inspectBindings_errors) (simp add: examined_def)
    then have "HasErrorSeverityFinding (sr_Findings report) \<longleftrightarrow> elems (sr_Findings report) \<noteq> []"
      "sr_Status report = (if elems (sr_Findings report) \<noteq> [] then StatusResultError
        else if bs_Warning (sr_Summary report) > 0 then StatusResultWarning else StatusResultOK)"
      unfolding bs(1) by (simp_all add: finishStatusReport_status only_errors_HasError)
    then show ?thesis using bs(2) False missing by auto
  qed
qed

section \<open>A run against an empty cluster\<close>

definition empty_env :: cli_env where
  "empty_env = \<lparr>e_ext = ref_ext, e_connect = (\<lambda>_. Inr (empty_api, ref_ext, \<lambda>_. None, ''now'')), e_version = ''dev'',
     e_duration = (\<lambda>_. []), e_condition = (\<lambda>_. JObject []),
     e_stdout = (\<lambda>_. None)\<rparr>"

definition empty_inspector :: bindingInspector where
  "empty_inspector = \<lparr>i_client = empty_api, i_ext = ref_ext, i_mapper = (\<lambda>_. None), i_now = ''now'',
     i_identityConfig = \<lparr>ii_trustDomain = DefaultTrustDomain, ii_trustDomainOverride = False,
       ii_clusterSPIFFEIDClassName = [], ii_clusterSPIFFEIDClassNameOverride = False\<rparr>\<rparr>"

lemma default_settings_valid: "ValidateOperatorIdentityConfig DefaultTrustDomain [] = None"
  by (simp add: ValidateOperatorIdentityConfig_def DefaultTrustDomain_def TrimSpace_plain plain_byte_def)

lemma empty_runner: "newBindingInspectionRunner empty_env defaultOptions = Inr empty_inspector"
  by (simp add: newBindingInspectionRunner_def NewKubernetesBindingInspector_def defaultOptions_def
      normalizedInspectionIdentityConfig_def default_settings_valid empty_env_def empty_inspector_def Let_def)
     (simp add: DefaultTrustDomain_def)

lemma empty_inspection:
  "\<exists>report t'. run_state (InspectBinding empty_inspector ns name) t =
     ((report, Some ErrBindingInspectionNotFound), t')"
  by (simp add: InspectBinding_def discoverGAIEGVKs_def InferencePoolGVKs_def inferencePoolGVKs_def
      empty_inspector_def GetBinding_def IsNotFound_def Let_def)

theorem InspectBinding_normalized_witness:
  "\<exists>report fs. rp_Findings report = Some fs \<and> HasErrorSeverityFinding (rp_Findings report) \<and>
     fst (run_state (InspectBinding empty_inspector ''ns'' ''x'') []) = (report, Some ErrBindingInspectionNotFound)"
proof -
  obtain report t' where run: "run_state (InspectBinding empty_inspector ''ns'' ''x'') [] =
      ((report, Some ErrBindingInspectionNotFound), t')"
    using empty_inspection by blast
  from InspectBinding_normalized [OF run] run show ?thesis by auto
qed

theorem inspect_exit_code_witness:
  "fst (fst (run_state (Execute empty_env (\<lambda>_ _. InspectBindingCommand defaultOptions None None None ''x'') []) [])) = 3"
proof -
  obtain report t' where run: "run_state (InspectBinding empty_inspector (o_Namespace defaultOptions) ''x'') [] =
      ((report, Some ErrBindingInspectionNotFound), t')"
    using empty_inspection by blast
  have opts: "defaultOptions = captureIdentityConfigFlagSources None None defaultOptions"
    by (simp add: captureIdentityConfigFlagSources_def)
  have valid: "validateRunnableOptions empty_env defaultOptions = None"
    by (simp add: validateRunnableOptions_def isValidOutputFormat_def validOutputFormats_def defaultOptions_def
        default_settings_valid Second_def)
  have "o_Output defaultOptions = outputText" "\<forall>text. e_stdout empty_env text = None"
    by (simp_all add: defaultOptions_def empty_env_def)
  from inspect_exit_code [where parse = "\<lambda>_ _. InspectBindingCommand defaultOptions None None None ''x''" and E = empty_env and args = "[]",
    OF refl opts valid empty_runner run this]
  show ?thesis by (auto simp: inspect_code_def)
qed

definition empty_status_inspector :: statusInspector where
  "empty_status_inspector = \<lparr>si_client = empty_api, si_ext = ref_ext, si_mapper = (\<lambda>_. None), si_now = ''now''\<rparr>"

theorem Status_outcome_witness:
  "\<exists>report. fst (run_state (Status empty_status_inspector) []) = (report, Some ErrStatusReportErrorFindings) \<and>
     sr_Status report = StatusResultError"
proof -
  obtain report t' where run: "run_state (Status empty_status_inspector) [] =
      ((report, Some ErrStatusReportErrorFindings), t')"
    by (auto simp: Status_def inspectCRDs_def crdAvailable_def InferencePoolGVKs_def inferencePoolGVKs_def
        empty_status_inspector_def inspectOperator_def ListDeployments_def ListBindings_def Let_def
        report_kleym_crd_def report_spire_crd_def report_gaie_crd_def report_deployments_def inspectBindings_def
        HasErrorSeverityFinding_def insp_defs)
  from Status_outcome [OF run] run show ?thesis by auto
qed

end
