(* ===== verification/Cli_Json.thy ===== *)
theory Cli_Json
  imports Cli_Correct
begin

text \<open>
  The machine-readable output of the command line tool: what a JSON reader finds in what the
  two commands write.
\<close>

section \<open>Keys\<close>

lemma ascii_clean: "list_all (\<lambda>c. byte c < 0x80) s \<Longrightarrow> clean_string s = s"
  by (induction s) (simp_all add: clean_string.simps(2) rune_size_ascii)

definition report_keys :: "string list" where
  "report_keys = [''schemaVersion'', ''kind'', ''generatedAt'', ''identityConfig'', ''bindingRef'', ''resolvedInput'',
     ''renderedIdentity'', ''renderedClusterSPIFFEID'', ''matchedPods'', ''findings'']"

lemma report_keys_ascii: "k \<in> set report_keys \<Longrightarrow> clean_string k = k"
  by (rule ascii_clean) (auto simp: report_keys_def byte_def)

definition report_members :: "(Condition \<Rightarrow> json) \<Rightarrow> BindingInspectionReport \<Rightarrow> members" where
  "report_members condition r = (case BindingInspectionReport_json condition r of JObject m \<Rightarrow> m | _ \<Rightarrow> [])"

lemma report_object:
  "BindingInspectionReport_json condition r = JObject (report_members condition r)"
  "map fst (report_members condition r) = report_keys"
  "map_of (report_members condition r) ''matchedPods'' = Some (slice_json BindingInspectionMatchedPod_json (rp_MatchedPods r))"
  "map_of (report_members condition r) ''findings'' = Some (slice_json BindingInspectionFinding_json (rp_Findings r))"
  by (simp_all add: report_members_def BindingInspectionReport_json_def text_field_def report_keys_def)

lemma report_clean:
  "clean_json (JObject (report_members condition r)) = JObject (map (\<lambda>kv. (fst kv, clean_json (snd kv))) (report_members condition r))"
proof -
  have "clean_string (fst kv) = fst kv" if "kv \<in> set (report_members condition r)" for kv
    using that report_object(2) [of condition r] by (intro report_keys_ascii) (metis image_eqI set_map)
  then show ?thesis by simp
qed

lemma map_of_clean: "map_of (map (\<lambda>kv. (fst kv, clean_json (snd kv))) m) k = map_option clean_json (map_of m k)"
  by (induction m) auto

lemma written_report:
  assumes "report_numbers condition report"
  shows "\<exists>line m. writeBindingInspectionReportJSON condition report = line @ [CHR 0x0A] \<and> CHR 0x0A \<notin> set line \<and>
    read_json (line @ [CHR 0x0A]) = Some (JObject m) \<and>
    map fst m = report_keys \<and>
    map_of m ''matchedPods'' = Some (JArray (map (\<lambda>p. clean_json (BindingInspectionMatchedPod_json p)) (elems (rp_MatchedPods report)))) \<and>
    map_of m ''findings'' = Some (JArray (map (\<lambda>f. clean_json (BindingInspectionFinding_json (normalize_finding f))) (elems (rp_Findings report))))"
proof -
  let ?r = "normalizeBindingInspectionReport report"
  let ?v = "BindingInspectionReport_json condition ?r"
  have "report_numbers condition ?r"
    using assms by (simp add: report_numbers_def normalizeBindingInspectionReport_def Let_def)
  then have floats: "floats_literal ?v" by (rule floats_report)
  define m where "m = map (\<lambda>kv. (fst kv, clean_json (snd kv))) (report_members condition ?r)"
  have "writeBindingInspectionReportJSON condition report = encode_json ?v @ [CHR 0x0A]"
    by (simp add: writeBindingInspectionReportJSON_def Encode_def)
  moreover have "read_json (encode_json ?v @ [CHR 0x0A]) = Some (JObject m)"
    using read_Encode [OF floats] unfolding Encode_def report_object(1) report_clean m_def .
  moreover have "map fst m = report_keys" by (simp add: m_def comp_def report_object(2))
  moreover have "map_of m ''matchedPods'' =
      Some (JArray (map (\<lambda>p. clean_json (BindingInspectionMatchedPod_json p)) (elems (rp_MatchedPods report))))"
    "map_of m ''findings'' =
      Some (JArray (map (\<lambda>f. clean_json (BindingInspectionFinding_json (normalize_finding f))) (elems (rp_Findings report))))"
    by (simp_all add: m_def map_of_clean report_object(3,4) normalize_report_fields slice_json_def comp_def)
  moreover have "CHR 0x0A \<notin> set (encode_json ?v)" using floats by (rule encode_one_line)
  ultimately show ?thesis by (intro exI [of _ "encode_json ?v"] exI [of _ m]) simp
qed

section \<open>The commands\<close>

text \<open>
  C21: The JSON output of inspect binding can be relied on. For valid options with JSON output, a
  connection and a writer that accepts, and unless the inspection could not be done, the
  tool writes one line, ended by a newline, that a JSON reader reads as one object with the
  ten documented keys in their order; the matched pods and the findings are arrays, never
  null, with one element for each pod and finding of the report, and the exit code is the
  one that the outcome has.
\<close>
theorem inspect_json_contract:
  assumes "parse (NewRootCommand (e_version E)) args = InspectBindingCommand opts0 trustDomainChanged classNameChanged None name"
    and "opts = captureIdentityConfigFlagSources trustDomainChanged classNameChanged opts0"
    and "validateRunnableOptions E opts = None" "newBindingInspectionRunner E opts = Inr i"
    and "run_state (InspectBinding i (o_Namespace opts) name) t = ((report, err), t')"
    and "o_Output opts = outputJSON" "\<forall>text. e_stdout E text = None"
    and "\<forall>e. err \<noteq> Some (InspectionFailed e)" "report_numbers (e_condition E) report"
  shows "\<exists>line stderr m. run_state (Execute E parse args) t =
      ((inspect_code (o_Strict opts) report err, line @ [CHR 0x0A], stderr), t') \<and> CHR 0x0A \<notin> set line \<and>
    read_json (line @ [CHR 0x0A]) = Some (JObject m) \<and> map fst m = report_keys \<and>
    map_of m ''matchedPods'' = Some (JArray (map (\<lambda>p. clean_json (BindingInspectionMatchedPod_json p)) (elems (rp_MatchedPods report)))) \<and>
    map_of m ''findings'' = Some (JArray (map (\<lambda>f. clean_json (BindingInspectionFinding_json (normalize_finding f))) (elems (rp_Findings report))))"
proof -
  let ?report = "report\<lparr>rp_ExitCode := Some (inspect_code (o_Strict opts) report err)\<rparr>"
  have "WriteBindingInspectionReport (e_ext E) (e_condition E) (o_Output opts) ?report =
      Inr (writeBindingInspectionReportJSON (e_condition E) ?report)"
    using assms(6) by (simp add: WriteBindingInspectionReport_def outputText_def outputJSON_def)
  from inspect_execute [where parse = parse and E = E and args = args, OF assms(1-5) this spec [OF assms(7)]] assms(8)
  obtain stderr where "run_state (Execute E parse args) t =
      ((inspect_code (o_Strict opts) report err, writeBindingInspectionReportJSON (e_condition E) ?report, stderr), t')"
    by auto
  moreover have "report_numbers (e_condition E) ?report" using assms(9) by (simp add: report_numbers_def)
  from written_report [OF this] obtain line m where
    "writeBindingInspectionReportJSON (e_condition E) ?report = line @ [CHR 0x0A]" "CHR 0x0A \<notin> set line"
    "read_json (line @ [CHR 0x0A]) = Some (JObject m)" "map fst m = report_keys"
    "map_of m ''matchedPods'' = Some (JArray (map (\<lambda>p. clean_json (BindingInspectionMatchedPod_json p)) (elems (rp_MatchedPods report))))"
    "map_of m ''findings'' = Some (JArray (map (\<lambda>f. clean_json (BindingInspectionFinding_json (normalize_finding f))) (elems (rp_Findings report))))"
    by auto
  ultimately show ?thesis by auto
qed

text \<open>The status report has no free-form parts, so its JSON text is always read back.\<close>

lemma written_status:
  "\<exists>line. writeStatusReportJSON report = line @ [CHR 0x0A] \<and> CHR 0x0A \<notin> set line \<and>
     read_json (line @ [CHR 0x0A]) = Some (clean_json (StatusReport_json (normalizeStatusReport report)))"
  using read_Encode [OF floats_status] encode_one_line [OF floats_status]
  by (auto simp: writeStatusReportJSON_def Encode_def)

section \<open>A run against an empty cluster\<close>

lemma empty_numbers:
  "\<exists>report t'. run_state (InspectBinding empty_inspector ns name) t = ((report, Some ErrBindingInspectionNotFound), t') \<and>
     report_numbers condition report"
  by (simp add: InspectBinding_def discoverGAIEGVKs_def InferencePoolGVKs_def inferencePoolGVKs_def start_report_def
      empty_inspector_def GetBinding_def IsNotFound_def Let_def report_numbers_def normalizeBindingInspectionReport_def
      NewBindingInspectionReport_def zero_report_def add_finding_def set_pods_capability_def)

definition json_options :: Options where
  "json_options = defaultOptions\<lparr>o_Output := outputJSON\<rparr>"

theorem inspect_json_contract_witness:
  "\<exists>line stderr t' m. run_state (Execute empty_env (\<lambda>_ _. InspectBindingCommand json_options None None None ''x'') []) [] =
     ((3, line @ [CHR 0x0A], stderr), t') \<and> read_json (line @ [CHR 0x0A]) = Some (JObject m) \<and> map fst m = report_keys"
proof -
  obtain report t' where run: "run_state (InspectBinding empty_inspector (o_Namespace json_options) ''x'') [] =
      ((report, Some ErrBindingInspectionNotFound), t')" and numbers: "report_numbers (e_condition empty_env) report"
    using empty_numbers by blast
  have opts: "json_options = captureIdentityConfigFlagSources None None json_options"
    by (simp add: captureIdentityConfigFlagSources_def)
  have valid: "validateRunnableOptions empty_env json_options = None"
    by (simp add: validateRunnableOptions_def isValidOutputFormat_def validOutputFormats_def json_options_def defaultOptions_def
        default_settings_valid Second_def)
  have runner: "newBindingInspectionRunner empty_env json_options = Inr empty_inspector"
    using empty_runner by (simp add: newBindingInspectionRunner_def json_options_def)
  have "o_Output json_options = outputJSON" "\<forall>text. e_stdout empty_env text = None"
    "\<forall>e. Some ErrBindingInspectionNotFound \<noteq> Some (InspectionFailed e)"
    by (simp_all add: json_options_def empty_env_def)
  from inspect_json_contract [where parse = "\<lambda>_ _. InspectBindingCommand json_options None None None ''x''" and E = empty_env
      and args = "[]", OF refl opts valid runner run this numbers]
  show ?thesis by (auto simp: inspect_code_def)
qed

end
