(* ===== verification/Deep_Copy.thy ===== *)
theory Deep_Copy
  imports Cluster
begin

text \<open>
  The deep copies of \<^verbatim>\<open>api/v1alpha1/zz_generated.deepcopy.go\<close>, on a memory with pointers and
  slices. The rest of the development treats bindings as values; the theorems of this
  theory are why it may: a copy has the content of the original and shares no memory with
  it, so that writes through one never show through the other.
\<close>

section \<open>Memory\<close>

text \<open>
  A memory is a list of cells, an address its index. A cell is an array of values of one
  type; what \<^verbatim>\<open>new\<close> returns points to an array of one element. A slice is nil, or a window
  of an array: its address, where the window starts, and its length.
\<close>

type_synonym addr = nat

datatype go_slice = NilSlice | SliceOf addr nat nat

record RenderedSelectorStatus_mem =
  ms_SpiffeID :: string
  ms_Selectors :: go_slice

record RenderedClusterSPIFFEIDStatus_mem =
  mc_Name :: string
  mc_SpiffeID :: string
  mc_SelectorFingerprint :: string
  mc_ObservedGeneration :: "addr option"

record InferenceIdentityBindingStatus_mem =
  mt_Conditions :: go_slice
  mt_TrustDomain :: string
  mt_ClusterSPIFFEIDClassName :: string
  mt_Conflicts :: go_slice
  mt_ComputedSpiffeIDs :: go_slice
  mt_RenderedSelectors :: go_slice
  mt_PendingClusterSPIFFEID :: "addr option"
  mt_OwnedClusterSPIFFEID :: "addr option"
  mt_RenderedClusterSPIFFEID :: "addr option"

text \<open>Type and object metadata of the API machinery: the fields this program uses.\<close>

record TypeMeta =
  tm_Kind :: string
  tm_APIVersion :: string

record ObjectMeta_mem =
  mo_Namespace :: string
  mo_Name :: string
  mo_Generation :: int
  mo_ResourceVersion :: string
  mo_DeletionTimestamp :: "addr option"
  mo_Finalizers :: go_slice

record ListMeta_mem =
  ml_ResourceVersion :: string
  ml_Continue :: string
  ml_RemainingItemCount :: "addr option"

record InferenceIdentityBinding_mem =
  mb_TypeMeta :: TypeMeta
  mb_ObjectMeta :: ObjectMeta_mem
  mb_Spec :: InferenceIdentityBindingSpec
  mb_Status :: InferenceIdentityBindingStatus_mem

record InferenceIdentityBindingList_mem =
  mi_TypeMeta :: TypeMeta
  mi_ListMeta :: ListMeta_mem
  mi_Items :: go_slice

datatype cell =
    StringCell (in_strings: "string list")
  | IntCell (in_ints: "int list")
  | ConditionCell (in_conditions: "Condition list")
  | ConflictCell (in_conflicts: "VariantConflictStatus list")
  | ComputedCell (in_computed: "ComputedSpiffeIDStatus list")
  | PendingCell (in_pending: "PendingClusterSPIFFEIDStatus list")
  | OwnedCell (in_owned: "OwnedClusterSPIFFEIDStatus list")
  | BoundaryCell (in_boundaries: "IdentityBoundary list")
  | PoolRefCell (in_pool_refs: "InferencePoolTargetRef list")
  | SpecCell (in_specs: "InferenceIdentityBindingSpec list")
  | SelectorCell (in_selectors: "RenderedSelectorStatus_mem list")
  | RenderedCell (in_rendered: "RenderedClusterSPIFFEIDStatus_mem list")
  | StatusCell (in_statuses: "InferenceIdentityBindingStatus_mem list")
  | BindingCell (in_bindings: "InferenceIdentityBinding_mem list")
  | ListCell (in_lists: "InferenceIdentityBindingList_mem list")

type_synonym memory = "cell list"
type_synonym 'a mem = "(memory, 'a) state"

definition alloc :: "cell \<Rightarrow> addr mem" where
  "alloc c = State (\<lambda>h. (length h, h @ [c]))"

definition load :: "addr \<Rightarrow> cell mem" where
  "load a = State (\<lambda>h. (h ! a, h))"

definition store :: "addr \<Rightarrow> cell \<Rightarrow> unit mem" where
  "store a c = State (\<lambda>h. ((), h[a := c]))"

definition slice_elements :: "(cell \<Rightarrow> 'e list) \<Rightarrow> go_slice \<Rightarrow> memory \<Rightarrow> 'e list" where
  "slice_elements un s h = (case s of NilSlice \<Rightarrow> [] | SliceOf a start n \<Rightarrow> take n (drop start (un (h ! a))))"

definition load_slice :: "(cell \<Rightarrow> 'e list) \<Rightarrow> go_slice \<Rightarrow> ('e list) mem" where
  "load_slice un s = State (\<lambda>h. (slice_elements un s h, h))"

text \<open>
  The three ways the generated code copies what a field points to, each for a type of cell
  with its constructor and its content: a slice element by element with the elements' own
  copy, a slice of plain values with \<^verbatim>\<open>copy\<close>, and a pointer.
\<close>

fun fill_slice :: "('e list \<Rightarrow> cell) \<Rightarrow> (cell \<Rightarrow> 'e list) \<Rightarrow> ('e \<Rightarrow> 'e mem) \<Rightarrow> go_slice \<Rightarrow> addr \<Rightarrow> nat list \<Rightarrow> unit mem" where
  "fill_slice mk un copy s out [] = State_Monad.return ()"
| "fill_slice mk un copy s out (i # is) = do {
     xs \<leftarrow> load_slice un s;
     y \<leftarrow> copy (xs ! i);
     c \<leftarrow> load out;
     store out (mk ((un c)[i := y]));
     fill_slice mk un copy s out is
   }"

definition copy_each :: "('e list \<Rightarrow> cell) \<Rightarrow> (cell \<Rightarrow> 'e list) \<Rightarrow> 'e \<Rightarrow> ('e \<Rightarrow> 'e mem) \<Rightarrow> go_slice \<Rightarrow> go_slice mem" where
  "copy_each mk un zero copy s = (case s of
     NilSlice \<Rightarrow> State_Monad.return NilSlice
   | SliceOf a start n \<Rightarrow> do {
       out \<leftarrow> alloc (mk (replicate n zero));
       fill_slice mk un copy s out [0..<n];
       State_Monad.return (SliceOf out 0 n)
     })"

definition go_copy :: "'e list \<Rightarrow> 'e list \<Rightarrow> 'e list" where
  "go_copy dst src = take (length dst) src @ drop (length src) dst"

definition copy_flat :: "('e list \<Rightarrow> cell) \<Rightarrow> (cell \<Rightarrow> 'e list) \<Rightarrow> 'e \<Rightarrow> go_slice \<Rightarrow> go_slice mem" where
  "copy_flat mk un zero s = (case s of
     NilSlice \<Rightarrow> State_Monad.return NilSlice
   | SliceOf a start n \<Rightarrow> do {
       out \<leftarrow> alloc (mk (replicate n zero));
       xs \<leftarrow> load_slice un s;
       c \<leftarrow> load out;
       store out (mk (go_copy (un c) xs));
       State_Monad.return (SliceOf out 0 n)
     })"

definition copy_new :: "('e list \<Rightarrow> cell) \<Rightarrow> (cell \<Rightarrow> 'e list) \<Rightarrow> 'e \<Rightarrow> ('e \<Rightarrow> 'e mem) \<Rightarrow> addr option \<Rightarrow> (addr option) mem" where
  "copy_new mk un zero copy p = (case p of
     None \<Rightarrow> State_Monad.return None
   | Some a \<Rightarrow> do {
       out \<leftarrow> alloc (mk [zero]);
       c \<leftarrow> load a;
       v \<leftarrow> copy (un c ! 0);
       store out (mk [v]);
       State_Monad.return (Some out)
     })"

lemma run_mem [simp]:
  "run_state (alloc c) h = (length h, h @ [c])" "run_state (load a) h = (h ! a, h)"
  "run_state (store a c) h = ((), h[a := c])" "run_state (load_slice un s) h = (slice_elements un s h, h)"
  by (simp_all add: alloc_def load_def store_def load_slice_def)

section \<open>What a deep copy promises\<close>

text \<open>
  The contract of a copy operation on values that may point into memory: the content a
  value stands for, the addresses it depends on, and whether they are well-formed. Content
  depends on those addresses only, and a copy leaves the memory it found alone, has the
  same content, and depends on new addresses only.
\<close>

locale deep_copier =
  fixes copy :: "'a \<Rightarrow> 'a mem" and content :: "memory \<Rightarrow> 'a \<Rightarrow> 'v"
    and reach :: "memory \<Rightarrow> 'a \<Rightarrow> addr set" and valid :: "memory \<Rightarrow> 'a \<Rightarrow> bool"
  assumes valid_reach: "valid h x \<Longrightarrow> reach h x \<subseteq> {..<length h}"
    and local_change: "valid h x \<Longrightarrow> (\<And>a. a \<in> reach h x \<Longrightarrow> a < length h' \<and> h' ! a = h ! a) \<Longrightarrow>
      content h' x = content h x \<and> reach h' x = reach h x \<and> valid h' x"
    and copied: "valid h x \<Longrightarrow> run_state (copy x) h = (y, h') \<Longrightarrow>
      prefix h h' \<and> content h' y = content h x \<and> reach h' y \<subseteq> {length h..<length h'} \<and> valid h' y"
begin

lemma kept:
  assumes "valid h x" "prefix h h'"
  shows "content h' x = content h x \<and> reach h' x = reach h x \<and> valid h' x"
  using assms valid_reach [OF assms(1)] by (intro local_change) (auto simp: prefix_def nth_append)

text \<open>
  The original and the copy share no memory; whatever is written to the memory of the one,
  the other keeps its content.
\<close>

lemma separate:
  assumes "valid h x" "run_state (copy x) h = (y, h1)"
  shows "content h1 x = content h x" "content h1 y = content h x" "reach h1 x \<inter> reach h1 y = {}"
    and "length h2 = length h1 \<Longrightarrow> (\<And>a. a \<notin> reach h1 y \<Longrightarrow> h2 ! a = h1 ! a) \<Longrightarrow> content h2 x = content h x"
    and "length h2 = length h1 \<Longrightarrow> (\<And>a. a \<notin> reach h1 x \<Longrightarrow> h2 ! a = h1 ! a) \<Longrightarrow> content h2 y = content h x"
proof -
  have y: "prefix h h1" "content h1 y = content h x" "reach h1 y \<subseteq> {length h..<length h1}" "valid h1 y"
    using copied [OF assms] by simp_all
  from kept [OF assms(1) y(1)] have x: "content h1 x = content h x" "reach h1 x = reach h x" "valid h1 x" by simp_all
  have old: "reach h1 x \<subseteq> {..<length h}" "reach h1 x \<subseteq> {..<length h1}"
    using valid_reach [OF assms(1)] prefix_length_le [OF y(1)] by (auto simp: x)
  show "content h1 x = content h x" "content h1 y = content h x" by (rule x y)+
  show disjoint: "reach h1 x \<inter> reach h1 y = {}" using old(1) y(3) by fastforce
  show "content h2 x = content h x" if "length h2 = length h1" "\<And>a. a \<notin> reach h1 y \<Longrightarrow> h2 ! a = h1 ! a"
    using local_change [OF x(3), of h2] that disjoint old(2) x(1) by fastforce
  show "content h2 y = content h x" if "length h2 = length h1" "\<And>a. a \<notin> reach h1 x \<Longrightarrow> h2 ! a = h1 ! a"
    using local_change [OF y(4), of h2] that disjoint y(2,3) by fastforce
qed

end

section \<open>Copies of parts\<close>

definition slice_content where
  "slice_content un k h s = map (k h) (slice_elements un s h)"

definition slice_reach where
  "slice_reach un r h s = (case s of NilSlice \<Rightarrow> {} | SliceOf a start n \<Rightarrow> insert a (\<Union>x \<in> set (slice_elements un s h). r h x))"

definition slice_valid where
  "slice_valid un v h s = (case s of NilSlice \<Rightarrow> True | SliceOf a start n \<Rightarrow>
     a < length h \<and> start + n \<le> length (un (h ! a)) \<and> (\<forall>x \<in> set (slice_elements un s h). v h x))"

definition ptr_content where
  "ptr_content un k h p = map_option (\<lambda>a. k h (un (h ! a) ! 0)) p"

definition ptr_reach where
  "ptr_reach un r h p = (case p of None \<Rightarrow> {} | Some a \<Rightarrow> insert a (r h (un (h ! a) ! 0)))"

definition ptr_valid where
  "ptr_valid un v h p = (case p of None \<Rightarrow> True | Some a \<Rightarrow> a < length h \<and> un (h ! a) \<noteq> [] \<and> v h (un (h ! a) ! 0))"

lemma deep_plain: "deep_copier State_Monad.return (\<lambda>_ x. x) (\<lambda>_ _. {}) (\<lambda>_ _. True)"
  by unfold_locales auto

lemma deep_new:
  assumes "deep_copier copy k r v" and un: "\<And>xs. un (mk xs) = xs"
  shows "deep_copier (copy_new mk un zero copy) (ptr_content un k) (ptr_reach un r) (ptr_valid un v)"
proof
  note laws = deep_copier.valid_reach [OF assms(1)] deep_copier.local_change [OF assms(1)]
  show "ptr_reach un r h p \<subseteq> {..<length h}" if "ptr_valid un v h p" for h p
    using that laws(1) by (auto simp: ptr_valid_def ptr_reach_def split: option.splits)
  show "ptr_content un k h' p = ptr_content un k h p \<and> ptr_reach un r h' p = ptr_reach un r h p \<and> ptr_valid un v h' p"
    if "ptr_valid un v h p" "\<And>a. a \<in> ptr_reach un r h p \<Longrightarrow> a < length h' \<and> h' ! a = h ! a" for h p h'
    using that laws(2) by (cases p) (auto simp: ptr_valid_def ptr_content_def ptr_reach_def)
  show "prefix h h' \<and> ptr_content un k h' y = ptr_content un k h p \<and> ptr_reach un r h' y \<subseteq> {length h..<length h'} \<and>
      ptr_valid un v h' y"
    if "ptr_valid un v h p" "run_state (copy_new mk un zero copy p) h = (y, h')" for h p y h'
  proof (cases p)
    case None
    with that show ?thesis by (auto simp: copy_new_def ptr_content_def ptr_reach_def ptr_valid_def)
  next
    case (Some a)
    let ?x = "un (h ! a) ! 0" and ?h1 = "h @ [mk [zero]]"
    obtain z h2 where run: "run_state (copy ?x) ?h1 = (z, h2)" by fastforce
    have a: "a < length h" "v h ?x" using that(1) Some by (auto simp: ptr_valid_def)
    have x: "k ?h1 ?x = k h ?x" "v ?h1 ?x" using deep_copier.kept [OF assms(1) a(2), of ?h1] by simp_all
    have z: "prefix ?h1 h2" "k h2 z = k h ?x" "r h2 z \<subseteq> {Suc (length h)..<length h2}" "v h2 z"
      using deep_copier.copied [OF assms(1) x(2) run] x(1) by simp_all
    from that(2) Some a run have y: "y = Some (length h)" "h' = h2[length h := mk [z]]"
      by (auto simp: copy_new_def nth_append)
    from z(1) have len: "length h < length h2" by (auto simp: prefix_def)
    have "prefix h h'" using z(1) by (auto simp: prefix_def y)
    moreover have "k h' z = k h2 z \<and> r h' z = r h2 z \<and> v h' z"
      using z(3) by (intro laws(2) [OF z(4)]) (auto simp: y)
    ultimately show ?thesis using z len Some
      by (auto simp: y ptr_content_def ptr_reach_def ptr_valid_def un)
  qed
qed

text \<open>The loop fills the new array from the left, and leaves all older memory alone.\<close>

lemma fill_slice_runs:
  assumes "deep_copier copy k r v" and un: "\<And>xs. un (mk xs) = xs"
    and s: "slice_valid un v h s" "xs = slice_elements un s h"
  shows "is = [i..<length xs] \<Longrightarrow> i \<le> length xs \<Longrightarrow> prefix h g \<Longrightarrow> length h < length g \<Longrightarrow>
     un (g ! length h) = ys @ zs \<Longrightarrow> length ys = i \<Longrightarrow> length (ys @ zs) = length xs \<Longrightarrow>
     map (k g) ys = map (k h) (take i xs) \<Longrightarrow>
     (\<forall>y \<in> set ys. r g y \<subseteq> {Suc (length h)..<length g} \<and> v g y) \<Longrightarrow>
     run_state (fill_slice mk un copy s (length h) is) g = ((), g') \<Longrightarrow>
     prefix h g' \<and> length h < length g' \<and> (\<exists>ys'. un (g' ! length h) = ys' \<and> map (k g') ys' = map (k h) xs \<and>
       (\<forall>y \<in> set ys'. r g' y \<subseteq> {Suc (length h)..<length g'} \<and> v g' y))"
proof (induction "is" arbitrary: i g ys zs)
  case Nil
  from Nil.prems(1) have "\<not> i < length xs" by (metis list.distinct(1) upt_conv_Cons)
  with Nil.prems(2) have "i = length xs" by simp
  with Nil show ?case by simp
next
  case (Cons j js)
  have j: "j = i" "i < length xs" "js = [Suc i..<length xs]"
    using iffD1 [OF upt_eq_Cons_conv Cons.prems(1) [symmetric]] by auto
  have elems: "slice_elements un s g = xs"
    using s Cons.prems(3) j(2) by (auto simp: slice_elements_def slice_valid_def prefix_def nth_append split: go_slice.splits)
  have "\<forall>x \<in> set xs. v h x" using s by (auto simp: slice_valid_def slice_elements_def split: go_slice.splits)
  then have "v h (xs ! i)" using j(2) by simp
  from deep_copier.kept [OF assms(1) this Cons.prems(3)]
  have x: "k g (xs ! i) = k h (xs ! i)" "v g (xs ! i)" by simp_all
  obtain y g1 where run: "run_state (copy (xs ! i)) g = (y, g1)" by fastforce
  have y: "prefix g g1" "k g1 y = k h (xs ! i)" "r g1 y \<subseteq> {length g..<length g1}" "v g1 y"
    using deep_copier.copied [OF assms(1) x(2) run] x(1) by simp_all
  define g2 where "g2 = g1[length h := mk (ys @ y # tl zs)]"
  obtain z zs' where zs: "zs = z # zs'" using Cons.prems(6,7) j(2) by (cases zs) auto
  have cell: "un (g1 ! length h) = ys @ zs" using y(1) Cons.prems(4,5) by (auto simp: prefix_def nth_append)
  have rest: "run_state (fill_slice mk un copy s (length h) js) g2 = ((), g')"
    using Cons.prems(10) cell elems run by (simp add: j(1) g2_def Cons.prems(6) [symmetric] zs)
  have len: "length g2 = length g1" "length g \<le> length g1" using y(1) by (auto simp: g2_def prefix_def)
  have same: "g2 ! a = g1 ! a" if "a \<noteq> length h" for a using that by (simp add: g2_def)
  have old: "k g2 w = k g w \<and> r g2 w = r g w \<and> v g2 w" if "w \<in> set ys" for w
  proof -
    from Cons.prems(9) that have w: "r g w \<subseteq> {Suc (length h)..<length g}" "v g w" by auto
    have "k g1 w = k g w \<and> r g1 w = r g w \<and> v g1 w" by (rule deep_copier.kept [OF assms(1) w(2) y(1)])
    moreover from this have "k g2 w = k g1 w \<and> r g2 w = r g1 w \<and> v g2 w"
      using w(1) len by (intro deep_copier.local_change [OF assms(1)]) (auto intro: same)
    ultimately show ?thesis by simp
  qed
  have new: "k g2 y = k g1 y \<and> r g2 y = r g1 y \<and> v g2 y"
    using y(3,4) Cons.prems(4) len by (intro deep_copier.local_change [OF assms(1)]) (auto intro: same)
  show ?case
  proof (rule Cons.IH [OF j(3) _ _ _ _ _ _ _ _ rest])
    show "prefix h g2" using Cons.prems(3) y(1) by (auto simp: g2_def prefix_def list_update_append)
    show "un (g2 ! length h) = (ys @ [y]) @ zs'" using Cons.prems(4) len by (simp add: g2_def un zs)
    show "map (k g2) (ys @ [y]) = map (k h) (take (Suc i) xs)"
      using Cons.prems(8) old new y(2) j(2) by (simp add: take_Suc_conv_app_nth cong: map_cong)
    show "\<forall>w \<in> set (ys @ [y]). r g2 w \<subseteq> {Suc (length h)..<length g2} \<and> v g2 w"
      using Cons.prems(4,9) old new y(3) len by fastforce
  qed (use j Cons.prems(4,6,7) len zs in auto)
qed

lemma slice_local:
  assumes "deep_copier copy k r v"
  shows "slice_valid un v h s \<Longrightarrow> slice_reach un r h s \<subseteq> {..<length h}"
    and "slice_valid un v h s \<Longrightarrow> (\<And>a. a \<in> slice_reach un r h s \<Longrightarrow> a < length h' \<and> h' ! a = h ! a) \<Longrightarrow>
      slice_content un k h' s = slice_content un k h s \<and> slice_reach un r h' s = slice_reach un r h s \<and> slice_valid un v h' s"
proof -
  show "slice_reach un r h s \<subseteq> {..<length h}" if "slice_valid un v h s"
    using that deep_copier.valid_reach [OF assms(1)] by (auto simp: slice_valid_def slice_reach_def split: go_slice.splits)
  assume valid: "slice_valid un v h s" and same: "\<And>a. a \<in> slice_reach un r h s \<Longrightarrow> a < length h' \<and> h' ! a = h ! a"
  have elems: "slice_elements un s h' = slice_elements un s h"
    using same by (auto simp: slice_elements_def slice_reach_def split: go_slice.splits)
  have "k h' x = k h x \<and> r h' x = r h x \<and> v h' x" if "x \<in> set (slice_elements un s h)" for x
    using that valid same by (intro deep_copier.local_change [OF assms])
      (auto simp: slice_valid_def slice_reach_def slice_elements_def split: go_slice.splits)
  with valid same elems show "slice_content un k h' s = slice_content un k h s \<and> slice_reach un r h' s = slice_reach un r h s \<and>
      slice_valid un v h' s"
    by (auto simp: slice_content_def slice_reach_def slice_valid_def split: go_slice.splits)
qed

lemma deep_each:
  assumes "deep_copier copy k r v" and un: "\<And>xs. un (mk xs) = xs"
  shows "deep_copier (copy_each mk un zero copy) (slice_content un k) (slice_reach un r) (slice_valid un v)"
proof
  show "prefix h h' \<and> slice_content un k h' y = slice_content un k h s \<and> slice_reach un r h' y \<subseteq> {length h..<length h'} \<and>
      slice_valid un v h' y"
    if "slice_valid un v h s" "run_state (copy_each mk un zero copy s) h = (y, h')" for h s y h'
  proof (cases s)
    case NilSlice
    with that show ?thesis
      by (auto simp: copy_each_def slice_content_def slice_reach_def slice_valid_def slice_elements_def)
  next
    case (SliceOf a start n)
    define xs where "xs = slice_elements un s h"
    have n: "length xs = n" using that(1) by (auto simp: xs_def SliceOf slice_elements_def slice_valid_def)
    from that(2) have y: "y = SliceOf (length h) 0 n" and
      run: "run_state (fill_slice mk un copy s (length h) [0..<n]) (h @ [mk (replicate n zero)]) = ((), h')"
      by (auto simp: copy_each_def SliceOf split: prod.splits)
    have "prefix h h' \<and> length h < length h' \<and> (\<exists>ys'. un (h' ! length h) = ys' \<and> map (k h') ys' = map (k h) xs \<and>
       (\<forall>y \<in> set ys'. r h' y \<subseteq> {Suc (length h)..<length h'} \<and> v h' y))"
      by (rule fill_slice_runs [OF assms that(1) xs_def _ _ _ _ _ _ _ _ _ run, where i = 0 and ys = "[]" and zs = "replicate n zero"])
         (auto simp: n un)
    then obtain ys where ys: "prefix h h'" "length h < length h'" "un (h' ! length h) = ys" "map (k h') ys = map (k h) xs"
      "\<forall>y \<in> set ys. r h' y \<subseteq> {Suc (length h)..<length h'} \<and> v h' y" by blast
    have "length ys = n" using ys(4) n by (metis length_map)
    then have "slice_elements un y h' = ys" using ys(3) by (simp add: y slice_elements_def)
    with ys \<open>length ys = n\<close> show ?thesis
      by (fastforce simp: y slice_content_def slice_reach_def slice_valid_def xs_def)
  qed
qed (rule slice_local [OF assms(1)]; assumption)+

text \<open>For plain values, \<^verbatim>\<open>copy\<close> does what the loop does.\<close>

lemma deep_copy_flat:
  assumes un: "\<And>xs. un (mk xs) = xs"
  shows "deep_copier (copy_flat mk un zero) (slice_content un (\<lambda>_ x. x)) (slice_reach un (\<lambda>_ _. {})) (slice_valid un (\<lambda>_ _. True))"
proof
  show "prefix h h' \<and> slice_content un (\<lambda>_ x. x) h' y = slice_content un (\<lambda>_ x. x) h s \<and>
      slice_reach un (\<lambda>_ _. {}) h' y \<subseteq> {length h..<length h'} \<and> slice_valid un (\<lambda>_ _. True) h' y"
    if "slice_valid un (\<lambda>_ _. True) h s" "run_state (copy_flat mk un zero s) h = (y, h')" for h s y h'
    using that
    by (auto simp: copy_flat_def slice_content_def slice_reach_def slice_valid_def slice_elements_def go_copy_def un nth_append
        split: go_slice.splits)
qed (rule slice_local [OF deep_plain]; assumption)+

text \<open>Copies of pairs, and of records by way of the tuple of the fields that are copied.\<close>

lemma deep_pair:
  assumes "deep_copier c1 k1 r1 v1" "deep_copier c2 k2 r2 v2"
  shows "deep_copier (\<lambda>(x, y). do { x' \<leftarrow> c1 x; y' \<leftarrow> c2 y; State_Monad.return (x', y') })
    (\<lambda>h (x, y). (k1 h x, k2 h y)) (\<lambda>h (x, y). r1 h x \<union> r2 h y) (\<lambda>h (x, y). v1 h x \<and> v2 h y)"
proof (unfold_locales, goal_cases)
  case (1 h p)
  then show ?case
    using deep_copier.valid_reach [OF assms(1), of h] deep_copier.valid_reach [OF assms(2), of h] by (cases p) auto
next
  case (2 h p h')
  then show ?case using deep_copier.local_change [OF assms(1)] deep_copier.local_change [OF assms(2)] by (cases p) auto
next
  case (3 h p q h')
  obtain x y where p: "p = (x, y)" by (cases p)
  from 3(2) obtain x' h1 y' where run: "run_state (c1 x) h = (x', h1)" "run_state (c2 y) h1 = (y', h')" "q = (x', y')"
    by (auto simp: p split: prod.splits)
  from 3(1) have v: "v1 h x" "v2 h y" by (simp_all add: p)
  have x': "prefix h h1" "k1 h1 x' = k1 h x" "r1 h1 x' \<subseteq> {length h..<length h1}" "v1 h1 x'"
    using deep_copier.copied [OF assms(1) v(1) run(1)] by simp_all
  have y: "k2 h1 y = k2 h y" "v2 h1 y" using deep_copier.kept [OF assms(2) v(2) x'(1)] by simp_all
  have y': "prefix h1 h'" "k2 h' y' = k2 h1 y" "r2 h' y' \<subseteq> {length h1..<length h'}" "v2 h' y'"
    using deep_copier.copied [OF assms(2) y(2) run(2)] by simp_all
  have "k1 h' x' = k1 h1 x' \<and> r1 h' x' = r1 h1 x' \<and> v1 h' x'" by (rule deep_copier.kept [OF assms(1) x'(4) y'(1)])
  then show ?case using x' y y' prefix_length_le [OF x'(1)] prefix_length_le [OF y'(1)] run(3)
    by (auto simp: p intro: prefix_order.trans)
qed

lemma deep_record:
  assumes "deep_copier c k r v" "\<And>x. copy x = do { p \<leftarrow> c (parts x); State_Monad.return (update x p) }"
    and "\<And>x p. parts (update x p) = p"
    and "\<And>h x. content h x = build (rest x) (k h (parts x))" "\<And>x p. rest (update x p) = rest x"
    and "\<And>h x. reach h x = r h (parts x)" "\<And>h x. valid h x = v h (parts x)"
  shows "deep_copier copy content reach valid"
proof
  show "prefix h h' \<and> content h' y = content h x \<and> reach h' y \<subseteq> {length h..<length h'} \<and> valid h' y"
    if "valid h x" "run_state (copy x) h = (y, h')" for h x y h'
    using that deep_copier.copied [OF assms(1), of h "parts x"] by (auto simp: assms(2-7) split: prod.splits)
qed (use deep_copier.valid_reach [OF assms(1)] deep_copier.local_change [OF assms(1)] assms(4,6,7) in auto)

section \<open>The generated functions\<close>

text \<open>
  \<^verbatim>\<open>in.DeepCopyInto(out)\<close> is modelled by the value it leaves in \<^verbatim>\<open>*out\<close>, given \<^verbatim>\<open>*in\<close>. The
  copies of the API machinery's own types are parameters.
\<close>

record copiers =
  k_Condition :: "Condition \<Rightarrow> Condition mem"
  k_ObjectMeta :: "ObjectMeta_mem \<Rightarrow> ObjectMeta_mem mem"
  k_ListMeta :: "ListMeta_mem \<Rightarrow> ListMeta_mem mem"

text \<open>Zero values, which \<^verbatim>\<open>make\<close> and \<^verbatim>\<open>new\<close> start from.\<close>

definition zero_Condition :: Condition where
  "zero_Condition = \<lparr>c_Type = [], c_Status = [], c_ObservedGeneration = 0, c_LastTransitionTime = [], c_Reason = [], c_Message = []\<rparr>"
definition zero_Conflict :: VariantConflictStatus where
  "zero_Conflict = \<lparr>vc_BindingName = [], vc_Cause = [], vc_SpiffeID = [], vc_Variant = []\<rparr>"
definition zero_Computed :: ComputedSpiffeIDStatus where "zero_Computed = \<lparr>cs_SpiffeID = []\<rparr>"
definition zero_Selector :: RenderedSelectorStatus_mem where "zero_Selector = \<lparr>ms_SpiffeID = [], ms_Selectors = NilSlice\<rparr>"
definition zero_Pending :: PendingClusterSPIFFEIDStatus where "zero_Pending = \<lparr>pend_Name = [], pend_ClaimID = []\<rparr>"
definition zero_Owned :: OwnedClusterSPIFFEIDStatus where "zero_Owned = \<lparr>own_Name = [], own_UID = []\<rparr>"
definition zero_Rendered :: RenderedClusterSPIFFEIDStatus_mem where
  "zero_Rendered = \<lparr>mc_Name = [], mc_SpiffeID = [], mc_SelectorFingerprint = [], mc_ObservedGeneration = None\<rparr>"
definition zero_Boundary :: IdentityBoundary where "zero_Boundary = \<lparr>ib_Variant = []\<rparr>"
definition zero_PoolRef :: InferencePoolTargetRef where "zero_PoolRef = \<lparr>pr_Name = [], pr_Group = []\<rparr>"
definition zero_Spec :: InferenceIdentityBindingSpec where
  "zero_Spec = \<lparr>s_PoolRef = zero_PoolRef, s_ServiceAccountName = [], s_IdentityBoundary = zero_Boundary\<rparr>"
definition zero_Status :: InferenceIdentityBindingStatus_mem where
  "zero_Status = \<lparr>mt_Conditions = NilSlice, mt_TrustDomain = [], mt_ClusterSPIFFEIDClassName = [], mt_Conflicts = NilSlice,
     mt_ComputedSpiffeIDs = NilSlice, mt_RenderedSelectors = NilSlice, mt_PendingClusterSPIFFEID = None,
     mt_OwnedClusterSPIFFEID = None, mt_RenderedClusterSPIFFEID = None\<rparr>"
definition zero_TypeMeta :: TypeMeta where "zero_TypeMeta = \<lparr>tm_Kind = [], tm_APIVersion = []\<rparr>"
definition zero_Binding :: InferenceIdentityBinding_mem where
  "zero_Binding = \<lparr>mb_TypeMeta = zero_TypeMeta, mb_ObjectMeta = \<lparr>mo_Namespace = [], mo_Name = [], mo_Generation = 0,
     mo_ResourceVersion = [], mo_DeletionTimestamp = None, mo_Finalizers = NilSlice\<rparr>, mb_Spec = zero_Spec, mb_Status = zero_Status\<rparr>"
definition zero_List :: InferenceIdentityBindingList_mem where
  "zero_List = \<lparr>mi_TypeMeta = zero_TypeMeta, mi_ListMeta = \<lparr>ml_ResourceVersion = [], ml_Continue = [], ml_RemainingItemCount = None\<rparr>,
     mi_Items = NilSlice\<rparr>"

text \<open>Structs without pointers: the assignment copies everything.\<close>

definition ComputedSpiffeIDStatus_DeepCopyInto :: "ComputedSpiffeIDStatus \<Rightarrow> ComputedSpiffeIDStatus mem" where
  "ComputedSpiffeIDStatus_DeepCopyInto x = State_Monad.return x"

definition ComputedSpiffeIDStatus_DeepCopy :: "addr option \<Rightarrow> (addr option) mem" where
  "ComputedSpiffeIDStatus_DeepCopy = copy_new ComputedCell in_computed zero_Computed ComputedSpiffeIDStatus_DeepCopyInto"

definition IdentityBoundary_DeepCopyInto :: "IdentityBoundary \<Rightarrow> IdentityBoundary mem" where
  "IdentityBoundary_DeepCopyInto x = State_Monad.return x"

definition IdentityBoundary_DeepCopy :: "addr option \<Rightarrow> (addr option) mem" where
  "IdentityBoundary_DeepCopy = copy_new BoundaryCell in_boundaries zero_Boundary IdentityBoundary_DeepCopyInto"

definition InferencePoolTargetRef_DeepCopyInto :: "InferencePoolTargetRef \<Rightarrow> InferencePoolTargetRef mem" where
  "InferencePoolTargetRef_DeepCopyInto x = State_Monad.return x"

definition InferencePoolTargetRef_DeepCopy :: "addr option \<Rightarrow> (addr option) mem" where
  "InferencePoolTargetRef_DeepCopy = copy_new PoolRefCell in_pool_refs zero_PoolRef InferencePoolTargetRef_DeepCopyInto"

definition InferenceIdentityBindingSpec_DeepCopyInto :: "InferenceIdentityBindingSpec \<Rightarrow> InferenceIdentityBindingSpec mem" where
  "InferenceIdentityBindingSpec_DeepCopyInto x =
     State_Monad.return (x\<lparr>s_PoolRef := s_PoolRef x, s_IdentityBoundary := s_IdentityBoundary x\<rparr>)"

definition InferenceIdentityBindingSpec_DeepCopy :: "addr option \<Rightarrow> (addr option) mem" where
  "InferenceIdentityBindingSpec_DeepCopy = copy_new SpecCell in_specs zero_Spec InferenceIdentityBindingSpec_DeepCopyInto"

definition OwnedClusterSPIFFEIDStatus_DeepCopyInto :: "OwnedClusterSPIFFEIDStatus \<Rightarrow> OwnedClusterSPIFFEIDStatus mem" where
  "OwnedClusterSPIFFEIDStatus_DeepCopyInto x = State_Monad.return x"

definition OwnedClusterSPIFFEIDStatus_DeepCopy :: "addr option \<Rightarrow> (addr option) mem" where
  "OwnedClusterSPIFFEIDStatus_DeepCopy = copy_new OwnedCell in_owned zero_Owned OwnedClusterSPIFFEIDStatus_DeepCopyInto"

definition PendingClusterSPIFFEIDStatus_DeepCopyInto :: "PendingClusterSPIFFEIDStatus \<Rightarrow> PendingClusterSPIFFEIDStatus mem" where
  "PendingClusterSPIFFEIDStatus_DeepCopyInto x = State_Monad.return x"

definition PendingClusterSPIFFEIDStatus_DeepCopy :: "addr option \<Rightarrow> (addr option) mem" where
  "PendingClusterSPIFFEIDStatus_DeepCopy = copy_new PendingCell in_pending zero_Pending PendingClusterSPIFFEIDStatus_DeepCopyInto"

definition VariantConflictStatus_DeepCopyInto :: "VariantConflictStatus \<Rightarrow> VariantConflictStatus mem" where
  "VariantConflictStatus_DeepCopyInto x = State_Monad.return x"

definition VariantConflictStatus_DeepCopy :: "addr option \<Rightarrow> (addr option) mem" where
  "VariantConflictStatus_DeepCopy = copy_new ConflictCell in_conflicts zero_Conflict VariantConflictStatus_DeepCopyInto"

text \<open>Structs with pointers and slices.\<close>

definition RenderedSelectorStatus_DeepCopyInto :: "RenderedSelectorStatus_mem \<Rightarrow> RenderedSelectorStatus_mem mem" where
  "RenderedSelectorStatus_DeepCopyInto x = do {
     selectors \<leftarrow> copy_flat StringCell in_strings [] (ms_Selectors x);
     State_Monad.return (x\<lparr>ms_Selectors := selectors\<rparr>)
   }"

definition RenderedSelectorStatus_DeepCopy :: "addr option \<Rightarrow> (addr option) mem" where
  "RenderedSelectorStatus_DeepCopy = copy_new SelectorCell in_selectors zero_Selector RenderedSelectorStatus_DeepCopyInto"

definition RenderedClusterSPIFFEIDStatus_DeepCopyInto :: "RenderedClusterSPIFFEIDStatus_mem \<Rightarrow> RenderedClusterSPIFFEIDStatus_mem mem" where
  "RenderedClusterSPIFFEIDStatus_DeepCopyInto x = do {
     observedGeneration \<leftarrow> copy_new IntCell in_ints 0 State_Monad.return (mc_ObservedGeneration x);
     State_Monad.return (x\<lparr>mc_ObservedGeneration := observedGeneration\<rparr>)
   }"

definition RenderedClusterSPIFFEIDStatus_DeepCopy :: "addr option \<Rightarrow> (addr option) mem" where
  "RenderedClusterSPIFFEIDStatus_DeepCopy =
     copy_new RenderedCell in_rendered zero_Rendered RenderedClusterSPIFFEIDStatus_DeepCopyInto"

definition InferenceIdentityBindingStatus_DeepCopyInto ::
    "copiers \<Rightarrow> InferenceIdentityBindingStatus_mem \<Rightarrow> InferenceIdentityBindingStatus_mem mem" where
  "InferenceIdentityBindingStatus_DeepCopyInto K x = do {
     conditions \<leftarrow> copy_each ConditionCell in_conditions zero_Condition (k_Condition K) (mt_Conditions x);
     conflicts \<leftarrow> copy_flat ConflictCell in_conflicts zero_Conflict (mt_Conflicts x);
     computed \<leftarrow> copy_flat ComputedCell in_computed zero_Computed (mt_ComputedSpiffeIDs x);
     selectors \<leftarrow> copy_each SelectorCell in_selectors zero_Selector RenderedSelectorStatus_DeepCopyInto (mt_RenderedSelectors x);
     pending \<leftarrow> copy_new PendingCell in_pending zero_Pending State_Monad.return (mt_PendingClusterSPIFFEID x);
     owned \<leftarrow> copy_new OwnedCell in_owned zero_Owned State_Monad.return (mt_OwnedClusterSPIFFEID x);
     rendered \<leftarrow> copy_new RenderedCell in_rendered zero_Rendered RenderedClusterSPIFFEIDStatus_DeepCopyInto
       (mt_RenderedClusterSPIFFEID x);
     State_Monad.return (x\<lparr>mt_Conditions := conditions, mt_Conflicts := conflicts, mt_ComputedSpiffeIDs := computed,
       mt_RenderedSelectors := selectors, mt_PendingClusterSPIFFEID := pending, mt_OwnedClusterSPIFFEID := owned,
       mt_RenderedClusterSPIFFEID := rendered\<rparr>)
   }"

definition InferenceIdentityBindingStatus_DeepCopy :: "copiers \<Rightarrow> addr option \<Rightarrow> (addr option) mem" where
  "InferenceIdentityBindingStatus_DeepCopy K =
     copy_new StatusCell in_statuses zero_Status (InferenceIdentityBindingStatus_DeepCopyInto K)"

definition InferenceIdentityBinding_DeepCopyInto ::
    "copiers \<Rightarrow> InferenceIdentityBinding_mem \<Rightarrow> InferenceIdentityBinding_mem mem" where
  "InferenceIdentityBinding_DeepCopyInto K x = do {
     objectMeta \<leftarrow> k_ObjectMeta K (mb_ObjectMeta x);
     st \<leftarrow> InferenceIdentityBindingStatus_DeepCopyInto K (mb_Status x);
     State_Monad.return (x\<lparr>mb_TypeMeta := mb_TypeMeta x, mb_ObjectMeta := objectMeta, mb_Spec := mb_Spec x, mb_Status := st\<rparr>)
   }"

definition InferenceIdentityBinding_DeepCopy :: "copiers \<Rightarrow> addr option \<Rightarrow> (addr option) mem" where
  "InferenceIdentityBinding_DeepCopy K =
     copy_new BindingCell in_bindings zero_Binding (InferenceIdentityBinding_DeepCopyInto K)"

definition InferenceIdentityBindingList_DeepCopyInto ::
    "copiers \<Rightarrow> InferenceIdentityBindingList_mem \<Rightarrow> InferenceIdentityBindingList_mem mem" where
  "InferenceIdentityBindingList_DeepCopyInto K x = do {
     listMeta \<leftarrow> k_ListMeta K (mi_ListMeta x);
     items \<leftarrow> copy_each BindingCell in_bindings zero_Binding (InferenceIdentityBinding_DeepCopyInto K) (mi_Items x);
     State_Monad.return (x\<lparr>mi_TypeMeta := mi_TypeMeta x, mi_ListMeta := listMeta, mi_Items := items\<rparr>)
   }"

definition InferenceIdentityBindingList_DeepCopy :: "copiers \<Rightarrow> addr option \<Rightarrow> (addr option) mem" where
  "InferenceIdentityBindingList_DeepCopy K =
     copy_new ListCell in_lists zero_List (InferenceIdentityBindingList_DeepCopyInto K)"

text \<open>
  As a \<^verbatim>\<open>runtime.Object\<close>: a copy is wrapped only when it is not nil, so that the interface is
  nil exactly when the receiver is.
\<close>

datatype runtime_object = BindingObject addr | BindingListObject addr

definition InferenceIdentityBinding_DeepCopyObject :: "copiers \<Rightarrow> addr option \<Rightarrow> (runtime_object option) mem" where
  "InferenceIdentityBinding_DeepCopyObject K p = do {
     c \<leftarrow> InferenceIdentityBinding_DeepCopy K p;
     State_Monad.return (case c of None \<Rightarrow> None | Some a \<Rightarrow> Some (BindingObject a))
   }"

definition InferenceIdentityBindingList_DeepCopyObject :: "copiers \<Rightarrow> addr option \<Rightarrow> (runtime_object option) mem" where
  "InferenceIdentityBindingList_DeepCopyObject K p = do {
     c \<leftarrow> InferenceIdentityBindingList_DeepCopy K p;
     State_Monad.return (case c of None \<Rightarrow> None | Some a \<Rightarrow> Some (BindingListObject a))
   }"

section \<open>What the values in memory stand for\<close>

abbreviation "plain \<equiv> (\<lambda>_ x. x)"
abbreviation "nowhere \<equiv> (\<lambda>_ _. {})"
abbreviation "always \<equiv> (\<lambda>_ _. True)"

definition selector_at :: "memory \<Rightarrow> RenderedSelectorStatus_mem \<Rightarrow> RenderedSelectorStatus" where
  "selector_at h x = \<lparr>rs_SpiffeID = ms_SpiffeID x, rs_Selectors = slice_content in_strings plain h (ms_Selectors x)\<rparr>"

definition selector_reach :: "memory \<Rightarrow> RenderedSelectorStatus_mem \<Rightarrow> addr set" where
  "selector_reach h x = slice_reach in_strings nowhere h (ms_Selectors x)"

definition selector_valid :: "memory \<Rightarrow> RenderedSelectorStatus_mem \<Rightarrow> bool" where
  "selector_valid h x = slice_valid in_strings always h (ms_Selectors x)"

definition rendered_at :: "memory \<Rightarrow> RenderedClusterSPIFFEIDStatus_mem \<Rightarrow> RenderedClusterSPIFFEIDStatus" where
  "rendered_at h x = \<lparr>rc_Name = mc_Name x, rc_SpiffeID = mc_SpiffeID x, rc_SelectorFingerprint = mc_SelectorFingerprint x,
     rc_ObservedGeneration = ptr_content in_ints plain h (mc_ObservedGeneration x)\<rparr>"

definition rendered_reach :: "memory \<Rightarrow> RenderedClusterSPIFFEIDStatus_mem \<Rightarrow> addr set" where
  "rendered_reach h x = ptr_reach in_ints nowhere h (mc_ObservedGeneration x)"

definition rendered_valid :: "memory \<Rightarrow> RenderedClusterSPIFFEIDStatus_mem \<Rightarrow> bool" where
  "rendered_valid h x = ptr_valid in_ints always h (mc_ObservedGeneration x)"

definition status_at :: "memory \<Rightarrow> InferenceIdentityBindingStatus_mem \<Rightarrow> status" where
  "status_at h x = \<lparr>st_Conditions = slice_content in_conditions plain h (mt_Conditions x), st_TrustDomain = mt_TrustDomain x,
     st_ClusterSPIFFEIDClassName = mt_ClusterSPIFFEIDClassName x,
     st_Conflicts = slice_content in_conflicts plain h (mt_Conflicts x),
     st_ComputedSpiffeIDs = slice_content in_computed plain h (mt_ComputedSpiffeIDs x),
     st_RenderedSelectors = slice_content in_selectors selector_at h (mt_RenderedSelectors x),
     st_PendingClusterSPIFFEID = ptr_content in_pending plain h (mt_PendingClusterSPIFFEID x),
     st_OwnedClusterSPIFFEID = ptr_content in_owned plain h (mt_OwnedClusterSPIFFEID x),
     st_RenderedClusterSPIFFEID = ptr_content in_rendered rendered_at h (mt_RenderedClusterSPIFFEID x)\<rparr>"

definition status_reach :: "memory \<Rightarrow> InferenceIdentityBindingStatus_mem \<Rightarrow> addr set" where
  "status_reach h x = slice_reach in_conditions nowhere h (mt_Conditions x) \<union>
     (slice_reach in_conflicts nowhere h (mt_Conflicts x) \<union> (slice_reach in_computed nowhere h (mt_ComputedSpiffeIDs x) \<union>
     (slice_reach in_selectors selector_reach h (mt_RenderedSelectors x) \<union>
     (ptr_reach in_pending nowhere h (mt_PendingClusterSPIFFEID x) \<union> (ptr_reach in_owned nowhere h (mt_OwnedClusterSPIFFEID x) \<union>
      ptr_reach in_rendered rendered_reach h (mt_RenderedClusterSPIFFEID x))))))"

definition status_valid :: "memory \<Rightarrow> InferenceIdentityBindingStatus_mem \<Rightarrow> bool" where
  "status_valid h x = (slice_valid in_conditions always h (mt_Conditions x) \<and>
     (slice_valid in_conflicts always h (mt_Conflicts x) \<and> (slice_valid in_computed always h (mt_ComputedSpiffeIDs x) \<and>
     (slice_valid in_selectors selector_valid h (mt_RenderedSelectors x) \<and>
     (ptr_valid in_pending always h (mt_PendingClusterSPIFFEID x) \<and> (ptr_valid in_owned always h (mt_OwnedClusterSPIFFEID x) \<and>
      ptr_valid in_rendered rendered_valid h (mt_RenderedClusterSPIFFEID x)))))))"

lemma deep_selector: "deep_copier RenderedSelectorStatus_DeepCopyInto selector_at selector_reach selector_valid"
  by (rule deep_record [OF deep_copy_flat [of in_strings StringCell], where parts = ms_Selectors and
        update = "\<lambda>x p. x\<lparr>ms_Selectors := p\<rparr>" and rest = ms_SpiffeID and
        build = "\<lambda>i p. \<lparr>rs_SpiffeID = i, rs_Selectors = p\<rparr>"])
     (simp_all add: RenderedSelectorStatus_DeepCopyInto_def selector_at_def selector_reach_def selector_valid_def)

lemma deep_rendered: "deep_copier RenderedClusterSPIFFEIDStatus_DeepCopyInto rendered_at rendered_reach rendered_valid"
  by (rule deep_record [OF deep_new [OF deep_plain, of in_ints IntCell], where parts = mc_ObservedGeneration and
        update = "\<lambda>x p. x\<lparr>mc_ObservedGeneration := p\<rparr>" and rest = "\<lambda>x. x\<lparr>mc_ObservedGeneration := None\<rparr>" and
        build = "\<lambda>x p. \<lparr>rc_Name = mc_Name x, rc_SpiffeID = mc_SpiffeID x,
          rc_SelectorFingerprint = mc_SelectorFingerprint x, rc_ObservedGeneration = p\<rparr>"])
     (simp_all add: RenderedClusterSPIFFEIDStatus_DeepCopyInto_def rendered_at_def rendered_reach_def rendered_valid_def)

lemma deep_status:
  assumes "deep_copier (k_Condition K) plain nowhere always"
  shows "deep_copier (InferenceIdentityBindingStatus_DeepCopyInto K) status_at status_reach status_valid"
proof -
  note each = deep_each [OF assms, of in_conditions ConditionCell zero_Condition]
    deep_copy_flat [of in_conflicts ConflictCell zero_Conflict] deep_copy_flat [of in_computed ComputedCell zero_Computed]
    deep_each [OF deep_selector, of in_selectors SelectorCell zero_Selector]
    deep_new [OF deep_plain, of in_pending PendingCell zero_Pending] deep_new [OF deep_plain, of in_owned OwnedCell zero_Owned]
    deep_new [OF deep_rendered, of in_rendered RenderedCell zero_Rendered]
  note all = deep_pair [OF each(1) [OF cell.sel(3)] deep_pair [OF each(2) [OF cell.sel(4)] deep_pair [OF each(3) [OF cell.sel(5)]
    deep_pair [OF each(4) [OF cell.sel(11)] deep_pair [OF each(5) [OF cell.sel(6)] deep_pair [OF each(6) [OF cell.sel(7)]
    each(7) [OF cell.sel(12)]]]]]]]
  show ?thesis
    by (rule deep_record [OF all, where
        parts = "\<lambda>x. (mt_Conditions x, mt_Conflicts x, mt_ComputedSpiffeIDs x, mt_RenderedSelectors x,
          mt_PendingClusterSPIFFEID x, mt_OwnedClusterSPIFFEID x, mt_RenderedClusterSPIFFEID x)" and
        update = "\<lambda>x (a, b, c, d, e, f, g). x\<lparr>mt_Conditions := a, mt_Conflicts := b, mt_ComputedSpiffeIDs := c,
          mt_RenderedSelectors := d, mt_PendingClusterSPIFFEID := e, mt_OwnedClusterSPIFFEID := f,
          mt_RenderedClusterSPIFFEID := g\<rparr>" and
        rest = "\<lambda>x. (mt_TrustDomain x, mt_ClusterSPIFFEIDClassName x)" and
        build = "\<lambda>(s, t) (a, b, c, d, e, f, g). \<lparr>st_Conditions = a, st_TrustDomain = s, st_ClusterSPIFFEIDClassName = t,
          st_Conflicts = b, st_ComputedSpiffeIDs = c, st_RenderedSelectors = d, st_PendingClusterSPIFFEID = e,
          st_OwnedClusterSPIFFEID = f, st_RenderedClusterSPIFFEID = g\<rparr>"])
     (simp_all add: InferenceIdentityBindingStatus_DeepCopyInto_def status_at_def status_reach_def status_valid_def
        split: prod.splits)
qed

text \<open>Objects: the metadata of the API machinery comes with a copy function of its own.\<close>

definition binding_at :: "memory \<Rightarrow> InferenceIdentityBinding_mem \<Rightarrow> TypeMeta \<times> binding" where
  "binding_at h x = (mb_TypeMeta x, \<lparr>b_Namespace = mo_Namespace (mb_ObjectMeta x), b_Name = mo_Name (mb_ObjectMeta x),
     b_Generation = mo_Generation (mb_ObjectMeta x), b_ResourceVersion = mo_ResourceVersion (mb_ObjectMeta x),
     b_DeletionTimestamp = ptr_content in_ints plain h (mo_DeletionTimestamp (mb_ObjectMeta x)),
     b_Finalizers = slice_content in_strings plain h (mo_Finalizers (mb_ObjectMeta x)),
     b_Spec = mb_Spec x, b_Status = status_at h (mb_Status x)\<rparr>)"

definition meta_at where
  "meta_at h m = (mo_Namespace m, mo_Name m, mo_Generation m, mo_ResourceVersion m,
     ptr_content in_ints plain h (mo_DeletionTimestamp m), slice_content in_strings plain h (mo_Finalizers m))"

definition meta_reach where
  "meta_reach h m = ptr_reach in_ints nowhere h (mo_DeletionTimestamp m) \<union> slice_reach in_strings nowhere h (mo_Finalizers m)"

definition meta_valid where
  "meta_valid h m = (ptr_valid in_ints always h (mo_DeletionTimestamp m) \<and> slice_valid in_strings always h (mo_Finalizers m))"

definition list_meta_at where
  "list_meta_at h m = (ml_ResourceVersion m, ml_Continue m, ptr_content in_ints plain h (ml_RemainingItemCount m))"

definition list_meta_reach where
  "list_meta_reach h m = ptr_reach in_ints nowhere h (ml_RemainingItemCount m)"

definition list_meta_valid where
  "list_meta_valid h m = ptr_valid in_ints always h (ml_RemainingItemCount m)"

text \<open>What the documentation says of the copy functions of the API machinery.\<close>

definition copiers_contract :: "copiers \<Rightarrow> bool" where
  "copiers_contract K = (deep_copier (k_Condition K) plain nowhere always \<and>
     deep_copier (k_ObjectMeta K) meta_at meta_reach meta_valid \<and>
     deep_copier (k_ListMeta K) list_meta_at list_meta_reach list_meta_valid)"

definition binding_reach :: "memory \<Rightarrow> InferenceIdentityBinding_mem \<Rightarrow> addr set" where
  "binding_reach h x = meta_reach h (mb_ObjectMeta x) \<union> status_reach h (mb_Status x)"

definition binding_valid :: "memory \<Rightarrow> InferenceIdentityBinding_mem \<Rightarrow> bool" where
  "binding_valid h x = (meta_valid h (mb_ObjectMeta x) \<and> status_valid h (mb_Status x))"

lemma deep_binding:
  assumes "copiers_contract K"
  shows "deep_copier (InferenceIdentityBinding_DeepCopyInto K) binding_at binding_reach binding_valid"
proof -
  have meta: "deep_copier (k_ObjectMeta K) meta_at meta_reach meta_valid"
    and cond: "deep_copier (k_Condition K) plain nowhere always"
    using assms by (simp_all add: copiers_contract_def)
  show ?thesis
    by (rule deep_record [OF deep_pair [OF meta deep_status [OF cond]], where
        parts = "\<lambda>x. (mb_ObjectMeta x, mb_Status x)" and update = "\<lambda>x (m, s). x\<lparr>mb_ObjectMeta := m, mb_Status := s\<rparr>" and
        rest = "\<lambda>x. (mb_TypeMeta x, mb_Spec x)" and
        build = "\<lambda>(t, spec) ((ns, n, g, v, d, f), s). (t, \<lparr>b_Namespace = ns, b_Name = n, b_Generation = g,
          b_ResourceVersion = v, b_DeletionTimestamp = d, b_Finalizers = f, b_Spec = spec, b_Status = s\<rparr>)"])
     (simp_all add: InferenceIdentityBinding_DeepCopyInto_def binding_at_def binding_reach_def binding_valid_def meta_at_def
        split: prod.splits)
qed

definition list_at :: "memory \<Rightarrow> InferenceIdentityBindingList_mem \<Rightarrow> TypeMeta \<times> (string \<times> string \<times> int option) \<times> (TypeMeta \<times> binding) list" where
  "list_at h x = (mi_TypeMeta x, list_meta_at h (mi_ListMeta x), slice_content in_bindings binding_at h (mi_Items x))"

definition list_reach :: "memory \<Rightarrow> InferenceIdentityBindingList_mem \<Rightarrow> addr set" where
  "list_reach h x = list_meta_reach h (mi_ListMeta x) \<union> slice_reach in_bindings binding_reach h (mi_Items x)"

definition list_valid :: "memory \<Rightarrow> InferenceIdentityBindingList_mem \<Rightarrow> bool" where
  "list_valid h x = (list_meta_valid h (mi_ListMeta x) \<and> slice_valid in_bindings binding_valid h (mi_Items x))"

lemma deep_list:
  assumes "copiers_contract K"
  shows "deep_copier (InferenceIdentityBindingList_DeepCopyInto K) list_at list_reach list_valid"
proof -
  have meta: "deep_copier (k_ListMeta K) list_meta_at list_meta_reach list_meta_valid"
    using assms by (simp add: copiers_contract_def)
  show ?thesis
    by (rule deep_record [OF deep_pair [OF meta deep_each [OF deep_binding [OF assms], of in_bindings BindingCell zero_Binding, OF cell.sel(14)]], where
        parts = "\<lambda>x. (mi_ListMeta x, mi_Items x)" and update = "\<lambda>x (m, s). x\<lparr>mi_ListMeta := m, mi_Items := s\<rparr>" and
        rest = mi_TypeMeta and build = "\<lambda>t (m, s). (t, m, s)"])
     (simp_all add: InferenceIdentityBindingList_DeepCopyInto_def list_at_def list_reach_def list_valid_def
        split: prod.splits)
qed

section \<open>Copies of objects\<close>

text \<open>What a pointer to a binding, or to a list of them, stands for.\<close>

definition binding_pointee :: "memory \<Rightarrow> addr option \<Rightarrow> (TypeMeta \<times> binding) option" where
  "binding_pointee = ptr_content in_bindings binding_at"

definition binding_memory :: "memory \<Rightarrow> addr option \<Rightarrow> addr set" where
  "binding_memory = ptr_reach in_bindings binding_reach"

definition binding_sound :: "memory \<Rightarrow> addr option \<Rightarrow> bool" where
  "binding_sound = ptr_valid in_bindings binding_valid"

lemma deep_binding_pointer:
  "copiers_contract K \<Longrightarrow> deep_copier (InferenceIdentityBinding_DeepCopy K) binding_pointee binding_memory binding_sound"
  unfolding InferenceIdentityBinding_DeepCopy_def binding_pointee_def binding_memory_def binding_sound_def
  by (rule deep_new [OF deep_binding]) simp_all

lemma deep_list_pointer:
  "copiers_contract K \<Longrightarrow> deep_copier (InferenceIdentityBindingList_DeepCopy K)
     (ptr_content in_lists list_at) (ptr_reach in_lists list_reach) (ptr_valid in_lists list_valid)"
  unfolding InferenceIdentityBindingList_DeepCopy_def by (rule deep_new [OF deep_list]) simp_all

interpretation selector_status: deep_copier RenderedSelectorStatus_DeepCopyInto selector_at selector_reach selector_valid
  by (rule deep_selector)

interpretation rendered_status: deep_copier RenderedClusterSPIFFEIDStatus_DeepCopyInto rendered_at rendered_reach rendered_valid
  by (rule deep_rendered)

interpretation pending_status: deep_copier PendingClusterSPIFFEIDStatus_DeepCopy
    "ptr_content in_pending plain" "ptr_reach in_pending nowhere" "ptr_valid in_pending always"
  unfolding PendingClusterSPIFFEIDStatus_DeepCopy_def PendingClusterSPIFFEIDStatus_DeepCopyInto_def [abs_def]
  by (rule deep_new [OF deep_plain]) simp

interpretation owned_status: deep_copier OwnedClusterSPIFFEIDStatus_DeepCopy
    "ptr_content in_owned plain" "ptr_reach in_owned nowhere" "ptr_valid in_owned always"
  unfolding OwnedClusterSPIFFEIDStatus_DeepCopy_def OwnedClusterSPIFFEIDStatus_DeepCopyInto_def [abs_def]
  by (rule deep_new [OF deep_plain]) simp

text \<open>
  C12: A deep copy of a binding is a separate object with the same content. The copy of a nil
  pointer is nil; otherwise original and copy stand for the same binding, with the memory of
  neither reaching into that of the other, and whatever is then written to the memory of
  one of them, the other still stands for the binding that was copied.
\<close>
theorem DeepCopy_separate:
  assumes "copiers_contract K" "binding_sound h p"
    and "run_state (InferenceIdentityBinding_DeepCopy K p) h = (q, h1)"
  shows "(q = None) = (p = None) \<and> binding_pointee h1 p = binding_pointee h p \<and> binding_pointee h1 q = binding_pointee h p \<and>
    binding_memory h1 p \<inter> binding_memory h1 q = {} \<and>
    (\<forall>h2. length h2 = length h1 \<longrightarrow>
       ((\<forall>a. a \<notin> binding_memory h1 q \<longrightarrow> h2 ! a = h1 ! a) \<longrightarrow> binding_pointee h2 p = binding_pointee h p) \<and>
       ((\<forall>a. a \<notin> binding_memory h1 p \<longrightarrow> h2 ! a = h1 ! a) \<longrightarrow> binding_pointee h2 q = binding_pointee h p))"
proof -
  note separate = deep_copier.separate [OF deep_binding_pointer [OF assms(1)] assms(2,3)]
  have "(q = None) = (p = None)" using separate(2) by (metis binding_pointee_def option.map_disc_iff ptr_content_def)
  with separate show ?thesis by simp
qed

text \<open>A reference implementation of the API machinery's copies, and a memory with a binding.\<close>

definition ref_copiers :: copiers where
  "ref_copiers = \<lparr>k_Condition = State_Monad.return,
     k_ObjectMeta = (\<lambda>m. do {
       d \<leftarrow> copy_new IntCell in_ints 0 State_Monad.return (mo_DeletionTimestamp m);
       f \<leftarrow> copy_flat StringCell in_strings [] (mo_Finalizers m);
       State_Monad.return (m\<lparr>mo_DeletionTimestamp := d, mo_Finalizers := f\<rparr>) }),
     k_ListMeta = (\<lambda>m. do {
       n \<leftarrow> copy_new IntCell in_ints 0 State_Monad.return (ml_RemainingItemCount m);
       State_Monad.return (m\<lparr>ml_RemainingItemCount := n\<rparr>) })\<rparr>"

lemma ref_copiers_contract: "copiers_contract ref_copiers"
  unfolding copiers_contract_def
proof (intro conjI)
  show "deep_copier (k_Condition ref_copiers) plain nowhere always"
    by (simp add: ref_copiers_def deep_plain)
  show "deep_copier (k_ObjectMeta ref_copiers) meta_at meta_reach meta_valid"
    by (rule deep_record [OF deep_pair [OF deep_new [OF deep_plain, of in_ints IntCell 0, OF cell.sel(2)]
          deep_copy_flat [of in_strings StringCell "[]", OF cell.sel(1)]], where
        parts = "\<lambda>m. (mo_DeletionTimestamp m, mo_Finalizers m)" and
        update = "\<lambda>m (d, f). m\<lparr>mo_DeletionTimestamp := d, mo_Finalizers := f\<rparr>" and
        rest = "\<lambda>m. (mo_Namespace m, mo_Name m, mo_Generation m, mo_ResourceVersion m)" and
        build = "\<lambda>(ns, n, g, v) (d, f). (ns, n, g, v, d, f)"])
      (simp_all add: ref_copiers_def meta_at_def meta_reach_def meta_valid_def split: prod.splits)
  show "deep_copier (k_ListMeta ref_copiers) list_meta_at list_meta_reach list_meta_valid"
    by (rule deep_record [OF deep_new [OF deep_plain, of in_ints IntCell 0, OF cell.sel(2)], where
        parts = ml_RemainingItemCount and update = "\<lambda>m n. m\<lparr>ml_RemainingItemCount := n\<rparr>" and
        rest = "\<lambda>m. (ml_ResourceVersion m, ml_Continue m)" and build = "\<lambda>(v, c) n. (v, c, n)"])
      (simp_all add: ref_copiers_def list_meta_at_def list_meta_reach_def list_meta_valid_def)
qed

interpretation binding_object: deep_copier "InferenceIdentityBinding_DeepCopy ref_copiers" binding_pointee binding_memory binding_sound
  by (rule deep_binding_pointer [OF ref_copiers_contract])

interpretation binding_list: deep_copier "InferenceIdentityBindingList_DeepCopy ref_copiers"
    "ptr_content in_lists list_at" "ptr_reach in_lists list_reach" "ptr_valid in_lists list_valid"
  by (rule deep_list_pointer [OF ref_copiers_contract])

definition sample_memory :: memory where
  "sample_memory = [StringCell [''a'', ''f''], ComputedCell [\<lparr>cs_SpiffeID = ''spiffe://td/x''\<rparr>],
     OwnedCell [\<lparr>own_Name = ''o'', own_UID = ''u''\<rparr>],
     BindingCell [zero_Binding\<lparr>mb_ObjectMeta := (mb_ObjectMeta zero_Binding)\<lparr>mo_Finalizers := SliceOf 0 1 1\<rparr>,
       mb_Status := zero_Status\<lparr>mt_ComputedSpiffeIDs := SliceOf 1 0 1, mt_OwnedClusterSPIFFEID := Some 2\<rparr>\<rparr>]]"

lemmas sample_memory_eval = sample_memory_def zero_Binding_def zero_Status_def binding_pointee_def binding_sound_def
  binding_at_def binding_valid_def status_at_def status_valid_def meta_valid_def ptr_content_def ptr_valid_def
  slice_content_def slice_valid_def slice_elements_def

definition sample_copied :: memory where
  "sample_copied = sample_memory @ [BindingCell [zero_Binding\<lparr>mb_ObjectMeta := (mb_ObjectMeta zero_Binding)\<lparr>mo_Finalizers := SliceOf 5 0 1\<rparr>,
       mb_Status := zero_Status\<lparr>mt_ComputedSpiffeIDs := SliceOf 6 0 1, mt_OwnedClusterSPIFFEID := Some 7\<rparr>\<rparr>],
     StringCell [''f''], ComputedCell [\<lparr>cs_SpiffeID = ''spiffe://td/x''\<rparr>], OwnedCell [\<lparr>own_Name = ''o'', own_UID = ''u''\<rparr>]]"

lemma sample_copy: "run_state (InferenceIdentityBinding_DeepCopy ref_copiers (Some 3)) sample_memory = (Some 4, sample_copied)"
  by (simp add: InferenceIdentityBinding_DeepCopy_def InferenceIdentityBinding_DeepCopyInto_def
      InferenceIdentityBindingStatus_DeepCopyInto_def ref_copiers_def copy_new_def copy_flat_def copy_each_def go_copy_def
      sample_copied_def sample_memory_eval)

theorem DeepCopy_separate_witness:
  "binding_sound sample_memory (Some 3) \<and>
   run_state (InferenceIdentityBinding_DeepCopy ref_copiers (Some 3)) sample_memory = (Some 4, sample_copied) \<and>
   binding_pointee sample_copied (Some 4) = binding_pointee sample_memory (Some 3) \<and>
   binding_memory sample_copied (Some 3) \<inter> binding_memory sample_copied (Some 4) = {} \<and>
   st_ComputedSpiffeIDs (b_Status (snd (the (binding_pointee sample_copied (Some 4))))) = [\<lparr>cs_SpiffeID = ''spiffe://td/x''\<rparr>]"
proof -
  have sound: "binding_sound sample_memory (Some 3)" by (simp add: sample_memory_eval)
  show ?thesis using DeepCopy_separate [OF ref_copiers_contract sound sample_copy] sound sample_copy
    by (simp add: sample_memory_eval)
qed

end
