(* ===== verification/Schemes.thy ===== *)
theory Schemes
  imports Inspection
begin

text \<open>
  Type registration: which Go type stands for which kind, in the scheme of the API package
  (\<^verbatim>\<open>groupversion_info.go\<close>), of the command line tool (\<^verbatim>\<open>inspection.go\<close>) and of the operator
  (\<^verbatim>\<open>cmd/kleym-operator/main.go\<close>). The scheme is an object of apimachinery: how it stores
  its types is a parameter, as are the registrations of the Kubernetes packages. A panic is
  the value None. The tool ignores the error that the core package may return, so its
  registration yields the scheme as it was left; the operator panics on an error.
\<close>

section \<open>Schemes\<close>

datatype go_type = TypeBinding | TypeBindingList | TypeUnstructured | TypeUnstructuredList | OtherType string

record 's scheme_lib =
  NewScheme :: 's
  AddKnownTypeWithName :: "GroupVersionKind \<Rightarrow> go_type \<Rightarrow> 's \<Rightarrow> 's option"
  known_type :: "'s \<Rightarrow> GroupVersionKind \<Rightarrow> go_type option"
  coreAddToScheme :: "'s \<Rightarrow> 's option"
  clientgoAddToScheme :: "'s \<Rightarrow> 's option"
  AddToGroupVersion :: "'s \<Rightarrow> 's option"

definition WithKind :: "string \<times> string \<Rightarrow> string \<Rightarrow> GroupVersionKind" where
  "WithKind gv kind = GroupVersionKind (fst gv) (snd gv) kind"

section \<open>Registration\<close>

definition addKnownTypes :: "'s scheme_lib \<Rightarrow> 's \<Rightarrow> 's option" where
  "addKnownTypes L s = do {
     s \<leftarrow> AddKnownTypeWithName L (WithKind GroupVersion ''InferenceIdentityBinding'') TypeBinding s;
     s \<leftarrow> AddKnownTypeWithName L (WithKind GroupVersion ''InferenceIdentityBindingList'') TypeBindingList s;
     AddToGroupVersion L s
   }"

definition registerInspectionUnstructuredGVK :: "'s scheme_lib \<Rightarrow> GroupVersionKind \<Rightarrow> 's \<Rightarrow> 's option" where
  "registerInspectionUnstructuredGVK L gvk s = do {
     s \<leftarrow> AddKnownTypeWithName L gvk TypeUnstructured s;
     AddKnownTypeWithName L (WithKind (gvk_Group gvk, gvk_Version gvk) (gvk_Kind gvk @ ''List'')) TypeUnstructuredList s
   }"

fun register_all :: "'s scheme_lib \<Rightarrow> GroupVersionKind list \<Rightarrow> 's \<Rightarrow> 's option" where
  "register_all L [] s = Some s"
| "register_all L (gvk # gvks) s = do {
     s \<leftarrow> registerInspectionUnstructuredGVK L gvk s;
     register_all L gvks s
   }"

definition newBindingInspectionScheme :: "'s scheme_lib \<Rightarrow> 's option" where
  "newBindingInspectionScheme L = do {
     s \<leftarrow> coreAddToScheme L (NewScheme L);
     s \<leftarrow> addKnownTypes L s;
     s \<leftarrow> register_all L InferencePoolGVKs s;
     registerInspectionUnstructuredGVK L clusterSPIFFEIDGVK s
   }"

text \<open>The operator's scheme; \<^verbatim>\<open>utilruntime.Must\<close> panics on an error.\<close>

definition operator_scheme :: "'s scheme_lib \<Rightarrow> 's option" where
  "operator_scheme L = do {
     s \<leftarrow> clientgoAddToScheme L (NewScheme L);
     addKnownTypes L s
   }"

section \<open>What is registered\<close>

definition own_kinds :: "GroupVersionKind list" where
  "own_kinds = [WithKind GroupVersion ''InferenceIdentityBinding'', WithKind GroupVersion ''InferenceIdentityBindingList'']
     @ concat (map (\<lambda>gvk. [gvk, WithKind (gvk_Group gvk, gvk_Version gvk) (gvk_Kind gvk @ ''List'')])
         (InferencePoolGVKs @ [clusterSPIFFEIDGVK]))"

text \<open>
  A scheme of apimachinery takes a kind that it does not know and then knows it; the
  Kubernetes packages register without a clash and leave the kinds of this program alone.
\<close>

definition registers_others :: "'s scheme_lib \<Rightarrow> ('s \<Rightarrow> 's option) \<Rightarrow> bool" where
  "registers_others L f =
     (\<forall>s. \<exists>s'. f s = Some s' \<and> (\<forall>gvk \<in> set own_kinds. known_type L s' gvk = known_type L s gvk))"

definition scheme_contract :: "'s scheme_lib \<Rightarrow> bool" where
  "scheme_contract L =
     ((\<forall>gvk. known_type L (NewScheme L) gvk = None) \<and>
      (\<forall>s gvk ty. known_type L s gvk = None \<longrightarrow>
        (\<exists>s'. AddKnownTypeWithName L gvk ty s = Some s' \<and> known_type L s' = (known_type L s)(gvk \<mapsto> ty))) \<and>
      registers_others L (coreAddToScheme L) \<and> registers_others L (clientgoAddToScheme L) \<and>
      registers_others L (AddToGroupVersion L))"

definition expected_type :: "GroupVersionKind \<Rightarrow> go_type" where
  "expected_type gvk =
     (if gvk_Group gvk = fst GroupVersion then (if HasSuffix (gvk_Kind gvk) ''List'' then TypeBindingList else TypeBinding)
      else if HasSuffix (gvk_Kind gvk) ''List'' then TypeUnstructuredList else TypeUnstructured)"

lemmas scheme_kinds = WithKind_def api_defs InferencePoolGVKs_def inferencePoolGVKs_def clusterSPIFFEIDGVK_def

lemma registers_othersD:
  assumes "registers_others L f"
  obtains s' where "f s = Some s'" "\<And>gvk. gvk \<in> set own_kinds \<Longrightarrow> known_type L s' gvk = known_type L s gvk"
  using assms unfolding registers_others_def by blast

lemma scheme_add:
  assumes "scheme_contract L" "known_type L s gvk = None"
  obtains s' where "AddKnownTypeWithName L gvk ty s = Some s'" "known_type L s' = (known_type L s)(gvk \<mapsto> ty)"
  using assms unfolding scheme_contract_def by blast

lemma known_types:
  assumes L: "scheme_contract L" and core: "registers_others L core"
  shows "\<exists>s s'. core (NewScheme L) = Some s \<and> addKnownTypes L s = Some s' \<and> (\<forall>gvk \<in> set own_kinds. known_type L s' gvk =
    [WithKind GroupVersion ''InferenceIdentityBinding'' \<mapsto> TypeBinding,
      WithKind GroupVersion ''InferenceIdentityBindingList'' \<mapsto> TypeBindingList] gvk)"
proof -
  let ?b = "WithKind GroupVersion ''InferenceIdentityBinding''"
  let ?l = "WithKind GroupVersion ''InferenceIdentityBindingList''"
  have own: "?b \<in> set own_kinds" "?l \<in> set own_kinds" "?b \<noteq> ?l" by (simp_all add: own_kinds_def WithKind_def)
  obtain s where s: "core (NewScheme L) = Some s" "\<And>gvk. gvk \<in> set own_kinds \<Longrightarrow> known_type L s gvk = None"
    using registers_othersD [OF core, of "NewScheme L"] L by (auto simp: scheme_contract_def)
  obtain s1 where s1: "AddKnownTypeWithName L ?b TypeBinding s = Some s1" "known_type L s1 = (known_type L s)(?b \<mapsto> TypeBinding)"
    using scheme_add [OF L s(2) [OF own(1)]] .
  then have "known_type L s1 ?l = None" using s(2) [OF own(2)] own(3) by simp
  then obtain s2 where s2: "AddKnownTypeWithName L ?l TypeBindingList s1 = Some s2"
      "known_type L s2 = (known_type L s1)(?l \<mapsto> TypeBindingList)" by (rule scheme_add [OF L])
  have "registers_others L (AddToGroupVersion L)" using L by (simp add: scheme_contract_def)
  then obtain s' where s': "AddToGroupVersion L s2 = Some s'" "\<forall>gvk \<in> set own_kinds. known_type L s' gvk = known_type L s2 gvk"
    unfolding registers_others_def by blast
  have "addKnownTypes L s = Some s'" by (simp add: addKnownTypes_def s1 s2 s')
  moreover have "known_type L s' gvk = [?b \<mapsto> TypeBinding, ?l \<mapsto> TypeBindingList] gvk" if "gvk \<in> set own_kinds" for gvk
    using that s(2) [OF that] bspec [OF s'(2) that] by (simp add: s1(2) s2(2))
  ultimately show ?thesis using s(1) by blast
qed

lemma unstructured_types:
  assumes L: "scheme_contract L" and list: "gvkl = WithKind (gvk_Group gvk, gvk_Version gvk) (gvk_Kind gvk @ ''List'')"
    and new: "known_type L s gvk = None" "known_type L s gvkl = None"
  obtains s' where "registerInspectionUnstructuredGVK L gvk s = Some s'"
    "known_type L s' = (known_type L s)(gvk \<mapsto> TypeUnstructured, gvkl \<mapsto> TypeUnstructuredList)"
proof -
  have "gvkl \<noteq> gvk" by (cases gvk) (auto simp: list WithKind_def)
  obtain s1 where s1: "AddKnownTypeWithName L gvk TypeUnstructured s = Some s1"
      "known_type L s1 = (known_type L s)(gvk \<mapsto> TypeUnstructured)" using scheme_add [OF L new(1)] .
  with new(2) \<open>gvkl \<noteq> gvk\<close> have "known_type L s1 gvkl = None" by simp
  then obtain s2 where s2: "AddKnownTypeWithName L gvkl TypeUnstructuredList s1 = Some s2"
      "known_type L s2 = (known_type L s1)(gvkl \<mapsto> TypeUnstructuredList)" by (rule scheme_add [OF L])
  show ?thesis
    by (rule that [of s2]) (use s1 s2 in \<open>simp_all add: registerInspectionUnstructuredGVK_def flip: list\<close>)
qed

text \<open>
  Building a scheme never panics, and afterwards every kind the program asks for is known,
  with a typed or an unstructured Go type and the matching list type.
\<close>

lemma inspection_scheme_complete:
  assumes L: "scheme_contract L"
  shows "\<exists>s. newBindingInspectionScheme L = Some s \<and> (\<forall>gvk \<in> set own_kinds. known_type L s gvk = Some (expected_type gvk))"
proof -
  let ?pool = "GroupVersionKind ''inference.networking.k8s.io'' ''v1'' ''InferencePool''"
  let ?pools = "GroupVersionKind ''inference.networking.k8s.io'' ''v1'' ''InferencePoolList''"
  let ?out = "GroupVersionKind ''spire.spiffe.io'' ''v1alpha1'' ''ClusterSPIFFEID''"
  let ?outs = "GroupVersionKind ''spire.spiffe.io'' ''v1alpha1'' ''ClusterSPIFFEIDList''"
  let ?first = "[WithKind GroupVersion ''InferenceIdentityBinding'' \<mapsto> TypeBinding,
    WithKind GroupVersion ''InferenceIdentityBindingList'' \<mapsto> TypeBindingList]"
  have "registers_others L (coreAddToScheme L)" using L by (simp add: scheme_contract_def)
  from known_types [OF L this] obtain s s1 where s: "coreAddToScheme L (NewScheme L) = Some s" "addKnownTypes L s = Some s1"
    and s1: "\<And>gvk. gvk \<in> set own_kinds \<Longrightarrow> known_type L s1 gvk = ?first gvk" by blast
  have "known_type L s1 ?pool = None" "known_type L s1 ?pools = None"
    by (simp_all add: s1 own_kinds_def scheme_kinds)
  with unstructured_types [OF L, of ?pools ?pool s1] obtain s2 where s2: "registerInspectionUnstructuredGVK L ?pool s1 = Some s2"
      "known_type L s2 = (known_type L s1)(?pool \<mapsto> TypeUnstructured, ?pools \<mapsto> TypeUnstructuredList)"
    by (auto simp: WithKind_def)
  have "known_type L s2 ?out = None" "known_type L s2 ?outs = None"
    by (simp_all add: s2(2) s1 own_kinds_def scheme_kinds)
  with unstructured_types [OF L, of ?outs ?out s2] obtain s3 where s3: "registerInspectionUnstructuredGVK L ?out s2 = Some s3"
      "known_type L s3 = (known_type L s2)(?out \<mapsto> TypeUnstructured, ?outs \<mapsto> TypeUnstructuredList)"
    by (auto simp: WithKind_def)
  have "newBindingInspectionScheme L = Some s3"
    by (simp add: newBindingInspectionScheme_def s s2 s3 InferencePoolGVKs_def inferencePoolGVKs_def clusterSPIFFEIDGVK_def)
  then show ?thesis
    by (simp add: s3(2) s2(2) s1 own_kinds_def expected_type_def HasSuffix_def scheme_kinds)
qed

lemma operator_scheme_complete:
  assumes L: "scheme_contract L"
  shows "\<exists>s. operator_scheme L = Some s \<and>
    known_type L s (WithKind GroupVersion ''InferenceIdentityBinding'') = Some TypeBinding \<and>
    known_type L s (WithKind GroupVersion ''InferenceIdentityBindingList'') = Some TypeBindingList"
proof -
  have "registers_others L (clientgoAddToScheme L)" using L by (simp add: scheme_contract_def)
  from known_types [OF L this] show ?thesis by (auto simp: operator_scheme_def own_kinds_def scheme_kinds)
qed

text \<open>A scheme that keeps its registrations in a list fulfils the contract.\<close>

definition list_scheme :: "((GroupVersionKind \<times> go_type) list) scheme_lib" where
  "list_scheme = \<lparr>NewScheme = [],
     AddKnownTypeWithName = (\<lambda>gvk ty s. case map_of s gvk of
        None \<Rightarrow> Some ((gvk, ty) # s) | Some old \<Rightarrow> if old = ty then Some s else None),
     known_type = map_of,
     coreAddToScheme = (\<lambda>s. Some ((GroupVersionKind [] ''v1'' ''Pod'', OtherType ''Pod'') # s)),
     clientgoAddToScheme = (\<lambda>s. Some ((GroupVersionKind [] ''v1'' ''Pod'', OtherType ''Pod'') # s)),
     AddToGroupVersion = Some\<rparr>"

lemma list_scheme_contract: "scheme_contract list_scheme"
  by (auto simp: scheme_contract_def list_scheme_def registers_others_def own_kinds_def scheme_kinds)

lemma list_scheme_complete:
  "\<exists>s. newBindingInspectionScheme list_scheme = Some s \<and> (\<forall>gvk \<in> set own_kinds. map_of s gvk = Some (expected_type gvk))"
  using inspection_scheme_complete [OF list_scheme_contract] by (simp add: list_scheme_def)

end
