(* ===== verification/Go_Flag.thy ===== *)
theory Go_Flag
  imports Go_Strings
begin

text \<open>
  Go's \<^verbatim>\<open>flag\<close> package as far as the operator uses it: a set of flags whose values are put
  into a state, and the parser of \<^verbatim>\<open>flag.Parse\<close>. A boolean flag takes a value only with an
  equals sign; the value of any other flag may be the next argument. Parsing stops at the
  first argument that is no flag. Shown is that arguments written from a list of
  assignments are read back as these assignments, in order.
\<close>

section \<open>Flags and the parser\<close>

text \<open>Setting a flag that is not boolean may be refused.\<close>

datatype 's flag_value = BoolFlag "bool \<Rightarrow> 's \<Rightarrow> 's" | ValueFlag "string \<Rightarrow> 's \<Rightarrow> 's option"

type_synonym 's flag_set = "(string \<times> 's flag_value) list"

datatype flag_error =
    BadSyntax string
  | ErrHelp
  | NotDefined string
  | InvalidBoolean string string
  | NeedsArgument string
  | InvalidValue string string

definition ParseBool :: "string \<Rightarrow> bool option" where
  "ParseBool s =
     (if s \<in> {''1'', ''t'', ''T'', ''TRUE'', ''true'', ''True''} then Some True
      else if s \<in> {''0'', ''f'', ''F'', ''FALSE'', ''false'', ''False''} then Some False
      else None)"

datatype token = NoFlag | BadFlag | Flag string "string option"

definition flag_token :: "string \<Rightarrow> token" where
  "flag_token s =
     (if length s < 2 \<or> hd s \<noteq> CHR ''-'' \<or> s = ''--'' then NoFlag
      else let name = (if s ! 1 = CHR ''-'' then drop 2 s else drop 1 s) in
        if name = [] \<or> hd name = CHR ''-'' \<or> hd name = CHR ''='' then BadFlag
        else Flag (takeWhile (\<lambda>c. c \<noteq> CHR ''='') name)
          (if CHR ''='' \<in> set name then Some (drop 1 (dropWhile (\<lambda>c. c \<noteq> CHR ''='') name)) else None))"

text \<open>The state and the names of the flags that were set, latest first.\<close>

fun parse_flags :: "'s flag_set \<Rightarrow> string list \<Rightarrow> 's \<Rightarrow> string list \<Rightarrow> flag_error + 's \<times> string list" where
  "parse_flags F [] st actual = Inr (st, actual)"
| "parse_flags F (arg # args) st actual =
     (case flag_token arg of
        NoFlag \<Rightarrow> Inr (st, actual)
      | BadFlag \<Rightarrow> Inl (BadSyntax arg)
      | Flag name given \<Rightarrow>
        (case map_of F name of
           None \<Rightarrow> Inl (if name = ''help'' \<or> name = ''h'' then ErrHelp else NotDefined name)
         | Some (BoolFlag put) \<Rightarrow>
           (case given of
              None \<Rightarrow> parse_flags F args (put True st) (name # actual)
            | Some text \<Rightarrow>
              (case ParseBool text of
                 None \<Rightarrow> Inl (InvalidBoolean text name)
               | Some b \<Rightarrow> parse_flags F args (put b st) (name # actual)))
         | Some (ValueFlag put) \<Rightarrow>
           (case given of
              Some text \<Rightarrow>
              (case put text st of
                 None \<Rightarrow> Inl (InvalidValue text name)
               | Some st' \<Rightarrow> parse_flags F args st' (name # actual))
            | None \<Rightarrow>
              (case args of
                 [] \<Rightarrow> Inl (NeedsArgument name)
               | text # rest \<Rightarrow>
                 (case put text st of
                    None \<Rightarrow> Inl (InvalidValue text name)
                  | Some st' \<Rightarrow> parse_flags F rest st' (name # actual))))))"

section \<open>Writing and reading\<close>

text \<open>An assignment is a name with a value, which a boolean flag may go without.\<close>

type_synonym assignment = "string \<times> string option"

definition write_flag :: "assignment \<Rightarrow> string" where
  "write_flag a = ''--'' @ fst a @ (case snd a of None \<Rightarrow> [] | Some text \<Rightarrow> CHR ''='' # text)"

definition flag_name_ok :: "string \<Rightarrow> bool" where
  "flag_name_ok name = (name \<noteq> [] \<and> hd name \<noteq> CHR ''-'' \<and> CHR ''='' \<notin> set name)"

text \<open>The state after an assignment, if the flag exists and takes the value.\<close>

definition assign :: "'s flag_set \<Rightarrow> assignment \<Rightarrow> 's \<Rightarrow> 's option" where
  "assign F a st =
     (case (map_of F (fst a), snd a) of
        (Some (BoolFlag put), None) \<Rightarrow> Some (put True st)
      | (Some (BoolFlag put), Some text) \<Rightarrow> map_option (\<lambda>b. put b st) (ParseBool text)
      | (Some (ValueFlag put), Some text) \<Rightarrow> put text st
      | _ \<Rightarrow> None)"

fun assign_all :: "'s flag_set \<Rightarrow> assignment list \<Rightarrow> 's \<Rightarrow> 's option" where
  "assign_all F [] st = Some st"
| "assign_all F (a # as) st = (case assign F a st of None \<Rightarrow> None | Some st' \<Rightarrow> assign_all F as st')"

lemma cut_equals:
  assumes "CHR ''='' \<notin> set name"
  shows "takeWhile (\<lambda>c. c \<noteq> CHR ''='') (name @ CHR ''='' # text) = name"
    "dropWhile (\<lambda>c. c \<noteq> CHR ''='') (name @ CHR ''='' # text) = CHR ''='' # text"
    "takeWhile (\<lambda>c. c \<noteq> CHR ''='') name = name"
  using assms by (induction name) auto

lemma flag_token_write: "flag_name_ok (fst a) \<Longrightarrow> flag_token (write_flag a) = Flag (fst a) (snd a)"
  by (cases a; cases "fst a")
     (auto simp: flag_name_ok_def flag_token_def write_flag_def Let_def cut_equals split: option.split)

lemma parse_write:
  assumes "flag_name_ok (fst a)" "assign F a st = Some st'"
  shows "parse_flags F (write_flag a # args) st actual = parse_flags F args st' (fst a # actual)"
proof -
  note parse = parse_flags.simps(2) [of F "write_flag a" args, unfolded flag_token_write [OF assms(1)] token.case]
  show ?thesis
  proof (cases "map_of F (fst a)")
    case None
    with assms(2) show ?thesis by (simp add: assign_def)
  next
    case (Some v)
    with assms(2) show ?thesis
      by (cases v; cases "snd a") (auto simp: assign_def parse simp del: parse_flags.simps)
  qed
qed

lemma parse_write_all:
  assumes "assign_all F as st = Some st'" "\<forall>a \<in> set as. flag_name_ok (fst a)"
  shows "parse_flags F (map write_flag as) st actual = Inr (st', rev (map fst as) @ actual)"
  using assms
proof (induction as arbitrary: st actual)
  case (Cons a as)
  then obtain st1 where "assign F a st = Some st1" "assign_all F as st1 = Some st'" by (auto split: option.splits)
  with Cons show ?case by (simp add: parse_write del: parse_flags.simps(2))
qed simp

end
