(* ===== verification/Operator_Main.thy ===== *)
theory Operator_Main
  imports Watch Go_Flag
begin

text \<open>
  The operator's entry point, \<^verbatim>\<open>cmd/kleym-operator/main.go\<close>: from the arguments and the
  environment to a running manager. Flags that other packages declare (the logger's, the
  path of the kubeconfig) are a parameter. The manager of controller-runtime is a parameter; the
  model keeps the options it is created with and the order of the steps, each of which ends
  the process with exit code 1 when it fails. Log output is left out.
\<close>

section \<open>Flags\<close>

record operator_flags =
  fl_metricsAddr :: string
  fl_probeAddr :: string
  fl_enableLeaderElection :: bool
  fl_secureMetrics :: bool
  fl_metricsCertPath :: string
  fl_metricsCertName :: string
  fl_metricsCertKey :: string
  fl_enableHTTP2 :: bool
  fl_trustDomain :: string
  fl_clusterSPIFFEIDClassName :: string

definition default_flags :: operator_flags where
  "default_flags =
     \<lparr>fl_metricsAddr = ''0'', fl_probeAddr = '':8081'', fl_enableLeaderElection = False,
      fl_secureMetrics = True, fl_metricsCertPath = [], fl_metricsCertName = ''tls.crt'',
      fl_metricsCertKey = ''tls.key'', fl_enableHTTP2 = False, fl_trustDomain = [],
      fl_clusterSPIFFEIDClassName = []\<rparr>"

text \<open>
  The flags by name; what is not a flag of the operator's own is kept in a state of type
  \<open>'z\<close>.
\<close>

definition operator_StringVar :: "(string \<Rightarrow> operator_flags \<Rightarrow> operator_flags) \<Rightarrow> (operator_flags \<times> 'z) flag_value" where
  "operator_StringVar put = ValueFlag (\<lambda>text st. Some (put text (fst st), snd st))"

definition operator_BoolVar :: "(bool \<Rightarrow> operator_flags \<Rightarrow> operator_flags) \<Rightarrow> (operator_flags \<times> 'z) flag_value" where
  "operator_BoolVar put = BoolFlag (\<lambda>b st. (put b (fst st), snd st))"

fun other_flag :: "'z flag_value \<Rightarrow> (operator_flags \<times> 'z) flag_value" where
  "other_flag (BoolFlag put) = BoolFlag (\<lambda>b st. (fst st, put b (snd st)))"
| "other_flag (ValueFlag put) = ValueFlag (\<lambda>text st. map_option (Pair (fst st)) (put text (snd st)))"

definition operator_flag_set :: "'z flag_set \<Rightarrow> (operator_flags \<times> 'z) flag_set" where
  "operator_flag_set others =
     [(''metrics-bind-address'', operator_StringVar (\<lambda>v fl. fl\<lparr>fl_metricsAddr := v\<rparr>)),
      (''health-probe-bind-address'', operator_StringVar (\<lambda>v fl. fl\<lparr>fl_probeAddr := v\<rparr>)),
      (''leader-elect'', operator_BoolVar (\<lambda>v fl. fl\<lparr>fl_enableLeaderElection := v\<rparr>)),
      (''metrics-secure'', operator_BoolVar (\<lambda>v fl. fl\<lparr>fl_secureMetrics := v\<rparr>)),
      (''metrics-cert-path'', operator_StringVar (\<lambda>v fl. fl\<lparr>fl_metricsCertPath := v\<rparr>)),
      (''metrics-cert-name'', operator_StringVar (\<lambda>v fl. fl\<lparr>fl_metricsCertName := v\<rparr>)),
      (''metrics-cert-key'', operator_StringVar (\<lambda>v fl. fl\<lparr>fl_metricsCertKey := v\<rparr>)),
      (''enable-http2'', operator_BoolVar (\<lambda>v fl. fl\<lparr>fl_enableHTTP2 := v\<rparr>)),
      (''trust-domain'', operator_StringVar (\<lambda>v fl. fl\<lparr>fl_trustDomain := v\<rparr>)),
      (''clusterspiffeid-class-name'', operator_StringVar (\<lambda>v fl. fl\<lparr>fl_clusterSPIFFEIDClassName := v\<rparr>))]
     @ map (\<lambda>(name, value). (name, other_flag value)) others"

text \<open>\<^verbatim>\<open>flag.Visit\<close> visits the flags that were set; two of them are remembered.\<close>

definition visit_flag :: "string \<Rightarrow> OperatorConfigExplicitFields \<Rightarrow> OperatorConfigExplicitFields" where
  "visit_flag name explicit =
     (if name = ''trust-domain'' then explicit\<lparr>ex_TrustDomain := True\<rparr>
      else if name = ''clusterspiffeid-class-name'' then explicit\<lparr>ex_ClusterSPIFFEIDClassName := True\<rparr>
      else explicit)"

definition explicit_fields :: "string list \<Rightarrow> OperatorConfigExplicitFields" where
  "explicit_fields visited =
     fold visit_flag visited \<lparr>ex_TrustDomain = False, ex_ClusterSPIFFEIDClassName = False\<rparr>"

definition operator_config :: "operator_flags \<Rightarrow> string list \<Rightarrow> (string \<Rightarrow> string option) \<Rightarrow> OperatorConfig" where
  "operator_config flags visited lookupEnv =
     WithEnvFallback
       \<lparr>oc_TrustDomain = fl_trustDomain flags,
        oc_ClusterSPIFFEIDClassName = fl_clusterSPIFFEIDClassName flags\<rparr>
       lookupEnv (explicit_fields visited)"

section \<open>Manager options\<close>

text \<open>
  A TLS option changes the protocols the server offers. Without a certificate directory the
  server makes its own certificate, and the certificate names stay empty.
\<close>

type_synonym tls_config = "string list"

definition disableHTTP2 :: "tls_config \<Rightarrow> tls_config" where
  "disableHTTP2 c = [''http/1.1'']"

record metrics_options =
  mx_BindAddress :: string
  mx_SecureServing :: bool
  mx_TLSOpts :: "(tls_config \<Rightarrow> tls_config) list"
  mx_AuthFilter :: bool
  mx_CertDir :: string
  mx_CertName :: string
  mx_KeyName :: string

record manager_options =
  mn_ReaderFailOnMissingInformer :: bool
  mn_Metrics :: metrics_options
  mn_HealthProbeBindAddress :: string
  mn_LeaderElection :: bool
  mn_LeaderElectionID :: string

definition managerCacheOptions :: bool where
  "managerCacheOptions = True"

definition metrics_server_options :: "operator_flags \<Rightarrow> metrics_options" where
  "metrics_server_options flags =
     (let tlsOpts = (if \<not> fl_enableHTTP2 flags then [disableHTTP2] else []);
          options = \<lparr>mx_BindAddress = fl_metricsAddr flags, mx_SecureServing = fl_secureMetrics flags,
            mx_TLSOpts = tlsOpts, mx_AuthFilter = False, mx_CertDir = [], mx_CertName = [], mx_KeyName = []\<rparr>;
          options = (if fl_secureMetrics flags then options\<lparr>mx_AuthFilter := True\<rparr> else options)
      in if length (fl_metricsCertPath flags) > 0
         then options\<lparr>mx_CertDir := fl_metricsCertPath flags, mx_CertName := fl_metricsCertName flags,
           mx_KeyName := fl_metricsCertKey flags\<rparr>
         else options)"

definition operator_manager_options :: "operator_flags \<Rightarrow> manager_options" where
  "operator_manager_options flags =
     \<lparr>mn_ReaderFailOnMissingInformer = managerCacheOptions, mn_Metrics = metrics_server_options flags,
      mn_HealthProbeBindAddress = fl_probeAddr flags, mn_LeaderElection = fl_enableLeaderElection flags,
      mn_LeaderElectionID = ''a558cee8.sonda.red''\<rparr>"

section \<open>Start-up\<close>

text \<open>
  The steps asked of controller-runtime, in order, and the answers: creating the manager
  yields its client and the parts setup uses.
\<close>

datatype startup_step =
    NewManagerStep manager_options
  | SetupStep OperatorConfig
  | HealthzStep
  | ReadyzStep
  | StartStep

record operator_env =
  en_lookupEnv :: "string \<Rightarrow> string option"
  en_NewManager :: "manager_options \<Rightarrow> (api \<times> ext \<times> manager) result"
  en_AddHealthzCheck :: "go_error option"
  en_AddReadyzCheck :: "go_error option"
  en_Start :: "reconciler \<Rightarrow> watch list \<Rightarrow> go_error option"

text \<open>
  The exit code of the process and the steps it took, each with the error it ended with, if
  any.
\<close>

type_synonym startup_log = "(startup_step \<times> go_error option) list"

definition initial_reconciler :: "api \<Rightarrow> ext \<Rightarrow> OperatorConfig \<Rightarrow> reconciler" where
  "initial_reconciler client X config = \<lparr>r_Client = client, r_Ext = X, r_Config = config, r_Recorder = False,
     r_MetricsRecorder = False, r_availablePoolGVKs = []\<rparr>"

definition operator_main :: "operator_env \<Rightarrow> operator_flags \<Rightarrow> string list \<Rightarrow> int \<times> startup_log" where
  "operator_main E flags visited =
     (let config = operator_config flags visited (en_lookupEnv E) in
      case Validate config of
        Some err \<Rightarrow> (1, [])
      | None \<Rightarrow>
        let options = operator_manager_options flags in
        (case en_NewManager E options of
           Inl err \<Rightarrow> (1, [(NewManagerStep options, Some err)])
         | Inr (client, X, mgr) \<Rightarrow>
           let steps = [(NewManagerStep options, None)] in
           (case SetupWithManager mgr (initial_reconciler client X config) of
              Inl err \<Rightarrow> (1, steps @ [(SetupStep config, Some err)])
            | Inr (r, watches) \<Rightarrow>
              let steps = steps @ [(SetupStep config, None)] in
              (case en_AddHealthzCheck E of
                 Some err \<Rightarrow> (1, steps @ [(HealthzStep, Some err)])
               | None \<Rightarrow>
                 let steps = steps @ [(HealthzStep, None)] in
                 (case en_AddReadyzCheck E of
                    Some err \<Rightarrow> (1, steps @ [(ReadyzStep, Some err)])
                  | None \<Rightarrow>
                    let steps = steps @ [(ReadyzStep, None)] in
                    (case en_Start E r watches of
                       Some err \<Rightarrow> (1, steps @ [(StartStep, Some err)])
                     | None \<Rightarrow> (0, steps @ [(StartStep, None)])))))))"

text \<open>
  The whole process: \<^verbatim>\<open>flag.Parse\<close> ends it with code 2 on an error, and with code 0 after
  the usage text was asked for. The remaining steps see the environment that the flags of
  other packages select.
\<close>

definition operator_process ::
    "('z \<Rightarrow> operator_env) \<Rightarrow> 'z flag_set \<Rightarrow> 'z \<Rightarrow> string list \<Rightarrow> int \<times> startup_log" where
  "operator_process env others settings args =
     (case parse_flags (operator_flag_set others) args (default_flags, settings) [] of
        Inl ErrHelp \<Rightarrow> (0, [])
      | Inl err \<Rightarrow> (2, [])
      | Inr ((flags, settings), visited) \<Rightarrow> operator_main (env settings) flags visited)"

section \<open>Start-up order\<close>

text \<open>
  What each step answers, given the environment: setup gets the manager that was created and
  the validated configuration, and the manager is started with what setup has wired.
\<close>

fun step_answers :: "operator_env \<Rightarrow> manager_options \<Rightarrow> OperatorConfig \<Rightarrow> startup_step \<Rightarrow> go_error option \<Rightarrow> bool" where
  "step_answers E options config (NewManagerStep options') answer =
     (options' = options \<and> answer = (case en_NewManager E options of Inl err \<Rightarrow> Some err | Inr _ \<Rightarrow> None))"
| "step_answers E options config (SetupStep config') answer =
     (config' = config \<and> (\<exists>client X mgr. en_NewManager E options = Inr (client, X, mgr) \<and>
        answer = (case SetupWithManager mgr (initial_reconciler client X config) of Inl err \<Rightarrow> Some err | Inr _ \<Rightarrow> None)))"
| "step_answers E options config HealthzStep answer = (answer = en_AddHealthzCheck E)"
| "step_answers E options config ReadyzStep answer = (answer = en_AddReadyzCheck E)"
| "step_answers E options config StartStep answer =
     (\<exists>client X mgr r watches. en_NewManager E options = Inr (client, X, mgr) \<and>
        SetupWithManager mgr (initial_reconciler client X config) = Inr (r, watches) \<and> answer = en_Start E r watches)"

definition startup_order :: "manager_options \<Rightarrow> OperatorConfig \<Rightarrow> startup_step list" where
  "startup_order options config = [NewManagerStep options, SetupStep config, HealthzStep, ReadyzStep, StartStep]"

text \<open>
  A proper run of the start-up: the steps are the first ones of the order, with the answers
  of the environment; each step but the last has succeeded; the run ends early only when its
  last step has failed; and the exit code is 0 when all five steps succeeded, and 1
  otherwise.
\<close>

definition proper_startup :: "operator_env \<Rightarrow> manager_options \<Rightarrow> OperatorConfig \<Rightarrow> int \<times> startup_log \<Rightarrow> bool" where
  "proper_startup E options config result =
     (case result of (code, steps) \<Rightarrow>
        steps \<noteq> [] \<and> map fst steps = take (length steps) (startup_order options config) \<and>
        (\<forall>(step, answer) \<in> set steps. step_answers E options config step answer) \<and>
        (\<forall>(step, answer) \<in> set (butlast steps). answer = None) \<and>
        (snd (last steps) = None \<longrightarrow> length steps = length (startup_order options config)) \<and>
        code = (if snd (last steps) = None then 0 else 1))"

lemma operator_main_proper:
  assumes "config_valid (operator_config flags visited (en_lookupEnv E))"
  shows "proper_startup E (operator_manager_options flags) (operator_config flags visited (en_lookupEnv E))
    (operator_main E flags visited)"
  using assms unfolding Validate_None [symmetric]
  by (auto simp: operator_main_def proper_startup_def startup_order_def Let_def split: option.split sum.split)

lemma operator_main_invalid:
  "\<not> config_valid (operator_config flags visited (en_lookupEnv E)) \<Longrightarrow> operator_main E flags visited = (1, [])"
  unfolding Validate_None [symmetric] by (auto simp: operator_main_def Let_def)

text \<open>
  C38: The outcome of the operator's process. Asking for help ends it with code 0 and a flag
  error with code 2, without a step. With flags that parse, a configuration that does not
  validate after the environment fallback ends it with code 1 without a step. Otherwise the
  start-up steps are taken in order, up to the first that fails: the manager is created with
  the options of the flags, set up with the validated configuration, given its two checks
  and started with what setup has wired. The code is 0 exactly when all of them succeed,
  and 1 when one fails.
\<close>
theorem operator_process_outcome:
  "case parse_flags (operator_flag_set others) args (default_flags, settings) [] of
     Inl err \<Rightarrow> operator_process env others settings args = (if err = ErrHelp then 0 else 2, [])
   | Inr ((flags, settings'), visited) \<Rightarrow>
       let E = env settings'; config = operator_config flags visited (en_lookupEnv E) in
       if config_valid config
       then proper_startup E (operator_manager_options flags) config (operator_process env others settings args)
       else operator_process env others settings args = (1, [])"
proof (cases "parse_flags (operator_flag_set others) args (default_flags, settings) []")
  case (Inl err)
  then show ?thesis by (cases err) (simp_all add: operator_process_def)
next
  case (Inr parsed)
  obtain flags settings' visited where "parsed = ((flags, settings'), visited)" by (metis prod.exhaust)
  with Inr show ?thesis
    by (simp add: operator_process_def Let_def operator_main_proper operator_main_invalid)
qed

lemma proper_startup_last:
  "proper_startup E options config (code, steps) \<Longrightarrow> step_answers E options config (fst (last steps)) (snd (last steps))"
  using last_in_set [of steps] by (auto simp: proper_startup_def split_beta)

lemma proper_startup_succeeds:
  assumes "proper_startup E options config (code, steps)"
    and "\<And>step answer. step_answers E options config step answer \<Longrightarrow> answer = None"
  shows "code = 0 \<and> length steps = 5"
proof -
  have "snd (last steps) = None" using assms(2) proper_startup_last [OF assms(1)] .
  then show ?thesis using assms(1) by (simp add: proper_startup_def startup_order_def)
qed

lemma proper_startup_fails:
  assumes "proper_startup E options config (code, steps)" "\<not> step_answers E options config StartStep None"
  shows "code = 1"
proof (cases "snd (last steps) = None")
  case True
  then have len: "length steps = 5" and order: "map fst steps = startup_order options config" and "steps \<noteq> []"
    using assms(1) by (simp_all add: proper_startup_def startup_order_def)
  then have "fst (last steps) = StartStep" by (metis last_map last.simps list.distinct(1) startup_order_def)
  then have "step_answers E options config StartStep None"
    using proper_startup_last [OF assms(1)] True by metis
  with assms(2) show ?thesis by (rule notE)
qed (use assms(1) in \<open>simp add: proper_startup_def\<close>)

definition accepting_env :: operator_env where
  "accepting_env = \<lparr>en_lookupEnv = (\<lambda>_. Some ''td''), en_NewManager = (\<lambda>_. Inr (empty_api, ref_ext, granting_manager)),
     en_AddHealthzCheck = None, en_AddReadyzCheck = None, en_Start = (\<lambda>_ _. None)\<rparr>"

lemma accepting_config:
  "operator_config default_flags [''clusterspiffeid-class-name''] (en_lookupEnv accepting_env) =
     \<lparr>oc_TrustDomain = ''td'', oc_ClusterSPIFFEIDClassName = []\<rparr>"
  by (simp add: operator_config_def default_flags_def explicit_fields_def visit_flag_def accepting_env_def
      WithEnvFallback_def)

lemma accepting_setup:
  "\<exists>r ws. SetupWithManager granting_manager (initial_reconciler empty_api ref_ext
      \<lparr>oc_TrustDomain = ''td'', oc_ClusterSPIFFEIDClassName = []\<rparr>) = Inr (r, ws)"
proof -
  have "Validate \<lparr>oc_TrustDomain = ''td'', oc_ClusterSPIFFEIDClassName = []\<rparr> = None"
    by (simp add: Validate_None config_valid_def trimmed_plain_ends plain_byte_def)
  moreover have "register granting_manager = None" "m_RESTMapping granting_manager gvk = None"
    "m_Complete granting_manager ws = None" for gvk ws
    by (simp_all add: register_def registerMetricsCollector_def granting_manager_def)
  ultimately show ?thesis
    by (simp add: SetupWithManager_def granting_manager_indexes inferencePoolGVKs_def initial_reconciler_def Let_def)
qed

text \<open>
  With every step accepted the process ends with code 0; when the manager fails, the code is
  1, after the same steps.
\<close>

lemma accepting_parse:
  "parse_flags (operator_flag_set []) [''--clusterspiffeid-class-name=''] (default_flags, ()) [] =
     Inr ((default_flags, ()), [''clusterspiffeid-class-name''])"
  by (simp add: flag_token_def operator_flag_set_def operator_StringVar_def default_flags_def)

lemma help_parse: "parse_flags (operator_flag_set []) [''--help''] (default_flags, ()) [] = Inl ErrHelp"
  by (simp add: flag_token_def operator_flag_set_def)

definition failing_env :: operator_env where
  "failing_env = accepting_env\<lparr>en_Start := \<lambda>_ _. Some (PlainError ''lost'')\<rparr>"

theorem operator_process_outcome_witness:
  "fst (operator_process (\<lambda>_. accepting_env) [] () [''--clusterspiffeid-class-name='']) = 0 \<and>
   length (snd (operator_process (\<lambda>_. accepting_env) [] () [''--clusterspiffeid-class-name=''])) = 5 \<and>
   fst (operator_process (\<lambda>_. failing_env) [] () [''--clusterspiffeid-class-name='']) = 1 \<and>
   operator_process (\<lambda>_. accepting_env) [] () [''--help''] = (0, [])"
proof -
  let ?args = "[''--clusterspiffeid-class-name='']" and ?config = "\<lparr>oc_TrustDomain = ''td'', oc_ClusterSPIFFEIDClassName = []\<rparr>"
  let ?options = "operator_manager_options default_flags"
  have valid: "config_valid ?config" by (simp add: config_valid_def trimmed_plain_ends plain_byte_def)
  have env: "en_lookupEnv failing_env = en_lookupEnv accepting_env" by (simp add: failing_env_def)
  have "proper_startup accepting_env ?options ?config (operator_process (\<lambda>_. accepting_env) [] () ?args)"
    using operator_process_outcome [where others = "[]" and args = ?args and settings = "()" and env = "\<lambda>_. accepting_env"]
    by (simp add: accepting_parse accepting_config valid del: parse_flags.simps)
  moreover have "answer = None" if "step_answers accepting_env ?options ?config step answer" for step answer
    using that accepting_setup by (cases step) (auto simp: accepting_env_def)
  ultimately have "fst (operator_process (\<lambda>_. accepting_env) [] () ?args) = 0 \<and>
      length (snd (operator_process (\<lambda>_. accepting_env) [] () ?args)) = 5"
    by (metis proper_startup_succeeds prod.collapse)
  moreover have "proper_startup failing_env ?options ?config (operator_process (\<lambda>_. failing_env) [] () ?args)"
    using operator_process_outcome [where others = "[]" and args = ?args and settings = "()" and env = "\<lambda>_. failing_env"]
    by (simp add: accepting_parse env accepting_config valid del: parse_flags.simps)
  then have "fst (operator_process (\<lambda>_. failing_env) [] () ?args) = 1"
    by (cases "operator_process (\<lambda>_. failing_env) [] () ?args") (simp add: proper_startup_fails failing_env_def)
  moreover have "operator_process (\<lambda>_. accepting_env) [] () [''--help''] = (0, [])"
    using operator_process_outcome [where others = "[]" and args = "[''--help'']" and settings = "()" and env = "\<lambda>_. accepting_env"]
    by (simp add: help_parse del: parse_flags.simps)
  ultimately show ?thesis by blast
qed

end
