(* ===== verification/Operator_Agreement.thy ===== *)
theory Operator_Agreement
  imports Operator_Main Cluster_Status
begin

text \<open>
  What the status command reports of the operator's settings, which it reads from the
  arguments of the operator's container, against what the operator itself makes of these
  arguments and of its environment.
\<close>

section \<open>The operator's reading\<close>

abbreviation trust_domain_flag :: string where "trust_domain_flag \<equiv> ''trust-domain''"
abbreviation class_name_flag :: string where "class_name_flag \<equiv> ''clusterspiffeid-class-name''"

text \<open>The value a flag has after some assignments: the last one given.\<close>

fun assigned :: "string \<Rightarrow> assignment list \<Rightarrow> string \<Rightarrow> string" where
  "assigned name [] v = v"
| "assigned name (a # as) v = assigned name as (if fst a = name then the (snd a) else v)"

definition given_values :: "assignment list \<Rightarrow> bool" where
  "given_values as = (\<forall>a \<in> set as. fst a \<in> {trust_domain_flag, class_name_flag} \<longrightarrow> snd a \<noteq> None)"

lemma assign_operator:
  assumes "assign (operator_flag_set others) a (flags, z) = Some (flags', z')"
  shows "fl_trustDomain flags' = assigned trust_domain_flag [a] (fl_trustDomain flags)"
    "fl_clusterSPIFFEIDClassName flags' = assigned class_name_flag [a] (fl_clusterSPIFFEIDClassName flags)"
    "given_values [a]"
proof -
  have other: "fl_trustDomain flags' = fl_trustDomain flags" "fl_clusterSPIFFEIDClassName flags' = fl_clusterSPIFFEIDClassName flags"
    if "assign (map (\<lambda>(name, value). (name, other_flag value)) others) a (flags, z) = Some (flags', z')"
    using that by (auto simp: assign_def map_of_map split: option.splits flag_value.splits elim!: other_flag.elims)
  show "fl_trustDomain flags' = assigned trust_domain_flag [a] (fl_trustDomain flags)"
    "fl_clusterSPIFFEIDClassName flags' = assigned class_name_flag [a] (fl_clusterSPIFFEIDClassName flags)"
    "given_values [a]"
    using assms other
    by (auto simp: assign_def operator_flag_set_def operator_StringVar_def operator_BoolVar_def given_values_def
        split: if_splits option.splits)
qed

lemma assign_all_operator:
  assumes "assign_all (operator_flag_set others) as (flags, z) = Some (flags', z')"
  shows "fl_trustDomain flags' = assigned trust_domain_flag as (fl_trustDomain flags) \<and>
    fl_clusterSPIFFEIDClassName flags' = assigned class_name_flag as (fl_clusterSPIFFEIDClassName flags) \<and>
    given_values as"
  using assms
proof (induction as arbitrary: flags z)
  case (Cons a as)
  then obtain st where st: "assign (operator_flag_set others) a (flags, z) = Some st"
    "assign_all (operator_flag_set others) as st = Some (flags', z')" by (auto split: option.splits)
  obtain flags1 z1 where "st = (flags1, z1)" by fastforce
  with st Cons.IH assign_operator [of others a flags z flags1 z1] show ?case by (simp add: given_values_def)
qed (simp add: given_values_def)

lemma explicit_fields_iff:
  "ex_TrustDomain (explicit_fields names) = (trust_domain_flag \<in> set names)"
  "ex_ClusterSPIFFEIDClassName (explicit_fields names) = (class_name_flag \<in> set names)"
proof -
  have "ex_TrustDomain (fold visit_flag names e) = (ex_TrustDomain e \<or> trust_domain_flag \<in> set names) \<and>
      ex_ClusterSPIFFEIDClassName (fold visit_flag names e) = (ex_ClusterSPIFFEIDClassName e \<or> class_name_flag \<in> set names)" for e
    by (induction names arbitrary: e) (auto simp: visit_flag_def)
  then show "ex_TrustDomain (explicit_fields names) = (trust_domain_flag \<in> set names)"
    "ex_ClusterSPIFFEIDClassName (explicit_fields names) = (class_name_flag \<in> set names)"
    by (simp_all add: explicit_fields_def)
qed

section \<open>The tool's reading\<close>

lemma cut_flag:
  assumes "flag_name_ok (fst a)" "flag_name_ok name"
  shows "CutPrefix (write_flag a) (''--'' @ name @ ''='') =
    (case snd a of Some text \<Rightarrow> if fst a = name then (text, True) else (write_flag a, False) | None \<Rightarrow> (write_flag a, False))"
proof -
  have "HasPrefix (fst a @ rest) (name @ ''='') \<longleftrightarrow> fst a = name \<and> (\<exists>text. rest = CHR ''='' # text)"
    if "rest = [] \<or> (\<exists>text. rest = CHR ''='' # text)" for rest
  proof
    assume "HasPrefix (fst a @ rest) (name @ ''='')"
    then obtain zs where eq: "fst a @ rest = name @ CHR ''='' # zs" by (auto simp: HasPrefix_iff)
    with that assms show "fst a = name \<and> (\<exists>text. rest = CHR ''='' # text)"
      by (auto simp: flag_name_ok_def append_eq_append_conv2 append_eq_Cons_conv Cons_eq_append_conv)
  qed (use that in \<open>auto simp: HasPrefix_iff\<close>)
  note this [of "case snd a of None \<Rightarrow> [] | Some text \<Rightarrow> CHR ''='' # text"]
  then show ?thesis
    by (auto simp: CutPrefix_def write_flag_def HasPrefix_def split: option.splits)
qed

lemma scan_flags:
  assumes "\<forall>a \<in> set as. flag_name_ok (fst a)" "given_values as" "count_list (map fst as) trust_domain_flag \<le> 1"
    "trust_domain_flag \<in> set (map fst as) \<longrightarrow> t = []"
  shows "scan_args (map write_flag as) (t, tf, c, cf) =
    (assigned trust_domain_flag as t, tf \<or> trust_domain_flag \<in> set (map fst as),
     assigned class_name_flag as c, cf \<or> class_name_flag \<in> set (map fst as))"
  using assms
proof (induction as arbitrary: t tf c cf)
  case (Cons a as)
  have names: "flag_name_ok trust_domain_flag" "flag_name_ok class_name_flag" by (simp_all add: flag_name_ok_def)
  have cut: "CutPrefix (write_flag a) ''--trust-domain='' = (case snd a of Some text \<Rightarrow> if fst a = trust_domain_flag
        then (text, True) else (write_flag a, False) | None \<Rightarrow> (write_flag a, False))"
    "CutPrefix (write_flag a) ''--clusterspiffeid-class-name='' = (case snd a of Some text \<Rightarrow> if fst a = class_name_flag
        then (text, True) else (write_flag a, False) | None \<Rightarrow> (write_flag a, False))"
    using cut_flag [OF _ names(1), of a] cut_flag [OF _ names(2), of a] Cons.prems(1) by simp_all
  have once: "trust_domain_flag \<notin> set (map fst as)" if "fst a = trust_domain_flag"
    using Cons.prems(3) that by (simp add: count_list_0_iff)
  show ?case
  proof (cases "fst a = trust_domain_flag")
    case True
    with Cons.prems once [OF True] obtain v where "snd a = Some v" "t = []"
      by (auto simp: given_values_def)
    with True once [OF True] Cons show ?thesis by (simp add: cut given_values_def)
  next
    case False
    with Cons show ?thesis by (auto simp: cut given_values_def split: option.splits)
  qed
qed simp

section \<open>Agreement\<close>

text \<open>Both readings of the same arguments, written out.\<close>

lemma readings:
  assumes flags: "assign_all (operator_flag_set others) as (default_flags, z) = Some (flags, z')"
    and names: "\<forall>a \<in> set as. flag_name_ok (fst a)"
    and once: "count_list (map fst as) ''trust-domain'' \<le> 1"
    and fresh: "sf_TrustDomain (sr_Config report) = []" "\<not> sf_ClusterSPIFFEIDClassNameKnown (sr_Config report)"
  shows "parse_flags (operator_flag_set others) (map write_flag as) (default_flags, z) [] = Inr ((flags, z'), rev (map fst as))"
    "operator_config flags (rev (map fst as)) lookupEnv =
       \<lparr>oc_TrustDomain = (case lookupEnv EnvTrustDomain of
           Some v \<Rightarrow> if trust_domain_flag \<in> set (map fst as) then assigned trust_domain_flag as [] else v
         | None \<Rightarrow> assigned trust_domain_flag as []),
        oc_ClusterSPIFFEIDClassName = (case lookupEnv EnvClusterSPIFFEIDClassName of
           Some v \<Rightarrow> if class_name_flag \<in> set (map fst as) then assigned class_name_flag as [] else v
         | None \<Rightarrow> assigned class_name_flag as [])\<rparr>"
    "sr_Config (fillConfigFromArgs (map write_flag as) report) =
       (if trust_domain_flag \<in> set (map fst as) \<or> class_name_flag \<in> set (map fst as)
        then \<lparr>sf_TrustDomain = assigned trust_domain_flag as [],
          sf_ClusterSPIFFEIDClassName = assigned class_name_flag as [], sf_ClusterSPIFFEIDClassNameKnown = True\<rparr>
        else sr_Config report)"
proof -
  show "parse_flags (operator_flag_set others) (map write_flag as) (default_flags, z) [] = Inr ((flags, z'), rev (map fst as))"
    using parse_write_all [OF flags names, of "[]"] by simp
  from assign_all_operator [OF flags] have own: "fl_trustDomain flags = assigned trust_domain_flag as []"
    "fl_clusterSPIFFEIDClassName flags = assigned class_name_flag as []" and given: "given_values as"
    by (simp_all add: default_flags_def)
  then show "operator_config flags (rev (map fst as)) lookupEnv =
       \<lparr>oc_TrustDomain = (case lookupEnv EnvTrustDomain of
           Some v \<Rightarrow> if trust_domain_flag \<in> set (map fst as) then assigned trust_domain_flag as [] else v
         | None \<Rightarrow> assigned trust_domain_flag as []),
        oc_ClusterSPIFFEIDClassName = (case lookupEnv EnvClusterSPIFFEIDClassName of
           Some v \<Rightarrow> if class_name_flag \<in> set (map fst as) then assigned class_name_flag as [] else v
         | None \<Rightarrow> assigned class_name_flag as [])\<rparr>"
    by (simp add: operator_config_def WithEnvFallback_def Let_def explicit_fields_iff split: option.split)
  have scan: "scan_args (map write_flag as) ([], False, [], False) =
      (assigned trust_domain_flag as [], trust_domain_flag \<in> set (map fst as),
       assigned class_name_flag as [], class_name_flag \<in> set (map fst as))"
    using scan_flags [OF names given once, of "[]" False "[]" False] by simp
  have "trust_domain_flag \<notin> set (map fst as) \<Longrightarrow> assigned trust_domain_flag as v = v" for v by (induction as) auto
  with fresh show "sr_Config (fillConfigFromArgs (map write_flag as) report) =
       (if trust_domain_flag \<in> set (map fst as) \<or> class_name_flag \<in> set (map fst as)
        then \<lparr>sf_TrustDomain = assigned trust_domain_flag as [],
          sf_ClusterSPIFFEIDClassName = assigned class_name_flag as [], sf_ClusterSPIFFEIDClassNameKnown = True\<rparr>
        else sr_Config report)"
    by (simp add: fillConfigFromArgs_def scan Let_def)
qed

text \<open>The arguments of the shipped deployment (\<^verbatim>\<open>config/manager/manager.yaml\<close>).\<close>

definition shipped_flags :: "assignment list" where
  "shipped_flags = [(''leader-elect'', None), (''health-probe-bind-address'', Some '':8081''),
     (''trust-domain'', Some ''kleym.sonda.red'')]"

lemma shipped_args:
  "map write_flag shipped_flags = [''--leader-elect'', ''--health-probe-bind-address=:8081'', ''--trust-domain=kleym.sonda.red'']"
  by (simp add: shipped_flags_def write_flag_def)

definition shipped_settings :: operator_flags where
  "shipped_settings =
     default_flags\<lparr>fl_enableLeaderElection := True, fl_probeAddr := '':8081'', fl_trustDomain := ''kleym.sonda.red''\<rparr>"

lemma shipped_assigned:
  "assign_all (operator_flag_set []) shipped_flags (default_flags, ()) = Some (shipped_settings, ())"
  by (simp add: shipped_flags_def shipped_settings_def assign_def operator_flag_set_def operator_StringVar_def
      operator_BoolVar_def default_flags_def)

lemma shipped_ok:
  "\<forall>a \<in> set shipped_flags. flag_name_ok (fst a)" "count_list (map fst shipped_flags) ''trust-domain'' \<le> 1"
  by (simp_all add: shipped_flags_def flag_name_ok_def)

lemma fresh_report:
  "sf_TrustDomain (sr_Config NewStatusReport) = []" "\<not> sf_ClusterSPIFFEIDClassNameKnown (sr_Config NewStatusReport)"
  by (simp_all add: NewStatusReport_def normalizeStatusReport_def zero_status_report_def)

section \<open>The status report\<close>

text \<open>Only the arguments and, where they leave a gap, the bindings fill the settings of a report.\<close>

lemma config_kept:
  "sr_Config (set_components f report) = sr_Config report"
  "sr_Config (add_status_finding report finding) = sr_Config report"
  "sr_Config (finishStatusReport report) = sr_Config report"
  "sr_Config (inspect_one X b report) = sr_Config report"
  by (simp_all add: set_components_def add_status_finding_def finishStatusReport_def set_status_def inspect_one_def
      count_result_def Let_def)

lemma config_inspectCRDs: "inspectCRDs i report = (report', err) \<Longrightarrow> sr_Config report' = sr_Config report"
  by (auto simp: inspectCRDs_def report_kleym_crd_def report_spire_crd_def report_gaie_crd_def config_kept Let_def
      split: sum.splits if_splits)

lemma config_inspect_all: "sr_Config (snd (inspect_all X bs obs report)) = sr_Config report"
  by (induction bs arbitrary: obs report) (simp_all add: config_kept)

lemma config_inspectBindings:
  "sf_TrustDomain (sr_Config report) \<noteq> [] \<Longrightarrow>
     sf_TrustDomain (sr_Config (inspectBindings X bs report)) = sf_TrustDomain (sr_Config report)"
  "sf_ClusterSPIFFEIDClassNameKnown (sr_Config report) \<Longrightarrow>
     sf_ClusterSPIFFEIDClassNameKnown (sr_Config (inspectBindings X bs report)) \<and>
     sf_ClusterSPIFFEIDClassName (sr_Config (inspectBindings X bs report)) = sf_ClusterSPIFFEIDClassName (sr_Config report)"
  using config_inspect_all [of X bs newStatusConfigObservations report]
  by (auto simp: inspectBindings_def fillConfigFromBindingObservations_def Let_def split: prod.split option.split)

lemma config_report_deployments:
  assumes "find (\<lambda>d. dep_ReadyReplicas d > 0) deployments = Some d" "operator_container d = Some container"
  obtains base where "sr_Config base = sr_Config report"
    "report_deployments deployments report = fillConfigFromArgs (ctr_Args container) base"
proof -
  have "length deployments \<noteq> 0" using assms(1) by (cases deployments) auto
  with assms have "report_deployments deployments report = fillConfigFromArgs (ctr_Args container)
      (set_components (sm_Operator_update (\<lambda>_. operatorStatusFromDeployment d StatusResultOK []))
        (set_components (sm_Operator_update (\<lambda>_. operatorStatusFromDeployment (deployments ! 0)
          StatusResultError ''no ready replicas'')) report))"
    by (simp add: report_deployments_def fillConfigFromDeployment_def Let_def)
  then show thesis by (rule that [rotated]) (simp add: config_kept)
qed

lemma Status_config:
  assumes "run_state (Status i) t = ((report, err), t')" "\<forall>e. err \<noteq> Some (StatusFailed e)"
    and "list_deployments (si_client i) t operator_labels = Inr deployments"
    and "find (\<lambda>d. dep_ReadyReplicas d > 0) deployments = Some d" "operator_container d = Some container"
  obtains base bindings where "sr_Config base = sr_Config NewStatusReport"
    "sr_Config report = sr_Config (fillConfigFromArgs (ctr_Args container) base) \<or>
     sr_Config report = sr_Config (inspectBindings (si_ext i) bindings (fillConfigFromArgs (ctr_Args container) base))"
proof -
  obtain report1 err1 where crds: "inspectCRDs i (NewStatusReport\<lparr>sr_GeneratedAt := si_now i\<rparr>) = (report1, err1)" by fastforce
  obtain base where base: "sr_Config base = sr_Config report1"
    "report_deployments deployments report1 = fillConfigFromArgs (ctr_Args container) base"
    by (rule config_report_deployments [OF assms(4,5)])
  have "sr_Config base = sr_Config NewStatusReport" using base(1) config_inspectCRDs [OF crds] by simp
  moreover have "\<exists>bindings. sr_Config report = sr_Config (fillConfigFromArgs (ctr_Args container) base) \<or>
      sr_Config report = sr_Config (inspectBindings (si_ext i) bindings (fillConfigFromArgs (ctr_Args container) base))"
    using assms(1-3) crds base(2)
    by (auto simp: Status_def inspectOperator_def ListDeployments_def ListBindings_def Let_def config_kept
        split: option.splits if_splits sum.splits)
  ultimately show thesis using that by blast
qed

text \<open>
  C10: The settings in a status report are those the operator runs with. Let the operator's
  Deployment, the first one with a ready replica, start it with arguments of the form
  \<^verbatim>\<open>--name\<close> or \<^verbatim>\<open>--name=value\<close>, with at most one trust domain, which the operator accepts and
  from which it gets a valid configuration. If the arguments set the trust domain, a
  completed status report has the operator's trust domain; if they set the class name, or
  set the trust domain while the environment has no class name, it has the operator's class
  name, as known. This holds whatever settings the bindings record: the code looks at them
  only for what the arguments leave out.
\<close>
theorem status_shows_operator_config:
  assumes run: "run_state (Status i) t = ((report, err), t')" "\<forall>e. err \<noteq> Some (StatusFailed e)"
    and operator: "list_deployments (si_client i) t operator_labels = Inr deployments"
      "find (\<lambda>d. dep_ReadyReplicas d > 0) deployments = Some d" "operator_container d = Some container"
    and arguments: "ctr_Args container = map write_flag as" "\<forall>a \<in> set as. flag_name_ok (fst a)"
      "count_list (map fst as) ''trust-domain'' \<le> 1" "assign_all (operator_flag_set others) as (default_flags, z) \<noteq> None"
    and parsed: "parse_flags (operator_flag_set others) (ctr_Args container) (default_flags, z) [] = Inr ((flags, z'), visited)"
    and valid: "config_valid (operator_config flags visited lookupEnv)"
  shows "(''trust-domain'' \<in> set (map fst as) \<longrightarrow>
      sf_TrustDomain (sr_Config report) = oc_TrustDomain (operator_config flags visited lookupEnv)) \<and>
    (''clusterspiffeid-class-name'' \<in> set (map fst as) \<or>
     ''trust-domain'' \<in> set (map fst as) \<and> lookupEnv EnvClusterSPIFFEIDClassName = None \<longrightarrow>
      sf_ClusterSPIFFEIDClassNameKnown (sr_Config report) \<and>
      sf_ClusterSPIFFEIDClassName (sr_Config report) = oc_ClusterSPIFFEIDClassName (operator_config flags visited lookupEnv))"
proof -
  obtain flags1 z1 where "assign_all (operator_flag_set others) as (default_flags, z) = Some (flags1, z1)"
    using arguments(4) by auto
  moreover obtain base bindings where base: "sr_Config base = sr_Config NewStatusReport"
    and shown: "sr_Config report = sr_Config (fillConfigFromArgs (ctr_Args container) base) \<or>
     sr_Config report = sr_Config (inspectBindings (si_ext i) bindings (fillConfigFromArgs (ctr_Args container) base))"
    by (rule Status_config [OF run operator])
  ultimately have read: "visited = rev (map fst as)" "flags = flags1"
    and config: "operator_config flags visited lookupEnv =
       \<lparr>oc_TrustDomain = (case lookupEnv EnvTrustDomain of
           Some v \<Rightarrow> if trust_domain_flag \<in> set (map fst as) then assigned trust_domain_flag as [] else v
         | None \<Rightarrow> assigned trust_domain_flag as []),
        oc_ClusterSPIFFEIDClassName = (case lookupEnv EnvClusterSPIFFEIDClassName of
           Some v \<Rightarrow> if class_name_flag \<in> set (map fst as) then assigned class_name_flag as [] else v
         | None \<Rightarrow> assigned class_name_flag as [])\<rparr>"
    and tool: "sr_Config (fillConfigFromArgs (map write_flag as) base) =
       (if trust_domain_flag \<in> set (map fst as) \<or> class_name_flag \<in> set (map fst as)
        then \<lparr>sf_TrustDomain = assigned trust_domain_flag as [],
          sf_ClusterSPIFFEIDClassName = assigned class_name_flag as [], sf_ClusterSPIFFEIDClassNameKnown = True\<rparr>
        else sr_Config base)"
    using readings [of others as z flags1 z1 base] arguments(2,3) parsed fresh_report by (auto simp: arguments(1))
  let ?filled = "fillConfigFromArgs (map write_flag as) base" and ?config = "operator_config flags visited lookupEnv"
  note kept = config_inspectBindings [of ?filled "si_ext i" bindings]
  have "sf_TrustDomain (sr_Config report) = oc_TrustDomain ?config" if "trust_domain_flag \<in> set (map fst as)"
  proof -
    have "sf_TrustDomain (sr_Config ?filled) = oc_TrustDomain ?config" using that by (simp add: tool config split: option.split)
    moreover from this have "sf_TrustDomain (sr_Config ?filled) \<noteq> []" using valid by (simp add: config_valid_def)
    ultimately show ?thesis using shown kept(1) unfolding arguments(1) by metis
  qed
  moreover have "sf_ClusterSPIFFEIDClassNameKnown (sr_Config report) \<and>
      sf_ClusterSPIFFEIDClassName (sr_Config report) = oc_ClusterSPIFFEIDClassName ?config"
    if "class_name_flag \<in> set (map fst as) \<or> trust_domain_flag \<in> set (map fst as) \<and> lookupEnv EnvClusterSPIFFEIDClassName = None"
  proof -
    have "sf_ClusterSPIFFEIDClassNameKnown (sr_Config ?filled)"
      "sf_ClusterSPIFFEIDClassName (sr_Config ?filled) = oc_ClusterSPIFFEIDClassName ?config"
      using that by (auto simp: tool config split: option.split)
    then show ?thesis using shown kept(2) unfolding arguments(1) by metis
  qed
  ultimately show ?thesis by blast
qed

text \<open>The shipped deployment, in a cluster with a binding that records another trust domain.\<close>

definition shipped_deployment :: Deployment where
  "shipped_deployment = \<lparr>dep_Namespace = ''kleym-system'', dep_Name = ''kleym-operator'', dep_Replicas = Some 1,
     dep_ReadyReplicas = 1, dep_Containers = [\<lparr>ctr_Name = ''operator'', ctr_Image = ''controller:latest'',
       ctr_Args = map write_flag shipped_flags\<rparr>]\<rparr>"

definition shipped_inspector :: statusInspector where
  "shipped_inspector = \<lparr>si_client = empty_api\<lparr>list_deployments := \<lambda>_ _. Inr [shipped_deployment],
       list_bindings := \<lambda>_ _. Inr [sample_binding\<lparr>b_Status := (b_Status sample_binding)\<lparr>st_TrustDomain := ''old.example''\<rparr>\<rparr>]\<rparr>,
     si_ext = ref_ext, si_mapper = (\<lambda>_. None), si_now = ''now''\<rparr>"

lemma shipped_run: "snd (fst (run_state (Status shipped_inspector) [])) \<noteq> Some (StatusFailed e)"
  by (auto simp: Status_def inspectCRDs_def crdAvailable_def InferencePoolGVKs_def inferencePoolGVKs_def
      shipped_inspector_def inspectOperator_def ListDeployments_def ListBindings_def Let_def)

lemma shipped_config:
  "operator_config shipped_settings (rev (map fst shipped_flags)) (\<lambda>_. None) =
     \<lparr>oc_TrustDomain = ''kleym.sonda.red'', oc_ClusterSPIFFEIDClassName = []\<rparr>"
  by (simp add: operator_config_def WithEnvFallback_def shipped_settings_def default_flags_def Let_def)

theorem status_shows_operator_config_witness:
  "sf_TrustDomain (sr_Config (fst (fst (run_state (Status shipped_inspector) [])))) = ''kleym.sonda.red'' \<and>
   sf_ClusterSPIFFEIDClassNameKnown (sr_Config (fst (fst (run_state (Status shipped_inspector) [])))) \<and>
   sf_ClusterSPIFFEIDClassName (sr_Config (fst (fst (run_state (Status shipped_inspector) [])))) = []"
proof -
  let ?config = "operator_config shipped_settings (rev (map fst shipped_flags)) (\<lambda>_. None)"
  obtain report err t' where run: "run_state (Status shipped_inspector) [] = ((report, err), t')" by (metis prod.exhaust)
  have completed: "\<forall>e. err \<noteq> Some (StatusFailed e)" using shipped_run run by simp
  have operator: "list_deployments (si_client shipped_inspector) [] operator_labels = Inr [shipped_deployment]"
    "find (\<lambda>d. dep_ReadyReplicas d > 0) [shipped_deployment] = Some shipped_deployment"
    "operator_container shipped_deployment = Some (dep_Containers shipped_deployment ! 0)"
    by (simp_all add: shipped_inspector_def shipped_deployment_def operator_container_def insp_defs)
  have args: "ctr_Args (dep_Containers shipped_deployment ! 0) = map write_flag shipped_flags"
    by (simp add: shipped_deployment_def)
  have valid: "config_valid ?config" by (simp add: shipped_config config_valid_def trimmed_plain_ends plain_byte_def)
  have parsed: "parse_flags (operator_flag_set []) (ctr_Args (dep_Containers shipped_deployment ! 0)) (default_flags, ()) [] =
      Inr ((shipped_settings, ()), rev (map fst shipped_flags))"
    using parse_write_all [OF shipped_assigned shipped_ok(1), of "[]"] by (simp add: args)
  have "''trust-domain'' \<in> set (map fst shipped_flags)" by (simp add: shipped_flags_def)
  with status_shows_operator_config [OF run completed operator args shipped_ok _ parsed valid] run shipped_assigned
  show ?thesis by (simp add: shipped_config)
qed

section \<open>The environment\<close>

text \<open>
  C40: The condition on the environment is needed. When the arguments, of the form \<^verbatim>\<open>--name\<close> or
  \<^verbatim>\<open>--name=value\<close>, set the trust domain but not the class name, and the class name comes from the environment, the tool reports the
  empty class name as known, while the operator runs with the one of the environment.
\<close>
theorem status_misreads_environment:
  assumes flags: "assign_all (operator_flag_set others) as (default_flags, z) = Some (flags, z')"
    and names: "\<forall>a \<in> set as. flag_name_ok (fst a)"
    and once: "count_list (map fst as) ''trust-domain'' \<le> 1"
    and fresh: "sf_TrustDomain (sr_Config report) = []" "\<not> sf_ClusterSPIFFEIDClassNameKnown (sr_Config report)"
    and set: "''trust-domain'' \<in> set (map fst as)" "''clusterspiffeid-class-name'' \<notin> set (map fst as)"
    and env: "lookupEnv EnvClusterSPIFFEIDClassName = Some className"
  shows "\<exists>visited. parse_flags (operator_flag_set others) (map write_flag as) (default_flags, z) [] = Inr ((flags, z'), visited) \<and>
    oc_ClusterSPIFFEIDClassName (operator_config flags visited lookupEnv) = className \<and>
    sf_ClusterSPIFFEIDClassNameKnown (sr_Config (fillConfigFromArgs (map write_flag as) report)) \<and>
    sf_ClusterSPIFFEIDClassName (sr_Config (fillConfigFromArgs (map write_flag as) report)) = []"
proof -
  have "assigned class_name_flag as [] = []" using set(2) by (induction as) auto
  then show ?thesis using readings [OF flags names once fresh] set env by simp
qed

theorem status_misreads_environment_witness:
  "\<exists>visited. parse_flags (operator_flag_set []) (map write_flag shipped_flags) (default_flags, ()) [] =
      Inr ((shipped_settings, ()), visited) \<and>
    oc_ClusterSPIFFEIDClassName (operator_config shipped_settings visited [EnvClusterSPIFFEIDClassName \<mapsto> ''edge'']) = ''edge'' \<and>
    sf_ClusterSPIFFEIDClassName (sr_Config (fillConfigFromArgs (map write_flag shipped_flags) NewStatusReport)) = []"
proof -
  have "''trust-domain'' \<in> set (map fst shipped_flags)" "''clusterspiffeid-class-name'' \<notin> set (map fst shipped_flags)"
    "[EnvClusterSPIFFEIDClassName \<mapsto> ''edge''] EnvClusterSPIFFEIDClassName = Some ''edge''" by (simp_all add: shipped_flags_def)
  from status_misreads_environment [OF shipped_assigned shipped_ok fresh_report this(1,2),
      where lookupEnv = "[EnvClusterSPIFFEIDClassName \<mapsto> ''edge'']" and className = "''edge''"] this(3)
  show ?thesis by blast
qed

end
