(* ===== verification/E2e_Assert.thy ===== *)
theory E2e_Assert
  imports Inspection
begin

text \<open>
  The helper of the end-to-end tests, \<^verbatim>\<open>test/e2e/inspectbindingassert/main.go\<close>: it reads the
  JSON report of the command line tool and checks it against the reference deployment. The
  file system, the decoder and the \<^verbatim>\<open>%#v\<close> form of values are parameters. A check is the text
  it fails with, if any; the first failing check ends the process with code 1.
\<close>

section \<open>Reference values\<close>

definition referenceNamespace :: string where "referenceNamespace = ''kleym-reference-inference''"
definition referenceBinding :: string where "referenceBinding = ''binding''"
definition referenceSPIFFEID :: string where
  "referenceSPIFFEID = ''spiffe://kleym.sonda.red/ns/kleym-reference-inference/sa/reference-inference/inference/pool/reference-pool/variant/reference''"
definition referenceClusterSPIFFEID :: string where
  "referenceClusterSPIFFEID = ''kleym-kleym-reference-inference-binding-pool-18b7ab03''"

record assert_env =
  ae_ext :: ext
  ae_ReadFile :: "string \<Rightarrow> string result"
  ae_Unmarshal :: "string \<Rightarrow> BindingInspectionReport result"
  ae_show_findings :: "BindingInspectionFinding slice \<Rightarrow> string"
  ae_show_pods :: "BindingInspectionMatchedPod slice \<Rightarrow> string"

section \<open>Checks\<close>

definition and_then :: "string option \<Rightarrow> string option \<Rightarrow> string option" where
  "and_then a b = (case a of None \<Rightarrow> b | Some text \<Rightarrow> Some text)"

definition assertEqual :: "assert_env \<Rightarrow> string \<Rightarrow> string \<Rightarrow> string \<Rightarrow> string option" where
  "assertEqual E field got want =
     (if got \<noteq> want then Some (field @ '' = '' @ Quote (ae_ext E) got @ '', want '' @ Quote (ae_ext E) want) else None)"

definition assertCommonShape :: "assert_env \<Rightarrow> BindingInspectionReport \<Rightarrow> string option" where
  "assertCommonShape E report =
     and_then (assertEqual E ''schemaVersion'' (rp_SchemaVersion report) BindingInspectionReportSchemaVersion)
     (and_then (assertEqual E ''kind'' (rp_Kind report) BindingInspectionReportKind)
      (if rp_GeneratedAt report = [] then Some ''generatedAt is empty'' else None))"

definition assertMatchedPod :: "assert_env \<Rightarrow> BindingInspectionReport \<Rightarrow> string option" where
  "assertMatchedPod E report =
     (if list_ex (\<lambda>workload. mp_Namespace workload = referenceNamespace \<and> mp_Pod workload \<noteq> [] \<and> mp_Container workload = [])
        (elems (rp_MatchedPods report)) then None
      else Some (''missing matched pod-level workload: '' @ ae_show_pods E (rp_MatchedPods report)))"

definition assertSuccess :: "assert_env \<Rightarrow> BindingInspectionReport \<Rightarrow> string option" where
  "assertSuccess E report =
     and_then (assertCommonShape E report)
     (and_then (assertEqual E ''bindingRef.namespace'' (br_Namespace (rp_BindingRef report)) referenceNamespace)
     (and_then (assertEqual E ''bindingRef.name'' (br_Name (rp_BindingRef report)) referenceBinding)
     (and_then (assertEqual E ''renderedClusterSPIFFEID.name'' (rd_Name (rp_RenderedClusterSPIFFEID report))
        referenceClusterSPIFFEID)
     (and_then (assertEqual E ''renderedIdentity.spiffeID'' (id_SPIFFEID (rp_RenderedIdentity report)) referenceSPIFFEID)
     (and_then (if length (elems (rp_Findings report)) \<noteq> 0
        then Some (''findings = '' @ decimal (int (length (elems (rp_Findings report)))) @ '', want 0: ''
          @ ae_show_findings E (rp_Findings report)) else None)
     (assertMatchedPod E report))))))"

definition assertNotFound :: "assert_env \<Rightarrow> BindingInspectionReport \<Rightarrow> string option" where
  "assertNotFound E report =
     and_then (assertCommonShape E report)
     (and_then (assertEqual E ''bindingRef.namespace'' (br_Namespace (rp_BindingRef report)) referenceNamespace)
      (if list_ex (\<lambda>finding. fd_ID finding = ''binding-not-found'' \<and> fd_Severity finding = SeverityError)
          (elems (rp_Findings report)) then None
       else Some (''missing error binding-not-found finding: '' @ ae_show_findings E (rp_Findings report))))"

definition readReport :: "assert_env \<Rightarrow> string \<Rightarrow> BindingInspectionReport result" where
  "readReport E path =
     (case ae_ReadFile E path of
        Inl err \<Rightarrow> Inl (WrapError ''read report: '' err)
      | Inr content \<Rightarrow>
          (case ae_Unmarshal E content of
             Inl err \<Rightarrow> Inl (WrapError ''decode report JSON: '' err)
           | Inr report \<Rightarrow> Inr report))"

text \<open>The exit code and what is written to standard error.\<close>

definition failf :: "string option \<Rightarrow> int \<times> string" where
  "failf failure = (case failure of None \<Rightarrow> (0, []) | Some text \<Rightarrow> (1, text @ [CHR 0x0A]))"

definition assert_main :: "assert_env \<Rightarrow> string list \<Rightarrow> int \<times> string" where
  "assert_main E osArgs =
     failf (if length osArgs \<noteq> 3 then Some ''usage: inspectbindingassert <report.json> <success|not-found>''
      else (case readReport E (osArgs ! 1) of
          Inl err \<Rightarrow> Some (error_text err)
        | Inr report \<Rightarrow>
            if osArgs ! 2 = ''success'' then assertSuccess E report
            else if osArgs ! 2 = ''not-found'' then assertNotFound E report
            else Some (''unknown assertion mode '' @ Quote (ae_ext E) (osArgs ! 2))))"

section \<open>What is accepted\<close>

lemma and_then_None [simp]: "and_then a b = None \<longleftrightarrow> a = None \<and> b = None"
  by (cases a) (simp_all add: and_then_def)

lemma assertEqual_None [simp]: "assertEqual E field got want = None \<longleftrightarrow> got = want"
  by (simp add: assertEqual_def)

lemma failf_code [simp]: "fst (failf failure) = 0 \<longleftrightarrow> failure = None"
  by (cases failure) (simp_all add: failf_def)

text \<open>
  The success check accepts exactly a complete report of the reference binding with the
  reference identity and output, without findings and with a matched pod of the namespace.
\<close>

lemma assert_success_accepts:
  "fst (assert_main E [self, path, ''success'']) = 0 \<longleftrightarrow> (\<exists>report. readReport E path = Inr report \<and>
     rp_SchemaVersion report = BindingInspectionReportSchemaVersion \<and> rp_Kind report = BindingInspectionReportKind \<and>
     rp_GeneratedAt report \<noteq> [] \<and> br_Namespace (rp_BindingRef report) = referenceNamespace \<and>
     br_Name (rp_BindingRef report) = referenceBinding \<and>
     rd_Name (rp_RenderedClusterSPIFFEID report) = referenceClusterSPIFFEID \<and>
     id_SPIFFEID (rp_RenderedIdentity report) = referenceSPIFFEID \<and> elems (rp_Findings report) = [] \<and>
     (\<exists>pod \<in> set (elems (rp_MatchedPods report)). mp_Namespace pod = referenceNamespace \<and> mp_Pod pod \<noteq> [] \<and> mp_Container pod = []))"
  by (auto simp: assert_main_def assertSuccess_def assertCommonShape_def assertMatchedPod_def list_ex_iff
      split: sum.split if_splits)

lemma assert_not_found_accepts:
  "fst (assert_main E [self, path, ''not-found'']) = 0 \<longleftrightarrow> (\<exists>report. readReport E path = Inr report \<and>
     rp_SchemaVersion report = BindingInspectionReportSchemaVersion \<and> rp_Kind report = BindingInspectionReportKind \<and>
     rp_GeneratedAt report \<noteq> [] \<and> br_Namespace (rp_BindingRef report) = referenceNamespace \<and>
     (\<exists>f \<in> set (elems (rp_Findings report)). fd_ID f = ''binding-not-found'' \<and> fd_Severity f = SeverityError))"
  by (auto simp: assert_main_def assertNotFound_def assertCommonShape_def list_ex_iff split: sum.split if_splits)

end
