(* ===== verification/Spec2Isabelle.thy ===== *)
theory Spec2Isabelle
  imports Agreement Attestation Reconcile_Cost Quiescence Metrics Provenance Cli_Json Deep_Copy Schemes Operator_Agreement E2e_Assert
begin

text \<open>
  Verification of kleym, a Kubernetes operator that gives inference workloads SPIFFE
  identities, and of its read-only command line tool.

  \<^bold>\<open>The program.\<close> An \<^verbatim>\<open>InferenceIdentityBinding\<close> names an \<^verbatim>\<open>InferencePool\<close>, a service
  account and a variant. The operator (\<^verbatim>\<open>cmd/kleym-operator\<close>, \<^verbatim>\<open>internal/controller\<close>)
  resolves the pool (\<^verbatim>\<open>internal/gaie\<close>), plans an identity with its selectors
  (\<^verbatim>\<open>internal/identity\<close>), checks that no two bindings of a namespace can select the same
  workload, and keeps one \<^verbatim>\<open>ClusterSPIFFEID\<close> per binding (\<^verbatim>\<open>internal/spirecm\<close>), whose
  ownership it records in the binding's status before it creates, updates or deletes
  anything. The tool \<^verbatim>\<open>kleym\<close> (\<^verbatim>\<open>internal/cli\<close>, \<^verbatim>\<open>internal/inspection\<close>) repeats the planning
  for one binding, or sums up the state of the cluster, and prints a report.

  \<^bold>\<open>The model.\<close> Pure functions of the source are HOL functions on strings, lists and
  records. Code that talks to the API server is a state monad over the history of calls
  (theory Cluster): every call with its arguments and its reply is an event, newest first,
  and the server is a record of functions from the history to a reply. Nothing is assumed
  of the replies unless a theorem says so; the safety theorems hold for a server that
  answers anything. Errors are values (\<open>Inl\<close> of a result, or an optional error), Go maps
  that are built up are association lists with unique keys, pointers that the code mutates
  and goes on to use are returned updated. Functions of the Kubernetes libraries
  (validation of names and labels, reading and setting status conditions, finalizers,
  quoting) are the fields of a record \<open>ext\<close>; what a theorem needs of them is a named
  contract (\<open>label_value_contract\<close>, \<open>conditions_contract\<close>, ...) in Api_Types, with a reference
  implementation \<open>ref_ext\<close> that satisfies them. The manager with its cache, the command
  parser, the REST mapper and the creation of a client are parameters in the same way. Go's
  standard library is modelled where the code uses it: strings, hashes, the JSON encoder and
  the flag package.

  \<^bold>\<open>The theories.\<close>

  \<^item> Prelude: results, Go maps, sorting with a comparison, and the collections of facts.
    Go_Strings: the functions of \<^verbatim>\<open>strings\<close> and \<^verbatim>\<open>strconv\<close> the code calls. Go_Hash:
    SHA-1, SHA-256 and hexadecimal encoding on words. Json: the encoder of \<^verbatim>\<open>encoding/json\<close>
    with its escapes, and a reader after RFC 8259 that reads back what is encoded. Go_Flag:
    the parser of \<^verbatim>\<open>flag\<close>, which reads back what is written from assignments. Api_Types:
    \<^verbatim>\<open>api/v1alpha1\<close>, the Kubernetes objects and the contracts. Cluster: calls, histories
    and the rules for runs; the locale \<open>free_reads\<close> is the contract of a property of
    histories that reading calls cannot break. Schemes: the kinds that are registered.
  \<^item> Deep_Copy (\<^verbatim>\<open>zz_generated.deepcopy.go\<close>): the generated copies on a memory of cells. The
    locale \<open>deep_copier\<close> is the contract of a copier (same value, only fresh memory, nothing
    shared), with an interpretation for each copied type. Shown: no change of a copy is seen
    through the original. Elsewhere values are immutable, and copying is the identity.
  \<^item> Identity (\<^verbatim>\<open>internal/identity\<close>): planning, its checks, selectors, fingerprints and the
    conflict evaluator. Shown: when planning succeeds and which check a failure reports;
    that selectors are canonical and confined to namespace, service account and variant;
    that SPIFFE IDs are injective; that the conflicts are exactly those of the pairs, in an
    order that does not depend on the input's.
  \<^item> Gaie (\<^verbatim>\<open>internal/gaie\<close>): pool references, lookup and selector derivation. Spire_CM
    (\<^verbatim>\<open>internal/spirecm\<close>): name, labels, claim, desired object, comparison and merge.
    Operator_Config: \<^verbatim>\<open>operator_config.go\<close>.
  \<^item> Binding_Status: conditions, the terminal statuses and the metrics labels; the status
    writers share the locale \<open>status_writer\<close>, of which each is an interpretation.
  \<^item> Ownership (\<^verbatim>\<open>_ownership.go\<close>, \<^verbatim>\<open>_spiffe.go\<close>), Reporting, Conflict (\<^verbatim>\<open>_conflict.go\<close>,
    \<^verbatim>\<open>_render.go\<close>, \<^verbatim>\<open>_resolver.go\<close>), Reconciler (\<^verbatim>\<open>_controller.go\<close>): the reconcile, function
    by function. Ownership_Safety and Reconcile_Safety state what may happen in a history
    (a state machine of ownership records) and show that a whole
    reconcile keeps to it: deletions and updates only of what a shown status
    confirms, creations only under a durable claim, the finalizer last. Sample_Runs
    evaluates complete runs for the witnesses.
  \<^item> Provenance: across reconciles, what is updated or deleted was created by the operator.
    Status_Truth: a binding turns ready only when the API server has shown its output. The
    locale \<open>call_rule\<close> carries a property of single calls through all functions of the
    reconcile, \<open>patch_rule\<close> extends it to status patches. Metrics: the collectors and
    their registration; a reconcile counts at most one outcome (an interpretation of
    \<open>call_rule\<close>), and the gauge shows the listed bindings.
  \<^item> Reconcile_Cost: an amortized bound on the calls of a reconcile, linear in the listed
    bindings. The retry loop of a status patch is given its number of retries by the
    parameter \<open>conflict_retries\<close>, four with the default backoff of client-go; no other
    loop needs a bound. Quiescence: a settled binding is left alone.
  \<^item> Watch (\<^verbatim>\<open>_watch.go\<close>, \<^verbatim>\<open>SetupWithManager\<close>): field indexes, predicates and the mapping
    of events to requests; both indexes are interpretations of the locale \<open>name_index\<close>.
    Shown under the contracts of the cached client and of event delivery: which bindings an
    event of a pool, of an output or of a binding wakes. Updates that change neither the
    generation nor the deletion state wake none.
  \<^item> Inspection (\<^verbatim>\<open>inspection.go\<close>, the types of \<^verbatim>\<open>report.go\<close>), Cluster_Status
    (\<^verbatim>\<open>status.go\<close>, \<^verbatim>\<open>status_report.go\<close>), Report_Text and Report_Json (the two
    forms of output), Cli (\<^verbatim>\<open>internal/cli\<close> with its command tree, \<^verbatim>\<open>cmd/kleym\<close>), Operator_Main
    (\<^verbatim>\<open>cmd/kleym-operator\<close>). Cli_Correct: the tool only reads, its exit code
    and reports say what it found. Cli_Json: the JSON output is one line that reads back as
    the report. E2e_Assert: the assertion helper under \<^verbatim>\<open>test/\<close>, which accepts the reports it
    is meant for.
  \<^item> Agreement: inspection renders what the controller applies. Operator_Agreement: the status
    report has the settings that the operator takes from its arguments in their
    \<^verbatim>\<open>--name=value\<close> form, and a class name from the environment is misread. Attestation: what the
    selectors of a plan mean for pods, that bindings without a conflict share no pod, and
    that the pods reported for a binding are those that attest to its identity.

  \<^bold>\<open>Not modelled.\<close> Log output with its keys and the logger; contexts and time-outs; the
  mutex of the gauge; the argument parser of cobra, which gets the command tree; TLS,
  certificate watching and the leader election of controller-runtime; the JSON form of
  \<^verbatim>\<open>metav1.Condition\<close> and the copies of metav1 types, which are parameters. Requests are
  reconciled one at a time; what other clients do in between is part of the arbitrary
  server. Go integers of the code count list elements or compare generations and are
  \<open>int\<close> or \<open>nat\<close>; only the hashes use machine words.
\<close>

end
